(* ===== verification/Prelude.thy ===== *)
theory Prelude
  imports Main "HOL-Library.Char_ord"
begin

text \<open>
  Shared vocabulary of the development: the fragments of Python and of SQL that several
  components use, and the lemmas about them that the component proofs rest on.

  \<^item> \<open>exn\<close>: the exceptions the modelled code raises, as values of \<open>exn + 'a\<close>.
  \<^item> \<open>json\<close>: the JSON values of payload, metadata and invoice-line columns, with
    \<open>dict.get\<close>, truthiness and \<open>int(...)\<close> as the code uses them.
  \<^item> \<open>py_strip\<close>, \<open>py_lower\<close>: string normalisation (ASCII letters and blanks).
  \<^item> \<open>round_half_even\<close>: Python's \<open>round\<close> on an exact quotient.
  \<^item> \<open>tbl_*\<close>: a table as the list of its rows, its first match, its update by a
    WHERE condition, and what these keep (ids, keys, lengths).
\<close>

named_theorems table_simps \<open>facts on tables of rows\<close>
named_theorems outbox_defs \<open>definitions of the outbox operations\<close>
named_theorems billing_defs \<open>definitions of the billing operations\<close>

section \<open>Exceptions and results\<close>

datatype exn =
    ValueError string
  | TimeoutError string
  | RuntimeError string
  | IntegrityError string
  | EventDeliveryError string
  | OtherError string

type_synonym 'a res = "exn + 'a"

definition is_ok :: "'a res \<Rightarrow> bool" where
  "is_ok r = (case r of Inl _ \<Rightarrow> False | Inr _ \<Rightarrow> True)"

lemma is_ok_simps [simp]: "\<not> is_ok (Inl e)" "is_ok (Inr x)"
  by (simp_all add: is_ok_def)

section \<open>Strings\<close>

definition lower_char :: "char \<Rightarrow> char" where
  "lower_char c = (let n = (of_char c :: nat) in if 65 \<le> n \<and> n \<le> 90 then char_of (n + 32) else c)"

definition py_lower :: "string \<Rightarrow> string" where
  "py_lower s = map lower_char s"

definition is_blank :: "char \<Rightarrow> bool" where
  "is_blank c = (let n = (of_char c :: nat) in n = 32 \<or> (9 \<le> n \<and> n \<le> 13) \<or> (28 \<le> n \<and> n \<le> 31))"

definition py_strip :: "string \<Rightarrow> string" where
  "py_strip s = rev (dropWhile is_blank (rev (dropWhile is_blank s)))"

lemma py_strip_Nil [simp]: "py_strip [] = []"
  by (simp add: py_strip_def)

definition py_norm :: "string \<Rightarrow> string" where
  "py_norm s = py_lower (py_strip s)"

text \<open>\<open>(x or "").strip() or None\<close>, the normalisation of optional keys and owners.\<close>

definition strip_or_none :: "string option \<Rightarrow> string option" where
  "strip_or_none x = (let k = py_strip (case x of None \<Rightarrow> [] | Some s \<Rightarrow> s) in if k = [] then None else Some k)"

lemma strip_or_none_None [simp]: "strip_or_none None = None"
  by (simp add: strip_or_none_def py_strip_def)

lemma strip_or_none_not_empty [simp]: "strip_or_none x \<noteq> Some []"
  by (simp add: strip_or_none_def Let_def)

lemma dropWhile_idem [simp]: "dropWhile P (dropWhile P xs) = dropWhile P xs"
  by (induction xs) auto

lemma dropWhile_snoc_keep: "\<not> P y \<Longrightarrow> dropWhile P (xs @ [y]) = dropWhile P xs @ [y]"
  by (induction xs) auto

lemma dropWhile_rev_dropWhile:
  "dropWhile P (rev (dropWhile P (rev (dropWhile P xs)))) = rev (dropWhile P (rev (dropWhile P xs)))"
proof (cases "dropWhile P xs")
  case Nil
  then show ?thesis by (simp only: Nil rev.simps dropWhile.simps)
next
  case (Cons y ys)
  then have y: "\<not> P y"
    by (metis hd_dropWhile list.distinct(1) list.sel(1))
  then show ?thesis using Cons by (simp add: dropWhile_snoc_keep)
qed

lemma py_strip_idem [simp]: "py_strip (py_strip s) = py_strip s"
  by (simp add: py_strip_def dropWhile_rev_dropWhile)

lemma strip_or_none_idem: "strip_or_none (strip_or_none x) = strip_or_none x"
  by (auto simp: strip_or_none_def Let_def)

text \<open>\<open>str(n)\<close> of an integer.\<close>

fun show_nat :: "nat \<Rightarrow> string" where
  "show_nat n = (if n < 10 then [char_of (48 + n)] else show_nat (n div 10) @ [char_of (48 + n mod 10)])"

declare show_nat.simps [simp del]

definition show_int :: "int \<Rightarrow> string" where
  "show_int i = (if i < 0 then CHR ''-'' # show_nat (nat (- i)) else show_nat (nat i))"

lemma show_nat_not_Nil [simp]: "show_nat n \<noteq> []" "[] \<noteq> show_nat n"
proof -
  show "show_nat n \<noteq> []" by (subst show_nat.simps) simp
  then show "[] \<noteq> show_nat n" by simp
qed

lemma digit_inject: "m < 10 \<Longrightarrow> n < 10 \<Longrightarrow> (char_of (48 + m) :: char) = char_of (48 + n) \<longleftrightarrow> m = (n::nat)"
proof -
  assume "m < 10" "n < 10"
  then have "of_char (char_of (48 + m) :: char) = 48 + m" "of_char (char_of (48 + n) :: char) = 48 + n"
    by simp_all
  then show ?thesis by (metis add_left_cancel)
qed

lemma show_nat_inject: "show_nat m = show_nat n \<longleftrightarrow> m = n"
proof (induction m arbitrary: n rule: show_nat.induct)
  case (1 m)
  show ?case
  proof (cases "m < 10"; cases "n < 10")
    assume "m < 10" "n < 10"
    then show ?thesis by (subst (1 2) show_nat.simps) (simp add: digit_inject)
  next
    assume a: "m < 10" "\<not> n < 10"
    then have "show_nat m \<noteq> show_nat n" by (subst (1 2) show_nat.simps) simp
    then show ?thesis using a by auto
  next
    assume a: "\<not> m < 10" "n < 10"
    then have "show_nat m \<noteq> show_nat n" by (subst (1 2) show_nat.simps) simp
    then show ?thesis using a by auto
  next
    assume a: "\<not> m < 10" "\<not> n < 10"
    then have "show_nat m = show_nat n \<longleftrightarrow> m div 10 = n div 10 \<and> m mod 10 = n mod 10"
      using 1 [OF a(1), of "n div 10"] by (subst (1 2) show_nat.simps) (simp add: digit_inject)
    also have "\<dots> \<longleftrightarrow> m = n" by (metis mult_div_mod_eq)
    finally show ?thesis .
  qed
qed

section \<open>Rounding\<close>

text \<open>
  \<open>round_half_even n d\<close> is \<open>round(n / d)\<close> for integers with \<open>0 < d\<close>: nearest
  integer, ties to the even one.
\<close>

definition round_half_even :: "int \<Rightarrow> int \<Rightarrow> int" where
  "round_half_even n d =
     (let q = n div d; r = n mod d
      in if 2 * r < d then q else if d < 2 * r then q + 1 else if even q then q else q + 1)"

lemma round_half_even_nearest:
  assumes "0 < d"
  shows "\<bar>2 * (d * round_half_even n d - n)\<bar> \<le> d"
proof -
  obtain q r where qr: "n div d = q" "n mod d = r" by simp
  then have n: "n = d * q + r" using mult_div_mod_eq [of d n] by simp
  have r: "0 \<le> r" "r < d" using assms qr by auto
  show ?thesis
    using r unfolding round_half_even_def Let_def qr by (simp add: n algebra_simps)
qed

lemma round_half_even_nonneg: "0 < d \<Longrightarrow> 0 \<le> n \<Longrightarrow> 0 \<le> round_half_even n d"
  by (auto simp: round_half_even_def Let_def pos_imp_zdiv_nonneg_iff)

lemma round_half_even_exact: "0 < d \<Longrightarrow> round_half_even (k * d) d = k"
  by (simp add: round_half_even_def Let_def)

lemma round_half_even_le:
  assumes "0 < d" "n \<le> k * d"
  shows "round_half_even n d \<le> k"
proof -
  have "2 * (d * round_half_even n d - n) \<le> d"
    using round_half_even_nearest [OF assms(1), of n] by linarith
  moreover have "d * (2 * round_half_even n d) = 2 * (d * round_half_even n d - n) + 2 * n" by simp
  moreover have "d * (2 * k + 1) = 2 * (k * d) + d" by (simp add: algebra_simps)
  ultimately have "d * (2 * round_half_even n d) \<le> d * (2 * k + 1)" using assms(2) by linarith
  then have "2 * round_half_even n d \<le> 2 * k + 1" using assms(1) by simp
  then show ?thesis by simp
qed

section \<open>JSON values\<close>

datatype json =
    JNull
  | JBool bool
  | JInt int
  | JStr string
  | JArr "json list"
  | JObj "(string \<times> json) list"

text \<open>\<open>d.get(k)\<close>: \<open>None\<close> (here \<open>JNull\<close>) for a missing key and for a value that is no dict.\<close>

definition jget :: "string \<Rightarrow> json \<Rightarrow> json" where
  "jget k v = (case v of JObj kvs \<Rightarrow> (case map_of kvs k of None \<Rightarrow> JNull | Some x \<Rightarrow> x) | _ \<Rightarrow> JNull)"

definition is_jobj :: "json \<Rightarrow> bool" where
  "is_jobj v = (case v of JObj _ \<Rightarrow> True | _ \<Rightarrow> False)"

definition jtruthy :: "json \<Rightarrow> bool" where
  "jtruthy v = (case v of
     JNull \<Rightarrow> False | JBool b \<Rightarrow> b | JInt i \<Rightarrow> i \<noteq> 0 | JStr s \<Rightarrow> s \<noteq> []
   | JArr xs \<Rightarrow> xs \<noteq> [] | JObj kvs \<Rightarrow> kvs \<noteq> [])"

text \<open>\<open>a or b\<close>.\<close>

definition jor :: "json \<Rightarrow> json \<Rightarrow> json" where
  "jor a b = (if jtruthy a then a else b)"

text \<open>\<open>str(v or "")\<close>: the string of a JSON string, and the empty string of a falsy value.\<close>

definition jstr :: "json \<Rightarrow> string" where
  "jstr v = (case v of JStr s \<Rightarrow> s | _ \<Rightarrow> [])"

definition jkeys :: "json \<Rightarrow> string list" where
  "jkeys v = (case v of JObj kvs \<Rightarrow> map fst kvs | _ \<Rightarrow> [])"

text \<open>\<open>int(v or 0)\<close> of an integer value, and \<open>dict(v or {})\<close>.\<close>

definition jint :: "json \<Rightarrow> int" where
  "jint v = (case v of JInt i \<Rightarrow> i | _ \<Rightarrow> 0)"

definition jitems :: "json \<Rightarrow> (string \<times> json) list" where
  "jitems v = (case v of JObj kvs \<Rightarrow> kvs | _ \<Rightarrow> [])"

text \<open>\<open>d.setdefault(k, v)\<close> and \<open>d[k] = v\<close> on the association list of a dict.\<close>

definition kv_setdefault :: "string \<Rightarrow> json \<Rightarrow> (string \<times> json) list \<Rightarrow> (string \<times> json) list" where
  "kv_setdefault k v kvs = (if map_of kvs k = None then kvs @ [(k, v)] else kvs)"

definition kv_set :: "string \<Rightarrow> json \<Rightarrow> (string \<times> json) list \<Rightarrow> (string \<times> json) list" where
  "kv_set k v kvs =
     (if map_of kvs k = None then kvs @ [(k, v)] else map (\<lambda>(k', v'). if k' = k then (k, v) else (k', v')) kvs)"

lemma map_of_setdefault:
  "map_of (kv_setdefault k v kvs) j =
     (if j = k \<and> map_of kvs k = None then Some v else map_of kvs j)"
  by (auto simp: kv_setdefault_def map_add_def split: option.splits)

lemma map_of_kv_set: "map_of (kv_set k v kvs) j = (if j = k then Some v else map_of kvs j)"
proof -
  have "map_of (map (\<lambda>(k', v'). if k' = k then (k, v) else (k', v')) kvs) j
        = (if j = k \<and> map_of kvs k \<noteq> None then Some v else map_of kvs j)"
    by (induction kvs) auto
  then show ?thesis
    by (auto simp: kv_set_def map_add_def split: option.splits)
qed

section \<open>Tables\<close>

text \<open>
  A table is the list of its rows. \<open>query(...).filter(p).first()\<close> is \<open>tbl_first p\<close>,
  \<open>UPDATE ... WHERE p\<close> is \<open>tbl_update p f\<close>, \<open>SELECT COUNT\<close> is \<open>tbl_count\<close>.
\<close>

definition tbl_first :: "('r \<Rightarrow> bool) \<Rightarrow> 'r list \<Rightarrow> 'r option" where
  "tbl_first p rows = find p rows"

definition tbl_update :: "('r \<Rightarrow> bool) \<Rightarrow> ('r \<Rightarrow> 'r) \<Rightarrow> 'r list \<Rightarrow> 'r list" where
  "tbl_update p f rows = map (\<lambda>r. if p r then f r else r) rows"

definition tbl_count :: "('r \<Rightarrow> bool) \<Rightarrow> 'r list \<Rightarrow> nat" where
  "tbl_count p rows = length (filter p rows)"

lemma tbl_first_Some: "tbl_first p rows = Some r \<Longrightarrow> r \<in> set rows \<and> p r"
  by (auto simp: tbl_first_def find_Some_iff)

lemma tbl_first_None: "tbl_first p rows = None \<longleftrightarrow> (\<forall>r \<in> set rows. \<not> p r)"
  by (auto simp: tbl_first_def find_None_iff)

lemma tbl_first_exists: "(\<exists>r. tbl_first p rows = Some r) \<longleftrightarrow> (\<exists>r \<in> set rows. p r)"
  by (metis tbl_first_None not_None_eq)

lemma tbl_first_Nil [simp]: "tbl_first p [] = None"
  by (simp add: tbl_first_def)

lemma tbl_first_append:
  "tbl_first p (xs @ ys) = (case tbl_first p xs of None \<Rightarrow> tbl_first p ys | Some r \<Rightarrow> Some r)"
  by (induction xs) (auto simp: tbl_first_def)

lemma tbl_first_unique:
  assumes "distinct (map k rows)" "r \<in> set rows"
  shows "tbl_first (\<lambda>x. k x = k r) rows = Some r"
  using assms
proof (induction rows)
  case Nil
  then show ?case by simp
next
  case (Cons a rows)
  then show ?case by (cases "k a = k r") (auto simp: tbl_first_def rev_image_eqI)
qed

lemma set_tbl_update [table_simps]:
  "set (tbl_update p f rows) = f ` {r \<in> set rows. p r} \<union> {r \<in> set rows. \<not> p r}"
  by (auto simp: tbl_update_def)

lemma tbl_updateE:
  assumes "r \<in> set (tbl_update p f rows)"
  obtains r0 where "r0 \<in> set rows" "r = (if p r0 then f r0 else r0)"
  using assms by (auto simp: tbl_update_def)

lemma map_tbl_update [table_simps]:
  "(\<And>r. k (f r) = k r) \<Longrightarrow> map k (tbl_update p f rows) = map k rows"
  by (simp add: tbl_update_def)

lemma length_tbl_update [simp]: "length (tbl_update p f rows) = length rows"
  by (simp add: tbl_update_def)

lemma tbl_update_append:
  "tbl_update p f (xs @ ys) = tbl_update p f xs @ tbl_update p f ys"
  by (simp add: tbl_update_def)

lemma tbl_update_none: "(\<And>r. r \<in> set rows \<Longrightarrow> \<not> p r) \<Longrightarrow> tbl_update p f rows = rows"
  by (induction rows) (auto simp: tbl_update_def)

lemma tbl_first_update_same:
  assumes "\<And>r. k (f r) = k r"
  shows "tbl_first (\<lambda>r. k r = i) (tbl_update (\<lambda>r. k r = i) f rows)
         = map_option f (tbl_first (\<lambda>r. k r = i) rows)"
  using assms by (induction rows) (auto simp: tbl_first_def tbl_update_def)

lemma tbl_first_update_other:
  assumes "\<And>r. k (f r) = k r" "i \<noteq> j"
  shows "tbl_first (\<lambda>r. k r = j) (tbl_update (\<lambda>r. k r = i) f rows)
         = tbl_first (\<lambda>r. k r = j) rows"
  using assms by (induction rows) (auto simp: tbl_first_def tbl_update_def)

lemma tbl_count_append [simp]: "tbl_count p (xs @ ys) = tbl_count p xs + tbl_count p ys"
  by (simp add: tbl_count_def)

lemma tbl_count_le: "tbl_count p rows \<le> length rows"
  by (simp add: tbl_count_def)

section \<open>Taking operations apart\<close>

text \<open>
  The control structure of an operation, as rules for a predicate on the state it ends in:
  \<open>ctrl\<close> takes an operation apart into its branches.
\<close>

lemma ctrl_if: "(c \<Longrightarrow> P (snd x)) \<Longrightarrow> (\<not> c \<Longrightarrow> P (snd y)) \<Longrightarrow> P (snd (if c then x else y))"
  by simp

lemma ctrl_option:
  "(x = None \<Longrightarrow> P (snd y)) \<Longrightarrow> (\<And>v. x = Some v \<Longrightarrow> P (snd (g v))) \<Longrightarrow> P (snd (case x of None \<Rightarrow> y | Some v \<Rightarrow> g v))"
  by (cases x) simp_all

lemma ctrl_sum:
  "(\<And>v. P (snd (f v))) \<Longrightarrow> (\<And>v. P (snd (g v))) \<Longrightarrow> P (snd (case x of Inl v \<Rightarrow> f v | Inr v \<Rightarrow> g v))"
  by (cases x) simp_all

lemma ctrl_sum_app:
  "(\<And>v. P (snd (f v s))) \<Longrightarrow> (\<And>v. P (snd (g v s))) \<Longrightarrow> P (snd ((case x of Inl v \<Rightarrow> f v | Inr v \<Rightarrow> g v) s))"
  by (cases x) simp_all

lemma ctrl_pair:
  "P (snd p) \<Longrightarrow> (\<And>x s. P s \<Longrightarrow> P (snd (g x s))) \<Longrightarrow> P (snd (case p of (x, s) \<Rightarrow> g x s))"
  by (cases p) simp

lemma ctrl_pair_app:
  "(\<And>u v. P (snd (f u v s))) \<Longrightarrow> P (snd ((case x of (u, v) \<Rightarrow> f u v) s))"
  by (cases x) simp

lemma ctrl_bool: "(b \<Longrightarrow> P (snd x)) \<Longrightarrow> (\<not> b \<Longrightarrow> P (snd y)) \<Longrightarrow> P (snd (case b of True \<Rightarrow> x | False \<Rightarrow> y))"
  by (cases b) simp_all

lemmas ctrl = ctrl_if ctrl_bool ctrl_option ctrl_sum ctrl_sum_app ctrl_pair ctrl_pair_app

end
