(* ===== verification/PyText.thy ===== *)
theory PyText
  imports Prelude
begin

text \<open>
  More of Python's text: substrings, splitting, digits, and \<open>int\<close> of a text with its inverse
  \<open>str\<close>. An integer literal is an optional sign and digits, with single underscores between them.
\<close>

section \<open>Substrings\<close>

fun is_prefix_of :: "string \<Rightarrow> string \<Rightarrow> bool" where
  "is_prefix_of [] s = True"
| "is_prefix_of (c # cs) [] = False"
| "is_prefix_of (c # cs) (d # ds) = (c = d \<and> is_prefix_of cs ds)"

fun contains :: "string \<Rightarrow> string \<Rightarrow> bool" where
  "contains w [] = (w = [])"
| "contains w (c # s) = (is_prefix_of w (c # s) \<or> contains w s)"

section \<open>Digits\<close>

definition is_digit_char :: "char \<Rightarrow> bool" where
  "is_digit_char c = (48 \<le> (of_char c :: nat) \<and> (of_char c :: nat) \<le> 57)"

definition py_isdigit :: "string \<Rightarrow> bool" where
  "py_isdigit s = (s \<noteq> [] \<and> list_all is_digit_char s)"

section \<open>Splitting and numbers\<close>

fun split_on :: "char \<Rightarrow> string \<Rightarrow> string list" where
  "split_on c [] = [[]]"
| "split_on c (x # xs) =
     (if x = c then [] # split_on c xs
      else (case split_on c xs of [] \<Rightarrow> [[x]] | y # ys \<Rightarrow> (x # y) # ys))"

definition partition_eq :: "string \<Rightarrow> string \<times> string" where
  "partition_eq s = (let k = takeWhile (\<lambda>c. c \<noteq> CHR ''='') s in (k, drop (length k + 1) s))"

definition py_int :: "string \<Rightarrow> int option" where
  "py_int s =
     (let t = py_strip s;
          neg = (case t of c # _ \<Rightarrow> c = CHR ''-'' | [] \<Rightarrow> False);
          digits = (case t of c # cs \<Rightarrow> if c = CHR ''-'' \<or> c = CHR ''+'' then cs else t | [] \<Rightarrow> [])
      in if list_all py_isdigit (split_on (CHR ''_'') digits)
         then (let n = foldl (\<lambda>a c. 10 * a + (int (of_char c) - 48)) 0 (filter (\<lambda>c. c \<noteq> CHR ''_'') digits)
               in Some (if neg then - n else n))
         else None)"

text \<open>\<open>int(v)\<close> of a JSON value.\<close>

definition json_int :: "json \<Rightarrow> int res" where
  "json_int v =
     (case v of
        JBool b \<Rightarrow> Inr (if b then 1 else 0)
      | JInt i \<Rightarrow> Inr i
      | JStr s \<Rightarrow> (case py_int s of None \<Rightarrow> Inl (ValueError ''invalid literal for int()'') | Some n \<Rightarrow> Inr n)
      | _ \<Rightarrow> Inl (OtherError ''int() argument must be a string or a number''))"

definition removeprefix :: "string \<Rightarrow> string \<Rightarrow> string" where
  "removeprefix p s = (if is_prefix_of p s then drop (length p) s else s)"

definition or_empty :: "string option \<Rightarrow> string" where
  "or_empty x = (case x of None \<Rightarrow> [] | Some s \<Rightarrow> s)"

section \<open>\<open>int(str(n))\<close>\<close>

lemma is_digit_char_digit: "n < (10::nat) \<Longrightarrow> is_digit_char (char_of (48 + n))"
  by (simp add: is_digit_char_def)

lemma digits_show_nat: "list_all is_digit_char (show_nat n)"
proof (induction n rule: show_nat.induct)
  case (1 n)
  show ?case
  proof (cases "n < 10")
    case True
    then show ?thesis by (subst show_nat.simps) (simp add: is_digit_char_digit)
  next
    case False
    then show ?thesis using 1 by (subst show_nat.simps) (simp add: is_digit_char_digit)
  qed
qed

lemma digit_not_blank: "is_digit_char c \<Longrightarrow> \<not> is_blank c"
  by (auto simp: is_digit_char_def is_blank_def Let_def)

lemma digit_not_sign: "is_digit_char c \<Longrightarrow> c \<noteq> CHR ''-'' \<and> c \<noteq> CHR ''+'' \<and> c \<noteq> CHR ''_''"
  by (auto simp: is_digit_char_def)

lemma py_strip_id: "xs \<noteq> [] \<Longrightarrow> \<not> is_blank (hd xs) \<Longrightarrow> \<not> is_blank (last xs) \<Longrightarrow> py_strip xs = xs"
proof -
  assume ne: "xs \<noteq> []" and h: "\<not> is_blank (hd xs)" and l: "\<not> is_blank (last xs)"
  then have "dropWhile is_blank xs = xs" by (cases xs) auto
  moreover have "dropWhile is_blank (rev xs) = rev xs"
    using ne l by (cases xs rule: rev_cases) auto
  ultimately show ?thesis by (simp add: py_strip_def)
qed

lemma split_on_absent: "c \<notin> set xs \<Longrightarrow> split_on c xs = [xs]"
  by (induction xs) auto

definition digits_value :: "string \<Rightarrow> int" where
  "digits_value = foldl (\<lambda>a c. 10 * a + (int (of_char c) - 48)) 0"

lemma digits_value_show_nat: "digits_value (show_nat n) = int n"
proof (induction n rule: show_nat.induct)
  case (1 n)
  show ?case
  proof (cases "n < 10")
    case True
    then show ?thesis by (subst show_nat.simps) (simp add: digits_value_def)
  next
    case False
    have "foldl (\<lambda>a c. 10 * a + (int (of_char c) - 48)) 0 (show_nat (n div 10)) = int (n div 10)"
      using 1 False by (simp add: digits_value_def)
    moreover have "10 * int (n div 10) + int (n mod 10) = int n"
      using mult_div_mod_eq [of 10 n] by linarith
    ultimately show ?thesis using False by (subst show_nat.simps) (simp add: digits_value_def)
  qed
qed

lemma py_int_digits: "xs \<noteq> [] \<Longrightarrow> list_all is_digit_char xs \<Longrightarrow> py_int xs = Some (digits_value xs)"
proof -
  assume ne: "xs \<noteq> []" and d: "list_all is_digit_char xs"
  then have st: "py_strip xs = xs"
    by (intro py_strip_id) (auto simp: list_all_iff digit_not_blank)
  have us: "CHR ''_'' \<notin> set xs" using d digit_not_sign by (auto simp: list_all_iff)
  obtain c cs where c: "xs = c # cs" using ne by (cases xs) auto
  have s: "c \<noteq> CHR ''-''" "c \<noteq> CHR ''+''" using d c digit_not_sign by (auto simp: list_all_iff)
  have f: "filter (\<lambda>c. c \<noteq> CHR ''_'') xs = xs" using us by (auto intro: filter_True)
  show ?thesis
    using st c s d us filter_True [of cs "\<lambda>c. c \<noteq> CHR ''_''"]
    by (auto simp: py_int_def split_on_absent py_isdigit_def digits_value_def intro!: filter_True arg_cong [of _ _ "foldl _ _"])
qed

lemma py_int_show_int [simp]: "py_int (show_int i) = Some i"
proof (cases "i < 0")
  case False
  then show ?thesis by (simp add: show_int_def py_int_digits digits_show_nat digits_value_show_nat)
next
  case True
  let ?xs = "show_nat (nat (- i))"
  have d: "list_all is_digit_char ?xs" by (rule digits_show_nat)
  have us: "CHR ''_'' \<notin> set ?xs" using d digit_not_sign by (auto simp: list_all_iff)
  have f: "filter (\<lambda>c. c \<noteq> CHR ''_'') ?xs = ?xs" using us by (auto intro: filter_True)
  have "last ?xs \<in> set ?xs" by simp
  then have st: "py_strip (CHR ''-'' # ?xs) = CHR ''-'' # ?xs"
    using d digit_not_blank by (intro py_strip_id) (auto simp: list_all_iff is_blank_def Let_def)
  show ?thesis using True st d us f
    by (simp add: show_int_def py_int_def split_on_absent py_isdigit_def digits_value_show_nat [unfolded digits_value_def])
qed

end
