(* ===== verification/PyRe.thy ===== *)
theory PyRe
  imports PyText
begin

text \<open>
  Regular expressions of Python's \<open>re\<close> as functions: an expression maps a text to what may remain
  after a match at its beginning, in the order in which the matcher tries (greedy first). Also
  \<open>str.replace\<close>, \<open>str.join\<close>, \<open>str.rfind\<close>, slices, and letter tests on ASCII.
\<close>

section \<open>Expressions\<close>

type_synonym re = "string \<Rightarrow> string list"

definition r_cls :: "(char \<Rightarrow> bool) \<Rightarrow> re" where
  "r_cls P s = (case s of [] \<Rightarrow> [] | c # cs \<Rightarrow> if P c then [cs] else [])"

definition r_lit :: "string \<Rightarrow> re" where
  "r_lit w s = (if is_prefix_of w s then [drop (length w) s] else [])"

text \<open>A literal under \<open>re.IGNORECASE\<close>, given in lower case.\<close>

definition r_word :: "string \<Rightarrow> re" where
  "r_word w s = (if is_prefix_of w (py_lower s) then [drop (length w) s] else [])"

fun r_seq :: "re list \<Rightarrow> re" where
  "r_seq [] s = [s]"
| "r_seq (p # ps) s = concat (map (r_seq ps) (p s))"

definition r_alt :: "re list \<Rightarrow> re" where
  "r_alt ps s = concat (map (\<lambda>p. p s) ps)"

definition r_opt :: "re \<Rightarrow> re" where
  "r_opt p s = p s @ [s]"

text \<open>\<open>x*\<close> and \<open>x+\<close> of a character class, and at most \<open>n\<close> copies.\<close>

fun r_many :: "(char \<Rightarrow> bool) \<Rightarrow> re" where
  "r_many P [] = [[]]"
| "r_many P (c # cs) = (if P c then r_many P cs else []) @ [c # cs]"

definition r_some :: "(char \<Rightarrow> bool) \<Rightarrow> re" where
  "r_some P s = concat (map (r_many P) (r_cls P s))"

fun r_upto :: "nat \<Rightarrow> re \<Rightarrow> re" where
  "r_upto 0 p s = [s]"
| "r_upto (Suc n) p s = concat (map (r_upto n p) (p s)) @ [s]"

text \<open>\<open>re.match\<close>, and a match up to the end of the text.\<close>

definition re_match :: "re \<Rightarrow> string \<Rightarrow> bool" where
  "re_match p s = (p s \<noteq> [])"

definition re_full :: "re \<Rightarrow> string \<Rightarrow> bool" where
  "re_full p s = ([] \<in> set (p s))"

text \<open>\<open>re.split\<close> of an expression that does not match the empty text.\<close>

function re_split :: "re \<Rightarrow> string \<Rightarrow> string list" where
  "re_split p [] = [[]]"
| "re_split p (c # cs) =
     (case p (c # cs) of
        r # _ \<Rightarrow> if length r < length (c # cs) then [] # re_split p r else [c # cs]
      | [] \<Rightarrow> (case re_split p cs of [] \<Rightarrow> [[c]] | y # ys \<Rightarrow> (c # y) # ys))"
  by pat_completeness auto

termination by (relation "measure (\<lambda>(p, s). length s)") auto

section \<open>Texts\<close>

function replace_all :: "string \<Rightarrow> string \<Rightarrow> string \<Rightarrow> string" where
  "replace_all p r [] = []"
| "replace_all p r (c # cs) =
     (if p \<noteq> [] \<and> is_prefix_of p (c # cs) then r @ replace_all p r (drop (length p) (c # cs))
      else c # replace_all p r cs)"
  by pat_completeness auto

termination by (relation "measure (\<lambda>(p, r, s). length s)") (auto simp: neq_Nil_conv)

function count_all :: "string \<Rightarrow> string \<Rightarrow> nat" where
  "count_all p [] = 0"
| "count_all p (c # cs) =
     (if p \<noteq> [] \<and> is_prefix_of p (c # cs) then Suc (count_all p (drop (length p) (c # cs)))
      else count_all p cs)"
  by pat_completeness auto

termination by (relation "measure (\<lambda>(p, s). length s)") (auto simp: neq_Nil_conv)

fun join_with :: "string \<Rightarrow> string list \<Rightarrow> string" where
  "join_with sep [] = []"
| "join_with sep [x] = x"
| "join_with sep (x # y # ys) = x @ sep @ join_with sep (y # ys)"

definition slice :: "nat \<Rightarrow> nat \<Rightarrow> string \<Rightarrow> string" where
  "slice a b s = drop a (take b s)"

text \<open>\<open>s.rfind(w)\<close> and \<open>s.find(w, start)\<close>: the last and the first position, or \<open>-1\<close>.\<close>

definition positions :: "string \<Rightarrow> string \<Rightarrow> nat list" where
  "positions w s = filter (\<lambda>i. is_prefix_of w (drop i s)) [0..<length s + 1]"

definition rfind :: "string \<Rightarrow> string \<Rightarrow> int" where
  "rfind w s = (let ps = positions w s in if ps = [] then - 1 else int (last ps))"

definition find_from :: "string \<Rightarrow> nat \<Rightarrow> string \<Rightarrow> int" where
  "find_from w start s = (case filter (\<lambda>i. start \<le> i) (positions w s) of [] \<Rightarrow> - 1 | i # _ \<Rightarrow> int i)"

definition py_rstrip :: "string \<Rightarrow> string" where
  "py_rstrip s = rev (dropWhile is_blank (rev s))"

definition newline :: char where "newline = CHR 0x0A"

definition is_lower :: "char \<Rightarrow> bool" where
  "is_lower c = (97 \<le> (of_char c :: nat) \<and> (of_char c :: nat) \<le> 122)"

definition is_upper :: "char \<Rightarrow> bool" where
  "is_upper c = (65 \<le> (of_char c :: nat) \<and> (of_char c :: nat) \<le> 90)"

definition is_letter :: "char \<Rightarrow> bool" where
  "is_letter c = (is_lower c \<or> is_upper c)"

definition py_upper :: "string \<Rightarrow> string" where
  "py_upper s = map (\<lambda>c. if is_lower c then char_of ((of_char c :: nat) - 32) else c) s"

text \<open>\<open>s.split()\<close>: the words between blanks.\<close>

function words_of :: "string \<Rightarrow> string list" where
  "words_of s =
     (let t = dropWhile is_blank s
      in if t = [] then [] else takeWhile (\<lambda>c. \<not> is_blank c) t # words_of (dropWhile (\<lambda>c. \<not> is_blank c) t))"
  by auto

termination
proof (relation "measure length")
  fix s t :: string
  assume t: "t = dropWhile is_blank s" "t \<noteq> []"
  then obtain c cs where c: "t = c # cs" by (meson neq_Nil_conv)
  then have "\<not> is_blank c" using t(1) by (metis hd_dropWhile list.distinct(1) list.sel(1))
  then have "length (dropWhile (\<lambda>c. \<not> is_blank c) t) \<le> length cs"
    by (simp add: c length_dropWhile_le)
  also have "\<dots> < length t" using c by simp
  also have "\<dots> \<le> length s" unfolding t(1) by (rule length_dropWhile_le)
  finally show "(dropWhile (\<lambda>c. \<not> is_blank c) t, s) \<in> measure length" by simp
qed simp

declare words_of.simps [simp del]

section \<open>Facts\<close>

lemma length_slice [simp]: "length (slice a b s) = min b (length s) - a"
  by (simp add: slice_def)

lemma rfind_bounds: "- 1 \<le> rfind w s" "rfind w s \<le> int (length s)"
proof -
  have "\<forall>i \<in> set (positions w s). i \<le> length s" by (auto simp: positions_def)
  then show "- 1 \<le> rfind w s" "rfind w s \<le> int (length s)"
    by (auto simp: rfind_def Let_def)
qed

lemma is_prefix_length: "is_prefix_of w s \<Longrightarrow> length w \<le> length s"
  by (induction w s rule: is_prefix_of.induct) auto

lemma rfind_less: "w \<noteq> [] \<Longrightarrow> s \<noteq> [] \<Longrightarrow> rfind w s < int (length s)"
proof -
  assume w: "w \<noteq> []" "s \<noteq> []"
  have "i < length s" if "i \<in> set (positions w s)" for i
  proof -
    have "is_prefix_of w (drop i s)" using that by (simp add: positions_def del: upt_Suc)
    then have "length w \<le> length (drop i s)" by (rule is_prefix_length)
    then show ?thesis using w(1) by (cases w) auto
  qed
  then show ?thesis using w(2) by (auto simp: rfind_def Let_def)
qed

end
