(* ===== verification/PyDate.thy ===== *)
theory PyDate
  imports Prelude
begin

text \<open>
  The part of Python's \<open>datetime\<close> and \<open>calendar\<close> modules the code uses. A date is its
  proleptic Gregorian ordinal (\<open>date.toordinal()\<close>, 1 is 0001-01-01), an aware UTC
  datetime the number of microseconds since 0001-01-01T00:00:00Z; comparison and timedelta
  arithmetic are then those of \<open>int\<close>. Years outside 1..9999, where Python raises
  OverflowError or ValueError, are outside the model.
\<close>

type_synonym pydate = int
type_synonym pydatetime = int

section \<open>Calendar\<close>

definition is_leap :: "int \<Rightarrow> bool" where
  "is_leap y = (y mod 4 = 0 \<and> (y mod 100 \<noteq> 0 \<or> y mod 400 = 0))"

definition days_before_year :: "int \<Rightarrow> int" where
  "days_before_year y = (y - 1) * 365 + (y - 1) div 4 - (y - 1) div 100 + (y - 1) div 400"

definition leap_day :: "int \<Rightarrow> int" where
  "leap_day y = (if is_leap y then 1 else 0)"

text \<open>\<open>calendar.monthrange(year, month)[1]\<close>\<close>

definition days_in_month :: "int \<Rightarrow> int \<Rightarrow> int" where
  "days_in_month y m =
     (if m = 2 then 28 + leap_day y else if m = 4 \<or> m = 6 \<or> m = 9 \<or> m = 11 then 30 else 31)"

definition days_before_month :: "int \<Rightarrow> int \<Rightarrow> int" where
  "days_before_month y m =
     (if m \<le> 1 then 0 else if m = 2 then 31 else
      leap_day y +
        (if m = 3 then 59 else if m = 4 then 90 else if m = 5 then 120 else if m = 6 then 151
         else if m = 7 then 181 else if m = 8 then 212 else if m = 9 then 243 else if m = 10 then 273
         else if m = 11 then 304 else 334))"

definition valid_ymd :: "int \<Rightarrow> int \<Rightarrow> int \<Rightarrow> bool" where
  "valid_ymd y m d = (1 \<le> y \<and> 1 \<le> m \<and> m \<le> 12 \<and> 1 \<le> d \<and> d \<le> days_in_month y m)"

text \<open>The constructor \<open>date(y, m, d)\<close>.\<close>

definition mk_date :: "int \<Rightarrow> int \<Rightarrow> int \<Rightarrow> pydate" where
  "mk_date y m d = days_before_year y + days_before_month y m + d"

lemma div_step: "0 < k \<Longrightarrow> (y::int) div k = (y - 1) div k + (if y mod k = 0 then 1 else 0)"
proof -
  assume k: "0 < k"
  show ?thesis
  proof (cases "y mod k = 0")
    case True
    then obtain q where q: "y = k * q" by auto
    have "(k * q - 1) div k = q - 1"
      using k by (intro int_div_pos_eq [where r = "k - 1"]) (auto simp: algebra_simps)
    then show ?thesis using q k True by simp
  next
    case False
    then have r: "0 < y mod k" "y mod k < k"
      using k pos_mod_sign [OF k, of y] pos_mod_bound [OF k, of y] by linarith+
    have "(y - 1) div k = y div k"
      using r by (intro int_div_pos_eq [where r = "y mod k - 1"]) (auto simp: minus_mod_eq_mult_div [symmetric])
    then show ?thesis using False by simp
  qed
qed

lemma leap_day_range: "0 \<le> leap_day y" "leap_day y \<le> 1"
  by (auto simp: leap_day_def)

lemma nested_leap:
  "(c \<longrightarrow> b) \<Longrightarrow> (b \<longrightarrow> a) \<Longrightarrow>
   (if a \<and> (\<not> b \<or> c) then 1 else 0) = (if a then 1 else 0) - (if b then 1 else 0) + (if c then 1 else (0::int))"
  by (cases a; cases b; cases c) simp_all

lemma leap_day_div: "leap_day y =
    (if y mod 4 = 0 then 1 else 0) - (if y mod 100 = 0 then 1 else 0) + (if y mod 400 = 0 then 1 else 0)"
proof -
  have m: "y mod 400 mod 100 = y mod 100" "y mod 100 mod 4 = y mod 4" by (rule mod_mod_cancel, simp)+
  have "y mod 400 = 0 \<longrightarrow> y mod 100 = 0" using m(1) by (metis mod_0)
  moreover have "y mod 100 = 0 \<longrightarrow> y mod 4 = 0" using m(2) by (metis mod_0)
  ultimately show ?thesis unfolding leap_day_def is_leap_def by (rule nested_leap)
qed

lemma sum_steps:
  "\<lbrakk>a' = a + i; b' = b + j; c' = c + k; l = i - j + k\<rbrakk> \<Longrightarrow>
   (x + 1 - 1) * 365 + a' - b' + c' = (x - 1) * 365 + a - b + c + 365 + (l::int)"
  by simp

lemma days_before_year_Suc: "days_before_year (y + 1) = days_before_year y + 365 + leap_day y"
proof -
  have "(y + 1 - 1) * 365 + y div 4 - y div 100 + y div 400
        = (y - 1) * 365 + (y - 1) div 4 - (y - 1) div 100 + (y - 1) div 400 + 365 + leap_day y"
    by (rule sum_steps [OF div_step div_step div_step leap_day_div]) simp_all
  then show ?thesis unfolding days_before_year_def add_diff_cancel_right' .
qed

lemma days_before_year_mono: "a \<le> b \<Longrightarrow> days_before_year a + 365 * (b - a) \<le> days_before_year b"
proof (induction b rule: int_ge_induct [of a])
  case base
  then show ?case by simp
next
  case (step b)
  then show ?case using days_before_year_Suc [of b] leap_day_range [of b] by simp
qed

lemma days_before_year_less: "a < b \<Longrightarrow> days_before_year a < days_before_year b"
  using days_before_year_mono [of a b] by simp

section \<open>From ordinals to year, month, day\<close>

function year_from :: "int \<Rightarrow> int \<Rightarrow> int" where
  "year_from y n = (if days_before_year (y + 1) < n then year_from (y + 1) n else y)"
  by pat_completeness auto
termination
proof (relation "measure (\<lambda>(y, n). nat (n - days_before_year y))", goal_cases)
  case 1
  show ?case by simp
next
  case (2 y n)
  then show ?case using days_before_year_less [of y "y + 1"] by simp
qed

declare year_from.simps [simp del]

lemma year_from_bounds:
  "days_before_year y < n \<Longrightarrow>
   days_before_year (year_from y n) < n \<and> n \<le> days_before_year (year_from y n + 1) \<and> y \<le> year_from y n"
proof (induction y n rule: year_from.induct)
  case (1 y n)
  show ?case
  proof (cases "days_before_year (y + 1) < n")
    case True
    then show ?thesis using 1 by (subst (1 2 3) year_from.simps) auto
  next
    case False
    then show ?thesis using 1 by (subst (1 2 3) year_from.simps) auto
  qed
qed

definition date_year :: "pydate \<Rightarrow> int" where
  "date_year n = year_from ((n - 1) div 366 + 1) n"

definition date_doy :: "pydate \<Rightarrow> int" where
  "date_doy n = n - days_before_year (date_year n)"

definition month_of_doy :: "int \<Rightarrow> int \<Rightarrow> int" where
  "month_of_doy lp k =
     (if k \<le> 31 then 1 else if k \<le> 59 + lp then 2 else if k \<le> 90 + lp then 3
      else if k \<le> 120 + lp then 4 else if k \<le> 151 + lp then 5 else if k \<le> 181 + lp then 6
      else if k \<le> 212 + lp then 7 else if k \<le> 243 + lp then 8 else if k \<le> 273 + lp then 9
      else if k \<le> 304 + lp then 10 else if k \<le> 334 + lp then 11 else 12)"

definition date_month :: "pydate \<Rightarrow> int" where
  "date_month n = month_of_doy (leap_day (date_year n)) (date_doy n)"

definition date_day :: "pydate \<Rightarrow> int" where
  "date_day n = date_doy n - days_before_month (date_year n) (date_month n)"

lemma leaps_le: "0 \<le> (y::int) \<Longrightarrow> y div 4 - y div 100 + y div 400 \<le> y"
proof -
  assume y: "0 \<le> y"
  have "y div 4 \<le> y" "y div 400 \<le> y div 100" using y by (simp_all add: zdiv_mono2 int_div_less_self)
  then show ?thesis by linarith
qed

lemma date_year_bounds:
  assumes "1 \<le> n"
  shows "days_before_year (date_year n) < n" "n \<le> days_before_year (date_year n + 1)" "1 \<le> date_year n"
proof -
  let ?y = "(n - 1) div 366 + 1"
  have p: "0 \<le> (n - 1) div 366" using assms by (simp add: pos_imp_zdiv_nonneg_iff)
  have "366 * ((n - 1) div 366) \<le> n - 1" by linarith
  moreover have "days_before_year ?y \<le> 366 * ((n - 1) div 366)"
    using leaps_le [OF p] by (simp add: days_before_year_def)
  ultimately have "days_before_year ?y < n" by linarith
  from year_from_bounds [OF this] p
  show "days_before_year (date_year n) < n" "n \<le> days_before_year (date_year n + 1)" "1 \<le> date_year n"
    by (simp_all add: date_year_def)
qed

lemma date_year_unique:
  assumes "1 \<le> n" "days_before_year y < n" "n \<le> days_before_year (y + 1)"
  shows "date_year n = y"
proof (rule ccontr)
  assume "date_year n \<noteq> y"
  then consider "date_year n + 1 \<le> y" | "y + 1 \<le> date_year n" by linarith
  then show False
  proof cases
    case 1
    then have "days_before_year (date_year n + 1) \<le> days_before_year y"
      using days_before_year_mono [of "date_year n + 1" y] by simp
    then show False using date_year_bounds [OF assms(1)] assms by simp
  next
    case 2
    then have "days_before_year (y + 1) \<le> days_before_year (date_year n)"
      using days_before_year_mono [of "y + 1" "date_year n"] by simp
    then show False using date_year_bounds [OF assms(1)] assms by simp
  qed
qed

lemma date_doy_range: "1 \<le> n \<Longrightarrow> 1 \<le> date_doy n \<and> date_doy n \<le> 365 + leap_day (date_year n)"
  using date_year_bounds [of n] days_before_year_Suc [of "date_year n"] by (simp add: date_doy_def)

lemma month_doy_valid:
  assumes "1 \<le> k" "k \<le> 365 + leap_day y"
  defines "m \<equiv> month_of_doy (leap_day y) k"
  shows "1 \<le> m" "m \<le> 12" "1 \<le> k - days_before_month y m" "k - days_before_month y m \<le> days_in_month y m"
  using assms leap_day_range [of y]
  by (auto simp: month_of_doy_def days_before_month_def days_in_month_def split: if_splits)

lemma date_valid: "1 \<le> n \<Longrightarrow> valid_ymd (date_year n) (date_month n) (date_day n)"
  using month_doy_valid [of "date_doy n" "date_year n"] date_doy_range [of n] date_year_bounds [of n]
  by (simp add: valid_ymd_def date_month_def date_day_def)

lemma mk_date_parts: "mk_date (date_year n) (date_month n) (date_day n) = n"
  by (simp add: mk_date_def date_day_def date_doy_def)

lemma month_cases: "1 \<le> m \<Longrightarrow> m \<le> 12 \<Longrightarrow>
  (m::int) = 1 \<or> m = 2 \<or> m = 3 \<or> m = 4 \<or> m = 5 \<or> m = 6 \<or> m = 7 \<or> m = 8 \<or> m = 9 \<or> m = 10 \<or> m = 11 \<or> m = 12"
  by presburger

lemma doy_of_valid:
  assumes "valid_ymd y m d"
  shows "1 \<le> days_before_month y m + d" "days_before_month y m + d \<le> 365 + leap_day y"
    "month_of_doy (leap_day y) (days_before_month y m + d) = m"
proof -
  have m: "1 \<le> m" "m \<le> 12" and d: "1 \<le> d" "d \<le> days_in_month y m" using assms by (auto simp: valid_ymd_def)
  have "1 \<le> days_before_month y m + d \<and> days_before_month y m + d \<le> 365 + leap_day y \<and>
    month_of_doy (leap_day y) (days_before_month y m + d) = m"
    using month_cases [OF m] d leap_day_range [of y]
    by (elim disjE) (auto simp: days_before_month_def days_in_month_def month_of_doy_def)
  then show "1 \<le> days_before_month y m + d" "days_before_month y m + d \<le> 365 + leap_day y"
    "month_of_doy (leap_day y) (days_before_month y m + d) = m" by auto
qed

lemma days_before_year_nonneg: "1 \<le> y \<Longrightarrow> 0 \<le> days_before_year y"
  using days_before_year_mono [of 1 y] by (simp add: days_before_year_def)

lemma mk_date_pos: "valid_ymd y m d \<Longrightarrow> 1 \<le> mk_date y m d"
  using doy_of_valid [of y m d] days_before_year_nonneg [of y] by (simp add: mk_date_def valid_ymd_def)

lemma date_year_mk: "valid_ymd y m d \<Longrightarrow> date_year (mk_date y m d) = y"
  using doy_of_valid [of y m d] mk_date_pos [of y m d] days_before_year_Suc [of y]
  by (intro date_year_unique) (auto simp: mk_date_def)

lemma date_month_mk: "valid_ymd y m d \<Longrightarrow> date_month (mk_date y m d) = m"
  using doy_of_valid [of y m d] by (simp add: date_month_def date_doy_def date_year_mk) (simp add: mk_date_def)

lemma date_day_mk: "valid_ymd y m d \<Longrightarrow> date_day (mk_date y m d) = d"
  by (simp add: date_day_def date_doy_def date_year_mk date_month_mk) (simp add: mk_date_def)

lemmas date_parts_mk = date_year_mk date_month_mk date_day_mk

text \<open>Ordinals order like \<open>(year, month, day)\<close>.\<close>

lemma mk_date_less_year:
  assumes "valid_ymd y m d" "valid_ymd y' m' d'" "y < y'"
  shows "mk_date y m d < mk_date y' m' d'"
  using doy_of_valid [OF assms(1)] doy_of_valid [OF assms(2)] days_before_year_Suc [of y]
    days_before_year_mono [of "y + 1" y'] assms(3)
  by (simp add: mk_date_def)

lemma days_before_month_Suc:
  assumes "1 \<le> m" "m \<le> 11"
  shows "days_before_month y (m + 1) = days_before_month y m + days_in_month y m"
proof -
  have "m = 1 \<or> m = 2 \<or> m = 3 \<or> m = 4 \<or> m = 5 \<or> m = 6 \<or> m = 7 \<or> m = 8 \<or> m = 9 \<or> m = 10 \<or> m = 11"
    using assms by presburger
  then show ?thesis by (elim disjE) (simp_all add: days_before_month_def days_in_month_def)
qed

lemma days_in_month_bounds: "28 \<le> days_in_month y m" "days_in_month y m \<le> 31"
  using leap_day_range [of y] by (auto simp: days_in_month_def)

text \<open>\<open>date.weekday()\<close>: Monday is 0.\<close>

definition weekday :: "pydate \<Rightarrow> int" where
  "weekday n = (n + 6) mod 7"

section \<open>Datetimes\<close>

definition day_us :: int where "day_us = 86400000000"
definition seconds :: "int \<Rightarrow> int" where "seconds s = s * 1000000"
definition days :: "int \<Rightarrow> int" where "days d = d * day_us"

definition dt_date :: "pydatetime \<Rightarrow> pydate" where
  "dt_date t = t div day_us + 1"

text \<open>\<open>datetime.combine(d, datetime.min.time(), tzinfo=UTC)\<close>\<close>

definition dt_midnight :: "pydate \<Rightarrow> pydatetime" where
  "dt_midnight d = (d - 1) * day_us"

text \<open>\<open>datetime.combine(d, t.timetz())\<close>\<close>

definition dt_combine :: "pydate \<Rightarrow> pydatetime \<Rightarrow> pydatetime" where
  "dt_combine d t = (d - 1) * day_us + t mod day_us"

lemma day_us_pos [simp]: "0 < day_us"
  by (simp add: day_us_def)

lemma day_us_not_0 [simp]: "day_us \<noteq> 0"
  by (simp add: day_us_def)

lemma dt_date_midnight [simp]: "dt_date (dt_midnight d) = d"
  by (simp add: dt_date_def dt_midnight_def)

lemma dt_date_combine [simp]: "dt_date (dt_combine d t) = d"
  by (simp add: dt_date_def dt_combine_def div_add1_eq)

lemma dt_date_mono: "s \<le> t \<Longrightarrow> dt_date s \<le> dt_date t"
  by (simp add: dt_date_def zdiv_mono1)

lemma dt_midnight_le: "dt_midnight (dt_date t) \<le> t"
  by (simp add: dt_midnight_def dt_date_def) (metis mult.commute minus_mod_eq_mult_div day_us_pos diff_ge_0_iff_ge
      diff_diff_eq2 add_diff_cancel_left' pos_mod_sign)

lemma dt_midnight_le_iff: "dt_midnight d \<le> t \<longleftrightarrow> d \<le> dt_date t"
proof
  assume "dt_midnight d \<le> t"
  then show "d \<le> dt_date t" using dt_date_mono [of "dt_midnight d" t] by simp
next
  assume "d \<le> dt_date t"
  then have "dt_midnight d \<le> dt_midnight (dt_date t)" by (simp add: dt_midnight_def)
  then show "dt_midnight d \<le> t" using dt_midnight_le [of t] by simp
qed

lemma dt_date_add_days [simp]: "dt_date (t + days k) = dt_date t + k"
  by (simp add: dt_date_def days_def)

section \<open>ISO text\<close>

definition digit :: "int \<Rightarrow> char" where
  "digit n = char_of (nat (48 + n mod 10))"

definition pad2 :: "int \<Rightarrow> string" where
  "pad2 n = [digit (n div 10), digit n]"

definition pad4 :: "int \<Rightarrow> string" where
  "pad4 n = pad2 (n div 100) @ pad2 (n mod 100)"

definition undigit :: "char \<Rightarrow> int option" where
  "undigit c = (let n = (of_char c :: nat) in if 48 \<le> n \<and> n \<le> 57 then Some (int n - 48) else None)"

fun undigits :: "int \<Rightarrow> string \<Rightarrow> int option" where
  "undigits acc [] = Some acc"
| "undigits acc (c # cs) = (case undigit c of None \<Rightarrow> None | Some k \<Rightarrow> undigits (10 * acc + k) cs)"

definition isoformat :: "pydate \<Rightarrow> string" where
  "isoformat d = pad4 (date_year d) @ ''-'' @ pad2 (date_month d) @ ''-'' @ pad2 (date_day d)"

definition check_date :: "int option \<Rightarrow> int option \<Rightarrow> int option \<Rightarrow> pydate option" where
  "check_date y m d = (case (y, m, d) of
     (Some y, Some m, Some d) \<Rightarrow> if valid_ymd y m d then Some (mk_date y m d) else None
   | _ \<Rightarrow> None)"

text \<open>
  \<open>date.fromisoformat\<close>, \<open>None\<close> for its ValueError: the extended and the basic calendar
  formats. Python 3.11 also reads ISO week dates, which no modelled value has.
\<close>

definition date_fromisoformat :: "string \<Rightarrow> pydate option" where
  "date_fromisoformat s =
     (if length s = 10 \<and> s ! 4 = CHR ''-'' \<and> s ! 7 = CHR ''-''
      then check_date (undigits 0 (take 4 s)) (undigits 0 (take 2 (drop 5 s))) (undigits 0 (drop 8 s))
      else if length s = 8
      then check_date (undigits 0 (take 4 s)) (undigits 0 (take 2 (drop 4 s))) (undigits 0 (drop 6 s))
      else None)"

lemma undigit_digit [simp]: "undigit (digit n) = Some (n mod 10)"
proof -
  have r: "0 \<le> n mod 10" "n mod 10 < 10" by simp_all
  then have "nat (48 + n mod 10) < 256" by linarith
  then have "(of_char (digit n) :: nat) = nat (48 + n mod 10)" by (simp add: digit_def of_char_of)
  moreover have "48 \<le> nat (48 + n mod 10)" "nat (48 + n mod 10) \<le> 57" using r by linarith+
  ultimately show ?thesis using r by (simp add: undigit_def Let_def)
qed

lemma undigits_pad2: "0 \<le> n \<Longrightarrow> n < 100 \<Longrightarrow> undigits a (pad2 n @ s) = undigits (100 * a + n) s"
proof -
  assume "0 \<le> n" "n < 100"
  then have "n div 10 mod 10 = n div 10" by simp
  moreover have "10 * (10 * a + n div 10) + n mod 10 = 100 * a + (10 * (n div 10) + n mod 10)"
    by (simp only: distrib_left mult.assoc [symmetric])
  ultimately show ?thesis by (simp add: pad2_def add.commute)
qed

lemma undigits_pad2_end: "0 \<le> n \<Longrightarrow> n < 100 \<Longrightarrow> undigits a (pad2 n) = Some (100 * a + n)"
  using undigits_pad2 [of n a "[]"] by simp

lemma undigits_pad4: "0 \<le> n \<Longrightarrow> n < 10000 \<Longrightarrow> undigits 0 (pad4 n) = Some n"
  by (simp add: pad4_def undigits_pad2 undigits_pad2_end)

lemma length_pad [simp]: "length (pad2 n) = 2" "length (pad4 n) = 4"
  by (simp_all add: pad2_def pad4_def)

lemma iso_split:
  assumes "length Y = 4" "length M = 2" "length D = 2"
  shows "date_fromisoformat (Y @ ''-'' @ M @ ''-'' @ D) = check_date (undigits 0 Y) (undigits 0 M) (undigits 0 D)"
  using assms by (simp add: date_fromisoformat_def nth_append)

theorem fromisoformat_isoformat:
  assumes "1 \<le> d" "date_year d \<le> 9999"
  shows "date_fromisoformat (isoformat d) = Some d"
proof -
  have v: "valid_ymd (date_year d) (date_month d) (date_day d)" by (rule date_valid [OF assms(1)])
  then have b: "0 \<le> date_month d" "date_month d < 100" "0 \<le> date_day d" "date_day d < 100"
    using days_in_month_bounds [of "date_year d" "date_month d"] by (auto simp: valid_ymd_def)
  have y: "0 \<le> date_year d" "date_year d < 10000" using v assms by (auto simp: valid_ymd_def)
  have "undigits 0 (pad4 (date_year d)) = Some (date_year d)"
    "undigits 0 (pad2 (date_month d)) = Some (date_month d)"
    "undigits 0 (pad2 (date_day d)) = Some (date_day d)"
    using undigits_pad4 [OF y] undigits_pad2_end [OF b(1,2), of 0] undigits_pad2_end [OF b(3,4), of 0] by simp_all
  then have "date_fromisoformat (isoformat d) = check_date (Some (date_year d)) (Some (date_month d)) (Some (date_day d))"
    unfolding isoformat_def by (subst iso_split) simp_all
  also have "\<dots> = Some (mk_date (date_year d) (date_month d) (date_day d))" using v by (simp add: check_date_def)
  finally show ?thesis by (simp only: mk_date_parts)
qed

lemma isoformat_inject:
  assumes "1 \<le> d" "date_year d \<le> 9999" "1 \<le> e" "date_year e \<le> 9999" "isoformat d = isoformat e"
  shows "d = e"
  using fromisoformat_isoformat [OF assms(1,2)] fromisoformat_isoformat [OF assms(3,4)] assms(5)
  by (metis option.inject)

lemma isoformat_not_Nil [simp]: "isoformat d \<noteq> []"
  by (simp add: isoformat_def pad4_def pad2_def)

end
