(* ===== verification/AuthTotp.thy ===== *)
theory AuthTotp
  imports PyText PyDate "HOL-Library.Word"
begin

unbundle bit_operations_syntax

text \<open>
  Authenticator codes (\<open>_base32_secret\<close>, \<open>_sanitize_totp_secret\<close>, \<open>_hotp\<close> and
  \<open>verify_authenticator_code\<close> of \<open>use_cases/login_service.py\<close>) on bytes of eight bits. HMAC-SHA1 is
  the argument \<open>hmac\<close>. A sanitized secret has no padding, so \<open>b32decode\<close> asks for a length that is
  a multiple of eight.
\<close>

section \<open>Digits of a number in a base\<close>

fun digits :: "nat \<Rightarrow> nat \<Rightarrow> nat \<Rightarrow> nat list" where
  "digits b 0 n = []"
| "digits b (Suc k) n = digits b k (n div b) @ [n mod b]"

definition undigits_of :: "nat \<Rightarrow> nat list \<Rightarrow> nat" where
  "undigits_of b = foldl (\<lambda>a d. b * a + d) 0"

lemma length_digits [simp]: "length (digits b k n) = k"
  by (induction k arbitrary: n) auto

lemma undigits_of_snoc [simp]: "undigits_of b (ds @ [d]) = b * undigits_of b ds + d"
  by (simp add: undigits_of_def)

lemma undigits_of_Nil [simp]: "undigits_of b [] = 0"
  by (simp add: undigits_of_def)

lemma undigits_of_digits: "n < b ^ k \<Longrightarrow> undigits_of b (digits b k n) = n"
proof (induction k arbitrary: n)
  case (Suc k)
  then have "n div b < b ^ k" by (simp add: less_mult_imp_div_less mult.commute)
  then show ?case using Suc.IH [of "n div b"] by simp
qed simp

lemma undigits_of_less: "\<forall>d \<in> set ds. d < b \<Longrightarrow> undigits_of b ds < b ^ length ds"
proof (induction ds rule: rev_induct)
  case (snoc d ds)
  then have "undigits_of b ds + 1 \<le> b ^ length ds" "d < b" by auto
  then have "b * (undigits_of b ds + 1) \<le> b * b ^ length ds" "b * undigits_of b ds + d < b * (undigits_of b ds + 1)"
    using mult_le_mono2 [of "undigits_of b ds + 1" "b ^ length ds" b] by simp_all
  then show ?case by simp
qed simp

lemma digits_undigits_of: "\<forall>d \<in> set ds. d < b \<Longrightarrow> digits b (length ds) (undigits_of b ds) = ds"
  by (induction ds rule: rev_induct) auto

lemma digits_less: "0 < b \<Longrightarrow> d \<in> set (digits b k n) \<Longrightarrow> d < b"
  by (induction k arbitrary: n) auto

type_synonym bytes = "8 word list"

definition bytes_of :: "nat \<Rightarrow> nat \<Rightarrow> bytes" where
  "bytes_of k n = map of_nat (digits 256 k n)"

definition nat_of_bytes :: "bytes \<Rightarrow> nat" where
  "nat_of_bytes bs = undigits_of 256 (map unat bs)"

lemma unat_byte_less: "unat (w :: 8 word) < 256"
  using unsigned_less [of w] by simp

lemma bytes_of_nat_of_bytes: "length bs = k \<Longrightarrow> bytes_of k (nat_of_bytes bs) = bs"
  using digits_undigits_of [of "map unat bs" 256]
  by (auto simp: bytes_of_def nat_of_bytes_def unat_byte_less comp_def)

lemma nat_of_bytes_less: "nat_of_bytes bs < 256 ^ length bs"
  using undigits_of_less [of "map unat bs" 256] by (auto simp: nat_of_bytes_def unat_byte_less)

section \<open>Base 32\<close>

definition b32_alphabet :: string where
  "b32_alphabet = ''ABCDEFGHIJKLMNOPQRSTUVWXYZ234567''"

definition b32_digit :: "char \<Rightarrow> nat option" where
  "b32_digit c = map_of (zip b32_alphabet [0..<32]) c"

fun chunks :: "nat \<Rightarrow> 'a list \<Rightarrow> 'a list list" where
  "chunks n xs = (if xs = [] \<or> n = 0 then [] else take n xs # chunks n (drop n xs))"

declare chunks.simps [simp del]

definition b32_group :: "bytes \<Rightarrow> string" where
  "b32_group bs = map (\<lambda>d. b32_alphabet ! d) (digits 32 8 (nat_of_bytes (take 5 (bs @ replicate 5 0))))"

text \<open>\<open>b32encode(raw).rstrip("=")\<close>: the padding of the last group is removed.\<close>

definition b32encode_stripped :: "bytes \<Rightarrow> string" where
  "b32encode_stripped bs = take ((8 * length bs + 4) div 5) (concat (map b32_group (chunks 5 bs)))"

definition base32_secret :: "bytes \<Rightarrow> bytes \<Rightarrow> nat \<Rightarrow> string" where
  "base32_secret uuid1 uuid2 byte_length = b32encode_stripped (take byte_length (uuid1 @ uuid2))"

fun all_some :: "'a option list \<Rightarrow> 'a list option" where
  "all_some [] = Some []"
| "all_some (None # xs) = None"
| "all_some (Some x # xs) = (case all_some xs of None \<Rightarrow> None | Some ys \<Rightarrow> Some (x # ys))"

definition b32decode :: "string \<Rightarrow> bytes res" where
  "b32decode s =
     (if length s mod 8 \<noteq> 0 then Inl (ValueError ''Incorrect padding'')
      else (case all_some (map b32_digit s) of
              None \<Rightarrow> Inl (ValueError ''Non-base32 digit found'')
            | Some ds \<Rightarrow> Inr (concat (map (\<lambda>g. bytes_of 5 (undigits_of 32 g)) (chunks 8 ds)))))"

definition upper_char :: "char \<Rightarrow> char" where
  "upper_char c = (let n = (of_char c :: nat) in if 97 \<le> n \<and> n \<le> 122 then char_of (n - 32) else c)"

definition is_alnum :: "char \<Rightarrow> bool" where
  "is_alnum c = (let n = (of_char c :: nat) in 48 \<le> n \<and> n \<le> 57 \<or> 65 \<le> n \<and> n \<le> 90 \<or> 97 \<le> n \<and> n \<le> 122)"

definition sanitize_totp_secret :: "string \<Rightarrow> string" where
  "sanitize_totp_secret secret = filter is_alnum (map upper_char secret)"

section \<open>Codes\<close>

definition zfill :: "nat \<Rightarrow> string \<Rightarrow> string" where
  "zfill n s = replicate (n - length s) (CHR ''0'') @ s"

text \<open>The dynamic truncation of the digest: four bytes from the offset in its last four bits.\<close>

definition truncated :: "bytes \<Rightarrow> int res" where
  "truncated digest =
     (let offset = unat (last digest AND 0x0F);
          part = take 4 (drop offset digest)
      in if length part \<noteq> 4 then Inl (OtherError ''unpack requires a buffer of 4 bytes'')
         else Inr (uint ((of_nat (nat_of_bytes part) :: 32 word) AND 0x7FFFFFFF)))"

definition hotp :: "(bytes \<Rightarrow> bytes \<Rightarrow> bytes) \<Rightarrow> string \<Rightarrow> int \<Rightarrow> nat \<Rightarrow> string res" where
  "hotp hmac secret counter n_digits =
     (case b32decode (sanitize_totp_secret secret) of
        Inl e \<Rightarrow> Inl e
      | Inr key \<Rightarrow>
          if counter < 0 \<or> 2 ^ 64 \<le> counter then Inl (OtherError ''argument out of range'')
          else (case truncated (hmac key (bytes_of 8 (nat counter))) of
                  Inl e \<Rightarrow> Inl e
                | Inr binary \<Rightarrow> Inr (zfill n_digits (show_int (binary mod 10 ^ n_digits)))))"

definition unix_seconds :: "pydatetime \<Rightarrow> int" where
  "unix_seconds t = (t - days 719162) div seconds 1"

text \<open>The counters of the window are tried in order; the first that matches accepts.\<close>

fun try_counters :: "(int \<Rightarrow> string res) \<Rightarrow> string \<Rightarrow> int list \<Rightarrow> bool res" where
  "try_counters code_at given [] = Inr False"
| "try_counters code_at given (c # cs) =
     (case code_at c of
        Inl e \<Rightarrow> Inl e
      | Inr code \<Rightarrow> if code = given then Inr True else try_counters code_at given cs)"

definition verify_authenticator_code ::
  "(bytes \<Rightarrow> bytes \<Rightarrow> bytes) \<Rightarrow> pydatetime \<Rightarrow> string \<Rightarrow> string \<Rightarrow> bool res" where
  "verify_authenticator_code hmac now secret code =
     (let given = filter is_digit_char code;
          now_counter = unix_seconds now div 30
      in if length given \<noteq> 6 then Inr False
         else try_counters (\<lambda>c. hotp hmac secret c 6) given [now_counter - 1, now_counter, now_counter + 1])"

section \<open>A generated secret is read back\<close>

lemma alphabet_digit: "d < 32 \<Longrightarrow> b32_digit (b32_alphabet ! d) = Some d"
proof -
  assume d: "d < 32"
  have "length b32_alphabet = 32" "distinct b32_alphabet" by (simp_all add: b32_alphabet_def)
  then show ?thesis using map_of_zip_nth [of b32_alphabet "[0..<32]" d] d by (simp add: b32_digit_def)
qed

lemma alphabet_kept:
  assumes "d < 32"
  shows "is_alnum (b32_alphabet ! d) \<and> upper_char (b32_alphabet ! d) = b32_alphabet ! d"
proof -
  have "length b32_alphabet = 32" by (simp add: b32_alphabet_def)
  then have "b32_alphabet ! d \<in> set b32_alphabet" using assms by (metis nth_mem)
  moreover have "\<forall>c \<in> set b32_alphabet. is_alnum c \<and> upper_char c = c"
    by (simp add: b32_alphabet_def is_alnum_def upper_char_def)
  ultimately show ?thesis by blast
qed

lemma chunks_Nil [simp]: "chunks n [] = []"
  by (subst chunks.simps) simp

lemma chunks_append: "length xs = n \<Longrightarrow> 0 < n \<Longrightarrow> chunks n (xs @ ys) = xs # chunks n ys"
  by (subst chunks.simps) auto

lemma concat_chunks: "0 < n \<Longrightarrow> concat (chunks n xs) = xs"
  by (induction n xs rule: chunks.induct) (subst chunks.simps, simp)

lemma chunks_concat: "(\<And>g. g \<in> set gs \<Longrightarrow> length g = n) \<Longrightarrow> 0 < n \<Longrightarrow> chunks n (concat gs) = gs"
  by (induction gs) (auto simp: chunks_append)

lemma chunks_full: "length xs = n * k \<Longrightarrow> 0 < n \<Longrightarrow> g \<in> set (chunks n xs) \<Longrightarrow> length g = n"
proof (induction k arbitrary: xs)
  case (Suc k)
  then have "chunks n xs = take n xs # chunks n (drop n xs)" by (subst chunks.simps) auto
  then show ?case using Suc.prems Suc.IH [of "drop n xs"] by auto
qed simp

lemma length_chunks: "length xs = n * k \<Longrightarrow> 0 < n \<Longrightarrow> length (chunks n xs) = k"
proof (induction k arbitrary: xs)
  case (Suc k)
  then have "chunks n xs = take n xs # chunks n (drop n xs)" by (subst chunks.simps) auto
  then show ?case using Suc by auto
qed simp

lemma all_some_map: "(\<And>x. x \<in> set xs \<Longrightarrow> f (g x) = Some x) \<Longrightarrow> all_some (map f (map g xs)) = Some xs"
  by (induction xs) auto

text \<open>The digits of the groups of five bytes.\<close>

definition group_digits :: "bytes \<Rightarrow> nat list list" where
  "group_digits bs = map (\<lambda>g. digits 32 8 (nat_of_bytes g)) (chunks 5 bs)"

lemma encode_groups:
  assumes "length bs = 5 * k"
  shows "b32encode_stripped bs = map ((!) b32_alphabet) (concat (group_digits bs))"
proof -
  have len: "length g = 5" if "g \<in> set (chunks 5 bs)" for g
    by (rule chunks_full [OF assms]) (use that in auto)
  have "map b32_group (chunks 5 bs) = map (\<lambda>g. map ((!) b32_alphabet) (digits 32 8 (nat_of_bytes g))) (chunks 5 bs)"
    using len by (auto simp: b32_group_def)
  then have "concat (map b32_group (chunks 5 bs)) = map ((!) b32_alphabet) (concat (group_digits bs))"
    by (simp only: group_digits_def map_concat map_map comp_def)
  moreover have "length (concat (group_digits bs)) = 8 * k"
    using length_chunks [OF assms] by (simp add: group_digits_def length_concat comp_def sum_list_triv)
  moreover have "(8 * length bs + 4) div 5 = 8 * k" using assms by linarith
  ultimately show ?thesis by (simp add: b32encode_stripped_def)
qed

lemma group_round_trip: "length g = 5 \<Longrightarrow> bytes_of 5 (undigits_of 32 (digits 32 8 (nat_of_bytes g))) = g"
  using nat_of_bytes_less [of g] by (simp add: undigits_of_digits bytes_of_nat_of_bytes)

lemma secret_kept: "(\<And>d. d \<in> set ds \<Longrightarrow> d < 32) \<Longrightarrow>
    sanitize_totp_secret (map ((!) b32_alphabet) ds) = map ((!) b32_alphabet) ds"
  by (induction ds) (auto simp: sanitize_totp_secret_def alphabet_kept)

lemma b32_round_trip:
  assumes "length bs = 5 * k"
  shows "b32decode (sanitize_totp_secret (b32encode_stripped bs)) = Inr bs"
proof -
  let ?ds = "concat (group_digits bs)"
  have small: "d < 32" if "d \<in> set ?ds" for d
    using that by (auto simp: group_digits_def intro: digits_less)
  have len: "length g = 5" if "g \<in> set (chunks 5 bs)" for g
    by (rule chunks_full [OF assms]) (use that in auto)
  have l8: "length ?ds = 8 * k"
    using length_chunks [OF assms] by (simp add: group_digits_def length_concat comp_def sum_list_triv)
  have groups: "chunks 8 ?ds = group_digits bs"
    by (rule chunks_concat) (auto simp: group_digits_def)
  have "all_some (map b32_digit (map ((!) b32_alphabet) ?ds)) = Some ?ds"
    by (rule all_some_map) (simp add: alphabet_digit small)
  moreover have "map (\<lambda>g. bytes_of 5 (undigits_of 32 g)) (group_digits bs) = chunks 5 bs"
    using len by (auto simp: group_digits_def comp_def group_round_trip intro!: map_idI)
  ultimately show ?thesis
    using encode_groups [OF assms] secret_kept [of ?ds] small l8 groups
    by (simp add: b32decode_def concat_chunks)
qed

text \<open>The secret of an authenticator survives its way through the set-up: the base32 text generated
  for it is unchanged by sanitizing, and decoding it gives back the random bytes it was made of.\<close>

theorem totp_secret_round_trip:
  assumes "length uuid1 = 16" "length uuid2 = 16"
  shows "b32decode (sanitize_totp_secret (base32_secret uuid1 uuid2 20)) = Inr (uuid1 @ take 4 uuid2)
    \<and> length (base32_secret uuid1 uuid2 20) = 32"
proof -
  let ?raw = "take 20 (uuid1 @ uuid2)"
  have raw: "?raw = uuid1 @ take 4 uuid2" "length ?raw = 5 * 4" using assms by auto
  have "length (concat (group_digits ?raw)) = 32"
    using length_chunks [OF raw(2)] unfolding group_digits_def length_concat by (simp add: comp_def sum_list_triv)
  then have "length (b32encode_stripped ?raw) = 32"
    unfolding encode_groups [OF raw(2)] by simp
  then show ?thesis using b32_round_trip [OF raw(2)] raw(1) by (simp add: base32_secret_def)
qed

theorem totp_secret_round_trip_witness:
  "b32decode (sanitize_totp_secret (base32_secret (replicate 16 7) (replicate 16 9) 20))
     = Inr (replicate 16 7 @ replicate 4 9)"
  using totp_secret_round_trip [of "replicate 16 7" "replicate 16 9"] by (simp add: take_replicate)

section \<open>A code has six digits\<close>

lemma show_nat_length: "n < 10 ^ Suc k \<Longrightarrow> length (show_nat n) \<le> Suc k"
proof (induction k arbitrary: n)
  case 0
  then show ?case by (subst show_nat.simps) simp
next
  case (Suc k)
  then have "length (show_nat (n div 10)) \<le> Suc k" by simp
  then show ?case by (subst show_nat.simps) simp
qed

lemma truncated_digest:
  assumes "length digest = 20"
  shows "\<exists>b. truncated digest = Inr b \<and> 0 \<le> b"
proof -
  have "unat (last digest AND 0x0F) \<le> unat (0x0F :: 8 word)"
    using word_and_le1 [of "last digest" "0x0F"] by (simp add: word_le_nat_alt)
  then have "unat (last digest AND 0x0F) \<le> 15" by simp
  then show ?thesis using assms by (auto simp: truncated_def Let_def)
qed

text \<open>
  C24: A one-time password has the form it is compared with: for a secret that decodes, a counter of
  64 bits and a digest of twenty bytes it is always computed and consists of exactly six decimal
  digits.
\<close>

theorem hotp_has_six_digits:
  assumes "b32decode (sanitize_totp_secret secret) = Inr key" "0 \<le> counter" "counter < 2 ^ 64"
    and "\<And>k m. length (hmac k m) = 20"
  shows "\<exists>code. hotp hmac secret counter 6 = Inr code \<and> length code = 6 \<and> list_all is_digit_char code"
proof -
  obtain b where b: "truncated (hmac key (bytes_of 8 (nat counter))) = Inr b" "0 \<le> b"
    using truncated_digest [of "hmac key (bytes_of 8 (nat counter))"] assms(4) by blast
  define n where "n = nat (b mod 10 ^ 6)"
  have n: "show_int (b mod 10 ^ 6) = show_nat n" "n < 10 ^ Suc 5"
    by (simp_all add: show_int_def n_def)
  have "hotp hmac secret counter 6 = Inr (zfill 6 (show_nat n))"
    using assms b n by (simp add: hotp_def)
  moreover have "length (zfill 6 (show_nat n)) = 6"
    using show_nat_length [OF n(2)] by (simp add: zfill_def)
  moreover have "list_all is_digit_char (zfill 6 (show_nat n))"
    using digits_show_nat [of n] by (auto simp: zfill_def list_all_iff is_digit_char_def)
  ultimately show ?thesis by blast
qed

theorem hotp_has_six_digits_witness:
  "\<exists>code. hotp (\<lambda>k m. replicate 20 1) (b32encode_stripped (replicate 5 0)) 55555555 6 = Inr code \<and> length code = 6"
  using hotp_has_six_digits [OF b32_round_trip [of "replicate 5 0" 1], of 55555555 "\<lambda>k m. replicate 20 1"] by auto

end
