(* ===== verification/PyNet.thy ===== *)
theory PyNet
  imports PyRe AuthTotp
begin

text \<open>
  The parts of Python's standard library the chat channels use: \<open>ipaddress\<close> (addresses and networks of
  both versions, their parsing and their text, as of Python 3.11) and \<open>urllib.parse.urlparse\<close> with the
  attributes \<open>hostname\<close>, \<open>port\<close>, \<open>username\<close> and \<open>password\<close>. A \<open>ValueError\<close> is \<open>None\<close>.
\<close>

section \<open>Partition\<close>

text \<open>\<open>s.partition(c)\<close> and \<open>s.rpartition(c)\<close>; the middle component tells whether the separator occurs.\<close>

definition partition_at :: "char \<Rightarrow> string \<Rightarrow> string \<times> bool \<times> string" where
  "partition_at c s = (let a = takeWhile (\<lambda>x. x \<noteq> c) s in (a, c \<in> set s, drop (length a + 1) s))"

definition rpartition_at :: "char \<Rightarrow> string \<Rightarrow> string \<times> bool \<times> string" where
  "rpartition_at c s =
     (if c \<in> set s
      then (let b = rev (takeWhile (\<lambda>x. x \<noteq> c) (rev s)) in (take (length s - length b - 1) s, True, b))
      else ([], False, s))"

section \<open>Addresses\<close>

datatype ip = V4 nat | V6 nat "string option"

definition parse_octet :: "string \<Rightarrow> nat option" where
  "parse_octet s =
     (if py_isdigit s \<and> length s \<le> 3 \<and> (s = ''0'' \<or> hd s \<noteq> CHR ''0'') \<and> digits_value s \<le> 255
      then Some (nat (digits_value s)) else None)"

definition ip4_of :: "string \<Rightarrow> nat option" where
  "ip4_of s =
     (let os = split_on (CHR ''.'') s
      in if length os = 4 then map_option (undigits_of 256) (all_some (map parse_octet os)) else None)"

definition hex_digit :: "char \<Rightarrow> nat option" where
  "hex_digit c =
     (let n = (of_char c :: nat)
      in if is_digit_char c then Some (n - 48)
         else if 97 \<le> n \<and> n \<le> 102 then Some (n - 87)
         else if 65 \<le> n \<and> n \<le> 70 then Some (n - 55) else None)"

definition parse_hextet :: "string \<Rightarrow> nat option" where
  "parse_hextet s =
     (if s \<noteq> [] \<and> length s \<le> 4 then map_option (undigits_of 16) (all_some (map hex_digit s)) else None)"

fun show_hex :: "nat \<Rightarrow> string" where
  "show_hex n =
     (if n < 10 then [char_of (48 + n)] else if n < 16 then [char_of (87 + n)]
      else show_hex (n div 16) @ show_hex (n mod 16))"

declare show_hex.simps [simp del]

text \<open>The last part in dotted form is replaced by two hextets.\<close>

definition v6_parts :: "string \<Rightarrow> string list option" where
  "v6_parts s =
     (let ps = split_on (CHR '':'') s
      in if length ps < 3 then None
         else if CHR ''.'' \<in> set (last ps)
         then map_option (\<lambda>n. butlast ps @ [show_hex (n div 65536), show_hex (n mod 65536)]) (ip4_of (last ps))
         else Some ps)"

definition hextets_value :: "string list \<Rightarrow> nat option" where
  "hextets_value hs = map_option (undigits_of 65536) (all_some (map parse_hextet hs))"

definition ip6_of :: "string \<Rightarrow> nat option" where
  "ip6_of s =
     (case v6_parts s of
        None \<Rightarrow> None
      | Some ps \<Rightarrow>
          if 9 < length ps then None
          else (case filter (\<lambda>i. ps ! i = []) [1..<length ps - 1] of
                  [] \<Rightarrow> if length ps = 8 then hextets_value ps else None
                | [skip] \<Rightarrow>
                    (let hi = (if hd ps = [] then skip - 1 else skip);
                         lo = (if last ps = [] then length ps - skip - 2 else length ps - skip - 1)
                     in if (hd ps = [] \<and> hi \<noteq> 0) \<or> (last ps = [] \<and> lo \<noteq> 0) \<or> 8 \<le> hi + lo then None
                        else hextets_value (take hi ps @ replicate (8 - (hi + lo)) ''0'' @ drop (length ps - lo) ps))
                | _ \<Rightarrow> None))"

definition ip6_address :: "string \<Rightarrow> ip option" where
  "ip6_address s =
     (case partition_at (CHR ''%'') s of
        (addr, sep, scope) \<Rightarrow>
          if CHR ''/'' \<in> set s \<or> (sep \<and> (scope = [] \<or> CHR ''%'' \<in> set scope)) then None
          else map_option (\<lambda>n. V6 n (if sep then Some scope else None)) (ip6_of addr))"

definition ip4_address :: "string \<Rightarrow> ip option" where
  "ip4_address s = (if CHR ''/'' \<in> set s then None else map_option V4 (ip4_of s))"

text \<open>\<open>ipaddress.ip_address(s)\<close>\<close>

definition ip_address :: "string \<Rightarrow> ip option" where
  "ip_address s = (case ip4_address s of Some a \<Rightarrow> Some a | None \<Rightarrow> ip6_address s)"

text \<open>\<open>str(address)\<close>: the longest run of at least two zero hextets, the first of them, becomes \<open>::\<close>.\<close>

fun zero_run :: "nat \<Rightarrow> nat \<Rightarrow> nat \<times> nat \<Rightarrow> string list \<Rightarrow> nat \<times> nat" where
  "zero_run i l best [] = best"
| "zero_run i l best (h # hs) =
     (if h = ''0'' then zero_run (i + 1) (l + 1) (if snd best < l + 1 then (i - l, l + 1) else best) hs
      else zero_run (i + 1) 0 best hs)"

definition compress_hextets :: "string list \<Rightarrow> string list" where
  "compress_hextets hs =
     (case zero_run 0 0 (0, 0) hs of
        (s, l) \<Rightarrow>
          if l \<le> 1 then hs
          else (if s = 0 then [[]] else []) @ take s hs @ [[]] @ drop (s + l) hs
               @ (if s + l = length hs then [[]] else []))"

fun ip_str :: "ip \<Rightarrow> string" where
  "ip_str (V4 n) = join_with ''.'' (map show_nat (digits 256 4 n))"
| "ip_str (V6 n scope) =
     join_with '':'' (compress_hextets (map show_hex (digits 65536 8 n)))
     @ (case scope of None \<Rightarrow> [] | Some z \<Rightarrow> CHR ''%'' # z)"

section \<open>Networks\<close>

datatype ip_net = Net4 nat nat | Net6 nat "string option" nat

definition net_part :: "nat \<Rightarrow> nat \<Rightarrow> nat \<Rightarrow> nat" where
  "net_part w p n = n div 2 ^ (w - p) * 2 ^ (w - p)"

definition prefix_len :: "nat \<Rightarrow> string \<Rightarrow> nat option" where
  "prefix_len w s =
     (if py_isdigit s \<and> digits_value s \<le> int w then Some (nat (digits_value s)) else None)"

text \<open>A netmask, or else a host mask, in dotted form.\<close>

definition mask_len :: "string \<Rightarrow> nat option" where
  "mask_len s =
     (case ip4_of s of
        None \<Rightarrow> None
      | Some n \<Rightarrow>
          (case find (\<lambda>p. n = 2 ^ 32 - 2 ^ (32 - p)) [0..<33] of
             Some p \<Rightarrow> Some p
           | None \<Rightarrow> find (\<lambda>p. n = 2 ^ (32 - p) - 1) [0..<33]))"

text \<open>\<open>ipaddress.ip_network(s, strict=False)\<close>\<close>

definition ip4_network :: "string \<Rightarrow> string option \<Rightarrow> ip_net option" where
  "ip4_network addr nm =
     (case ip4_address addr of
        Some (V4 n) \<Rightarrow>
          map_option (\<lambda>p. Net4 (net_part 32 p n) p)
            (case nm of
               None \<Rightarrow> Some 32
             | Some m \<Rightarrow> (case prefix_len 32 m of Some p \<Rightarrow> Some p | None \<Rightarrow> mask_len m))
      | _ \<Rightarrow> None)"

definition ip6_network :: "string \<Rightarrow> string option \<Rightarrow> ip_net option" where
  "ip6_network addr nm =
     (case ip6_address addr of
        Some (V6 n scope) \<Rightarrow>
          map_option (\<lambda>p. Net6 (net_part 128 p n) (if net_part 128 p n = n then scope else None) p)
            (case nm of None \<Rightarrow> Some 128 | Some m \<Rightarrow> prefix_len 128 m)
      | _ \<Rightarrow> None)"

definition ip_network :: "string \<Rightarrow> ip_net option" where
  "ip_network s =
     (case split_on (CHR ''/'') s of
        [a] \<Rightarrow> (case ip4_network a None of Some n \<Rightarrow> Some n | None \<Rightarrow> ip6_network a None)
      | [a, m] \<Rightarrow> (case ip4_network a (Some m) of Some n \<Rightarrow> Some n | None \<Rightarrow> ip6_network a (Some m))
      | _ \<Rightarrow> None)"

fun net_str :: "ip_net \<Rightarrow> string" where
  "net_str (Net4 n p) = ip_str (V4 n) @ ''/'' @ show_nat p"
| "net_str (Net6 n scope p) = ip_str (V6 n scope) @ ''/'' @ show_nat p"

fun in_net :: "ip \<Rightarrow> ip_net \<Rightarrow> bool" where
  "in_net (V4 n) (Net4 m p) = (net_part 32 p n = m)"
| "in_net (V6 n s) (Net6 m t p) = (net_part 128 p n = m)"
| "in_net a b = False"
section \<open>URLs\<close>

record url =
  u_scheme :: string
  u_netloc :: string
  u_path :: string
  u_params :: string
  u_query :: string
  u_fragment :: string

definition is_hex_char :: "char \<Rightarrow> bool" where
  "is_hex_char c = (hex_digit c \<noteq> None)"

definition is_scheme_char :: "char \<Rightarrow> bool" where
  "is_scheme_char c = (is_letter c \<or> is_digit_char c \<or> c \<in> {CHR ''+'', CHR ''-'', CHR ''.''})"

text \<open>A host in brackets is an IPv6 address or has the form \<open>v1.x\<close> of a future version.\<close>

definition bracketed_host_ok :: "string \<Rightarrow> bool" where
  "bracketed_host_ok h =
     (case h of
        CHR ''v'' # r \<Rightarrow>
          (let ds = takeWhile is_hex_char r; t = drop (length ds) r
           in ds \<noteq> [] \<and> 2 \<le> length t \<and> hd t = CHR ''.'' \<and> newline \<notin> set (tl t))
      | _ \<Rightarrow> (case ip_address h of Some (V6 _ _) \<Rightarrow> True | _ \<Rightarrow> False))"

text \<open>The scheme and the rest of a URL: the text up to the first colon, when it is a scheme name.\<close>

definition split_scheme :: "string \<Rightarrow> string \<times> string" where
  "split_scheme s =
     (case partition_at (CHR '':'') s of
        (a, found, b) \<Rightarrow>
          if found \<and> a \<noteq> [] \<and> is_letter (hd a) \<and> list_all is_scheme_char a then (py_lower a, b) else ([], s))"

definition split_netloc :: "string \<Rightarrow> string \<times> string" where
  "split_netloc s =
     (let inside = (\<lambda>c. c \<notin> {CHR ''/'', CHR ''?'', CHR ''#''}) in (takeWhile inside s, dropWhile inside s))"

definition uses_params :: "string list" where
  "uses_params = [[], ''ftp'', ''hdl'', ''prospero'', ''http'', ''https'', ''shttp'', ''rtsp'', ''rtsps'', ''sip'', ''sips'',
                  ''mms'', ''sftp'', ''tel'']"

definition split_params :: "string \<Rightarrow> string \<times> string" where
  "split_params s =
     (let d = (case rpartition_at (CHR ''/'') s of (a, found, b) \<Rightarrow> if found then length a else 0)
      in case partition_at (CHR '';'') (drop d s) of (a, found, b) \<Rightarrow> (take d s @ a, b))"

definition urlparse :: "string \<Rightarrow> url option" where
  "urlparse text_value =
     (let s = filter (\<lambda>c. c \<notin> {CHR 0x09, CHR 0x0A, CHR 0x0D})
                (dropWhile (\<lambda>c. (of_char c :: nat) \<le> 32) text_value)
      in case split_scheme s of
           (scheme, rest) \<Rightarrow>
             (case (if is_prefix_of ''//'' rest then split_netloc (drop 2 rest) else ([], rest)) of
                (netloc, rest) \<Rightarrow>
                  if (CHR ''['' \<in> set netloc) \<noteq> (CHR '']'' \<in> set netloc)
                     \<or> (CHR ''['' \<in> set netloc
                        \<and> \<not> bracketed_host_ok
                             (fst (partition_at (CHR '']'') (snd (snd (partition_at (CHR ''['') netloc))))))
                  then None
                  else (let (rest, _, fragment) = partition_at (CHR ''#'') rest;
                            (path, _, query) = partition_at (CHR ''?'') rest;
                            (path, params) = (if scheme \<in> set uses_params then split_params path else (path, []))
                        in Some \<lparr>u_scheme = scheme, u_netloc = netloc, u_path = path, u_params = params,
                                 u_query = query, u_fragment = fragment\<rparr>)))"

text \<open>Host and port of the network location: \<open>hostname\<close> is \<open>None\<close> when it is empty.\<close>

definition hostinfo :: "url \<Rightarrow> string \<times> string" where
  "hostinfo u =
     (let h = snd (snd (rpartition_at (CHR ''@'') (u_netloc u)))
      in case partition_at (CHR ''['') h of
           (_, open_br, bracketed) \<Rightarrow>
             if open_br
             then (case partition_at (CHR '']'') bracketed of
                     (host, _, r) \<Rightarrow> (host, snd (snd (partition_at (CHR '':'') r))))
             else (case partition_at (CHR '':'') h of (host, _, port) \<Rightarrow> (host, port)))"

definition hostname :: "url \<Rightarrow> string option" where
  "hostname u =
     (let h = fst (hostinfo u)
      in if h = [] then None
         else (case partition_at (CHR ''%'') h of
                 (a, found, zone) \<Rightarrow> Some (py_lower a @ (if found then CHR ''%'' # zone else []))))"

text \<open>\<open>port\<close>: a missing port is \<open>Some None\<close>, one that is no number up to 65535 raises.\<close>

definition port :: "url \<Rightarrow> nat option option" where
  "port u =
     (let p = snd (hostinfo u)
      in if p = [] then Some None
         else if py_isdigit p \<and> digits_value p \<le> 65535 then Some (Some (nat (digits_value p))) else None)"

definition username :: "url \<Rightarrow> string" where
  "username u = fst (partition_at (CHR '':'') (fst (rpartition_at (CHR ''@'') (u_netloc u))))"

definition password :: "url \<Rightarrow> string" where
  "password u = snd (snd (partition_at (CHR '':'') (fst (rpartition_at (CHR ''@'') (u_netloc u)))))"

end
