(* ===== verification/OutboxStore.thy ===== *)
theory OutboxStore
  imports PyDate
begin

text \<open>
  The platform event outbox: the table \<open>public.platform_event_outbox\<close>
  (\<open>backend/core/kernel/events/outbox_models.py\<close>, \<open>outbox_sql.py\<close>), the query helpers
  (\<open>outbox_queries.py\<close>) and the repository operations (\<open>outbox.py\<close>). A repository call
  is one transaction on the table; \<open>now\<close> is the value of \<open>utc_now()\<close> in it.
\<close>

section \<open>Rows\<close>

datatype ob_status = Pending | Retry | Processing | Processed | DeadLetter | Failed

record outbox_row =
  ob_id :: int
  ob_event_type :: string
  ob_payload :: json
  ob_status :: ob_status
  ob_attempts :: int
  ob_last_error :: "string option"
  ob_next_retry_at :: pydatetime
  ob_created_at :: pydatetime
  ob_updated_at :: pydatetime
  ob_processed_at :: "pydatetime option"
  ob_idempotency_key :: "string option"
  ob_locked_at :: "pydatetime option"
  ob_lock_owner :: "string option"
  ob_leased_by :: "string option"
  ob_lease_until :: "pydatetime option"
  ob_last_heartbeat_at :: "pydatetime option"
  ob_started_at :: "pydatetime option"
  ob_finished_at :: "pydatetime option"

record work_item =
  wi_id :: int
  wi_event_type :: string
  wi_payload :: json
  wi_attempts :: int
  wi_lease_until :: "pydatetime option"

text \<open>The table: its rows and the next value of the serial primary key.\<close>

record outbox_db =
  ob_rows :: "outbox_row list"
  ob_next_id :: int

section \<open>Query helpers\<close>

definition before_opt :: "pydatetime option \<Rightarrow> pydatetime \<Rightarrow> bool" where
  "before_opt x t = (case x of None \<Rightarrow> False | Some u \<Rightarrow> u < t)"

definition outbox_eligible_filter :: "pydatetime \<Rightarrow> pydatetime \<Rightarrow> outbox_row \<Rightarrow> bool" where
  "outbox_eligible_filter now stale_before r =
     ((ob_status r = Pending \<or> ob_status r = Retry) \<and> ob_next_retry_at r \<le> now
      \<or> ob_status r = Processing
        \<and> (before_opt (ob_lease_until r) now \<or> before_opt (ob_locked_at r) stale_before))"

definition to_work_item :: "outbox_row \<Rightarrow> work_item" where
  "to_work_item r = \<lparr>wi_id = ob_id r, wi_event_type = ob_event_type r, wi_payload = ob_payload r,
     wi_attempts = ob_attempts r, wi_lease_until = ob_lease_until r\<rparr>"

definition mark_claimed :: "pydatetime \<Rightarrow> string option \<Rightarrow> pydatetime \<Rightarrow> outbox_row \<Rightarrow> outbox_row" where
  "mark_claimed now owner lease_until r = r\<lparr>
     ob_status := Processing,
     ob_locked_at := Some now,
     ob_lock_owner := owner,
     ob_leased_by := owner,
     ob_lease_until := Some lease_until,
     ob_last_heartbeat_at := Some now,
     ob_started_at := (case ob_started_at r of None \<Rightarrow> Some now | Some t \<Rightarrow> Some t),
     ob_updated_at := now\<rparr>"

section \<open>Repository operations\<close>

definition has_key :: "string \<Rightarrow> outbox_row \<Rightarrow> bool" where
  "has_key k r = (ob_idempotency_key r = Some k)"

definition has_id :: "int \<Rightarrow> outbox_row \<Rightarrow> bool" where
  "has_id i r = (ob_id r = i)"

definition ob_get :: "int \<Rightarrow> outbox_db \<Rightarrow> outbox_row option" where
  "ob_get i db = tbl_first (\<lambda>r. ob_id r = i) (ob_rows db)"

definition ob_put :: "int \<Rightarrow> (outbox_row \<Rightarrow> outbox_row) \<Rightarrow> outbox_db \<Rightarrow> outbox_db" where
  "ob_put i f db = db\<lparr>ob_rows := tbl_update (\<lambda>r. ob_id r = i) f (ob_rows db)\<rparr>"

definition new_row :: "pydatetime \<Rightarrow> string \<Rightarrow> json \<Rightarrow> string option \<Rightarrow> int \<Rightarrow> outbox_row" where
  "new_row now et payload key i = \<lparr>ob_id = i, ob_event_type = et, ob_payload = payload,
     ob_status = Pending, ob_attempts = 0, ob_last_error = None, ob_next_retry_at = now,
     ob_created_at = now, ob_updated_at = now, ob_processed_at = None, ob_idempotency_key = key,
     ob_locked_at = None, ob_lock_owner = None, ob_leased_by = None, ob_lease_until = None,
     ob_last_heartbeat_at = None, ob_started_at = None, ob_finished_at = None\<rparr>"

text \<open>
  The unique partial index \<open>ix_platform_event_outbox_idempotency_key_unique\<close>: an INSERT whose
  non-null key is taken fails.
\<close>

definition key_taken :: "string option \<Rightarrow> outbox_db \<Rightarrow> bool" where
  "key_taken key db = (case key of None \<Rightarrow> False | Some k \<Rightarrow> \<exists>r \<in> set (ob_rows db). has_key k r)"

definition ob_insert :: "(int \<Rightarrow> outbox_row) \<Rightarrow> outbox_db \<Rightarrow> outbox_db" where
  "ob_insert mk db = db\<lparr>ob_rows := ob_rows db @ [mk (ob_next_id db)], ob_next_id := ob_next_id db + 1\<rparr>"

text \<open>
  \<open>append\<close> looks the key up, inserts, and on a unique violation looks it up again. Other
  transactions may commit between the lookup and the INSERT (\<open>intf1\<close>) and between the failed
  INSERT and the second lookup (\<open>intf2\<close>).
\<close>

definition append_with :: "(outbox_db \<Rightarrow> outbox_db) \<Rightarrow> (outbox_db \<Rightarrow> outbox_db) \<Rightarrow> pydatetime \<Rightarrow>
    string \<Rightarrow> json \<Rightarrow> string option \<Rightarrow> outbox_db \<Rightarrow> outbox_row res \<times> outbox_db" where
  "append_with intf1 intf2 now event_type payload idempotency_key db =
     (let key = strip_or_none idempotency_key;
          existing = (case key of None \<Rightarrow> None | Some k \<Rightarrow> tbl_first (has_key k) (ob_rows db))
      in case existing of
           Some r \<Rightarrow> (Inr r, db)
         | None \<Rightarrow>
             (let db1 = intf1 db
              in if key_taken key db1
                 then (let db2 = intf2 db1
                       in case (case key of None \<Rightarrow> None | Some k \<Rightarrow> tbl_first (has_key k) (ob_rows db2)) of
                            Some r \<Rightarrow> (Inr r, db2)
                          | None \<Rightarrow> (Inl (IntegrityError ''idempotency_key''), db2))
                 else (Inr (new_row now event_type payload key (ob_next_id db1)),
                       ob_insert (new_row now event_type payload key) db1)))"

definition append_event :: "pydatetime \<Rightarrow> string \<Rightarrow> json \<Rightarrow> string option \<Rightarrow> outbox_db \<Rightarrow>
    outbox_row res \<times> outbox_db" where
  "append_event = append_with (\<lambda>db. db) (\<lambda>db. db)"

text \<open>
  \<open>claim_next_batch\<close>: one transaction, SELECT ... FOR UPDATE SKIP LOCKED and UPDATE. \<open>locked\<close>
  are the row ids other open transactions have locked.
\<close>

definition claim_rows :: "pydatetime \<Rightarrow> nat \<Rightarrow> int \<Rightarrow> (int \<Rightarrow> bool) \<Rightarrow> outbox_db \<Rightarrow> outbox_row list" where
  "claim_rows now limit stale_lock_after_sec locked db =
     take limit
       (sort_key ob_id
          (filter (\<lambda>r. outbox_eligible_filter now (now - seconds (max 1 stale_lock_after_sec)) r
                       \<and> \<not> locked (ob_id r)) (ob_rows db)))"

definition claim_next_batch :: "pydatetime \<Rightarrow> nat \<Rightarrow> int \<Rightarrow> int \<Rightarrow> string option \<Rightarrow> (int \<Rightarrow> bool) \<Rightarrow>
    outbox_db \<Rightarrow> work_item list \<times> outbox_db" where
  "claim_next_batch now limit stale_lock_after_sec lease_seconds lock_owner locked db =
     (let lease_until = now + seconds (max 1 lease_seconds);
          owner = strip_or_none lock_owner;
          rows = claim_rows now limit stale_lock_after_sec locked db
      in (map to_work_item rows,
          db\<lparr>ob_rows := tbl_update (\<lambda>r. ob_id r \<in> set (map ob_id rows))
                          (mark_claimed now owner lease_until) (ob_rows db)\<rparr>))"

definition heartbeat :: "pydatetime \<Rightarrow> int \<Rightarrow> string option \<Rightarrow> int \<Rightarrow> outbox_db \<Rightarrow> outbox_db" where
  "heartbeat now event_id lock_owner lease_seconds db =
     (case ob_get event_id db of
        None \<Rightarrow> db
      | Some row \<Rightarrow>
          if ob_status row \<noteq> Processing then db
          else (let owner = strip_or_none lock_owner
                in if owner \<noteq> None \<and> ob_leased_by row \<notin> {None, Some []} \<and> ob_leased_by row \<noteq> owner then db
                   else ob_put event_id
                          (\<lambda>r. r\<lparr>ob_last_heartbeat_at := Some now,
                                 ob_lease_until := Some (now + seconds (max 1 lease_seconds)),
                                 ob_updated_at := now\<rparr>) db))"

definition processed_row :: "pydatetime \<Rightarrow> outbox_row \<Rightarrow> outbox_row" where
  "processed_row now r = r\<lparr>
     ob_status := Processed, ob_processed_at := Some now, ob_finished_at := Some now,
     ob_updated_at := now, ob_last_error := None, ob_locked_at := None, ob_lock_owner := None,
     ob_leased_by := None, ob_lease_until := None\<rparr>"

definition mark_processed :: "pydatetime \<Rightarrow> int \<Rightarrow> outbox_db \<Rightarrow> outbox_db" where
  "mark_processed now event_id db =
     (case ob_get event_id db of None \<Rightarrow> db | Some _ \<Rightarrow> ob_put event_id (processed_row now) db)"

definition failed_row :: "pydatetime \<Rightarrow> string \<Rightarrow> int \<Rightarrow> int \<Rightarrow> outbox_row \<Rightarrow> outbox_row" where
  "failed_row now err max_attempts retry_delay_seconds r =
     (let attempts = ob_attempts r + 1;
          r1 = r\<lparr>ob_attempts := attempts, ob_last_error := Some (take 4000 err), ob_updated_at := now,
                 ob_locked_at := None, ob_lock_owner := None, ob_leased_by := None, ob_lease_until := None\<rparr>
      in if max_attempts \<le> attempts
         then r1\<lparr>ob_status := DeadLetter, ob_finished_at := Some now\<rparr>
         else r1\<lparr>ob_status := Retry,
                 ob_next_retry_at := now + seconds (max 1 retry_delay_seconds * attempts)\<rparr>)"

definition mark_failed :: "pydatetime \<Rightarrow> int \<Rightarrow> string \<Rightarrow> int \<Rightarrow> int \<Rightarrow> outbox_db \<Rightarrow> outbox_db" where
  "mark_failed now event_id err max_attempts retry_delay_seconds db =
     (case ob_get event_id db of
        None \<Rightarrow> db
      | Some _ \<Rightarrow> ob_put event_id (failed_row now err max_attempts retry_delay_seconds) db)"

definition dead_row :: "pydatetime \<Rightarrow> string \<Rightarrow> outbox_row \<Rightarrow> outbox_row" where
  "dead_row now err r = r\<lparr>
     ob_attempts := ob_attempts r + 1, ob_last_error := Some (take 4000 err), ob_status := DeadLetter,
     ob_updated_at := now, ob_finished_at := Some now, ob_locked_at := None, ob_lock_owner := None,
     ob_leased_by := None, ob_lease_until := None\<rparr>"

definition dead_letter :: "pydatetime \<Rightarrow> int \<Rightarrow> string \<Rightarrow> outbox_db \<Rightarrow> outbox_db" where
  "dead_letter now event_id err db =
     (case ob_get event_id db of None \<Rightarrow> db | Some _ \<Rightarrow> ob_put event_id (dead_row now err) db)"

text \<open>The short names of the repository: \<open>claim\<close>, \<open>ack\<close>, \<open>fail\<close>, \<open>retry\<close>.\<close>

definition ob_claim :: "pydatetime \<Rightarrow> nat \<Rightarrow> int \<Rightarrow> int \<Rightarrow> string option \<Rightarrow> (int \<Rightarrow> bool) \<Rightarrow>
    outbox_db \<Rightarrow> work_item list \<times> outbox_db" where
  "ob_claim = claim_next_batch"

definition ob_ack :: "pydatetime \<Rightarrow> int \<Rightarrow> outbox_db \<Rightarrow> outbox_db" where
  "ob_ack = mark_processed"

definition ob_fail :: "pydatetime \<Rightarrow> int \<Rightarrow> string \<Rightarrow> int \<Rightarrow> int \<Rightarrow> outbox_db \<Rightarrow> outbox_db" where
  "ob_fail = mark_failed"

definition ob_retry :: "pydatetime \<Rightarrow> int \<Rightarrow> string \<Rightarrow> int \<Rightarrow> outbox_db \<Rightarrow> outbox_db" where
  "ob_retry now event_id err retry_delay_seconds db = mark_failed now event_id err (10 ^ 9) retry_delay_seconds db"

definition in_backlog :: "outbox_row \<Rightarrow> bool" where
  "in_backlog r = (ob_status r = Pending \<or> ob_status r = Retry \<or> ob_status r = Processing)"

definition backlog_size :: "outbox_db \<Rightarrow> int" where
  "backlog_size db = int (tbl_count in_backlog (ob_rows db))"

text \<open>\<open>IdempotencyService.publish_once\<close>\<close>

definition publish_once :: "pydatetime \<Rightarrow> string \<Rightarrow> json \<Rightarrow> string \<Rightarrow> outbox_db \<Rightarrow> outbox_row res \<times> outbox_db" where
  "publish_once now event_type payload idempotency_key db =
     (let key = py_strip idempotency_key
      in if key = [] then (Inl (ValueError ''idempotency_key is required''), db)
         else append_event now event_type payload (Some key) db)"

section \<open>Queue snapshot\<close>

record queue_snapshot =
  qs_by_status :: "(ob_status \<times> int) list"
  qs_pending_jobs :: int
  qs_running_jobs :: int
  qs_failed_jobs :: int
  qs_dead_letter_jobs :: int
  qs_oldest_pending_age :: int
  qs_stuck_leases :: int
  qs_average_attempts :: "int \<times> int"
  qs_worker_heartbeat_at :: "pydatetime option"
  qs_worker_heartbeat_age :: "int option"

definition all_statuses :: "ob_status list" where
  "all_statuses = [Pending, Retry, Processing, Processed, DeadLetter, Failed]"

text \<open>\<open>GROUP BY status\<close>: one row per status that occurs.\<close>

definition status_rows :: "outbox_db \<Rightarrow> (ob_status \<times> int) list" where
  "status_rows db =
     map (\<lambda>st. (st, int (tbl_count (\<lambda>r. ob_status r = st) (ob_rows db))))
       (filter (\<lambda>st. \<exists>r \<in> set (ob_rows db). ob_status r = st) all_statuses)"

fun status_count :: "(ob_status \<times> int) list \<Rightarrow> ob_status \<Rightarrow> int" where
  "status_count [] name = 0"
| "status_count ((st, n) # rows) name = (if st = name then n else status_count rows name)"

text \<open>\<open>func.min\<close> and \<open>func.max\<close>: NULL (\<open>None\<close>) on no rows.\<close>

definition sql_min :: "int list \<Rightarrow> int option" where
  "sql_min xs = (if xs = [] then None else Some (foldr min xs (hd xs)))"

definition sql_max :: "int list \<Rightarrow> int option" where
  "sql_max xs = (if xs = [] then None else Some (foldr max xs (hd xs)))"

text \<open>Ages are in microseconds, the average as (sum, number of rows), \<open>(0, 1)\<close> for no rows.\<close>

definition queue_snapshot_of :: "pydatetime \<Rightarrow> outbox_db \<Rightarrow> queue_snapshot" where
  "queue_snapshot_of now db =
     (let sr = status_rows db;
          oldest = sql_min (map ob_created_at
             (filter (\<lambda>r. ob_status r = Pending \<or> ob_status r = Retry) (ob_rows db)));
          stuck = tbl_count (\<lambda>r. ob_status r = Processing \<and> before_opt (ob_lease_until r) now) (ob_rows db);
          latest = sql_max (map the (filter (\<lambda>h. h \<noteq> None)
             (map ob_last_heartbeat_at (filter (\<lambda>r. ob_status r = Processing) (ob_rows db)))))
      in \<lparr>qs_by_status = sr,
          qs_pending_jobs = status_count sr Pending + status_count sr Retry,
          qs_running_jobs = status_count sr Processing,
          qs_failed_jobs = status_count sr Failed,
          qs_dead_letter_jobs = status_count sr DeadLetter,
          qs_oldest_pending_age = (case oldest of None \<Rightarrow> 0 | Some t \<Rightarrow> max 0 (now - t)),
          qs_stuck_leases = int stuck,
          qs_average_attempts = (if ob_rows db = [] then (0, 1)
             else (sum_list (map ob_attempts (ob_rows db)), int (length (ob_rows db)))),
          qs_worker_heartbeat_at = latest,
          qs_worker_heartbeat_age = map_option (\<lambda>t. max 0 (now - t)) latest\<rparr>)"

end
