(* ===== verification/Interfaces.thy ===== *)
theory Interfaces
  imports Prelude
begin

text \<open>
  The contracts the components rely on, as locales: a table with a serial primary key
  (\<open>keyed_table\<close>), a store that keeps one row per idempotency key (\<open>once_store\<close>) and a
  queue that hands out leases (\<open>lease_queue\<close>). Each is interpreted on the model of the
  component that provides it: the outbox table, the invoice, payment-event and cancellation
  tables of the billing application, the outbox queue.
\<close>

section \<open>A table with a serial primary key\<close>

locale keyed_table =
  fixes rows :: "'d \<Rightarrow> 'r list"
    and ident :: "'r \<Rightarrow> int"
    and next_id :: "'d \<Rightarrow> int"
    and put :: "int \<Rightarrow> ('r \<Rightarrow> 'r) \<Rightarrow> 'd \<Rightarrow> 'd"
    and ins :: "(int \<Rightarrow> 'r) \<Rightarrow> 'd \<Rightarrow> 'd"
  assumes rows_put: "rows (put i f d) = tbl_update (\<lambda>r. ident r = i) f (rows d)"
    and next_put: "next_id (put i f d) = next_id d"
    and rows_ins: "rows (ins mk d) = rows d @ [mk (next_id d)]"
    and next_ins: "next_id (ins mk d) = next_id d + 1"
begin

definition get :: "int \<Rightarrow> 'd \<Rightarrow> 'r option" where
  "get i d = tbl_first (\<lambda>r. ident r = i) (rows d)"

definition wf :: "'d \<Rightarrow> bool" where
  "wf d = (distinct (map ident (rows d)) \<and> (\<forall>r \<in> set (rows d). ident r < next_id d))"

lemma wf_put: "wf d \<Longrightarrow> (\<And>r. ident (f r) = ident r) \<Longrightarrow> wf (put i f d)"
  by (auto simp: wf_def rows_put next_put map_tbl_update set_tbl_update)

lemma wf_ins: "wf d \<Longrightarrow> ident (mk (next_id d)) = next_id d \<Longrightarrow> wf (ins mk d)"
  by (force simp: wf_def rows_ins next_ins)

lemma get_put_same: "(\<And>r. ident (f r) = ident r) \<Longrightarrow> get i (put i f d) = map_option f (get i d)"
  unfolding get_def rows_put by (rule tbl_first_update_same)

lemma get_put_other: "(\<And>r. ident (f r) = ident r) \<Longrightarrow> i \<noteq> j \<Longrightarrow> get j (put i f d) = get j d"
  unfolding get_def rows_put by (rule tbl_first_update_other)

lemma get_Some: "get i d = Some r \<Longrightarrow> r \<in> set (rows d) \<and> ident r = i"
  unfolding get_def by (drule tbl_first_Some) simp

lemma get_member: "wf d \<Longrightarrow> r \<in> set (rows d) \<Longrightarrow> get (ident r) d = Some r"
  unfolding get_def wf_def by (rule tbl_first_unique) simp_all

lemma get_ins_old: "get i d = Some r \<Longrightarrow> get i (ins mk d) = Some r"
  by (simp add: get_def rows_ins tbl_first_append)

lemma get_ins_new:
  assumes "wf d" "ident (mk (next_id d)) = next_id d"
  shows "get (next_id d) (ins mk d) = Some (mk (next_id d))"
proof -
  have "wf (ins mk d)" using assms by (rule wf_ins)
  then have "get (ident (mk (next_id d))) (ins mk d) = Some (mk (next_id d))"
    by (rule get_member) (simp add: rows_ins)
  then show ?thesis by (simp only: assms(2))
qed

lemma member_unique: "wf d \<Longrightarrow> r \<in> set (rows d) \<Longrightarrow> r' \<in> set (rows d) \<Longrightarrow> ident r = ident r' \<Longrightarrow> r = r'"
  using get_member [of d r] get_member [of d r'] by (metis option.inject)

end

section \<open>A store with one row per idempotency key\<close>

text \<open>
  \<open>add k x s\<close> stores request \<open>x\<close> under key \<open>k\<close> unless the key is taken and returns the row
  of the key and whether it is new; \<open>ok\<close> are the normalised keys.
\<close>

locale once_store =
  fixes add :: "'k \<Rightarrow> 'x \<Rightarrow> 's \<Rightarrow> ('r \<times> bool) \<times> 's"
    and find_key :: "'k \<Rightarrow> 's \<Rightarrow> 'r option"
    and size_of :: "'s \<Rightarrow> nat"
    and ok :: "'k \<Rightarrow> bool"
  assumes add_hit: "ok k \<Longrightarrow> find_key k s = Some r \<Longrightarrow> add k x s = ((r, False), s)"
    and add_miss: "ok k \<Longrightarrow> find_key k s = None \<Longrightarrow> add k x s = ((r, b), s') \<Longrightarrow>
      b \<and> find_key k s' = Some r \<and> size_of s' = Suc (size_of s)"
    and add_other: "ok k \<Longrightarrow> ok j \<Longrightarrow> k \<noteq> j \<Longrightarrow> find_key j (snd (add k x s)) = find_key j s"
begin

fun run :: "('k \<times> 'x) list \<Rightarrow> 's \<Rightarrow> ('r \<times> bool) list \<times> 's" where
  "run [] s = ([], s)"
| "run ((k, x) # qs) s = (let (o1, s1) = add k x s; (os, s2) = run qs s1 in (o1 # os, s2))"

definition all_ok :: "('k \<times> 'x) list \<Rightarrow> bool" where
  "all_ok qs = (\<forall>q \<in> set qs. ok (fst q))"

lemma all_ok_simps [simp]: "all_ok []" "all_ok ((k, x) # qs) = (ok k \<and> all_ok qs)"
  by (simp_all add: all_ok_def)

lemma add_cases:
  assumes "ok k"
  obtains (hit) r where "find_key k s = Some r" "add k x s = ((r, False), s)"
  | (miss) r s' where "find_key k s = None" "add k x s = ((r, True), s')"
      "find_key k s' = Some r" "size_of s' = Suc (size_of s)"
proof (cases "find_key k s")
  case None
  obtain r b s' where e: "add k x s = ((r, b), s')" by (metis surj_pair)
  with add_miss [OF assms None e] None that(2) show ?thesis by simp
next
  case (Some r)
  with add_hit [OF assms] that(1) show ?thesis by blast
qed

lemma find_after: "ok k \<Longrightarrow> find_key k (snd (add k x s)) = Some (fst (fst (add k x s)))"
  by (rule add_cases [of k s x]) simp_all

lemma found_stays: "ok k \<Longrightarrow> ok j \<Longrightarrow> find_key j s = Some r \<Longrightarrow> find_key j (snd (add k x s)) = Some r"
  by (cases "k = j") (simp_all add: add_hit add_other)

lemma again: "ok k \<Longrightarrow> add k y (snd (add k x s)) = ((fst (fst (add k x s)), False), snd (add k x s))"
  by (rule add_hit [OF _ find_after])

lemma run_keeps: "all_ok qs \<Longrightarrow> ok j \<Longrightarrow> find_key j s = Some r \<Longrightarrow> find_key j (snd (run qs s)) = Some r"
proof (induction qs arbitrary: s)
  case Nil
  then show ?case by simp
next
  case (Cons q qs)
  obtain k x where q: "q = (k, x)" by force
  have "find_key j (snd (add k x s)) = Some r" by (rule found_stays) (use Cons.prems q in auto)
  then show ?case using Cons.IH [of "snd (add k x s)"] Cons.prems by (simp add: q split_def Let_def)
qed

text \<open>Every request of a run gets the row its key has at the end of the run.\<close>

lemma run_result:
  "all_ok qs \<Longrightarrow> i < length qs \<Longrightarrow>
   find_key (fst (qs ! i)) (snd (run qs s)) = Some (fst (fst (run qs s) ! i))"
proof (induction qs arbitrary: s i)
  case Nil
  then show ?case by simp
next
  case (Cons q qs)
  obtain k x where q: "q = (k, x)" by force
  have ok: "ok k" "all_ok qs" using Cons.prems q by auto
  show ?case
  proof (cases i)
    case 0
    then show ?thesis using run_keeps [OF ok(2,1) find_after [OF ok(1), of x s]] by (simp add: q split_def Let_def)
  next
    case (Suc j)
    then show ?thesis using Cons.IH [OF ok(2), of j "snd (add k x s)"] Cons.prems by (simp add: q split_def Let_def)
  qed
qed

lemma length_run: "length (fst (run qs s)) = length qs"
  by (induction qs arbitrary: s) (auto simp: split_def Let_def)

text \<open>The number of new rows is the number of answers that say so.\<close>

lemma run_count: "all_ok qs \<Longrightarrow> size_of (snd (run qs s)) = size_of s + length (filter snd (fst (run qs s)))"
proof (induction qs arbitrary: s)
  case Nil
  then show ?case by simp
next
  case (Cons q qs)
  obtain k x where q: "q = (k, x)" by force
  have ok: "ok k" "all_ok qs" using Cons.prems q by auto
  show ?case
    by (rule add_cases [OF ok(1), of s x]) (simp_all add: q split_def Let_def Cons.IH [OF ok(2)])
qed

text \<open>Redelivering one request any number of times adds at most one row.\<close>

lemma run_replicate_again:
  "ok k \<Longrightarrow> run (replicate n (k, x)) (snd (add k x s)) =
     (replicate n (fst (fst (add k x s)), False), snd (add k x s))"
  by (induction n) (simp_all add: again)

end

section \<open>A queue of leases\<close>

text \<open>
  \<open>claim t p d\<close> leases some ids at time \<open>t\<close>; \<open>free t d i\<close> says that \<open>i\<close> could be leased
  at \<open>t\<close>; a lease holds for \<open>hold p\<close>.
\<close>

locale lease_queue =
  fixes claim :: "int \<Rightarrow> 'p \<Rightarrow> 'd \<Rightarrow> int list \<times> 'd"
    and free :: "int \<Rightarrow> 'd \<Rightarrow> int \<Rightarrow> bool"
    and hold :: "'p \<Rightarrow> int"
    and inv :: "'d \<Rightarrow> bool"
  assumes claim_free: "inv d \<Longrightarrow> i \<in> set (fst (claim t p d)) \<Longrightarrow> free t d i"
    and claim_holds: "inv d \<Longrightarrow> i \<in> set (fst (claim t p d)) \<Longrightarrow> u \<le> t + hold p \<Longrightarrow>
      \<not> free u (snd (claim t p d)) i"
    and claim_frame: "inv d \<Longrightarrow> i \<notin> set (fst (claim t p d)) \<Longrightarrow>
      free u (snd (claim t p d)) i = free u d i"
    and claim_inv: "inv d \<Longrightarrow> inv (snd (claim t p d))"
begin

fun claims :: "(int \<times> 'p) list \<Rightarrow> 'd \<Rightarrow> int list list \<times> 'd" where
  "claims [] d = ([], d)"
| "claims ((t, p) # cs) d = (let (ids, d1) = claim t p d; (idss, d2) = claims cs d1 in (ids # idss, d2))"

lemma not_free_later:
  assumes "inv d" "\<And>u. u \<le> T \<Longrightarrow> \<not> free u d i" "\<And>t p. (t, p) \<in> set cs \<Longrightarrow> t \<le> T"
  shows "\<forall>ids \<in> set (fst (claims cs d)). i \<notin> set ids"
  using assms
proof (induction cs arbitrary: d)
  case Nil
  then show ?case by simp
next
  case (Cons c cs)
  obtain t p where c: "c = (t, p)" by force
  have t: "t \<le> T" by (rule Cons.prems(3) [of t p]) (simp add: c)
  have out: "i \<notin> set (fst (claim t p d))"
    using claim_free [OF Cons.prems(1)] Cons.prems(2) [OF t] by blast
  have "\<forall>ids \<in> set (fst (claims cs (snd (claim t p d)))). i \<notin> set ids"
  proof (rule Cons.IH)
    show "inv (snd (claim t p d))" by (rule claim_inv [OF Cons.prems(1)])
    show "\<And>u. u \<le> T \<Longrightarrow> \<not> free u (snd (claim t p d)) i"
      using claim_frame [OF Cons.prems(1) out] Cons.prems(2) by simp
    show "\<And>t p. (t, p) \<in> set cs \<Longrightarrow> t \<le> T" using Cons.prems(3) by (meson list.set_intros(2))
  qed
  then show ?case using out by (simp add: c split_def Let_def)
qed

text \<open>No id is handed out twice while the first lease holds.\<close>

lemma exclusive:
  assumes "inv d" "\<And>u q. (u, q) \<in> set cs \<Longrightarrow> u \<le> t + hold p"
    "i \<in> set (fst (claim t p d))"
  shows "\<forall>ids \<in> set (fst (claims cs (snd (claim t p d)))). i \<notin> set ids"
  by (rule not_free_later [OF claim_inv [OF assms(1)]]) (use claim_holds [OF assms(1,3)] assms(2) in auto)

end

end
