(* ===== verification/OutboxFacts.thy ===== *)
theory OutboxFacts
  imports OutboxStore Interfaces
begin

text \<open>
  Lemmas and properties of the outbox repository: the row invariant and its preservation by
  every operation, uniqueness of idempotency keys under concurrent inserts, soundness and
  exclusiveness of claims, what a heartbeat does and does not protect, the retry schedule.
\<close>

section \<open>The outbox table as a keyed table\<close>

interpretation obt: keyed_table ob_rows ob_id ob_next_id ob_put ob_insert
  by unfold_locales (simp_all add: ob_put_def ob_insert_def)

lemma ob_get_eq: "ob_get i db = obt.get i db"
  by (simp add: ob_get_def obt.get_def)

section \<open>Invariant\<close>

definition row_ok :: "outbox_row \<Rightarrow> bool" where
  "row_ok r =
     (0 \<le> ob_attempts r
      \<and> (ob_status r = Processing \<longrightarrow>
           ob_locked_at r \<noteq> None \<and> ob_lease_until r \<noteq> None \<and> ob_started_at r \<noteq> None)
      \<and> (ob_status r \<noteq> Processing \<longrightarrow>
           ob_locked_at r = None \<and> ob_lock_owner r = None \<and> ob_leased_by r = None \<and> ob_lease_until r = None)
      \<and> (ob_status r = Processed \<longrightarrow> ob_processed_at r \<noteq> None)
      \<and> (ob_status r = Processed \<or> ob_status r = DeadLetter \<longrightarrow> ob_finished_at r \<noteq> None)
      \<and> (ob_status r = Retry \<or> ob_status r = DeadLetter \<longrightarrow> 1 \<le> ob_attempts r)
      \<and> ob_status r \<noteq> Failed
      \<and> ob_lock_owner r = ob_leased_by r
      \<and> ob_idempotency_key r \<noteq> Some [])"

definition keys_unique :: "outbox_db \<Rightarrow> bool" where
  "keys_unique db = (\<forall>r \<in> set (ob_rows db). \<forall>r' \<in> set (ob_rows db). \<forall>k.
     has_key k r \<longrightarrow> has_key k r' \<longrightarrow> ob_id r = ob_id r')"

definition ob_inv :: "outbox_db \<Rightarrow> bool" where
  "ob_inv db = (obt.wf db \<and> keys_unique db \<and> (\<forall>r \<in> set (ob_rows db). row_ok r))"

definition keeps_row :: "(outbox_row \<Rightarrow> outbox_row) \<Rightarrow> bool" where
  "keeps_row f = (\<forall>r. ob_id (f r) = ob_id r \<and> ob_idempotency_key (f r) = ob_idempotency_key r
     \<and> (row_ok r \<longrightarrow> row_ok (f r)))"

lemma keeps_rowD:
  "keeps_row f \<Longrightarrow> ob_id (f r) = ob_id r" "keeps_row f \<Longrightarrow> has_key k (f r) = has_key k r"
  "keeps_row f \<Longrightarrow> row_ok r \<Longrightarrow> row_ok (f r)"
  by (simp_all add: keeps_row_def has_key_def)

lemma inv_update:
  assumes "ob_inv db" "keeps_row f"
  shows "ob_inv (db\<lparr>ob_rows := tbl_update p f (ob_rows db)\<rparr>)"
proof -
  have "map ob_id (tbl_update p f (ob_rows db)) = map ob_id (ob_rows db)"
    by (rule map_tbl_update) (simp add: keeps_rowD [OF assms(2)])
  moreover have "\<forall>r \<in> set (tbl_update p f (ob_rows db)). ob_id r < ob_next_id db \<and> row_ok r"
    using assms keeps_rowD [OF assms(2)] by (auto simp: ob_inv_def obt.wf_def set_tbl_update)
  moreover have "keys_unique (db\<lparr>ob_rows := tbl_update p f (ob_rows db)\<rparr>)"
  proof -
    have orig: "\<exists>r0 \<in> set (ob_rows db). ob_id r = ob_id r0 \<and> (\<forall>k. has_key k r = has_key k r0)"
      if "r \<in> set (tbl_update p f (ob_rows db))" for r
    proof -
      from that obtain r0 where r0: "r0 \<in> set (ob_rows db)" "r = (if p r0 then f r0 else r0)"
        by (rule tbl_updateE)
      then have "ob_id r = ob_id r0 \<and> (\<forall>k. has_key k r = has_key k r0)"
        using keeps_rowD(1,2) [OF assms(2)] by simp
      then show ?thesis using r0(1) by blast
    qed
    show ?thesis
      unfolding keys_unique_def
    proof (intro ballI allI impI)
      fix r r' k
      assume r': "r \<in> set (ob_rows (db\<lparr>ob_rows := tbl_update p f (ob_rows db)\<rparr>))"
        "r' \<in> set (ob_rows (db\<lparr>ob_rows := tbl_update p f (ob_rows db)\<rparr>))"
        and k: "has_key k r" "has_key k r'"
      have r: "r \<in> set (tbl_update p f (ob_rows db))" "r' \<in> set (tbl_update p f (ob_rows db))"
        using r' by simp_all
      obtain a where a: "a \<in> set (ob_rows db)" "ob_id r = ob_id a" "has_key k r = has_key k a"
        using orig [OF r(1)] by blast
      obtain b where b: "b \<in> set (ob_rows db)" "ob_id r' = ob_id b" "has_key k r' = has_key k b"
        using orig [OF r(2)] by blast
      have "keys_unique db" using assms(1) by (simp add: ob_inv_def)
      then have "ob_id a = ob_id b" unfolding keys_unique_def using a b k by blast
      then show "ob_id r = ob_id r'" using a(2) b(2) by simp
    qed
  qed
  ultimately show ?thesis using assms(1) by (simp add: ob_inv_def obt.wf_def)
qed

lemma inv_put: "ob_inv db \<Longrightarrow> keeps_row f \<Longrightarrow> ob_inv (ob_put i f db)"
  unfolding ob_put_def by (rule inv_update)

lemma keeps_claimed: "keeps_row (mark_claimed now owner lease)"
  by (auto simp: keeps_row_def mark_claimed_def row_ok_def split: option.splits)

lemma keeps_processed: "keeps_row (processed_row now)"
  by (auto simp: keeps_row_def processed_row_def row_ok_def)

lemma keeps_failed: "keeps_row (failed_row now err m d)"
  by (auto simp: keeps_row_def failed_row_def row_ok_def Let_def)

lemma keeps_dead: "keeps_row (dead_row now err)"
  by (auto simp: keeps_row_def dead_row_def row_ok_def)

lemmas keeps_rows = keeps_claimed keeps_processed keeps_failed keeps_dead

lemma inv_claim: "ob_inv db \<Longrightarrow> ob_inv (snd (claim_next_batch now n s l own lk db))"
  by (simp add: claim_next_batch_def Let_def inv_update keeps_claimed)

lemma inv_mark_processed: "ob_inv db \<Longrightarrow> ob_inv (mark_processed now i db)"
  by (simp add: mark_processed_def inv_put keeps_processed split: option.splits)

lemma inv_mark_failed: "ob_inv db \<Longrightarrow> ob_inv (mark_failed now i err m d db)"
  by (simp add: mark_failed_def inv_put keeps_failed split: option.splits)

lemma inv_dead_letter: "ob_inv db \<Longrightarrow> ob_inv (dead_letter now i err db)"
  by (simp add: dead_letter_def inv_put keeps_dead split: option.splits)

text \<open>
  A heartbeat writes the lease of a row that is being processed, so it keeps the invariant of
  that row only; every row with its id is that row.
\<close>

definition beat_row :: "pydatetime \<Rightarrow> int \<Rightarrow> outbox_row \<Rightarrow> outbox_row" where
  "beat_row now l r = r\<lparr>ob_last_heartbeat_at := Some now,
     ob_lease_until := Some (now + seconds (max 1 l)), ob_updated_at := now\<rparr>"

lemma heartbeat_cases:
  obtains (same) "heartbeat now i own l db = db"
  | (beat) row where "ob_get i db = Some row" "ob_status row = Processing"
      "strip_or_none own = None \<or> ob_leased_by row = None \<or> ob_leased_by row = Some [] \<or> ob_leased_by row = strip_or_none own"
      "heartbeat now i own l db = ob_put i (beat_row now l) db"
proof (cases "ob_get i db")
  case None
  then show ?thesis using same by (simp add: heartbeat_def)
next
  case (Some row)
  let ?own = "strip_or_none own"
  show ?thesis
  proof (cases "ob_status row = Processing \<and> \<not> (?own \<noteq> None \<and> ob_leased_by row \<notin> {None, Some []} \<and> ob_leased_by row \<noteq> ?own)")
    case True
    then have "heartbeat now i own l db = ob_put i (beat_row now l) db"
      using Some unfolding heartbeat_def Let_def beat_row_def [abs_def] by (simp only: option.case) auto
    then show ?thesis using beat [OF Some] True by blast
  next
    case False
    then have "heartbeat now i own l db = db" using Some by (auto simp: heartbeat_def Let_def)
    then show ?thesis by (rule same)
  qed
qed

lemma inv_heartbeat:
  assumes inv: "ob_inv db"
  shows "ob_inv (heartbeat now i own l db)"
proof (rule heartbeat_cases [of now i own l db])
  assume "heartbeat now i own l db = db"
  then show ?thesis using inv by simp
next
  fix row
  assume row: "ob_get i db = Some row" "ob_status row = Processing"
    and eq: "heartbeat now i own l db = ob_put i (beat_row now l) db"
  define g where "g r = (if ob_status r = Processing then beat_row now l r else r)" for r
  have g: "keeps_row g" by (auto simp: keeps_row_def g_def beat_row_def row_ok_def)
  have "r = row" if "r \<in> set (ob_rows db)" "ob_id r = i" for r
    using obt.get_member [of db r] that inv row(1) by (simp add: ob_get_eq ob_inv_def)
  then have "tbl_update (\<lambda>r. ob_id r = i) (beat_row now l) (ob_rows db) = tbl_update (\<lambda>r. ob_id r = i) g (ob_rows db)"
    using row(2) by (auto simp: tbl_update_def g_def)
  then have "ob_put i (beat_row now l) db = ob_put i g db" by (simp add: ob_put_def)
  then show ?thesis using eq inv_put [OF inv g] by simp
qed

lemma key_taken_iff: "key_taken (Some k) db \<longleftrightarrow> (\<exists>r. tbl_first (has_key k) (ob_rows db) = Some r)"
  by (simp add: key_taken_def tbl_first_exists)

lemma inv_insert:
  assumes "ob_inv db" "\<not> key_taken key db" "key \<noteq> Some []"
  shows "ob_inv (ob_insert (new_row now et p key) db)"
proof -
  have "obt.wf (ob_insert (new_row now et p key) db)"
    using assms(1) by (intro obt.wf_ins) (simp_all add: ob_inv_def new_row_def)
  moreover have "row_ok (new_row now et p key (ob_next_id db))"
    using assms(3) by (simp add: row_ok_def new_row_def)
  moreover have "keys_unique (ob_insert (new_row now et p key) db)"
  proof -
    have "\<not> has_key k r" if "key = Some k" "r \<in> set (ob_rows db)" for k r
      using assms(2) that by (auto simp: key_taken_def)
    moreover have "has_key k (new_row now et p key i) \<longleftrightarrow> key = Some k" for k i
      by (simp add: has_key_def new_row_def)
    ultimately show ?thesis using assms(1)
      unfolding keys_unique_def ob_inv_def obt.rows_ins set_append list.set by blast
  qed
  ultimately show ?thesis using assms(1) by (auto simp: ob_inv_def obt.rows_ins)
qed

lemma inv_append_with:
  assumes inv: "ob_inv db" and intf: "\<And>d. ob_inv d \<Longrightarrow> ob_inv (intf1 d)" "\<And>d. ob_inv d \<Longrightarrow> ob_inv (intf2 d)"
  shows "ob_inv (snd (append_with intf1 intf2 now et p key db))"
proof -
  have "ob_inv (ob_insert (new_row now et p (strip_or_none key)) (intf1 db))"
    if "\<not> key_taken (strip_or_none key) (intf1 db)"
    by (rule inv_insert [OF intf(1) [OF inv] that]) simp
  then show ?thesis
    using inv intf by (simp add: append_with_def Let_def split: option.splits)
qed

lemma inv_append: "ob_inv db \<Longrightarrow> ob_inv (snd (append_event now et p key db))"
  unfolding append_event_def by (rule inv_append_with)

lemmas ob_inv_ops = inv_claim inv_mark_processed inv_mark_failed inv_dead_letter inv_heartbeat inv_append

lemma inv_empty: "ob_inv \<lparr>ob_rows = [], ob_next_id = i\<rparr>"
  by (simp add: ob_inv_def keys_unique_def obt.wf_def)

section \<open>Idempotent append\<close>

definition norm_key :: "string \<Rightarrow> bool" where
  "norm_key k = (py_strip k = k \<and> k \<noteq> [])"

lemma norm_key_strip: "norm_key k \<Longrightarrow> strip_or_none (Some k) = Some k"
  by (simp add: norm_key_def strip_or_none_def)

text \<open>\<open>append\<close> as a store of requests: the answer says whether the row is new.\<close>

definition append_once :: "string \<Rightarrow> pydatetime \<times> string \<times> json \<Rightarrow> outbox_db \<Rightarrow> (outbox_row \<times> bool) \<times> outbox_db" where
  "append_once k x db = (case x of (now, et, p) \<Rightarrow>
     (case append_event now et p (Some k) db of
        (Inr r, db') \<Rightarrow> ((r, ob_next_id db < ob_next_id db'), db')
      | (Inl _, db') \<Rightarrow> ((new_row now et p (Some k) 0, False), db')))"

lemma append_event_key:
  assumes "norm_key k"
  shows "append_event now et p (Some k) db =
    (case tbl_first (has_key k) (ob_rows db) of
       Some r \<Rightarrow> (Inr r, db)
     | None \<Rightarrow> (Inr (new_row now et p (Some k) (ob_next_id db)), ob_insert (new_row now et p (Some k)) db))"
  using tbl_first_exists [of "has_key k" "ob_rows db"]
  by (auto simp: append_event_def append_with_def norm_key_strip [OF assms] key_taken_def Let_def split: option.splits)

lemma append_once_eq:
  assumes "norm_key k"
  shows "append_once k (now, et, p) db =
    (case tbl_first (has_key k) (ob_rows db) of
       Some r \<Rightarrow> ((r, False), db)
     | None \<Rightarrow> ((new_row now et p (Some k) (ob_next_id db), True), ob_insert (new_row now et p (Some k)) db))"
  by (simp add: append_once_def append_event_key [OF assms] obt.next_ins split: option.splits)

lemma find_key_insert:
  "tbl_first (has_key j) (ob_rows (ob_insert (new_row now et p (Some k)) db)) =
     (case tbl_first (has_key j) (ob_rows db) of
        Some r \<Rightarrow> Some r
      | None \<Rightarrow> if j = k then Some (new_row now et p (Some k) (ob_next_id db)) else None)"
  unfolding obt.rows_ins tbl_first_append
  by (auto simp: tbl_first_def has_key_def new_row_def split: option.splits)

interpretation ob_once: once_store append_once "\<lambda>k db. tbl_first (has_key k) (ob_rows db)"
  "\<lambda>db. length (ob_rows db)" norm_key
proof (unfold_locales, goal_cases)
  case (1 k s r x)
  then show ?case by (cases x) (simp add: append_once_eq)
next
  case (2 k s x r b s')
  obtain now et p where x: "x = (now, et, p)" by (rule prod_cases3)
  have "r = new_row now et p (Some k) (ob_next_id s)" "b" "s' = ob_insert (new_row now et p (Some k)) s"
    using 2 by (simp_all add: x append_once_eq)
  then show ?case
    using 2(2) find_key_insert [of k now et p k s] by (simp add: obt.rows_ins)
next
  case (3 k j x s)
  then show ?case by (cases x) (auto simp: append_once_eq find_key_insert split: option.splits)
qed

section \<open>A table with one event\<close>

definition one_event :: outbox_db where
  "one_event = snd (append_event 7 ''audit'' JNull None \<lparr>ob_rows = [], ob_next_id = 1\<rparr>)"

lemma one_event_simps:
  "ob_rows one_event = [new_row 7 ''audit'' JNull None 1]" "ob_get 1 one_event = Some (new_row 7 ''audit'' JNull None 1)"
  "ob_inv one_event"
  using inv_append [OF inv_empty, of 7 "''audit''" JNull None 1]
  by (simp_all add: one_event_def append_event_def append_with_def key_taken_def ob_insert_def ob_get_def tbl_first_def new_row_def)

lemma one_event_claimed:
  "map wi_id (fst (claim_next_batch 10 5 300 300 (Some ''w'') (\<lambda>i. False) one_event)) = [1]"
  by (simp add: claim_next_batch_def claim_rows_def one_event_simps outbox_eligible_filter_def to_work_item_def Let_def)
    (simp add: new_row_def)

lemma one_event_claim:
  "snd (claim_next_batch 10 5 300 300 (Some ''w'') lk one_event)
      = (if lk 1 then one_event
         else \<lparr>ob_rows = [mark_claimed 10 (Some ''w'') (10 + seconds 300) (new_row 7 ''audit'' JNull None 1)], ob_next_id = 2\<rparr>)"
  by (simp add: claim_next_batch_def claim_rows_def one_event_def append_event_def append_with_def key_taken_def ob_insert_def
      outbox_eligible_filter_def tbl_update_def strip_or_none_def py_strip_def is_blank_def Let_def)
    (simp add: new_row_def)

end
