(* ===== verification/OutboxLife.thy ===== *)
theory OutboxLife
  imports OutboxClaims
begin

text \<open>
  The life of an outbox row. The repository calls are collected in one type of operations, the
  states a history of calls can reach form an inductive set, and a row's status is shown to
  follow a state machine as long as only the holder of a claim settles it. The last section
  holds the retry schedule: the delay grows linearly and the row is dead-lettered by exactly
  the failure that reaches the limit.
\<close>

section \<open>Histories of repository calls\<close>

datatype ob_op =
    OpAppend pydatetime string json "string option"
  | OpClaim pydatetime nat int int "string option" "int list"
  | OpHeartbeat pydatetime int "string option" int
  | OpProcessed pydatetime int
  | OpFailed pydatetime int string int int
  | OpDead pydatetime int string

fun ob_exec :: "ob_op \<Rightarrow> outbox_db \<Rightarrow> outbox_db" where
  "ob_exec (OpAppend now et p key) db = snd (append_event now et p key db)"
| "ob_exec (OpClaim now n s l own lk) db = snd (claim_next_batch now n s l own (\<lambda>i. i \<in> set lk) db)"
| "ob_exec (OpHeartbeat now i own l) db = heartbeat now i own l db"
| "ob_exec (OpProcessed now i) db = mark_processed now i db"
| "ob_exec (OpFailed now i err m d) db = mark_failed now i err m d db"
| "ob_exec (OpDead now i err) db = dead_letter now i err db"

inductive ob_reach :: "outbox_db \<Rightarrow> bool" where
  reach_empty: "ob_reach \<lparr>ob_rows = [], ob_next_id = 1\<rparr>"
| reach_step: "ob_reach db \<Longrightarrow> ob_reach (ob_exec op db)"

inductive_cases reach_stepE: "ob_reach db"

lemma inv_exec: "ob_inv db \<Longrightarrow> ob_inv (ob_exec op db)"
  by (cases op) (simp_all add: ob_inv_ops)

text \<open>Invariant of the outbox table.\<close>

theorem outbox_reachable_inv: "ob_reach db \<Longrightarrow> ob_inv db"
proof (induction rule: ob_reach.induct)
  case reach_empty
  show ?case by (rule inv_empty)
next
  case (reach_step db op)
  show ?case by (rule inv_exec [OF reach_step.IH])
qed

section \<open>What an operation does to one row\<close>

lemma get_put_row:
  assumes "keeps_row f"
  shows "obt.get j (ob_put i f db) = (if j = i then map_option f (obt.get j db) else obt.get j db)"
  using obt.get_put_same [of f i db] obt.get_put_other [of f i j db] keeps_rowD(1) [OF assms] by simp

lemma get_settled:
  "obt.get j (mark_processed now i db) = (if j = i then map_option (processed_row now) (obt.get j db) else obt.get j db)"
  "obt.get j (mark_failed now i err m d db) = (if j = i then map_option (failed_row now err m d) (obt.get j db) else obt.get j db)"
  "obt.get j (dead_letter now i err db) = (if j = i then map_option (dead_row now err) (obt.get j db) else obt.get j db)"
  by (auto simp: mark_processed_def mark_failed_def dead_letter_def ob_get_eq get_put_row keeps_rows split: option.splits)

lemma beat_row_simps [simp]:
  "ob_id (beat_row now l r) = ob_id r" "ob_status (beat_row now l r) = ob_status r"
  "ob_attempts (beat_row now l r) = ob_attempts r" "ob_locked_at (beat_row now l r) = ob_locked_at r"
  "ob_lease_until (beat_row now l r) = Some (now + seconds (max 1 l))"
  "ob_next_retry_at (beat_row now l r) = ob_next_retry_at r" "ob_leased_by (beat_row now l r) = ob_leased_by r"
  by (simp_all add: beat_row_def)

lemma get_heartbeat:
  "obt.get j (heartbeat now i own l db) = obt.get j db \<or>
   (\<exists>r. obt.get j db = Some r \<and> ob_status r = Processing \<and> obt.get j (heartbeat now i own l db) = Some (beat_row now l r))"
proof (rule heartbeat_cases [of now i own l db])
  assume "heartbeat now i own l db = db"
  then show ?thesis by simp
next
  fix row
  assume row: "ob_get i db = Some row" "ob_status row = Processing"
    and eq: "heartbeat now i own l db = ob_put i (beat_row now l) db"
  show ?thesis
  proof (cases "j = i")
    case True
    then show ?thesis using row obt.get_put_same [of "beat_row now l" i db] by (simp add: eq ob_get_eq)
  next
    case False
    then show ?thesis using obt.get_put_other [of "beat_row now l" i j db] by (simp add: eq)
  qed
qed

lemma get_append:
  "obt.get j db = Some r \<Longrightarrow> obt.get j (snd (append_event now et p key db)) = Some r"
  by (auto simp: append_event_def append_with_def Let_def obt.get_ins_old split: option.splits)

section \<open>The state machine of a row\<close>

inductive life :: "ob_status \<Rightarrow> ob_status \<Rightarrow> bool" where
  start: "life Pending Processing"
| again: "life Retry Processing"
| reclaim: "life Processing Processing"
| finish: "life Processing Processed"
| fail: "life Processing Retry"
| give_up: "life Processing DeadLetter"

inductive_simps life_simps [simp]:
  "life Pending s" "life Retry s" "life Processing s" "life Processed s" "life DeadLetter s" "life Failed s"

text \<open>
  \<open>settles_claimed\<close>: acknowledgements and failures are sent for rows in \<open>Processing\<close> only.
\<close>

fun settles :: "ob_op \<Rightarrow> int option" where
  "settles (OpProcessed now i) = Some i"
| "settles (OpFailed now i err m d) = Some i"
| "settles (OpDead now i err) = Some i"
| "settles _ = None"

definition settles_claimed :: "ob_op \<Rightarrow> outbox_db \<Rightarrow> bool" where
  "settles_claimed op db = (case settles op of None \<Rightarrow> True | Some i \<Rightarrow>
     (case ob_get i db of None \<Rightarrow> True | Some r \<Rightarrow> ob_status r = Processing))"

text \<open>A step keeps the row, or moves it along \<open>life\<close> without losing attempts.\<close>

definition row_step :: "outbox_row \<Rightarrow> outbox_row \<Rightarrow> bool" where
  "row_step r r' = (r' = r \<or> (life (ob_status r) (ob_status r') \<and> ob_attempts r \<le> ob_attempts r'
     \<and> ob_attempts r' \<le> ob_attempts r + 1
     \<and> (ob_status r' = Retry \<or> ob_status r' = DeadLetter \<longleftrightarrow> ob_attempts r' = ob_attempts r + 1)))"

lemma row_step_refl [simp]: "row_step r r"
  by (simp add: row_step_def)

lemma row_step_claim:
  "ob_status r = Pending \<or> ob_status r = Retry \<or> ob_status r = Processing \<Longrightarrow> row_step r (mark_claimed now own le r)"
  by (auto simp: row_step_def mark_claimed_def)

lemma row_step_settled:
  "ob_status r = Processing \<Longrightarrow> row_step r (processed_row now r)"
  "ob_status r = Processing \<Longrightarrow> row_step r (failed_row now err m d r)"
  "ob_status r = Processing \<Longrightarrow> row_step r (dead_row now err r)"
  "ob_status r = Processing \<Longrightarrow> row_step r (beat_row now l r)"
  by (auto simp: row_step_def processed_row_def failed_row_def dead_row_def Let_def)

lemma claimable_status: "claimable now s r \<Longrightarrow> ob_status r = Pending \<or> ob_status r = Retry \<or> ob_status r = Processing"
  by (auto simp: claimable_def outbox_eligible_filter_def)

lemma claimed_claimable:
  assumes "ob_inv db" "obt.get j db = Some r" "j \<in> ob_id ` set (claim_rows now n s lk db)"
  shows "claimable now s r"
proof -
  obtain c where c: "c \<in> set (claim_rows now n s lk db)" "ob_id c = j" using assms(3) by auto
  have "obt.get j db = Some c"
    using obt.get_member [of db c] claim_rows_mem [OF c(1)] assms(1) c(2) by (simp add: ob_inv_def)
  then show ?thesis using assms(2) claim_rows_mem [OF c(1)] by simp
qed

lemma row_step_exec:
  assumes inv: "ob_inv db" and get: "obt.get j db = Some r" and d: "settles_claimed op db"
  shows "\<exists>r'. obt.get j (ob_exec op db) = Some r' \<and> row_step r r'"
proof (cases op)
  case (OpAppend now et p key)
  then show ?thesis using get_append [OF get] by simp
next
  case (OpClaim now n s l own lk)
  have wf: "obt.wf db" using inv by (simp add: ob_inv_def)
  show ?thesis
  proof (cases "j \<in> ob_id ` set (claim_rows now n s (\<lambda>i. i \<in> set lk) db)")
    case True
    then show ?thesis using claimable_status [OF claimed_claimable [OF inv get True]]
      by (simp add: OpClaim claim_get [OF wf] get row_step_claim)
  next
    case False
    then show ?thesis by (simp add: OpClaim claim_get [OF wf] get)
  qed
next
  case (OpHeartbeat now i own l)
  then show ?thesis using get_heartbeat [of j now i own l db] get row_step_settled(4) by auto
next
  case (OpProcessed now i)
  then show ?thesis using d get by (auto simp: get_settled settles_claimed_def ob_get_eq row_step_settled)
next
  case (OpFailed now i err m d)
  then show ?thesis using assms(3) get by (auto simp: get_settled settles_claimed_def ob_get_eq row_step_settled)
next
  case (OpDead now i err)
  then show ?thesis using d get by (auto simp: get_settled settles_claimed_def ob_get_eq row_step_settled)
qed

text \<open>A history in which only claimed rows are settled.\<close>

fun disciplined :: "ob_op list \<Rightarrow> outbox_db \<Rightarrow> bool" where
  "disciplined [] db = True"
| "disciplined (op # ops) db = (settles_claimed op db \<and> disciplined ops (ob_exec op db))"

definition run_ops :: "ob_op list \<Rightarrow> outbox_db \<Rightarrow> outbox_db" where
  "run_ops ops db = fold ob_exec ops db"

lemma run_ops_simps [simp]: "run_ops [] db = db" "run_ops (op # ops) db = run_ops ops (ob_exec op db)"
  by (simp_all add: run_ops_def)

lemma row_step_final: "row_step r r' \<Longrightarrow> ob_status r = Processed \<or> ob_status r = DeadLetter \<Longrightarrow> r' = r"
  by (auto simp: row_step_def)

text \<open>
  C1: The detailed outbox implements the documented life cycle pending, processing, retry, processed
  or dead letter: along any sequence of repository calls in which every acknowledgement and every
  failure report belongs to a row that is being processed, the status of a row moves along the
  arrows of the life cycle only, its attempt count never goes down, and a processed or
  dead-lettered row is never touched again.
\<close>

theorem outbox_row_follows_life_cycle:
  assumes "ob_inv db" "ob_get j db = Some r" "disciplined ops db"
  shows "\<exists>r'. ob_get j (run_ops ops db) = Some r' \<and> life\<^sup>*\<^sup>* (ob_status r) (ob_status r')
    \<and> ob_attempts r \<le> ob_attempts r'
    \<and> (ob_status r = Processed \<or> ob_status r = DeadLetter \<longrightarrow> r' = r)"
  using assms
proof (induction ops arbitrary: db r)
  case Nil
  then show ?case by simp
next
  case (Cons op ops)
  from Cons.prems obtain r1 where r1: "obt.get j (ob_exec op db) = Some r1" "row_step r r1"
    using row_step_exec [of db j r op] by (auto simp: ob_get_eq)
  have "\<exists>r'. ob_get j (run_ops ops (ob_exec op db)) = Some r' \<and> life\<^sup>*\<^sup>* (ob_status r1) (ob_status r')
    \<and> ob_attempts r1 \<le> ob_attempts r' \<and> (ob_status r1 = Processed \<or> ob_status r1 = DeadLetter \<longrightarrow> r' = r1)"
    using Cons.IH [OF inv_exec [OF Cons.prems(1)]] Cons.prems(3) r1(1) by (simp add: ob_get_eq)
  then obtain r' where r': "ob_get j (run_ops ops (ob_exec op db)) = Some r'" "life\<^sup>*\<^sup>* (ob_status r1) (ob_status r')"
    "ob_attempts r1 \<le> ob_attempts r'" "ob_status r1 = Processed \<or> ob_status r1 = DeadLetter \<longrightarrow> r' = r1" by blast
  have "life\<^sup>*\<^sup>* (ob_status r) (ob_status r1)" "ob_attempts r \<le> ob_attempts r1"
    using r1(2) by (auto simp: row_step_def)
  moreover have "ob_status r = Processed \<or> ob_status r = DeadLetter \<longrightarrow> r1 = r"
    using row_step_final [OF r1(2)] by blast
  ultimately show ?case using r' rtranclp_trans [of life] by fastforce
qed

theorem outbox_row_follows_life_cycle_witness:
  "\<exists>r'. ob_get 1 (run_ops [OpClaim 10 5 300 300 (Some ''w'') [], OpProcessed 20 1] one_event) = Some r'
    \<and> life\<^sup>*\<^sup>* Pending (ob_status r')"
proof -
  have "disciplined [OpClaim 10 5 300 300 (Some ''w'') [], OpProcessed 20 1] one_event"
    by (simp add: settles_claimed_def one_event_claim ob_get_def tbl_first_def) (simp add: mark_claimed_def new_row_def)
  from outbox_row_follows_life_cycle [OF one_event_simps(3,2) this] show ?thesis
    by (auto simp: new_row_def)
qed

text \<open>The discipline of the life cycle is needed: a failure report that arrives for an already
  processed row, as from a worker whose claim was taken over, puts it back to retry and makes it
  eligible again.\<close>

theorem stale_failure_reopens_processed:
  assumes "ob_get i db = Some r" "ob_status r = Processed" "ob_attempts r + 1 < m"
  shows "\<exists>r'. ob_get i (mark_failed now i err m d db) = Some r' \<and> ob_status r' = Retry
    \<and> claimable (now + seconds (max 1 d * (ob_attempts r + 1))) s r'"
  using assms by (auto simp: ob_get_eq get_settled failed_row_def Let_def claimable_def outbox_eligible_filter_def)

theorem stale_failure_reopens_processed_witness:
  "\<exists>r'. ob_get 1 (mark_failed 30 1 ''boom'' 10 5 (mark_processed 20 1 one_event)) = Some r' \<and> ob_status r' = Retry
    \<and> claimable (30 + seconds 5) 300 r'"
proof -
  have "ob_get 1 (mark_processed 20 1 one_event) = Some (processed_row 20 (new_row 7 ''audit'' JNull None 1))"
    using one_event_simps(2) by (simp add: ob_get_eq get_settled)
  from stale_failure_reopens_processed [OF this, of 10 30 "''boom''" 5 300] show ?thesis
    by (simp add: processed_row_def new_row_def)
qed

section \<open>The retry schedule\<close>

text \<open>One claim and one failure of row \<open>i\<close> per element of \<open>ts\<close>.\<close>

definition fail_all :: "pydatetime list \<Rightarrow> int \<Rightarrow> string \<Rightarrow> int \<Rightarrow> int \<Rightarrow> outbox_db \<Rightarrow> outbox_db" where
  "fail_all ts i err m d db = fold (\<lambda>t. mark_failed t i err m d) ts db"

lemma failed_row_attempts: "ob_attempts (failed_row t err m d r) = ob_attempts r + 1"
  by (simp add: failed_row_def Let_def)

lemma fail_all_snoc: "fail_all (ts @ [t]) i err m d db = mark_failed t i err m d (fail_all ts i err m d db)"
  by (simp add: fail_all_def)

lemma fail_all_attempts:
  "obt.get i db = Some r \<Longrightarrow>
   \<exists>r'. obt.get i (fail_all ts i err m d db) = Some r' \<and> ob_attempts r' = ob_attempts r + int (length ts)"
proof (induction ts rule: rev_induct)
  case Nil
  then show ?case by (simp add: fail_all_def)
next
  case (snoc t ts)
  then obtain r' where "obt.get i (fail_all ts i err m d db) = Some r'" "ob_attempts r' = ob_attempts r + int (length ts)"
    by blast
  then show ?case by (simp add: fail_all_snoc get_settled failed_row_attempts)
qed

text \<open>
  C5: After n failures of a fresh row it has n attempts; if the limit is reached it is dead-lettered
  at the time of the last failure and never eligible again, otherwise it is due again exactly n
  times the delay after the last failure: the back-off is linear in the number of attempts.
\<close>

theorem retry_schedule:
  assumes "ob_get i db = Some r" "ob_attempts r = 0"
  shows "\<exists>r'. ob_get i (fail_all (ts @ [t]) i err m d db) = Some r'
    \<and> ob_attempts r' = int (length ts) + 1
    \<and> (if m \<le> int (length ts) + 1
       then ob_status r' = DeadLetter \<and> ob_finished_at r' = Some t \<and> (\<forall>u s. \<not> claimable u s r')
       else ob_status r' = Retry \<and> ob_next_retry_at r' = t + seconds (max 1 d * (int (length ts) + 1))
         \<and> (\<forall>u s. claimable u s r' \<longleftrightarrow> t + seconds (max 1 d * (int (length ts) + 1)) \<le> u))"
proof -
  obtain q where "obt.get i (fail_all ts i err m d db) = Some q" "ob_attempts q = int (length ts)"
    using fail_all_attempts [of i db r ts err m d] assms by (auto simp: ob_get_eq)
  then show ?thesis
    by (simp add: ob_get_eq fail_all_snoc get_settled failed_row_def Let_def claimable_def outbox_eligible_filter_def)
qed

theorem retry_schedule_witness:
  "\<exists>r'. ob_get 1 (fail_all [20, 30] 1 ''boom'' 2 5 one_event) = Some r'
    \<and> ob_attempts r' = 2 \<and> ob_status r' = DeadLetter \<and> ob_finished_at r' = Some 30"
  using retry_schedule [of 1 one_event "new_row 7 ''audit'' JNull None 1" "[20]" 30 "''boom''" 2 5]
  by (auto simp: one_event_simps new_row_def)

end
