(* ===== verification/OutboxProps.thy ===== *)
theory OutboxProps
  imports OutboxLife
begin

text \<open>
  The properties of the outbox repository: one row per idempotency key under concurrent
  inserts and redeliveries, what a claim hands out and for how long, that every backlog row
  comes back, what a heartbeat protects, what a crash loop costs, the monitoring snapshot.
\<close>

section \<open>Idempotency keys\<close>

lemma has_key_unique:
  assumes "ob_inv db" "r \<in> set (ob_rows db)" "r' \<in> set (ob_rows db)" "has_key k r" "has_key k r'"
  shows "r' = r"
proof -
  have "ob_id r' = ob_id r" using assms unfolding ob_inv_def keys_unique_def by blast
  then show ?thesis using obt.member_unique [of db r' r] assms by (simp add: ob_inv_def)
qed

lemma first_key:
  assumes "tbl_first (has_key k) (ob_rows db) = Some r" "ob_inv db"
  shows "r \<in> set (ob_rows db) \<and> has_key k r \<and> (\<forall>r' \<in> set (ob_rows db). has_key k r' \<longrightarrow> r' = r)"
  using tbl_first_Some [OF assms(1)] has_key_unique [OF assms(2)] by blast

lemma append_one_row:
  assumes inv: "ob_inv db"
    and intf: "\<And>d. ob_inv d \<Longrightarrow> ob_inv (intf1 d)" "\<And>d. ob_inv d \<Longrightarrow> ob_inv (intf2 d)"
    and keep: "\<And>d k. key_taken k d \<Longrightarrow> key_taken k (intf2 d)"
    and key: "strip_or_none key = Some k"
  shows "\<exists>r db'. append_with intf1 intf2 now et p key db = (Inr r, db') \<and> ob_inv db'
    \<and> r \<in> set (ob_rows db') \<and> has_key k r \<and> (\<forall>r' \<in> set (ob_rows db'). has_key k r' \<longrightarrow> r' = r)"
proof (cases "tbl_first (has_key k) (ob_rows db)")
  case (Some r)
  then show ?thesis using first_key [OF Some inv] inv by (simp add: append_with_def key Let_def)
next
  case None
  show ?thesis
  proof (cases "key_taken (Some k) (intf1 db)")
    case True
    then have "key_taken (Some k) (intf2 (intf1 db))" by (rule keep)
    then obtain r where r: "tbl_first (has_key k) (ob_rows (intf2 (intf1 db))) = Some r"
      using tbl_first_exists [of "has_key k"] by (auto simp: key_taken_def)
    have "ob_inv (intf2 (intf1 db))" using inv intf by blast
    then show ?thesis using first_key [OF r] r None True by (simp add: append_with_def key Let_def)
  next
    case False
    let ?row = "new_row now et p (Some k)"
    have i: "ob_inv (ob_insert ?row (intf1 db))"
      by (rule inv_insert [OF intf(1) [OF inv] False]) (use strip_or_none_not_empty [of key] key in simp)
    have "?row (ob_next_id (intf1 db)) \<in> set (ob_rows (ob_insert ?row (intf1 db)))"
      "has_key k (?row (ob_next_id (intf1 db)))"
      by (simp_all add: obt.rows_ins has_key_def new_row_def)
    then show ?thesis using has_key_unique [OF i] i None False
      by (simp add: append_with_def key Let_def)
  qed
qed

text \<open>
  C3: Appending an event with an idempotency key ends with exactly one row of that key in the table,
  and returns that row, whatever other transactions do between the lookup and the insert and
  between a unique violation and the second lookup, as long as they keep the table invariant and
  do not delete keys.
\<close>

theorem append_one_row_per_key:
  assumes "ob_inv db"
    and "\<And>d. ob_inv d \<Longrightarrow> ob_inv (intf1 d)" "\<And>d. ob_inv d \<Longrightarrow> ob_inv (intf2 d)"
    and "\<And>d k. key_taken k d \<Longrightarrow> key_taken k (intf2 d)"
    and "strip_or_none key = Some k"
  shows "\<exists>r db'. append_with intf1 intf2 now et p key db = (Inr r, db') \<and> ob_inv db'
    \<and> r \<in> set (ob_rows db') \<and> has_key k r \<and> (\<forall>r' \<in> set (ob_rows db'). has_key k r' \<longrightarrow> r' = r)"
  using assms by (rule append_one_row)

definition rival :: "outbox_db \<Rightarrow> outbox_db" where
  "rival = (\<lambda>d. snd (append_event 5 ''email_2fa'' JNull (Some ''k'') d))"

theorem append_one_row_per_key_witness:
  "\<exists>r db'. append_with rival (\<lambda>d. d) 6 ''email_2fa'' (JInt 1) (Some ''k '') \<lparr>ob_rows = [], ob_next_id = 1\<rparr> = (Inr r, db')
    \<and> ob_inv db' \<and> r \<in> set (ob_rows db') \<and> has_key ''k'' r \<and> (\<forall>r' \<in> set (ob_rows db'). has_key ''k'' r' \<longrightarrow> r' = r)"
  by (rule append_one_row_per_key [OF inv_empty])
    (simp_all add: rival_def inv_append strip_or_none_def py_strip_def is_blank_def)

text \<open>The same event published at the times \<open>ts\<close> under one key.\<close>

fun publish_many :: "(pydatetime \<times> json) list \<Rightarrow> string \<Rightarrow> string \<Rightarrow> outbox_db \<Rightarrow> outbox_row res list \<times> outbox_db" where
  "publish_many [] et key db = ([], db)"
| "publish_many ((now, p) # xs) et key db =
     (let (res, db1) = publish_once now et p key db; (ress, db2) = publish_many xs et key db1 in (res # ress, db2))"

lemma publish_once_key:
  assumes "py_strip key \<noteq> []"
  shows "publish_once now et p key db =
    (let ((r, b), db') = append_once (py_strip key) (now, et, p) db in (Inr r, db'))"
proof -
  have n: "norm_key (py_strip key)" using assms by (simp add: norm_key_def)
  show ?thesis
    by (simp add: publish_once_def assms append_once_eq [OF n] append_event_key [OF n] Let_def split: option.splits)
qed

lemma publish_many_hit:
  "norm_key (py_strip key) \<Longrightarrow> tbl_first (has_key (py_strip key)) (ob_rows db) = Some r \<Longrightarrow>
   publish_many xs et key db = (replicate (length xs) (Inr r), db)"
proof (induction xs)
  case Nil
  then show ?case by simp
next
  case (Cons x xs)
  then show ?case
    by (cases x) (simp add: publish_once_key norm_key_def ob_once.add_hit split_def Let_def)
qed

text \<open>Redelivery.\<close>

theorem publish_once_idempotent:
  assumes "py_strip key \<noteq> []"
  shows "\<exists>r. publish_many (x # xs) et key db =
      (replicate (Suc (length xs)) (Inr r), snd (publish_once (fst x) et (snd x) key db))
    \<and> length (ob_rows (snd (publish_many (x # xs) et key db))) \<le> Suc (length (ob_rows db))"
proof -
  obtain now p where x: "x = (now, p)" by force
  have n: "norm_key (py_strip key)" using assms by (simp add: norm_key_def)
  obtain r b db' where e: "append_once (py_strip key) (now, et, p) db = ((r, b), db')" by (metis surj_pair)
  have f: "tbl_first (has_key (py_strip key)) (ob_rows db') = Some r"
    using ob_once.find_after [OF n, of "(now, et, p)" db] e by simp
  have l: "length (ob_rows db') \<le> Suc (length (ob_rows db))"
    by (rule ob_once.add_cases [OF n, of db "(now, et, p)"]) (use e in auto)
  show ?thesis
    using l by (simp add: x publish_once_key [OF assms] e publish_many_hit [OF n f])
qed

theorem publish_once_idempotent_witness:
  "\<exists>r. publish_many [(1, JNull), (2, JInt 1)] ''e'' '' k'' \<lparr>ob_rows = [], ob_next_id = 1\<rparr> =
      (replicate 2 (Inr r), snd (publish_once 1 ''e'' JNull '' k'' \<lparr>ob_rows = [], ob_next_id = 1\<rparr>))
    \<and> length (ob_rows (snd (publish_many [(1, JNull), (2, JInt 1)] ''e'' '' k'' \<lparr>ob_rows = [], ob_next_id = 1\<rparr>))) \<le> 1"
  using publish_once_idempotent [of "'' k''" "(1, JNull)" "[(2, JInt 1)]" "''e''" "\<lparr>ob_rows = [], ob_next_id = 1\<rparr>"]
  by (simp add: py_strip_def is_blank_def numeral_2_eq_2)

section \<open>Claims\<close>

lemma claimed_processing:
  assumes "ob_inv db" "c \<in> set (claim_rows now n s lk db)"
  shows "ob_get (ob_id c) (snd (claim_next_batch now n s l own lk db))
     = Some (mark_claimed now (strip_or_none own) (now + seconds (max 1 l)) c)"
proof -
  have wf: "obt.wf db" using assms(1) by (simp add: ob_inv_def)
  have "obt.get (ob_id c) db = Some c"
    using obt.get_member [OF wf] claim_rows_mem [OF assms(2)] by simp
  then show ?thesis using assms(2) by (simp add: ob_get_eq claim_get [OF wf])
qed

lemma length_claim_rows:
  "length (claim_rows now n s lk db) = min n (tbl_count (\<lambda>r. claimable now s r \<and> \<not> lk (ob_id r)) (ob_rows db))"
  by (simp add: claim_rows_eq tbl_count_def min.commute)

text \<open>
  C2: Claiming a batch returns exactly the oldest rows that are eligible and not locked by another
  transaction, in the order of their ids and at most the limit; each returned item is the snapshot
  of its row before the claim, the row itself becomes processing with the owner, the lock time and
  a lease of at least one second, and every other row is untouched.
\<close>

theorem claim_takes_oldest_eligible:
  fixes now :: pydatetime and n :: nat and s l :: int and own :: "string option" and lk :: "int \<Rightarrow> bool"
  assumes "ob_inv db"
  defines "out \<equiv> claim_next_batch now n s l own lk db"
    and "ready \<equiv> \<lambda>r. outbox_eligible_filter now (now - seconds (max 1 s)) r \<and> \<not> lk (ob_id r)"
  shows "length (fst out) = min n (length (filter ready (ob_rows db)))
    \<and> sorted_wrt (<) (map wi_id (fst out))
    \<and> (\<forall>w \<in> set (fst out). \<exists>r. ob_get (wi_id w) db = Some r \<and> ready r \<and> w = to_work_item r
         \<and> ob_get (wi_id w) (snd out) = Some (mark_claimed now (strip_or_none own) (now + seconds (max 1 l)) r))
    \<and> (\<forall>i. i \<notin> set (map wi_id (fst out)) \<longrightarrow> ob_get i (snd out) = ob_get i db)
    \<and> (\<forall>r \<in> set (ob_rows db). ready r \<longrightarrow> ob_id r \<in> set (map wi_id (fst out))
         \<or> (\<forall>w \<in> set (fst out). wi_id w < ob_id r))"
proof -
  let ?c = "claim_rows now n s lk db"
  have wf: "obt.wf db" using assms(1) by (simp add: ob_inv_def)
  have ready: "ready = (\<lambda>r. claimable now s r \<and> \<not> lk (ob_id r))"
    by (simp add: ready_def claimable_def)
  have ids: "map wi_id (fst out) = map ob_id ?c" by (simp add: out_def claim_items)
  have items: "fst out = map to_work_item ?c" by (simp add: out_def claim_next_batch_def Let_def)
  have idw: "wi_id (to_work_item c) = ob_id c" for c by (simp add: to_work_item_def)
  have len: "length (fst out) = min n (length (filter ready (ob_rows db)))"
    by (simp only: items length_map length_claim_rows ready tbl_count_def)
  have srt: "sorted_wrt (<) (map wi_id (fst out))"
    unfolding ids strict_sorted_iff using claim_rows_sorted claim_rows_distinct [OF wf] by blast
  have sound: "\<exists>r. ob_get (wi_id w) db = Some r \<and> ready r \<and> w = to_work_item r
         \<and> ob_get (wi_id w) (snd out) = Some (mark_claimed now (strip_or_none own) (now + seconds (max 1 l)) r)"
    if "w \<in> set (fst out)" for w
  proof -
    from that obtain c where c: "c \<in> set ?c" "w = to_work_item c" by (auto simp: items)
    have "ob_get (ob_id c) db = Some c"
      using obt.get_member [OF wf] claim_rows_mem [OF c(1)] by (simp add: ob_get_eq)
    moreover have "ready c" using claim_rows_mem [OF c(1)] by (simp add: ready)
    ultimately show ?thesis using claimed_processing [OF assms(1) c(1)] by (auto simp: c(2) idw out_def)
  qed
  have frame: "ob_get i (snd out) = ob_get i db" if "i \<notin> set (map wi_id (fst out))" for i
    using that by (simp add: out_def ob_get_eq claim_get [OF wf] claim_items)
  have fifo: "ob_id r \<in> set (map wi_id (fst out)) \<or> (\<forall>w \<in> set (fst out). wi_id w < ob_id r)"
    if r: "r \<in> set (ob_rows db)" "ready r" for r
  proof (cases "ob_id r \<in> set (map ob_id ?c)")
    case True
    then show ?thesis by (simp only: ids) simp
  next
    case False
    then have "r \<notin> set ?c" by auto
    then have "ob_id c < ob_id r" if "c \<in> set ?c" for c
    proof -
      have "ob_id c \<le> ob_id r"
        by (rule claim_rows_fifo [OF that r(1)]) (use r(2) \<open>r \<notin> set ?c\<close> in \<open>simp_all add: ready\<close>)
      moreover have "ob_id c \<noteq> ob_id r" using that False by (metis imageI list.set_map)
      ultimately show ?thesis by simp
    qed
    then show ?thesis by (auto simp: items idw)
  qed
  show ?thesis using len srt sound frame fifo by blast
qed

theorem claim_takes_oldest_eligible_witness:
  "sorted_wrt (<) (map wi_id (fst (claim_next_batch 10 5 300 300 (Some ''w'') (\<lambda>i. False)
     (snd (append_event 7 ''audit'' JNull None \<lparr>ob_rows = [], ob_next_id = 1\<rparr>)))))
   \<and> length (fst (claim_next_batch 10 5 300 300 (Some ''w'') (\<lambda>i. False)
     (snd (append_event 7 ''audit'' JNull None \<lparr>ob_rows = [], ob_next_id = 1\<rparr>)))) = 1"
proof -
  let ?db = "snd (append_event 7 ''audit'' JNull None \<lparr>ob_rows = [], ob_next_id = 1\<rparr>)"
  have "filter (\<lambda>r. outbox_eligible_filter 10 (10 - seconds (max 1 300)) r \<and> \<not> False) (ob_rows ?db)
      = [new_row 7 ''audit'' JNull None 1]"
    by (simp add: append_event_def append_with_def key_taken_def ob_insert_def new_row_def outbox_eligible_filter_def)
  then show ?thesis
    using claim_takes_oldest_eligible [OF inv_append [OF inv_empty], of 10 5 300 300 "Some ''w''" "\<lambda>i. False" 7 "''audit''" JNull None 1]
    by simp
qed

text \<open>
  C4: A claimed event is not handed out again: no later claims, by any owner and with any limit,
  return the row while neither its lease nor its lock has run out.
\<close>

theorem claimed_row_is_exclusive:
  assumes "ob_inv db"
    and "i \<in> set (map wi_id (fst (claim_next_batch t n s l own lk db)))"
    and "\<And>u q. (u, q) \<in> set later \<Longrightarrow> u \<le> t + min (seconds (max 1 l)) (seconds (max 1 s))"
  shows "\<forall>ids \<in> set (fst (obq.claims s later (snd (claim_next_batch t n s l own lk db)))). i \<notin> set ids"
proof -
  have fst_eq: "fst (ob_claim_ids s t (n, l, own, lk) db) = map wi_id (fst (claim_next_batch t n s l own lk db))"
    by (simp only: ob_claim_ids_simps claim_items)
  show ?thesis
    using obq.exclusive [where s = s and d = db and t = t and p = "(n, l, own, lk)" and i = i and cs = later, OF assms(1)] assms(2,3)
    by (simp add: fst_eq ob_claim_ids_simps(2) ob_hold_def)
qed

theorem claimed_row_is_exclusive_witness:
  "list_all (\<lambda>ids. (1::int) \<notin> set ids) (fst (obq.claims 300 [(20, (5, 300, Some ''v'', \<lambda>i. False))]
     (snd (claim_next_batch 10 5 300 300 (Some ''w'') (\<lambda>i. False) one_event))))"
  unfolding list_all_iff
  by (rule claimed_row_is_exclusive [OF one_event_simps(3)]) (simp_all add: one_event_claimed seconds_def)

definition due_after :: "outbox_row \<Rightarrow> pydatetime" where
  "due_after r = (if ob_status r = Processing then (case ob_lease_until r of None \<Rightarrow> 0 | Some t \<Rightarrow> t + 1)
     else ob_next_retry_at r)"

lemma due_claimable: "row_ok r \<Longrightarrow> in_backlog r \<Longrightarrow> due_after r \<le> u \<Longrightarrow> claimable u s r"
  by (auto simp: due_after_def row_ok_def in_backlog_def claimable_def outbox_eligible_filter_def before_opt_def)

lemma claimable_count_le: "int (tbl_count (claimable u s) (ob_rows db)) \<le> backlog_size db"
proof -
  have "filter (claimable u s) (ob_rows db) = filter (claimable u s) (filter in_backlog (ob_rows db))"
    by (auto simp: in_backlog_def intro!: filter_cong dest: claimable_status)
  then have "tbl_count (claimable u s) (ob_rows db) \<le> tbl_count in_backlog (ob_rows db)"
    unfolding tbl_count_def by (metis length_filter_le)
  then show ?thesis by (simp add: backlog_size_def)
qed

text \<open>Every backlog row comes back.\<close>

theorem backlog_row_is_claimed_when_due:
  assumes "ob_inv db" "ob_get i db = Some r" "in_backlog r" "due_after r \<le> u" "\<not> lk i"
    and "backlog_size db \<le> int n"
  shows "i \<in> set (map wi_id (fst (claim_next_batch u n s l own lk db)))"
proof -
  have r: "r \<in> set (ob_rows db)" "ob_id r = i" using obt.get_Some assms(2) by (auto simp: ob_get_eq)
  then have "claimable u s r" using assms by (intro due_claimable) (auto simp: ob_inv_def)
  moreover have "tbl_count (claimable u s) (ob_rows db) \<le> n"
    using claimable_count_le [of u s db] assms(6) by simp
  ultimately have "r \<in> set (claim_rows u n s lk db)" using claim_rows_all r assms(5) by blast
  then show ?thesis using r(2) by (auto simp: claim_items)
qed

section \<open>Heartbeats and crashes\<close>

text \<open>What a heartbeat protects.\<close>

theorem heartbeat_does_not_extend_the_lock:
  assumes "ob_get i db = Some r" "ob_status r = Processing" "ob_locked_at r = Some t"
    and "ob_leased_by r = strip_or_none own"
  shows "\<exists>r'. ob_get i (heartbeat h i own l db) = Some r'
    \<and> (\<forall>u s. claimable u s r' \<longleftrightarrow> h + seconds (max 1 l) < u \<or> t + seconds (max 1 s) < u)"
proof -
  have "heartbeat h i own l db = ob_put i (beat_row h l) db"
    unfolding heartbeat_def Let_def beat_row_def [abs_def] using assms by simp
  then have "ob_get i (heartbeat h i own l db) = Some (beat_row h l r)"
    using obt.get_put_same [of "beat_row h l" i db] assms(1) by (simp add: ob_get_eq)
  then show ?thesis
    using assms(2,3) by (auto simp: claimable_def outbox_eligible_filter_def before_opt_def)
qed

text \<open>A crash loop.\<close>

fun crash_loop :: "pydatetime list \<Rightarrow> int \<Rightarrow> int \<Rightarrow> string option \<Rightarrow> outbox_db \<Rightarrow> outbox_db" where
  "crash_loop [] s l own db = db"
| "crash_loop (t # ts) s l own db = crash_loop ts s l own (snd (claim_next_batch t 1 s l own (\<lambda>i. False) db))"

text \<open>An event whose worker dies in the handler every time is claimed again and again but never
  dead-lettered: any number of claims that are not followed by a failure report leave its attempt
  count as it is and leave it in the backlog.\<close>

theorem crash_loop_never_dead_letters:
  assumes "ob_inv db" "ob_get i db = Some r" "in_backlog r"
  shows "\<exists>r'. ob_get i (crash_loop ts s l own db) = Some r' \<and> ob_attempts r' = ob_attempts r \<and> in_backlog r'"
  using assms
proof (induction ts arbitrary: db r)
  case Nil
  then show ?case by simp
next
  case (Cons t ts)
  let ?db = "snd (claim_next_batch t 1 s l own (\<lambda>i. False) db)"
  have "obt.wf db" using Cons.prems(1) by (simp add: ob_inv_def)
  then have "\<exists>r1. ob_get i ?db = Some r1 \<and> ob_attempts r1 = ob_attempts r \<and> in_backlog r1"
    using Cons.prems(2,3) by (simp add: ob_get_eq claim_get) (simp add: mark_claimed_def in_backlog_def)
  then obtain r1 where "ob_get i ?db = Some r1" "ob_attempts r1 = ob_attempts r" "in_backlog r1" by blast
  then show ?case using Cons.IH [OF inv_claim [OF Cons.prems(1)]] by fastforce
qed

theorem crash_loop_never_dead_letters_witness:
  "\<exists>r'. ob_get 1 (crash_loop [10, 5000000000, 9000000000] 300 300 None one_event) = Some r' \<and> ob_attempts r' = 0 \<and> in_backlog r'"
  using crash_loop_never_dead_letters [OF one_event_simps(3,2), of "[10, 5000000000, 9000000000]" 300 300 None]
  by (simp add: in_backlog_def new_row_def)

section \<open>The monitoring snapshot\<close>

lemma status_count_rows:
  "status_count (status_rows db) st = int (tbl_count (\<lambda>r. ob_status r = st) (ob_rows db))"
proof -
  have key: "status_count (map (\<lambda>s. (s, f s)) sts) st = (if st \<in> set sts then f st else 0)" for f sts
    by (induction sts) auto
  have "tbl_count (\<lambda>r. ob_status r = st) (ob_rows db) = 0" if "\<not> (\<exists>r \<in> set (ob_rows db). ob_status r = st)"
    using that by (auto simp: tbl_count_def filter_empty_conv)
  moreover have "st \<in> set all_statuses" by (cases st) (simp_all add: all_statuses_def)
  ultimately show ?thesis by (auto simp: status_rows_def key)
qed

text \<open>The snapshot agrees with the table.\<close>

theorem snapshot_counts_rows:
  fixes now :: pydatetime
  assumes "ob_inv db"
  defines "q \<equiv> queue_snapshot_of now db"
  shows "qs_pending_jobs q + qs_running_jobs q = backlog_size db
    \<and> qs_pending_jobs q + qs_running_jobs q + qs_dead_letter_jobs q
        + int (tbl_count (\<lambda>r. ob_status r = Processed) (ob_rows db)) = int (length (ob_rows db))
    \<and> qs_failed_jobs q = 0 \<and> 0 \<le> qs_stuck_leases q \<and> qs_stuck_leases q \<le> qs_running_jobs q"
proof -
  define N where "N st = tbl_count (\<lambda>r. ob_status r = st) (ob_rows db)" for st
  have q: "qs_pending_jobs q = int (N Pending) + int (N Retry)" "qs_running_jobs q = int (N Processing)"
    "qs_dead_letter_jobs q = int (N DeadLetter)" "qs_failed_jobs q = int (N Failed)"
    "qs_stuck_leases q = int (tbl_count (\<lambda>r. ob_status r = Processing \<and> before_opt (ob_lease_until r) now) (ob_rows db))"
    by (simp_all add: q_def queue_snapshot_of_def Let_def status_count_rows N_def)
  have failed: "N Failed = 0"
    using assms(1) by (auto simp: N_def tbl_count_def ob_inv_def row_ok_def filter_empty_conv)
  have split: "length xs = tbl_count (\<lambda>r. ob_status r = Pending) xs + tbl_count (\<lambda>r. ob_status r = Retry) xs
      + tbl_count (\<lambda>r. ob_status r = Processing) xs + tbl_count (\<lambda>r. ob_status r = Processed) xs
      + tbl_count (\<lambda>r. ob_status r = DeadLetter) xs + tbl_count (\<lambda>r. ob_status r = Failed) xs
    \<and> tbl_count in_backlog xs = tbl_count (\<lambda>r. ob_status r = Pending) xs + tbl_count (\<lambda>r. ob_status r = Retry) xs
      + tbl_count (\<lambda>r. ob_status r = Processing) xs
    \<and> tbl_count (\<lambda>r. ob_status r = Processing \<and> before_opt (ob_lease_until r) now) xs \<le> tbl_count (\<lambda>r. ob_status r = Processing) xs"
    for xs
  proof (induction xs)
    case Nil
    then show ?case by (simp add: tbl_count_def)
  next
    case (Cons x xs)
    then show ?case by (cases "ob_status x") (simp_all add: tbl_count_def in_backlog_def)
  qed
  show ?thesis using split [of "ob_rows db"] failed by (simp add: q backlog_size_def N_def)
qed

end
