(* ===== verification/WorkerModel.thy ===== *)
theory WorkerModel
  imports OutboxStore
begin

text \<open>
  The outbox worker: the per-event policy (\<open>worker_policy.py\<close>), the dispatcher
  (\<open>dispatcher.py\<close>), the processing algorithm (\<open>worker_loop.py\<close>) and the life cycle of
  the worker object (\<open>worker.py\<close>, \<open>worker_entrypoint.py\<close>, \<open>runtime/outbox_wiring.py\<close>).

  A handler is a function of the payload and of the world \<open>'w\<close> it acts on; \<open>dur\<close> says how
  long (in microseconds) the handlers of an event run. The effects of the handlers of one
  event are one step on the world: a handler that runs into the timeout is not stopped (the
  thread goes on), so its effects are in the resulting world in that case, too.
\<close>

section \<open>Event policies\<close>

record worker_policy =
  handler_timeout_seconds :: int
  lease_seconds :: int
  heartbeat_interval_seconds :: int
  execution_mode :: string

definition policy :: "int \<Rightarrow> int \<Rightarrow> int \<Rightarrow> worker_policy" where
  "policy t l h = \<lparr>handler_timeout_seconds = t, lease_seconds = l, heartbeat_interval_seconds = h,
     execution_mode = ''thread''\<rparr>"

definition default_policy :: worker_policy where
  "default_policy = policy 15 300 30"

definition event_policies :: "(string \<times> worker_policy) list" where
  "event_policies =
    [(''security.audit_event'', policy 15 60 10),
     (''email.notification'', policy 30 120 15),
     (''email_2fa'', policy 30 120 15),
     (''email_invite'', policy 30 120 15),
     (''knowledge.ingest_pipeline'', policy (30 * 60) (35 * 60) 30),
     (''knowledge.index_build'', policy (60 * 60) (65 * 60) 60),
     (''knowledge.ingest_item_reprocess'', policy (30 * 60) (35 * 60) 30),
     (''knowledge.recovery_sweep'', policy (10 * 60) (12 * 60) 30),
     (''kb.discovery_requested'', policy (30 * 60) (35 * 60) 30),
     (''kb.embedding_requested'', policy (30 * 60) (35 * 60) 30),
     (''kb.indexing_requested'', policy (60 * 60) (65 * 60) 60),
     (''url.fetch'', policy 120 180 15),
     (''file.parse'', policy (10 * 60) (12 * 60) 30)]"

definition worker_policy_for_event :: "string \<Rightarrow> int \<Rightarrow> worker_policy" where
  "worker_policy_for_event event_type default_timeout_seconds =
     (let default_timeout = max 1 default_timeout_seconds
      in case map_of event_policies (py_strip event_type) of
           None \<Rightarrow> \<lparr>handler_timeout_seconds = default_timeout,
                   lease_seconds = max (lease_seconds default_policy) (default_timeout + 60),
                   heartbeat_interval_seconds = heartbeat_interval_seconds default_policy,
                   execution_mode = execution_mode default_policy\<rparr>
         | Some p \<Rightarrow> \<lparr>handler_timeout_seconds = max 1 (handler_timeout_seconds p),
                     lease_seconds = max (lease_seconds p) (handler_timeout_seconds p + 30),
                     heartbeat_interval_seconds = max 5 (heartbeat_interval_seconds p),
                     execution_mode = ''thread''\<rparr>)"

section \<open>Dispatcher\<close>

type_synonym 'w handler = "json \<Rightarrow> 'w \<Rightarrow> exn option \<times> 'w"
type_synonym 'w registry = "(string \<times> 'w handler list) list"

definition register :: "string \<Rightarrow> 'w handler \<Rightarrow> 'w registry \<Rightarrow> 'w registry" where
  "register event_type h reg =
     (if map_of reg event_type = None then reg @ [(event_type, [h])]
      else map (\<lambda>(k, hs). if k = event_type then (k, hs @ [h]) else (k, hs)) reg)"

fun run_handlers :: "'w handler list \<Rightarrow> json \<Rightarrow> 'w \<Rightarrow> exn list \<times> 'w" where
  "run_handlers [] payload w = ([], w)"
| "run_handlers (h # hs) payload w =
     (let (e, w1) = h payload w;
          (es, w2) = run_handlers hs payload w1
      in (case e of None \<Rightarrow> es | Some x \<Rightarrow> x # es, w2))"

definition dispatch :: "'w registry \<Rightarrow> string \<Rightarrow> json \<Rightarrow> 'w \<Rightarrow> exn option \<times> 'w" where
  "dispatch reg event_type payload w =
     (case map_of reg event_type of
        None \<Rightarrow> (None, w)
      | Some [] \<Rightarrow> (None, w)
      | Some handlers \<Rightarrow>
          (let (errors, w1) = run_handlers handlers payload w
           in (case errors of [] \<Rightarrow> None | e # _ \<Rightarrow> Some e, w1)))"

definition has_handler :: "'w registry \<Rightarrow> string \<Rightarrow> bool" where
  "has_handler reg event_type = (case map_of reg event_type of None \<Rightarrow> False | Some hs \<Rightarrow> hs \<noteq> [])"

definition registered_types :: "'w registry \<Rightarrow> string list" where
  "registered_types reg = map fst reg"

section \<open>The worker object\<close>

record outbox_worker =
  w_poll_interval :: int
  w_max_retries :: int
  w_retry_delay :: int
  w_batch_size :: nat
  w_stale_lock :: int
  w_handler_timeout :: int
  w_lease :: int
  w_lock_owner :: "string option"

text \<open>Intervals that are floats in the code are microseconds here.\<close>

definition make_worker :: "int \<Rightarrow> int \<Rightarrow> int \<Rightarrow> nat \<Rightarrow> int \<Rightarrow> int \<Rightarrow> int \<Rightarrow> string option \<Rightarrow> outbox_worker" where
  "make_worker poll_us max_retries retry_delay batch_size stale_lock handler_timeout lease owner =
     \<lparr>w_poll_interval = max 100000 poll_us, w_max_retries = max_retries, w_retry_delay = retry_delay,
      w_batch_size = batch_size, w_stale_lock = max 1 stale_lock,
      w_handler_timeout = max 1 handler_timeout, w_lease = max 1 lease, w_lock_owner = owner\<rparr>"

record outbox_settings =
  set_poll_us :: int
  set_max_retries :: int
  set_retry_delay :: int
  set_stale_lock :: int
  set_lease :: int
  set_handler_timeout :: int
  set_instance_id :: "string option"

definition default_settings :: outbox_settings where
  "default_settings = \<lparr>set_poll_us = 1000000, set_max_retries = 10, set_retry_delay = 5,
     set_stale_lock = 300, set_lease = 300, set_handler_timeout = 15, set_instance_id = None\<rparr>"

definition default_lock_owner :: "string \<Rightarrow> outbox_settings \<Rightarrow> string" where
  "default_lock_owner host_and_pid st =
     (case strip_or_none (set_instance_id st) of None \<Rightarrow> host_and_pid | Some raw \<Rightarrow> raw)"

definition build_outbox_worker :: "string \<Rightarrow> outbox_settings \<Rightarrow> outbox_worker" where
  "build_outbox_worker host_and_pid st =
     make_worker (max 100000 (set_poll_us st)) (max 1 (set_max_retries st)) (max 1 (set_retry_delay st))
       100 (max 1 (set_stale_lock st)) (max 1 (set_handler_timeout st)) (max 1 (set_lease st))
       (Some (default_lock_owner host_and_pid st))"

text \<open>The embedded worker takes its retry and poll parameters from the event channel.\<close>

definition wire_outbox_worker :: "string \<Rightarrow> outbox_settings \<Rightarrow> (int \<times> int \<times> int) option \<Rightarrow> outbox_worker option" where
  "wire_outbox_worker host_and_pid st channel =
     (case channel of
        None \<Rightarrow> None
      | Some (poll_us, max_retries, retry_delay) \<Rightarrow>
          Some (make_worker poll_us max_retries retry_delay 100 (max 1 (set_stale_lock st))
            (max 1 (set_handler_timeout st)) (max 1 (set_lease st))
            (Some (default_lock_owner host_and_pid st))))"

text \<open>The thread of a worker: never started, or its liveness; and the stop flag.\<close>

record worker_thread =
  wt_alive :: "bool option"
  wt_stop :: bool

definition is_running :: "worker_thread \<Rightarrow> bool" where
  "is_running t = (wt_alive t = Some True \<and> \<not> wt_stop t)"

definition worker_status :: "worker_thread \<Rightarrow> string" where
  "worker_status t = (case wt_alive t of
     None \<Rightarrow> ''not_started''
   | Some alive \<Rightarrow> if alive then (if \<not> wt_stop t then ''running'' else ''stopping'') else ''stopped'')"

definition start_thread :: "worker_thread \<Rightarrow> worker_thread" where
  "start_thread t = (if wt_alive t = Some True then t else t\<lparr>wt_stop := False, wt_alive := Some True\<rparr>)"

text \<open>\<open>joined\<close>: whether the thread ended within the timeout of \<open>join\<close>.\<close>

definition stop_worker :: "bool \<Rightarrow> worker_thread \<Rightarrow> worker_thread" where
  "stop_worker joined t =
     (let t1 = t\<lparr>wt_stop := True\<rparr>
      in if wt_alive t1 = Some True \<and> joined then t1\<lparr>wt_alive := Some False\<rparr> else t1)"

section \<open>Processing\<close>

fun exn_str :: "exn \<Rightarrow> string" where
  "exn_str (ValueError s) = s"
| "exn_str (TimeoutError s) = s"
| "exn_str (RuntimeError s) = s"
| "exn_str (IntegrityError s) = s"
| "exn_str (EventDeliveryError s) = s"
| "exn_str (OtherError s) = s"

record 'w wsys =
  ws_db :: outbox_db
  ws_world :: 'w
  ws_now :: pydatetime

text \<open>
  \<open>beats start run interval\<close>: the times at which \<open>done.wait(interval)\<close> times out while the
  dispatch thread runs.
\<close>

definition beats :: "pydatetime \<Rightarrow> int \<Rightarrow> int \<Rightarrow> pydatetime list" where
  "beats start run interval =
     map (\<lambda>k. start + int k * seconds interval) [1..<Suc (nat ((run - 1) div seconds interval))]"

definition heartbeats :: "int option \<Rightarrow> string option \<Rightarrow> int option \<Rightarrow> int option \<Rightarrow> pydatetime \<Rightarrow> int \<Rightarrow>
    outbox_db \<Rightarrow> outbox_db" where
  "heartbeats event_id lock_owner lease hb_interval start run db =
     (case (event_id, lease) of
        (Some i, Some l) \<Rightarrow>
          (let raw = (case hb_interval of None \<Rightarrow> 30 | Some h \<Rightarrow> if h = 0 then 30 else h);
               interval = max 5 raw
           in fold (\<lambda>t. heartbeat t i lock_owner (max 1 l)) (beats start run interval) db)
      | _ \<Rightarrow> db)"

definition timeout_message :: "int \<Rightarrow> string \<Rightarrow> string" where
  "timeout_message timeout_s event_type =
     ''Outbox handler timeout ('' @ show_int timeout_s @ ''s) event_type='' @ event_type"

definition dispatch_with_timeout :: "'w registry \<Rightarrow> (string \<Rightarrow> json \<Rightarrow> 'w \<Rightarrow> int) \<Rightarrow> int option \<Rightarrow> string option \<Rightarrow>
    string \<Rightarrow> json \<Rightarrow> int \<Rightarrow> int option \<Rightarrow> int option \<Rightarrow> string \<Rightarrow> 'w wsys \<Rightarrow> unit res \<times> 'w wsys" where
  "dispatch_with_timeout reg dur event_id lock_owner event_type payload timeout_s lease hb_interval mode sys =
     (if mode \<noteq> ''thread'' then (Inl (ValueError (''Unsupported outbox execution mode: '' @ mode)), sys)
      else (let d = max 0 (dur event_type payload (ws_world sys));
                run = min d (seconds timeout_s);
                (err, w1) = dispatch reg event_type payload (ws_world sys);
                db1 = heartbeats event_id lock_owner lease hb_interval (ws_now sys) run (ws_db sys);
                sys1 = \<lparr>ws_db = db1, ws_world = w1, ws_now = ws_now sys + run\<rparr>
            in if seconds timeout_s < d then (Inl (TimeoutError (timeout_message timeout_s event_type)), sys1)
               else (case err of None \<Rightarrow> Inr () | Some e \<Rightarrow> Inl e, sys1)))"

definition process_one :: "outbox_worker \<Rightarrow> 'w registry \<Rightarrow> (string \<Rightarrow> json \<Rightarrow> 'w \<Rightarrow> int) \<Rightarrow> work_item \<Rightarrow> 'w wsys \<Rightarrow> 'w wsys" where
  "process_one w reg dur item sys =
     (let p = worker_policy_for_event (wi_event_type item) (w_handler_timeout w);
          (res, sys1) = dispatch_with_timeout reg dur (Some (wi_id item)) (w_lock_owner w)
            (wi_event_type item) (wi_payload item) (handler_timeout_seconds p) (Some (lease_seconds p))
            (Some (heartbeat_interval_seconds p)) (execution_mode p) sys
      in case res of
           Inr _ \<Rightarrow> sys1\<lparr>ws_db := mark_processed (ws_now sys1) (wi_id item) (ws_db sys1)\<rparr>
         | Inl e \<Rightarrow> sys1\<lparr>ws_db := mark_failed (ws_now sys1) (wi_id item) (exn_str e)
                      (w_max_retries w) (w_retry_delay w) (ws_db sys1)\<rparr>)"

definition process_batch :: "outbox_worker \<Rightarrow> 'w registry \<Rightarrow> (string \<Rightarrow> json \<Rightarrow> 'w \<Rightarrow> int) \<Rightarrow> (int \<Rightarrow> bool) \<Rightarrow>
    'w wsys \<Rightarrow> nat \<times> 'w wsys" where
  "process_batch w reg dur locked sys =
     (let (items, db1) = claim_next_batch (ws_now sys) (w_batch_size w) (w_stale_lock w) (w_lease w)
            (w_lock_owner w) locked (ws_db sys)
      in (length items, fold (process_one w reg dur) items (sys\<lparr>ws_db := db1\<rparr>)))"

text \<open>
  \<open>run_poll_loop\<close>: one element of \<open>locks\<close> (the rows other transactions hold locked) per round;
  the stop flag is set after the last round.
\<close>

fun run_poll_loop :: "outbox_worker \<Rightarrow> 'w registry \<Rightarrow> (string \<Rightarrow> json \<Rightarrow> 'w \<Rightarrow> int) \<Rightarrow> (int \<Rightarrow> bool) list \<Rightarrow>
    'w wsys \<Rightarrow> 'w wsys" where
  "run_poll_loop w reg dur [] sys = sys"
| "run_poll_loop w reg dur (locked # locks) sys =
     (let (processed, sys1) = process_batch w reg dur locked sys;
          sys2 = (if processed = 0 then sys1\<lparr>ws_now := ws_now sys1 + w_poll_interval w\<rparr> else sys1)
      in run_poll_loop w reg dur locks sys2)"

end
