(* ===== verification/Sanitize.thy ===== *)
theory Sanitize
  imports PyText
begin

text \<open>
  Redaction of log and audit payloads (\<open>backend/shared/utils/sanitization.py\<close>): which keys are
  sensitive, how a sensitive value is masked, and the recursion over the payload. The two
  regular expressions are written out: the key pattern asks for one of the words in a key of
  one line, the two-factor pattern for \<open>code\<close> together with one of four words in one line.
\<close>

section \<open>Substrings\<close>

text \<open>\<open>after w s\<close>: the rest of \<open>s\<close> behind the first occurrence of \<open>w\<close>.\<close>

fun after :: "string \<Rightarrow> string \<Rightarrow> string option" where
  "after w [] = (if w = [] then Some [] else None)"
| "after w (c # s) = (if is_prefix_of w (c # s) then Some (drop (length w) (c # s)) else after w s)"

section \<open>Sensitive keys\<close>

definition REDACT_KEYS :: "string list" where
  "REDACT_KEYS = [''password'', ''current_password'', ''new_password'', ''token'', ''refresh_token'',
    ''access_token'', ''pending_token'', ''two_factor_code'', ''code'', ''secret'',
    ''authorization'', ''cookie'', ''api_key'', ''jwt'', ''jwt_token'', ''api_secret'',
    ''prompt'', ''full_prompt'', ''system_prompt'', ''user_prompt'', ''context_text'',
    ''raw_content'', ''document_content'', ''text_content'', ''pii'']"

definition redact_words :: "string list" where
  "redact_words = [''password'', ''token'', ''secret'', ''key'', ''auth'', ''prompt'', ''context_text'',
    ''raw_content'', ''document_content'', ''text_content'', ''pii'']"

definition newline :: char where "newline = char_of (10::nat)"

text \<open>
  The pattern is anchored and its dots do not match a line break; the key has no trailing
  line break when it is matched, because it is stripped before.
\<close>

definition redact_key_pattern :: "string \<Rightarrow> bool" where
  "redact_key_pattern k = (newline \<notin> set k \<and> list_ex (\<lambda>w. contains w k) redact_words)"

definition two_factor_words :: "string list" where
  "two_factor_words = [''2fa'', ''two_factor'', ''otp'', ''verification'']"

definition first_line :: "string \<Rightarrow> string" where
  "first_line s = takeWhile (\<lambda>c. c \<noteq> newline) s"

text \<open>\<open>search\<close> looks for the pattern at every position; \<open>gap a b\<close>: \<open>a.*b\<close> occurs in \<open>s\<close>.\<close>

fun gap :: "string \<Rightarrow> string \<Rightarrow> string \<Rightarrow> bool" where
  "gap a b [] = (a = [] \<and> b = [])"
| "gap a b (c # s) =
     (is_prefix_of a (c # s) \<and> contains b (first_line (drop (length a) (c # s))) \<or> gap a b s)"

definition two_factor_key_pattern :: "string \<Rightarrow> bool" where
  "two_factor_key_pattern k =
     list_ex (\<lambda>w. gap w ''code'' k \<or> gap ''code'' w k) two_factor_words"

definition should_redact_key :: "string \<Rightarrow> bool" where
  "should_redact_key key = (let n = py_lower (py_strip key) in n \<in> set REDACT_KEYS \<or> redact_key_pattern n)"

section \<open>Masking\<close>

definition redacted :: string where "redacted = ''[REDACTED]''"

definition at_sign :: char where "at_sign = CHR ''@''"

definition mask_email :: "string \<Rightarrow> string" where
  "mask_email value =
     (if at_sign \<notin> set value then redacted
      else (let loc = takeWhile (\<lambda>c. c \<noteq> at_sign) value;
                domain = drop (length loc + 1) value
            in if loc = [] \<or> domain = [] then redacted
               else if length loc < 4 then redacted
               else (let visible = (if length domain < 5 then domain else drop (length domain - 5) domain);
                         hidden_domain = length domain - length visible;
                         hidden_local = length loc - 2
                     in take 2 loc @ replicate hidden_local (CHR ''*'') @ [at_sign]
                        @ replicate hidden_domain (CHR ''*'') @ visible)))"

definition mask_two_factor_numeric :: "string \<Rightarrow> string" where
  "mask_two_factor_numeric value =
     (if length value \<le> 2 then value
      else replicate (length value - 2) (CHR ''*'') @ drop (length value - 2) value)"

text \<open>\<open>str(value)\<close> of a value that is no dict, list or \<open>None\<close>.\<close>

definition scalar_str :: "json \<Rightarrow> string" where
  "scalar_str v = (case v of JBool b \<Rightarrow> (if b then ''True'' else ''False'') | JInt i \<Rightarrow> show_int i
     | JStr s \<Rightarrow> s | _ \<Rightarrow> [])"

definition redact_scalar :: "string \<Rightarrow> json \<Rightarrow> json" where
  "redact_scalar key value =
     (let k = py_lower key
      in if contains ''email'' k \<and> (case value of JStr _ \<Rightarrow> True | _ \<Rightarrow> False) then JStr (mask_email (jstr value))
         else if two_factor_key_pattern k
              then (let s = scalar_str value
                    in if py_isdigit s then JStr (mask_two_factor_numeric s) else JStr redacted)
              else JStr redacted)"

section \<open>The recursion\<close>

text \<open>
  \<open>sanitize\<close> is \<open>sanitize_log_data\<close> on the items of a dict; \<open>redact_value\<close> is the value of a
  sensitive key. \<open>None\<close> is \<open>JNull\<close>.
\<close>

definition mask_list_item :: "json \<Rightarrow> json" where
  "mask_list_item v = (case v of JStr s \<Rightarrow> JStr (mask_email s) | x \<Rightarrow> x)"

definition email_value :: "json \<Rightarrow> json" where
  "email_value v = (case v of JStr s \<Rightarrow> JStr (mask_email s) | JArr xs \<Rightarrow> JArr (map mask_list_item xs) | x \<Rightarrow> x)"

fun redact_value :: "string \<Rightarrow> json \<Rightarrow> json"
  and sanitize_field :: "string \<Rightarrow> json \<Rightarrow> json"
  and sanitize_log_data :: "json \<Rightarrow> json"
  and sanitize_items :: "(string \<times> json) list \<Rightarrow> (string \<times> json) list"
  and redact_list :: "string \<Rightarrow> json list \<Rightarrow> json list"
  and sanitize_list :: "json list \<Rightarrow> json list" where
  "redact_value key JNull = JNull"
| "redact_value key (JObj kvs) = JObj (sanitize_items kvs)"
| "redact_value key (JArr xs) = JArr (redact_list key xs)"
| "redact_value key (JBool b) = redact_scalar key (JBool b)"
| "redact_value key (JInt i) = redact_scalar key (JInt i)"
| "redact_value key (JStr s) = redact_scalar key (JStr s)"
| "sanitize_field key value =
     (if should_redact_key key then redact_value key value
      else if contains ''email'' (py_lower key) then email_value value
      else (case value of
              JObj kvs \<Rightarrow> JObj (sanitize_items kvs)
            | JArr xs \<Rightarrow> JArr (sanitize_list xs)
            | v \<Rightarrow> v))"
| "sanitize_log_data (JObj kvs) = JObj (sanitize_items kvs)"
| "sanitize_log_data v = v"
| "sanitize_items [] = []"
| "sanitize_items ((k, v) # kvs) = (k, sanitize_field k v) # sanitize_items kvs"
| "redact_list key [] = []"
| "redact_list key (x # xs) = redact_value key x # redact_list key xs"
| "sanitize_list [] = []"
| "sanitize_list (x # xs) = (case x of JObj kvs \<Rightarrow> JObj (sanitize_items kvs) | v \<Rightarrow> v) # sanitize_list xs"

end
