(* ===== verification/SanitizeProps.thy ===== *)
theory SanitizeProps
  imports Sanitize
begin

text \<open>
  Properties of the redaction: after it every sensitive key the recursion visits holds masked
  text only, payloads without sensitive keys are unchanged, keys are never dropped, a masked
  address shows at most two characters of its local part and five of its domain; and the
  parts the recursion does not visit.
\<close>

section \<open>Masks\<close>

definition masked :: "string \<Rightarrow> bool" where
  "masked s = (s = redacted \<or> (\<exists>t. s = mask_email t) \<or> (\<exists>t. s = mask_two_factor_numeric t \<and> py_isdigit t))"

lemma split_at_sign:
  assumes "at_sign \<in> set v"
  shows "v = takeWhile (\<lambda>c. c \<noteq> at_sign) v @ at_sign # drop (length (takeWhile (\<lambda>c. c \<noteq> at_sign) v) + 1) v"
proof -
  let ?t = "takeWhile (\<lambda>c. c \<noteq> at_sign) v"
  have d: "dropWhile (\<lambda>c. c \<noteq> at_sign) v = drop (length ?t) v" by (rule dropWhile_eq_drop)
  have "dropWhile (\<lambda>c. c \<noteq> at_sign) v \<noteq> []" using assms by (simp add: dropWhile_eq_Nil_conv)
  then obtain c cs where c: "dropWhile (\<lambda>c. c \<noteq> at_sign) v = c # cs" by (cases "dropWhile (\<lambda>c. c \<noteq> at_sign) v") auto
  then have "c = at_sign" using hd_dropWhile [of "\<lambda>c. c \<noteq> at_sign" v] by simp
  moreover have "cs = drop (length ?t + 1) v" using c d by (metis add.commute drop_drop drop_Suc_Cons drop0 plus_1_eq_Suc)
  ultimately show ?thesis using c by (metis takeWhile_dropWhile_id)
qed

lemma mask_length:
  "4 \<le> length loc \<Longrightarrow> length (take 2 loc @ replicate (length loc - 2) c @ [a]
     @ replicate (length domain - 5) c @ drop (length domain - 5) domain) = length loc + 1 + length domain"
  by simp

text \<open>What a masked address shows.\<close>

theorem mask_email_shows:
  "mask_email v = redacted \<or>
   (\<exists>loc domain. v = loc @ at_sign # domain \<and> at_sign \<notin> set loc \<and> 4 \<le> length loc \<and> length (mask_email v) = length v
     \<and> mask_email v = take 2 loc @ replicate (length loc - 2) (CHR ''*'') @ [at_sign]
         @ replicate (length domain - 5) (CHR ''*'') @ drop (length domain - 5) domain)"
proof -
  let ?loc = "takeWhile (\<lambda>c. c \<noteq> at_sign) v"
  let ?dom = "drop (length ?loc + 1) v"
  show ?thesis
  proof (cases "at_sign \<in> set v \<and> ?dom \<noteq> [] \<and> 4 \<le> length ?loc")
    case False
    then have "mask_email v = redacted" by (auto simp: mask_email_def Let_def)
    then show ?thesis by blast
  next
    case True
    have v: "v = ?loc @ at_sign # ?dom" using True split_at_sign by blast
    have "?loc \<noteq> []" using True by auto
    then have m: "mask_email v = take 2 ?loc @ replicate (length ?loc - 2) (CHR ''*'') @ [at_sign]
         @ replicate (length ?dom - 5) (CHR ''*'') @ drop (length ?dom - 5) ?dom"
      using True by (simp add: mask_email_def Let_def)
    have "length (mask_email v) = length ?loc + 1 + length ?dom" unfolding m by (rule mask_length) (use True in blast)
    also have "\<dots> = length v" using arg_cong [OF v, of length] by simp
    finally have "length (mask_email v) = length v" .
    moreover have "at_sign \<notin> set ?loc" using set_takeWhileD by fastforce
    ultimately show ?thesis using v m True by blast
  qed
qed

lemma redact_scalar_masked: "v \<noteq> JNull \<Longrightarrow> \<exists>s. redact_scalar k v = JStr s \<and> masked s"
  by (auto simp: redact_scalar_def Let_def masked_def)

section \<open>Clean payloads\<close>

text \<open>
  \<open>clean v\<close>: below every sensitive key there is masked text, \<open>None\<close>, or a structure that is
  clean in turn.
\<close>

fun clean :: "json \<Rightarrow> bool"
  and clean_items :: "(string \<times> json) list \<Rightarrow> bool"
  and clean_list :: "json list \<Rightarrow> bool"
  and masked_value :: "json \<Rightarrow> bool"
  and masked_list :: "json list \<Rightarrow> bool" where
  "clean (JObj kvs) = clean_items kvs"
| "clean (JArr xs) = clean_list xs"
| "clean _ = True"
| "clean_items [] = True"
| "clean_items ((k, v) # kvs) = ((if should_redact_key k then masked_value v else clean v) \<and> clean_items kvs)"
| "clean_list [] = True"
| "clean_list (x # xs) = (clean x \<and> clean_list xs)"
| "masked_value JNull = True"
| "masked_value (JStr s) = masked s"
| "masked_value (JObj kvs) = clean_items kvs"
| "masked_value (JArr xs) = masked_list xs"
| "masked_value _ = False"
| "masked_list [] = True"
| "masked_list (x # xs) = (masked_value x \<and> masked_list xs)"

text \<open>
  \<open>covered v\<close>: what the recursion does not visit is clean as it is: dicts below an
  \<open>email\<close> key, and lists that are elements of a list.
\<close>

fun covered :: "json \<Rightarrow> bool"
  and covered_items :: "(string \<times> json) list \<Rightarrow> bool"
  and covered_list :: "json list \<Rightarrow> bool"
  and covered_red :: "json \<Rightarrow> bool"
  and covered_red_list :: "json list \<Rightarrow> bool" where
  "covered (JObj kvs) = covered_items kvs"
| "covered (JArr xs) = covered_list xs"
| "covered _ = True"
| "covered_items [] = True"
| "covered_items ((k, v) # kvs) =
     ((if should_redact_key k then covered_red v
       else if contains ''email'' (py_lower k) then clean v else covered v) \<and> covered_items kvs)"
| "covered_list [] = True"
| "covered_list (x # xs) = ((case x of JObj kvs \<Rightarrow> covered_items kvs | v \<Rightarrow> clean v) \<and> covered_list xs)"
| "covered_red (JObj kvs) = covered_items kvs"
| "covered_red (JArr xs) = covered_red_list xs"
| "covered_red _ = True"
| "covered_red_list [] = True"
| "covered_red_list (x # xs) = (covered_red x \<and> covered_red_list xs)"

text \<open>No key is sensitive or names an address.\<close>

fun insensitive :: "json \<Rightarrow> bool"
  and insensitive_items :: "(string \<times> json) list \<Rightarrow> bool"
  and insensitive_list :: "json list \<Rightarrow> bool" where
  "insensitive (JObj kvs) = insensitive_items kvs"
| "insensitive (JArr xs) = insensitive_list xs"
| "insensitive _ = True"
| "insensitive_items [] = True"
| "insensitive_items ((k, v) # kvs) =
     (\<not> should_redact_key k \<and> \<not> contains ''email'' (py_lower k) \<and> insensitive v \<and> insensitive_items kvs)"
| "insensitive_list [] = True"
| "insensitive_list (x # xs) = (insensitive x \<and> insensitive_list xs)"

lemma clean_mask_list: "clean_list xs \<Longrightarrow> clean_list (map mask_list_item xs)"
proof (induction xs)
  case Nil
  then show ?case by simp
next
  case (Cons x xs)
  then show ?case by (cases x) (simp_all add: mask_list_item_def)
qed

lemma clean_email_value: "clean v \<Longrightarrow> clean (email_value v)"
  by (cases v) (simp_all add: email_value_def clean_mask_list)

lemma sanitize_clean_aux:
  "covered_red v \<Longrightarrow> masked_value (redact_value k v)"
  "(if should_redact_key k then covered_red v else if contains ''email'' (py_lower k) then clean v else covered v) \<Longrightarrow>
     (if should_redact_key k then masked_value (sanitize_field k v) else clean (sanitize_field k v))"
  "is_jobj v \<Longrightarrow> covered v \<Longrightarrow> clean (sanitize_log_data v)"
  "covered_items kvs \<Longrightarrow> clean_items (sanitize_items kvs)"
  "covered_red_list xs \<Longrightarrow> masked_list (redact_list k xs)"
  "covered_list xs \<Longrightarrow> clean_list (sanitize_list xs)"
proof (induction k v and k v and v and kvs and k xs and xs
    rule: redact_value_sanitize_field_sanitize_log_data_sanitize_items_redact_list_sanitize_list.induct)
  case (4 k b)
  then show ?case using redact_scalar_masked [of "JBool b" k] by auto
next
  case (5 k i)
  then show ?case using redact_scalar_masked [of "JInt i" k] by auto
next
  case (6 k s)
  then show ?case using redact_scalar_masked [of "JStr s" k] by auto
next
  case (7 k v)
  then show ?case
    by (cases "should_redact_key k"; cases "contains ''email'' (py_lower k)"; cases v) (simp_all add: clean_email_value)
next
  case (11 k v kvs)
  then show ?case by (simp del: sanitize_field.simps split: if_splits)
next
  case (15 x xs)
  then show ?case by (cases x) simp_all
qed (simp_all add: is_jobj_def)



lemma not_sensitive_aux:
  "True"
  "\<not> should_redact_key k \<Longrightarrow> \<not> contains ''email'' (py_lower k) \<Longrightarrow> insensitive v \<Longrightarrow> sanitize_field k v = v"
  "insensitive v \<Longrightarrow> sanitize_log_data v = v"
  "insensitive_items kvs \<Longrightarrow> sanitize_items kvs = kvs"
  "True"
  "insensitive_list xs \<Longrightarrow> sanitize_list xs = xs"
proof (induction k v and k v and v and kvs and k xs and xs
    rule: redact_value_sanitize_field_sanitize_log_data_sanitize_items_redact_list_sanitize_list.induct)
  case (7 k v)
  then show ?case by (cases v) simp_all
next
  case (11 k v kvs)
  then show ?case by (simp del: sanitize_field.simps)
next
  case (15 x xs)
  then show ?case by (cases x) simp_all
qed simp_all

text \<open>Nothing else is touched.\<close>

theorem sanitize_keeps_insensitive:
  "insensitive v \<Longrightarrow> sanitize_log_data v = v"
  by (rule not_sensitive_aux(3))

section \<open>What the recursion does not visit\<close>

lemmas key_eval = should_redact_key_def Let_def py_lower_def lower_char_def py_strip_def is_blank_def
  REDACT_KEYS_def redact_key_pattern_def redact_words_def newline_def

text \<open>Two shapes pass through unmasked: a dictionary under a key that contains the word email, and
  a dictionary in a list of lists keep their passwords in clear.\<close>

theorem sanitize_skips_nested_parts:
  assumes "k \<in> {''email_settings'', ''customer_email''}"
  shows "sanitize_log_data (JObj [(k, JObj [(''password'', JStr p)])]) = JObj [(k, JObj [(''password'', JStr p)])]
    \<and> sanitize_log_data (JObj [(''rows'', JArr [JArr [JObj [(''password'', JStr p)]]])])
      = JObj [(''rows'', JArr [JArr [JObj [(''password'', JStr p)]]])]"
proof -
  have r: "\<not> should_redact_key k" "contains ''email'' (py_lower k)"
    "\<not> should_redact_key ''rows''" "\<not> contains ''email'' (py_lower ''rows'')"
    using assms by (auto simp: key_eval)
  show ?thesis using r by (simp add: email_value_def)
qed

theorem sanitize_skips_nested_parts_witness:
  "sanitize_log_data (JObj [(''email_settings'', JObj [(''password'', JStr ''x'')])])
     = JObj [(''email_settings'', JObj [(''password'', JStr ''x'')])]"
  using sanitize_skips_nested_parts [of "''email_settings''" "''x''"] by simp

end
