(* ===== verification/EventChannel.thy ===== *)
theory EventChannel
  imports OutboxProps WorkerModel SanitizeProps
begin

text \<open>
  Publishing and handling of platform events: the payload metadata (\<open>event_payload.py\<close>), the
  channel with its backlog limit (\<open>event_channel.py\<close>), the proxies that turn service calls into
  events (\<open>event_proxies.py\<close>), the handlers that turn events back into service calls
  (\<open>handlers.py\<close>), the audit service behind them, the job queue facade (\<open>jobs/enqueue.py\<close>)
  and the instance roles (\<open>runtime/instance_role.py\<close>).

  Values of the observability context and optional arguments are JSON values, \<open>None\<close> is
  \<open>JNull\<close>; a context is the association list of a dict. The security logger and the mail
  transport are not modelled, they are arguments of the handlers.
\<close>

section \<open>Contexts and roles\<close>

type_synonym obs_ctx = "(string \<times> json) list"

definition ctx_get :: "string \<Rightarrow> obs_ctx \<Rightarrow> json" where
  "ctx_get k c = jget k (JObj c)"

definition bind_one :: "string \<times> json \<Rightarrow> obs_ctx \<Rightarrow> obs_ctx" where
  "bind_one f c = (if snd f = JNull then filter (\<lambda>(k, v). k \<noteq> fst f) c else kv_set (fst f) (snd f) c)"

definition bind_observability_context :: "(string \<times> json) list \<Rightarrow> obs_ctx \<Rightarrow> obs_ctx" where
  "bind_observability_context fs c = fold bind_one fs c"

datatype instance_role = Web | Worker | Combined

definition env_flag :: "string option \<Rightarrow> bool \<Rightarrow> bool" where
  "env_flag raw dflt =
     (case raw of
        None \<Rightarrow> dflt
      | Some s \<Rightarrow> (let value = py_lower (py_strip s)
                  in if value \<in> {''1'', ''true'', ''yes'', ''on''} then True
                     else if value \<in> {''0'', ''false'', ''no'', ''off''} then False
                     else dflt))"

definition get_instance_role :: "string option \<Rightarrow> instance_role res" where
  "get_instance_role env =
     (let raw = py_lower (py_strip (case env of None \<Rightarrow> ''combined'' | Some s \<Rightarrow> if s = [] then ''combined'' else s))
      in if raw = ''web'' then Inr Web else if raw = ''worker'' then Inr Worker
         else if raw = ''combined'' then Inr Combined else Inl (ValueError ''INSTANCE_ROLE''))"

definition is_web_process :: "instance_role \<Rightarrow> bool" where
  "is_web_process r = (r \<in> {Web, Combined})"

definition is_worker_process :: "instance_role \<Rightarrow> bool" where
  "is_worker_process r = (r \<in> {Worker, Combined})"

definition should_run_background_workers :: "instance_role \<Rightarrow> bool" where
  "should_run_background_workers r = (r = Combined)"

definition should_run_standalone_outbox_worker :: "string option \<Rightarrow> instance_role \<Rightarrow> bool" where
  "should_run_standalone_outbox_worker flag r = (if r \<notin> {Worker, Combined} then False else env_flag flag True)"

definition should_run_standalone_billing_worker :: "string option \<Rightarrow> instance_role \<Rightarrow> bool" where
  "should_run_standalone_billing_worker flag r = (if r \<notin> {Worker, Combined} then False else env_flag flag True)"

definition role_value :: "instance_role res \<Rightarrow> json" where
  "role_value r = (case r of Inr Web \<Rightarrow> JStr ''web'' | Inr Worker \<Rightarrow> JStr ''worker'' | Inr Combined \<Rightarrow> JStr ''combined''
     | Inl _ \<Rightarrow> JNull)"

section \<open>Payload metadata\<close>

definition enrich_event_payload :: "obs_ctx \<Rightarrow> json \<Rightarrow> instance_role res \<Rightarrow> string \<Rightarrow> json \<Rightarrow> json" where
  "enrich_event_payload ctx schema role event_type payload =
     (let meta = jitems (jget ''_meta'' payload);
          meta = kv_setdefault ''correlation_id'' (ctx_get ''correlation_id'' ctx) meta;
          meta = kv_setdefault ''request_id'' (ctx_get ''request_id'' ctx) meta;
          meta = kv_setdefault ''tenant_id'' (ctx_get ''tenant_id'' ctx) meta;
          meta = kv_setdefault ''tenant_slug'' (jor (ctx_get ''tenant_slug'' ctx) schema) meta;
          meta = kv_setdefault ''user_id'' (ctx_get ''user_id'' ctx) meta;
          meta = kv_setdefault ''event_name'' (JStr event_type) meta;
          meta = kv_setdefault ''instance_role'' (role_value role) meta
      in JObj (kv_set ''_meta'' (JObj meta) (jitems payload)))"

section \<open>The channel\<close>

text \<open>The request side: the table, the request's context and the settings read by \<open>publish\<close>.\<close>

record channel_env =
  ce_ctx :: obs_ctx
  ce_schema :: json
  ce_role :: "instance_role res"
  ce_soft_limit :: int
  ce_now :: pydatetime

definition enqueue_failed :: "string \<Rightarrow> exn" where
  "enqueue_failed event_type = EventDeliveryError
     (''Esem'' @ [CHR 0xE9] @ ''ny outbox-ba '' @ [CHR 0xED] @ ''r'' @ [CHR 0xE1] @ ''sa sikertelen: '' @ event_type)"

definition effective_soft_limit :: "int \<Rightarrow> int" where
  "effective_soft_limit x = max 1 (if x = 0 then 5000 else x)"

definition publish :: "channel_env \<Rightarrow> string \<Rightarrow> json \<Rightarrow> string option \<Rightarrow> outbox_db \<Rightarrow> unit res \<times> outbox_db" where
  "publish env event_type payload idempotency_key db =
     (let enriched = enrich_event_payload (ce_ctx env) (ce_schema env) (ce_role env) event_type payload
      in if effective_soft_limit (ce_soft_limit env) \<le> backlog_size db then (Inl (enqueue_failed event_type), db)
         else (case append_event (ce_now env) event_type enriched idempotency_key db of
                 (Inr _, db1) \<Rightarrow> (Inr (), db1)
               | (Inl _, db1) \<Rightarrow> (Inl (enqueue_failed event_type), db1)))"

definition enqueue_job :: "channel_env option \<Rightarrow> string \<Rightarrow> json \<Rightarrow> string option \<Rightarrow> outbox_db \<Rightarrow> unit res \<times> outbox_db" where
  "enqueue_job channel event_type payload idempotency_key db =
     (let t = py_strip event_type
      in if t = [] then (Inl (ValueError ''enqueue_job: event_type is required''), db)
         else (case channel of
                 None \<Rightarrow> (Inl (RuntimeError ''Platform job queue is not configured. Enable platform event outbox worker.''), db)
               | Some env \<Rightarrow>
                   (case publish env t payload idempotency_key db of
                      (Inr u, db1) \<Rightarrow> (Inr u, db1)
                    | (Inl e, db1) \<Rightarrow> (Inl (RuntimeError (exn_str e)), db1))))"

section \<open>Proxies\<close>

definition security_payload :: "string \<Rightarrow> json list \<Rightarrow> (string \<times> json) list \<Rightarrow> json" where
  "security_payload name args kwargs =
     JObj [(''method'', JStr name), (''args'', JArr args), (''kwargs'', JObj kwargs)]"

record audit_args =
  aa_action :: string
  aa_user_id :: json
  aa_actor_type :: json
  aa_event_name :: json
  aa_outcome :: json
  aa_target_type :: json
  aa_target_id :: json
  aa_correlation_id :: json
  aa_details :: json
  aa_ip :: json
  aa_user_agent :: json

definition audit_payload :: "json \<Rightarrow> json \<Rightarrow> audit_args \<Rightarrow> json" where
  "audit_payload schema tenant_slug a =
     JObj [(''action'', JStr (aa_action a)), (''user_id'', aa_user_id a), (''actor_type'', aa_actor_type a),
       (''event_name'', aa_event_name a), (''outcome'', aa_outcome a), (''target_type'', aa_target_type a),
       (''target_id'', aa_target_id a), (''correlation_id'', aa_correlation_id a), (''details'', aa_details a),
       (''ip'', aa_ip a), (''user_agent'', aa_user_agent a),
       (''tenant_slug'', if tenant_slug \<noteq> JNull then tenant_slug else schema)]"

definition proxy_log :: "channel_env \<Rightarrow> json \<Rightarrow> audit_args \<Rightarrow> outbox_db \<Rightarrow> unit res \<times> outbox_db" where
  "proxy_log env tenant_slug a db = publish env ''audit'' (audit_payload (ce_schema env) tenant_slug a) None db"

definition email_2fa_payload :: "json \<Rightarrow> json \<Rightarrow> json \<Rightarrow> json \<Rightarrow> int \<Rightarrow> json" where
  "email_2fa_payload to_email code pending_token lang expiry_minutes =
     JObj [(''to_email'', to_email), (''code'', code), (''pending_token'', pending_token), (''lang'', lang),
       (''expiry_minutes'', JInt expiry_minutes)]"

definition proxy_send_2fa_code :: "channel_env \<Rightarrow> json \<Rightarrow> json \<Rightarrow> json \<Rightarrow> json \<Rightarrow> int \<Rightarrow> outbox_db \<Rightarrow> bool res \<times> outbox_db" where
  "proxy_send_2fa_code env to_email code pending_token lang expiry_minutes db =
     (case publish env ''email_2fa'' (email_2fa_payload to_email code pending_token lang expiry_minutes) None db of
        (Inr _, db1) \<Rightarrow> (Inr True, db1)
      | (Inl e, db1) \<Rightarrow> (Inl e, db1))"

definition enqueue_email_2fa :: "channel_env \<Rightarrow> json \<Rightarrow> json \<Rightarrow> json \<Rightarrow> json \<Rightarrow> outbox_db \<Rightarrow> unit res \<times> outbox_db" where
  "enqueue_email_2fa env to_email code pending_token lang db =
     publish env ''email_2fa'' (JObj [(''to_email'', to_email), (''code'', code), (''pending_token'', pending_token), (''lang'', lang)]) None db"

definition email_invite_payload :: "json \<Rightarrow> json \<Rightarrow> json \<Rightarrow> json" where
  "email_invite_payload to_email link lang = JObj [(''to_email'', to_email), (''set_password_link'', link), (''lang'', lang)]"

definition proxy_send_set_password_invite :: "channel_env \<Rightarrow> json \<Rightarrow> json \<Rightarrow> json \<Rightarrow> outbox_db \<Rightarrow> bool res \<times> outbox_db" where
  "proxy_send_set_password_invite env to_email link lang db =
     (case publish env ''email_invite'' (email_invite_payload to_email link lang) None db of
        (Inr _, db1) \<Rightarrow> (Inr True, db1)
      | (Inl e, db1) \<Rightarrow> (Inl e, db1))"

section \<open>The audit service\<close>

definition audit_actions :: "string list" where
  "audit_actions =
    [''brand_updated'', ''forgot_password_link_sent'', ''email_confirmed'', ''invite_resent'', ''login_2fa_failed'',
     ''login_2fa_rate_limited'', ''login_2fa_required'', ''login_2fa_success'', ''login_failed'', ''login_success'',
     ''logout'', ''logout_error'', ''logout_failed'', ''password_changed'', ''password_set_by_invite'', ''refresh'',
     ''refresh_failed'', ''refresh_suspicious_fingerprint'', ''settings_security_updated'', ''tenant_provisioned'',
     ''user_created'', ''user_deleted'', ''user_email_changed'', ''user_role_changed'', ''user_updated'',
     ''platform_admin_login_success'', ''platform_admin_login_failed'', ''platform_admin_mfa_required'',
     ''platform_admin_mfa_passed'', ''platform_admin_mfa_failed'', ''platform_admin_refresh'',
     ''platform_admin_refresh_failed'', ''platform_admin_logout'', ''platform_admin_profile_updated'',
     ''platform_admin_password_changed'', ''platform_admin_stats_viewed'', ''platform_admin_tenant_stats_viewed'',
     ''platform_admin_security_ip_banned'', ''platform_admin_security_ip_unbanned'',
     ''platform_admin_security_alert_ack'', ''internal_endpoint_accessed'', ''admin_action'', ''permission_denied'',
     ''knowledge_pii_depersonalized'', ''knowledge_created'', ''knowledge_deleted'',
     ''knowledge_permission_changed'', ''knowledge_setting_changed'', ''knowledge_training_started'',
     ''knowledge_source_deleted'', ''knowledge_url_ingest_rejected'', ''knowledge_upload_rejected'',
     ''api_credential_created'', ''api_credential_rotated'', ''api_credential_revoked'', ''signed_request_rejected'']"

definition ends_with :: "string \<Rightarrow> string \<Rightarrow> bool" where
  "ends_with suffix s = is_prefix_of (rev suffix) (rev s)"

definition default_outcome :: "string \<Rightarrow> string" where
  "default_outcome action =
     (if ends_with ''_failed'' action \<or> ends_with ''_error'' action then ''failure''
      else if action = ''login_2fa_required'' then ''challenge_required''
      else if action = ''login_2fa_rate_limited'' then ''rate_limited''
      else ''success'')"

definition default_target_type :: "string \<Rightarrow> json \<Rightarrow> json" where
  "default_target_type action user_id =
     (if user_id \<noteq> JNull then JStr ''user''
      else if action = ''settings_security_updated'' then JStr ''platform_settings''
      else if action = ''brand_updated'' then JStr ''platform_brand''
      else if action = ''tenant_provisioned'' then JStr ''tenant''
      else if is_prefix_of ''platform_admin_'' action then JStr ''platform_admin''
      else JNull)"

text \<open>
  The process a call runs in: its context variables and the audit rows written, each with the
  tenant schema of the session that wrote it.
\<close>

record audit_world =
  aw_ctx :: obs_ctx
  aw_schema :: json
  aw_rows :: "(json \<times> audit_args) list"

definition audit_log :: "audit_args \<Rightarrow> audit_world \<Rightarrow> audit_world" where
  "audit_log a w =
     (let row = a\<lparr>
        aa_actor_type := jor (aa_actor_type a) (JStr (if aa_user_id a \<noteq> JNull then ''user'' else ''system'')),
        aa_event_name := jor (aa_event_name a) (JStr (aa_action a)),
        aa_outcome := jor (aa_outcome a) (JStr (default_outcome (aa_action a))),
        aa_target_type := jor (aa_target_type a) (default_target_type (aa_action a) (aa_user_id a)),
        aa_target_id := jor (aa_target_id a) (if aa_user_id a \<noteq> JNull then JStr (scalar_str (aa_user_id a)) else JNull),
        aa_correlation_id := jor (aa_correlation_id a) (ctx_get ''correlation_id'' (aw_ctx w)),
        aa_details := sanitize_log_data (aa_details a)\<rparr>
      in w\<lparr>aw_rows := aw_rows w @ [(aw_schema w, row)]\<rparr>)"

section \<open>Handlers\<close>

definition meta_of :: "json \<Rightarrow> json" where
  "meta_of payload = jor (jget ''_meta'' payload) (JObj [])"

definition handle_audit :: "audit_world handler" where
  "handle_audit payload w =
     (let meta = meta_of payload;
          slug = jor (jget ''tenant_slug'' payload) (jget ''tenant_slug'' meta);
          ctx1 = bind_observability_context
            [(''correlation_id'', jget ''correlation_id'' meta), (''request_id'', jget ''request_id'' meta),
             (''tenant_id'', jget ''tenant_id'' meta), (''tenant_slug'', slug),
             (''user_id'', jor (jget ''user_id'' payload) (jget ''user_id'' meta)),
             (''event_name'', jget ''event_name'' meta)] (aw_ctx w);
          inner = w\<lparr>aw_schema := slug, aw_ctx := ctx1\<rparr>
      in if ''action'' \<notin> set (jkeys payload) then (Some (OtherError ''action''), w)
         else if scalar_str (jget ''action'' payload) \<notin> set audit_actions
         then (Some (ValueError (scalar_str (jget ''action'' payload))), w)
         else (None,
           (audit_log \<lparr>aa_action = scalar_str (jget ''action'' payload), aa_user_id = jget ''user_id'' payload,
              aa_actor_type = jget ''actor_type'' payload, aa_event_name = jget ''event_name'' payload,
              aa_outcome = jget ''outcome'' payload, aa_target_type = jget ''target_type'' payload,
              aa_target_id = jget ''target_id'' payload,
              aa_correlation_id = jor (jget ''correlation_id'' payload) (jget ''correlation_id'' meta),
              aa_details = jget ''details'' payload, aa_ip = jget ''ip'' payload,
              aa_user_agent = jget ''user_agent'' payload\<rparr> inner)
           \<lparr>aw_schema := aw_schema w, aw_ctx := aw_ctx w\<rparr>))"

definition jitem_list :: "json \<Rightarrow> json list" where
  "jitem_list v = (case v of JArr xs \<Rightarrow> xs | _ \<Rightarrow> [])"

text \<open>\<open>has m\<close>: the logger has method \<open>m\<close>; \<open>call m args kwargs\<close>: its effect.\<close>

definition handle_security :: "(string \<Rightarrow> bool) \<Rightarrow> (string \<Rightarrow> json list \<Rightarrow> (string \<times> json) list \<Rightarrow> 'w \<Rightarrow> exn option \<times> 'w) \<Rightarrow> 'w handler" where
  "handle_security has call payload w =
     (let m = jget ''method'' payload
      in if jtruthy m \<and> has (scalar_str m)
         then call (scalar_str m) (jitem_list (jget ''args'' payload)) (jitems (jget ''kwargs'' payload)) w
         else (None, w))"

definition jget_default :: "string \<Rightarrow> json \<Rightarrow> json \<Rightarrow> json" where
  "jget_default k d v = (if k \<in> set (jkeys v) then jget k v else d)"

definition handle_email_2fa :: "(json \<Rightarrow> json \<Rightarrow> json \<Rightarrow> json \<Rightarrow> int \<Rightarrow> 'w \<Rightarrow> bool \<times> 'w) \<Rightarrow> 'w handler" where
  "handle_email_2fa send payload w =
     (let (ok, w1) = send (jget_default ''to_email'' (JStr []) payload) (jget_default ''code'' (JStr []) payload)
            (jget ''pending_token'' payload) (jget ''lang'' payload)
            (jint (jor (jget_default ''expiry_minutes'' (JInt 10) payload) (JInt 10))) w
      in (if ok then None else Some (RuntimeError (''2FA email k'' @ [CHR 0xFC] @ ''ld'' @ [CHR 0xE9] @ ''s sikertelen'')), w1))"

definition handle_email_invite :: "(json \<Rightarrow> json \<Rightarrow> json \<Rightarrow> 'w \<Rightarrow> bool \<times> 'w) \<Rightarrow> 'w handler" where
  "handle_email_invite send payload w =
     (let (ok, w1) = send (jget_default ''to_email'' (JStr []) payload) (jget_default ''set_password_link'' (JStr []) payload)
            (jget ''lang'' payload) w
      in (if ok then None else Some (RuntimeError (''Megh'' @ [CHR 0xED] @ ''v'' @ [CHR 0xF3] @ '' email k'' @ [CHR 0xFC] @ ''ld'' @ [CHR 0xE9] @ ''s sikertelen'')), w1))"

definition register_security_audit_handlers :: "'w handler \<Rightarrow> 'w handler \<Rightarrow> 'w handler \<Rightarrow> 'w handler \<Rightarrow> 'w registry \<Rightarrow> 'w registry" where
  "register_security_audit_handlers security audit email_2fa email_invite reg =
     register ''email_invite'' email_invite (register ''email_2fa'' email_2fa
       (register ''audit'' audit (register ''security'' security reg)))"

end
