(* ===== verification/AuthTypes.thy ===== *)
theory AuthTypes
  imports EventChannel AuthTotp
begin

text \<open>
  Data of the authentication module (\<open>core/modules/auth\<close>): users, sessions, pending two-factor
  logins, mailed codes, attempt counters and authenticator secrets as rows, JWT claims, and what a
  request brings along. Tokens are values of a type \<open>'t\<close>; signing and checking them (PyJWT), hashing
  and the password check (passlib) are fields of the environment \<open>aenv\<close>. One request reads one clock.
\<close>

section \<open>Rows\<close>

record user_row =
  us_id :: int
  us_email :: string
  us_password_hash :: string
  us_is_active :: bool
  us_role :: string
  us_failed_login_attempts :: int
  us_security_version :: int
  us_deleted_at :: "pydatetime option"

record session_row =
  se_id :: int
  se_user_id :: int
  se_jti :: string
  se_token_hash :: string
  se_valid :: bool
  se_ip :: "string option"
  se_user_agent :: "string option"
  se_expires_at :: pydatetime

record pending_row =
  pf_token :: string
  pf_user_id :: int
  pf_expires_at :: pydatetime

record code_row =
  tf_id :: int
  tf_user_id :: int
  tf_code_hash :: string
  tf_email :: string
  tf_expires_at :: pydatetime
  tf_used :: bool

record attempt_row =
  at_scope :: string
  at_key :: string
  at_attempts :: int
  at_window_start :: pydatetime

record authenticator_row =
  ar_user_id :: int
  ar_secret :: "string option"
  ar_is_enabled :: bool
  ar_pending_secret :: "string option"
  ar_pending_expires_at :: "pydatetime option"

section \<open>Events of a transaction\<close>

text \<open>
  Audit and security records and mails go through the event channel into the outbox, in the
  transaction of the request; they are kept in order until it ends.
\<close>

datatype auth_event =
    Audit audit_args
  | Security string "json list" "(string \<times> json) list"
  | Mail_2fa string string string

record auth_db =
  ad_users :: "user_row list"
  ad_sessions :: "session_row list"
  ad_next_session :: int
  ad_pending :: "pending_row list"
  ad_codes :: "code_row list"
  ad_next_code :: int
  ad_attempts :: "attempt_row list"
  ad_authenticators :: "authenticator_row list"
  ad_events :: "auth_event list"

section \<open>Tokens\<close>

text \<open>A claim that a kind of token does not carry is \<open>None\<close>; \<open>sub\<close> is the id of the user as text.\<close>

record claims =
  cl_sub :: "string option"
  cl_typ :: "string option"
  cl_jti :: "string option"
  cl_user_ver :: "int option"
  cl_tenant_ver :: "int option"
  cl_role :: "string option"
  cl_al :: "bool option"
  cl_exp :: pydatetime
  cl_iat :: pydatetime
  cl_nbf :: pydatetime
  cl_iss :: "string option"
  cl_aud :: "string option"
  cl_tenant :: "string option"
  cl_email :: "string option"
  cl_name :: "string option"
  cl_demo_expires_at :: "pydatetime option"

text \<open>
  What PyJWT raises: an expired token, a wrong signature, a text that is no token, and the other
  subclasses of \<open>InvalidTokenError\<close> (issuer, audience, not yet valid).
\<close>

datatype jwt_error = ExpiredSignature | InvalidSignature | DecodeError | InvalidIssuer | InvalidAudience | ImmatureSignature

datatype redis = No_redis | Redis_fails | Redis_up

record tenant_ctx =
  tx_slug :: "string option"
  tx_correlation_id :: "string option"
  tx_security_version :: int
  tx_trial_active :: bool

record client =
  rq_ip :: "string option"
  rq_ua :: "string option"

record 't aenv =
  ae_now :: pydatetime
  ae_secret :: string
  ae_issuer :: "string option"
  ae_audience :: "string option"
  ae_access_exp :: int
  ae_refresh_exp :: int
  ae_encode :: "claims \<Rightarrow> string \<Rightarrow> 't"
  ae_decode :: "'t \<Rightarrow> string \<Rightarrow> bool \<Rightarrow> string option \<Rightarrow> string option \<Rightarrow> pydatetime \<Rightarrow> jwt_error + claims"
  ae_token_hash :: "'t \<Rightarrow> string"
  ae_sha256 :: "string \<Rightarrow> string"
  ae_password_ok :: "string \<Rightarrow> string \<Rightarrow> bool"
  ae_hmac_sha1 :: "bytes \<Rightarrow> bytes \<Rightarrow> bytes"
  ae_uuids :: "bytes \<times> bytes"
  ae_refresh_jti :: string
  ae_access_jti :: string
  ae_pending_token :: string
  ae_code :: string
  ae_two_factor_enabled :: bool
  ae_max_attempts :: int
  ae_window_minutes :: int
  ae_code_expiry_minutes :: int
  ae_channel :: channel_env
  ae_redis :: redis
  ae_fail_closed :: bool
  ae_permissions_changed :: "string option \<Rightarrow> int \<Rightarrow> bool"

definition minutes :: "int \<Rightarrow> int" where
  "minutes n = seconds (60 * n)"

section \<open>The token service (\<open>token_service.py\<close>)\<close>

definition no_claims :: "'t aenv \<Rightarrow> claims" where
  "no_claims e = \<lparr>cl_sub = None, cl_typ = None, cl_jti = None, cl_user_ver = None, cl_tenant_ver = None,
     cl_role = None, cl_al = None, cl_exp = 0, cl_iat = ae_now e, cl_nbf = ae_now e, cl_iss = ae_issuer e,
     cl_aud = ae_audience e, cl_tenant = None, cl_email = None, cl_name = None, cl_demo_expires_at = None\<rparr>"

definition make_access :: "'t aenv \<Rightarrow> int \<Rightarrow> int \<Rightarrow> int \<Rightarrow> string \<Rightarrow> 't \<times> string" where
  "make_access e user_id user_ver tenant_ver role =
     (let payload = (no_claims e)\<lparr>cl_sub := Some (show_int user_id), cl_typ := Some ''access'',
            cl_jti := Some (ae_access_jti e), cl_user_ver := Some user_ver, cl_tenant_ver := Some tenant_ver,
            cl_role := Some role, cl_exp := ae_now e + minutes (ae_access_exp e)\<rparr>
      in (ae_encode e payload (ae_secret e), ae_access_jti e))"

definition make_refresh_pair :: "'t aenv \<Rightarrow> int \<Rightarrow> bool \<Rightarrow> int \<Rightarrow> int \<Rightarrow> 't \<times> claims" where
  "make_refresh_pair e user_id auto_login user_ver tenant_ver =
     (let payload = (no_claims e)\<lparr>cl_sub := Some (show_int user_id), cl_typ := Some ''refresh'',
            cl_jti := Some (ae_refresh_jti e), cl_user_ver := Some user_ver, cl_tenant_ver := Some tenant_ver,
            cl_exp := ae_now e + minutes (ae_refresh_exp e), cl_al := Some auto_login\<rparr>
      in (ae_encode e payload (ae_secret e), payload))"

definition make_platform_admin_access :: "'t aenv \<Rightarrow> int \<Rightarrow> int \<Rightarrow> string \<Rightarrow> 't \<times> string" where
  "make_platform_admin_access e user_id user_ver role =
     (let payload = (no_claims e)\<lparr>cl_sub := Some (show_int user_id), cl_typ := Some ''platform_admin_access'',
            cl_jti := Some (ae_access_jti e), cl_user_ver := Some user_ver, cl_role := Some role,
            cl_exp := ae_now e + minutes (ae_access_exp e)\<rparr>
      in (ae_encode e payload (ae_secret e), ae_access_jti e))"

definition make_platform_admin_refresh_pair :: "'t aenv \<Rightarrow> int \<Rightarrow> int \<Rightarrow> 't \<times> claims" where
  "make_platform_admin_refresh_pair e user_id user_ver =
     (let payload = (no_claims e)\<lparr>cl_sub := Some (show_int user_id), cl_typ := Some ''platform_admin_refresh'',
            cl_jti := Some (ae_refresh_jti e), cl_user_ver := Some user_ver,
            cl_exp := ae_now e + minutes (ae_refresh_exp e)\<rparr>
      in (ae_encode e payload (ae_secret e), payload))"

definition make_demo_login :: "'t aenv \<Rightarrow> int \<Rightarrow> string \<Rightarrow> string \<Rightarrow> string option \<Rightarrow> pydatetime \<Rightarrow> 't" where
  "make_demo_login e user_id tenant_slug email name demo_expires_at =
     ae_encode e ((no_claims e)\<lparr>cl_sub := Some (show_int user_id), cl_typ := Some ''demo_login'',
       cl_tenant := Some tenant_slug, cl_email := Some email, cl_name := name,
       cl_demo_expires_at := Some demo_expires_at, cl_exp := demo_expires_at\<rparr>) (ae_secret e)"

definition token_verify :: "'t aenv \<Rightarrow> 't \<Rightarrow> jwt_error + claims" where
  "token_verify e token = ae_decode e token (ae_secret e) True (ae_issuer e) (ae_audience e) (ae_now e)"

definition decode_ignore_exp :: "'t aenv \<Rightarrow> 't \<Rightarrow> (jwt_error, claims option) sum" where
  "decode_ignore_exp e token =
     (case ae_decode e token (ae_secret e) False (ae_issuer e) (ae_audience e) (ae_now e) of
        Inr c \<Rightarrow> Inr (Some c)
      | Inl err \<Rightarrow> if err \<in> {InvalidSignature, DecodeError, InvalidIssuer, InvalidAudience} then Inr None else Inl err)"

end
