(* ===== verification/ChannelPolicy.thy ===== *)
theory ChannelPolicy
  imports PyNet AuthTypes
begin

text \<open>
  The policy of chat channels (\<open>apps/chat/channel_policy.py\<close>): lists of a credential, origins of widgets,
  IP ranges, and signed requests with their replay protection. Redis is a parameter, the record
  \<open>redis_ops\<close> of the calls the code makes on a client; a call that raises answers \<open>None\<close>. SHA-256 and HMAC are
  fields of the environment. Times are microseconds, \<open>time.time()\<close> and \<open>datetime.now()\<close> read one clock.
\<close>

section \<open>Redis\<close>

datatype redis_cmd = Incr string int | Decr string int | Expire string int

record 'r redis_ops =
  rd_pipeline :: "redis_cmd list \<Rightarrow> 'r \<Rightarrow> int list option \<times> 'r"
  rd_set_nx :: "string \<Rightarrow> int \<Rightarrow> 'r \<Rightarrow> bool option \<times> 'r"
  rd_get :: "string \<Rightarrow> 'r \<Rightarrow> string option option \<times> 'r"
  rd_set :: "string \<Rightarrow> string \<Rightarrow> int \<Rightarrow> 'r \<Rightarrow> bool option \<times> 'r"

section \<open>Environment\<close>

text \<open>\<open>normalize_app_env\<close>; \<open>None\<close> is the \<open>ValueError\<close> of an unknown environment.\<close>

definition normalize_app_env :: "string \<Rightarrow> string option" where
  "normalize_app_env value =
     (let env = py_norm value;
          env = (if env = ''dev'' then ''local'' else if env = ''prod'' then ''production'' else env)
      in if env \<in> {''local'', ''test'', ''staging'', ''production''} then Some env else None)"

definition deployed :: "string \<Rightarrow> bool" where
  "deployed env = (env \<in> {''staging'', ''production''})"

definition is_deployed_env :: "string \<Rightarrow> bool res" where
  "is_deployed_env value =
     (case normalize_app_env value of
        None \<Rightarrow> Inl (ValueError ''APP_ENV'') | Some env \<Rightarrow> Inr (deployed env))"

record 'r chan_env =
  ce_now :: pydatetime
  ce_app_env :: string
  ce_redis :: "'r redis_ops option"
  ce_sha256 :: "string \<Rightarrow> string"
  ce_hmac :: "string \<Rightarrow> string \<Rightarrow> string"
  ce_jwt_secret :: "string option"
  ce_max_skew :: int
  ce_quota_fail_closed :: bool
  ce_session_per_minute :: int
  ce_session_burst :: int
  ce_session_min_interval :: int
  ce_session_wait_max :: int

section \<open>Lists and origins\<close>

text \<open>The loop with \<open>seen\<close> and \<open>out\<close>: the first item of each key is kept.\<close>

fun first_of_each :: "('a \<Rightarrow> 'b) \<Rightarrow> 'b list \<Rightarrow> 'a list \<Rightarrow> 'a list" where
  "first_of_each key seen [] = []"
| "first_of_each key seen (x # xs) =
     (if key x \<in> set seen then first_of_each key seen xs else x # first_of_each key (key x # seen) xs)"

definition normalize_list :: "string list \<Rightarrow> string list" where
  "normalize_list values = first_of_each py_lower [] (filter (\<lambda>v. v \<noteq> []) (map py_strip values))"

definition origin_text :: "string \<Rightarrow> string \<Rightarrow> nat option \<Rightarrow> string" where
  "origin_text scheme host prt =
     scheme @ ''://'' @ host @ (case prt of None \<Rightarrow> [] | Some p \<Rightarrow> CHR '':'' # show_nat p)"

definition normalize_widget_origin :: "string \<Rightarrow> string res" where
  "normalize_widget_origin value =
     (let t = py_norm value
      in if t = [] then Inl (ValueError ''Az allowed_origins nem tartalmazhat ures elemet.'')
         else if CHR ''*'' \<in> set t then Inl (ValueError ''Wildcard origin nem engedelyezett widget credentialnel.'')
         else (case urlparse (if contains ''://'' t then t else ''https://'' @ t) of
                 None \<Rightarrow> Inl (ValueError ''Invalid IPv6 URL'')
               | Some u \<Rightarrow>
                   (let scheme = py_norm (u_scheme u); host = py_norm (or_empty (hostname u))
                    in case port u of
                         None \<Rightarrow> Inl (ValueError ''Port could not be cast to integer value'')
                       | Some prt \<Rightarrow>
                           if scheme \<notin> {''http'', ''https''} then Inl (ValueError ''Widget origin csak http vagy https lehet.'')
                           else if host = [] then Inl (ValueError ''Widget origin host kotelezo.'')
                           else if u_path u \<notin> {[], ''/''} \<or> u_params u \<noteq> [] \<or> u_query u \<noteq> [] \<or> u_fragment u \<noteq> []
                           then Inl (ValueError ''Widget origin csak protocol+host formatum lehet (utvonal nelkul).'')
                           else if username u \<noteq> [] \<or> password u \<noteq> []
                           then Inl (ValueError ''Widget origin nem tartalmazhat userinfo reszt.'')
                           else if CHR '':'' \<in> set host \<and> hd host \<noteq> CHR ''[''
                           then Inl (ValueError ''Widget origin host formatuma ervenytelen.'')
                           else Inr (origin_text scheme host prt))))"

fun map_res :: "('a \<Rightarrow> 'b res) \<Rightarrow> 'a list \<Rightarrow> 'b list res" where
  "map_res f [] = Inr []"
| "map_res f (x # xs) =
     (case f x of Inl e \<Rightarrow> Inl e | Inr y \<Rightarrow> (case map_res f xs of Inl e \<Rightarrow> Inl e | Inr ys \<Rightarrow> Inr (y # ys)))"

definition normalize_widget_origins :: "string list \<Rightarrow> string list res" where
  "normalize_widget_origins values =
     (case map_res normalize_widget_origin values of
        Inl e \<Rightarrow> Inl e | Inr os \<Rightarrow> Inr (first_of_each (\<lambda>x. x) [] os))"

definition origin_value :: "string option \<Rightarrow> string" where
  "origin_value origin =
     (let t = py_strip (or_empty origin)
      in if t = [] then []
         else (case urlparse t of
                 None \<Rightarrow> []
               | Some u \<Rightarrow>
                   (let scheme = py_norm (u_scheme u); host = py_norm (or_empty (hostname u))
                    in case port u of
                         None \<Rightarrow> []
                       | Some prt \<Rightarrow>
                           if scheme \<notin> {''http'', ''https''} \<or> host = [] then [] else origin_text scheme host prt)))"

definition hash_channel_secret :: "'r chan_env \<Rightarrow> string \<Rightarrow> string" where
  "hash_channel_secret e secret =
     (let pepper = py_strip (case ce_jwt_secret e of None \<Rightarrow> ''aiplaza'' | Some s \<Rightarrow> if s = [] then ''aiplaza'' else s)
      in ce_sha256 e (pepper @ '':'' @ secret))"

section \<open>IP ranges\<close>

definition normalize_ip_range :: "string \<Rightarrow> string res" where
  "normalize_ip_range value =
     (case (if CHR ''/'' \<in> set value then map_option net_str (ip_network value)
            else map_option ip_str (ip_address value)) of
        None \<Rightarrow> Inl (ValueError (''Ervenytelen IP allowlist elem: '' @ value)) | Some s \<Rightarrow> Inr s)"

definition normalize_ip_ranges :: "string list \<Rightarrow> string list res" where
  "normalize_ip_ranges values =
     (case map_res normalize_ip_range (filter (\<lambda>v. v \<noteq> []) (map py_strip values)) of
        Inl e \<Rightarrow> Inl e | Inr rs \<Rightarrow> Inr (first_of_each py_lower [] rs))"

definition ip_range_allows :: "string \<Rightarrow> ip \<Rightarrow> string \<Rightarrow> bool" where
  "ip_range_allows raw_ip client_ip item =
     (if CHR ''/'' \<in> set item
      then (case ip_network item of Some n \<Rightarrow> in_net client_ip n | None \<Rightarrow> raw_ip = item)
      else (case ip_address item of Some a \<Rightarrow> client_ip = a | None \<Rightarrow> raw_ip = item))"

definition remote_ip_allowed :: "string option \<Rightarrow> string list \<Rightarrow> bool" where
  "remote_ip_allowed remote_ip allowed_ranges =
     (let raw_ip = py_strip (or_empty remote_ip)
      in if allowed_ranges = [] \<or> raw_ip = [] then False
         else (case ip_address raw_ip of
                 None \<Rightarrow> raw_ip \<in> set allowed_ranges
               | Some client_ip \<Rightarrow> list_ex (ip_range_allows raw_ip client_ip) allowed_ranges))"

section \<open>Signed requests\<close>

text \<open>\<open>hmac.compare_digest\<close> of two texts raises \<open>TypeError\<close> unless both are ASCII.\<close>

definition is_ascii :: "string \<Rightarrow> bool" where
  "is_ascii s = list_all (\<lambda>c. (of_char c :: nat) < 128) s"

definition compare_digest :: "string \<Rightarrow> string \<Rightarrow> bool res" where
  "compare_digest a b =
     (if is_ascii a \<and> is_ascii b then Inr (a = b)
      else Inl (OtherError ''comparing strings with non-ASCII characters is not supported''))"

record signed_request =
  sr_method :: string
  sr_path :: string
  sr_body :: string
  sr_timestamp :: "string option"
  sr_nonce :: "string option"
  sr_signature :: "string option"
  sr_body_hash :: "string option"

definition channel_signature :: "'r chan_env \<Rightarrow> string \<Rightarrow> signed_request \<Rightarrow> string \<Rightarrow> string \<Rightarrow> string" where
  "channel_signature e secret q ts nonce =
     ce_hmac e secret
       (join_with [newline]
          [py_upper (if sr_method q = [] then ''POST'' else sr_method q), (if sr_path q = [] then ''/'' else sr_path q),
           ts, nonce, ce_sha256 e (sr_body q)])"

text \<open>\<open>_replay_fallback_seen\<close>: the time at which a key expires.\<close>

type_synonym replay_memory = "string \<Rightarrow> pydatetime option"

definition replay_key :: "int \<Rightarrow> string \<Rightarrow> string" where
  "replay_key credential_id nonce = ''channel:sig:'' @ show_int credential_id @ '':'' @ nonce"

definition replay_fallback :: "pydatetime \<Rightarrow> string \<Rightarrow> int \<Rightarrow> replay_memory \<Rightarrow> bool \<times> replay_memory" where
  "replay_fallback now key ttl_sec seen =
     (let cutoff = now - seconds (max 1 ttl_sec);
          seen = (\<lambda>k. case seen k of Some t \<Rightarrow> if t \<le> cutoff then None else Some t | None \<Rightarrow> None)
      in case seen key of
           Some t \<Rightarrow> if now < t then (True, seen) else (False, seen(key \<mapsto> now + seconds (max 1 ttl_sec)))
         | None \<Rightarrow> (False, seen(key \<mapsto> now + seconds (max 1 ttl_sec))))"

definition replay_seen_or_record ::
  "'r chan_env \<Rightarrow> int \<Rightarrow> string \<Rightarrow> int \<Rightarrow> 'r \<times> replay_memory \<Rightarrow> (bool \<times> string) res \<times> 'r \<times> replay_memory" where
  "replay_seen_or_record e credential_id nonce ttl_sec st =
     (let key = replay_key credential_id nonce;
          unavailable = (\<lambda>r seen. case is_deployed_env (ce_app_env e) of
                 Inl x \<Rightarrow> (Inl x, r, seen)
               | Inr True \<Rightarrow> (Inr (False, ''redis_unavailable''), r, seen)
               | Inr False \<Rightarrow>
                   (case replay_fallback (ce_now e) key ttl_sec seen of (hit, seen') \<Rightarrow> (Inr (hit, []), r, seen')))
      in case (st, ce_redis e) of
           ((r, seen), None) \<Rightarrow> unavailable r seen
         | ((r, seen), Some ops) \<Rightarrow>
             (case rd_set_nx ops key (max 1 ttl_sec) r of
                (Some stored, r') \<Rightarrow> (Inr (\<not> stored, []), r', seen)
              | (None, r') \<Rightarrow> unavailable r' seen))"

definition nonce_ttl :: "int \<Rightarrow> int" where
  "nonce_ttl max_skew_sec = max_skew_sec + max 30 (max_skew_sec div 5)"

definition max_skew_sec :: "'r chan_env \<Rightarrow> int" where
  "max_skew_sec e = max 30 (if ce_max_skew e = 0 then 300 else ce_max_skew e)"

definition verify_channel_signature ::
  "'r chan_env \<Rightarrow> string \<Rightarrow> int \<Rightarrow> signed_request \<Rightarrow> 'r \<times> replay_memory
     \<Rightarrow> (bool \<times> string) res \<times> 'r \<times> replay_memory" where
  "verify_channel_signature e secret credential_id q st =
     (let ts = py_strip (or_empty (sr_timestamp q));
          nonce = py_strip (or_empty (sr_nonce q));
          signature = py_strip (or_empty (sr_signature q));
          given_hash = py_norm (or_empty (sr_body_hash q));
          refuse = (\<lambda>reason. (Inr (False, reason), st))
      in if ts = [] \<or> nonce = [] \<or> signature = []
         then refuse ''missing_signature_headers: Missing channel request signature headers.''
         else if length nonce < 12 \<or> 128 < length nonce then refuse ''invalid_nonce: Invalid channel request nonce.''
         else (case py_int ts of
            None \<Rightarrow> refuse ''invalid_timestamp: Invalid channel request timestamp.''
          | Some request_ts \<Rightarrow>
              if max_skew_sec e < \<bar>unix_seconds (ce_now e) - request_ts\<bar>
              then refuse ''expired_timestamp: Expired channel request signature.''
              else (case (if given_hash = [] then Inr True else compare_digest (ce_sha256 e (sr_body q)) given_hash) of
                 Inl x \<Rightarrow> (Inl x, st)
               | Inr False \<Rightarrow> refuse ''invalid_body_hash: Invalid channel request body hash.''
               | Inr True \<Rightarrow>
                   (case compare_digest (channel_signature e secret q ts nonce)
                           (py_strip (removeprefix ''sha256='' signature)) of
                      Inl x \<Rightarrow> (Inl x, st)
                    | Inr False \<Rightarrow> refuse ''invalid_signature: Invalid channel request signature.''
                    | Inr True \<Rightarrow>
                        (case replay_seen_or_record e credential_id nonce (nonce_ttl (max_skew_sec e)) st of
                           (Inl x, st') \<Rightarrow> (Inl x, st')
                         | (Inr (hit, err), st') \<Rightarrow>
                             if err \<noteq> [] then (Inr (False, err @ '': Signed request replay protection unavailable.''), st')
                             else if hit then (Inr (False, ''reused_nonce: Replay channel request rejected.''), st')
                             else (Inr (True, []), st'))))))"

end
