(* ===== verification/ChannelQuota.thy ===== *)
theory ChannelQuota
  imports ChannelPolicy
begin

text \<open>
  The question quota of channels (\<open>apps/chat/channel_quota.py\<close>): one slot is taken from a counter of the day
  and one of the minute, and for a session from one of its minute and one of its ten seconds, in
  Redis or in a dictionary of the process. Redis executes a pipeline as a whole; one that raises answers \<open>None\<close>.
\<close>

section \<open>Keys\<close>

definition minute_key :: "pydatetime \<Rightarrow> string" where
  "minute_key now =
     (let s = now mod day_us
      in isoformat (dt_date now) @ ''T'' @ pad2 (s div seconds 3600) @ '':'' @ pad2 (s div seconds 60 mod 60))"

definition burst_10s_key :: "pydatetime \<Rightarrow> string" where
  "burst_10s_key now = show_int (unix_seconds now div 10)"

record quota_request =
  qr_tenant :: int
  qr_credential :: int
  qr_daily :: int
  qr_per_minute :: int
  qr_session :: "string option"
  qr_session_per_minute :: "int option"
  qr_session_burst :: "int option"

text \<open>\<open>max(1, int(n or 1))\<close>\<close>

definition at_least_one :: "int \<Rightarrow> int" where
  "at_least_one n = max 1 (if n = 0 then 1 else n)"

definition or_one :: "int option \<Rightarrow> int" where
  "or_one n = (case n of None \<Rightarrow> 1 | Some k \<Rightarrow> at_least_one k)"

definition session_scope :: "quota_request \<Rightarrow> string" where
  "session_scope q = py_strip (or_empty (qr_session q))"

definition truthy_limit :: "int option \<Rightarrow> bool" where
  "truthy_limit n = (n \<noteq> None \<and> n \<noteq> Some 0)"

definition session_limit_enabled :: "quota_request \<Rightarrow> bool" where
  "session_limit_enabled q =
     (session_scope q \<noteq> [] \<and> truthy_limit (qr_session_per_minute q) \<and> truthy_limit (qr_session_burst q))"

record slot_keys =
  sk_day :: string
  sk_minute :: string
  sk_session_minute :: string
  sk_session_burst :: string

definition slot_keys_of :: "pydatetime \<Rightarrow> string \<Rightarrow> quota_request \<Rightarrow> slot_keys" where
  "slot_keys_of now period_key q =
     (let t = show_int (qr_tenant q) @ '':'' @ show_int (qr_credential q) @ '':'';
          s = t @ session_scope q @ '':''
      in \<lparr>sk_day = ''quota:channel:day:'' @ t @ period_key,
          sk_minute = ''quota:channel:minute:'' @ t @ minute_key now,
          sk_session_minute = (if session_limit_enabled q then ''quota:channel:session:minute:'' @ s @ minute_key now else []),
          sk_session_burst =
            (if session_limit_enabled q then ''quota:channel:session:burst10s:'' @ s @ burst_10s_key now else [])\<rparr>)"

section \<open>Reserving\<close>

datatype backend = In_redis | In_process

record reservation =
  rv_backend :: backend
  rv_keys :: slot_keys

type_synonym counters = "string \<Rightarrow> int option"

definition quota_unavailable :: string where
  "quota_unavailable = ''Channel quota szolgaltatas atmenetileg nem elerheto.''"

definition daily_limit_reached :: string where "daily_limit_reached = ''Napi kerdeslimit elerve.''"
definition too_many_questions :: string where "too_many_questions = ''Tul sok keres rovid ido alatt.''"
definition too_many_in_session :: string where
  "too_many_in_session = ''Tul sok keres ebbol a munkamenetbol rovid ido alatt.''"

text \<open>The first limit that the counts, the new question included, exceed.\<close>

definition exceeded :: "quota_request \<Rightarrow> int \<Rightarrow> int \<Rightarrow> int \<Rightarrow> int \<Rightarrow> string option" where
  "exceeded q day_count minute_count session_minute_count session_burst_count =
     (if at_least_one (qr_daily q) < day_count then Some daily_limit_reached
      else if at_least_one (qr_per_minute q) < minute_count then Some too_many_questions
      else if session_limit_enabled q
              \<and> (or_one (qr_session_per_minute q) < session_minute_count \<or> or_one (qr_session_burst q) < session_burst_count)
      then Some too_many_in_session else None)"

definition reserve_commands :: "quota_request \<Rightarrow> slot_keys \<Rightarrow> redis_cmd list" where
  "reserve_commands q k =
     [Incr (sk_day k) 1, Expire (sk_day k) (3 * 24 * 3600), Incr (sk_minute k) 1, Expire (sk_minute k) 180]
     @ (if session_limit_enabled q
        then [Incr (sk_session_minute k) 1, Expire (sk_session_minute k) 180,
              Incr (sk_session_burst k) 1, Expire (sk_session_burst k) 60] else [])"

definition rollback_commands :: "quota_request \<Rightarrow> slot_keys \<Rightarrow> redis_cmd list" where
  "rollback_commands q k =
     [Decr (sk_day k) 1, Decr (sk_minute k) 1]
     @ (if session_limit_enabled q then [Decr (sk_session_minute k) 1, Decr (sk_session_burst k) 1] else [])"

text \<open>The block under \<open>try\<close>; \<open>None\<close> is an exception, also that of a missing reply.\<close>

definition reserve_redis ::
  "'r redis_ops \<Rightarrow> quota_request \<Rightarrow> slot_keys \<Rightarrow> 'r \<Rightarrow> (bool \<times> string \<times> reservation option) option \<times> 'r" where
  "reserve_redis ops q k r =
     (case rd_pipeline ops (reserve_commands q k) r of
        (None, r1) \<Rightarrow> (None, r1)
      | (Some results, r1) \<Rightarrow>
          if length results < (if session_limit_enabled q then 7 else 3) then (None, r1)
          else (case exceeded q (results ! 0) (results ! 2)
                  (if session_limit_enabled q then results ! 4 else 0) (if session_limit_enabled q then results ! 6 else 0) of
                  Some reason \<Rightarrow>
                    (case rd_pipeline ops (rollback_commands q k) r1 of
                       (None, r2) \<Rightarrow> (None, r2) | (Some _, r2) \<Rightarrow> (Some (False, reason, None), r2))
                | None \<Rightarrow> (Some (True, [], Some \<lparr>rv_backend = In_redis, rv_keys = k\<rparr>), r1)))"

definition count_of :: "counters \<Rightarrow> string \<Rightarrow> int" where
  "count_of c k = (case c k of None \<Rightarrow> 0 | Some n \<Rightarrow> n)"

definition reserve_memory ::
  "quota_request \<Rightarrow> slot_keys \<Rightarrow> counters \<Rightarrow> (bool \<times> string \<times> reservation option) \<times> counters" where
  "reserve_memory q k c =
     (let on = session_limit_enabled q;
          day_count = count_of c (sk_day k) + 1;
          minute_count = count_of c (sk_minute k) + 1;
          session_minute_count = (if on then count_of c (sk_session_minute k) + 1 else 0);
          session_burst_count = (if on then count_of c (sk_session_burst k) + 1 else 0)
      in case exceeded q day_count minute_count session_minute_count session_burst_count of
           Some reason \<Rightarrow> ((False, reason, None), c)
         | None \<Rightarrow>
             (let c1 = c(sk_day k \<mapsto> day_count, sk_minute k \<mapsto> minute_count);
                  c2 = (if on then c1(sk_session_minute k \<mapsto> session_minute_count, sk_session_burst k \<mapsto> session_burst_count)
                        else c1)
              in ((True, [], Some \<lparr>rv_backend = In_process, rv_keys = k\<rparr>), c2)))"

text \<open>\<open>get_app_env\<close> under \<open>try\<close>: an unknown environment counts as \<open>dev\<close>.\<close>

definition quota_deployed :: "'r chan_env \<Rightarrow> bool" where
  "quota_deployed e = (case normalize_app_env (ce_app_env e) of None \<Rightarrow> False | Some env \<Rightarrow> deployed env)"

definition reserve_usage_slot ::
  "'r chan_env \<Rightarrow> quota_request \<Rightarrow> 'r \<times> counters \<Rightarrow> (bool \<times> string \<times> reservation option) \<times> 'r \<times> counters" where
  "reserve_usage_slot e q st =
     (let k = slot_keys_of (ce_now e) (isoformat (dt_date (ce_now e))) q;
          closed = ce_quota_fail_closed e \<and> quota_deployed e;
          memory = (\<lambda>r c. case reserve_memory q k c of (x, c') \<Rightarrow> (x, r, c'))
      in case (st, ce_redis e) of
           ((r, c), None) \<Rightarrow> if closed then ((False, quota_unavailable, None), r, c) else memory r c
         | ((r, c), Some ops) \<Rightarrow>
             (case reserve_redis ops q k r of
                (Some x, r') \<Rightarrow> (x, r', c)
              | (None, r') \<Rightarrow> if closed then ((False, quota_unavailable, None), r', c) else memory r' c))"

section \<open>Releasing\<close>

definition release_key :: "string \<Rightarrow> counters \<Rightarrow> counters" where
  "release_key k c =
     (if k = [] then c
      else if count_of c k \<le> 1 then c(k := None) else c(k \<mapsto> count_of c k - 1))"

definition release_usage_slot :: "'r chan_env \<Rightarrow> reservation option \<Rightarrow> 'r \<times> counters \<Rightarrow> 'r \<times> counters" where
  "release_usage_slot e rv st =
     (case (rv, st) of
        (None, _) \<Rightarrow> st
      | (Some v, (r, c)) \<Rightarrow>
          (let day = py_strip (sk_day (rv_keys v)); minute = py_strip (sk_minute (rv_keys v));
               session_minute = py_strip (sk_session_minute (rv_keys v));
               session_burst = py_strip (sk_session_burst (rv_keys v))
           in if day = [] \<or> minute = [] then st
              else (case rv_backend v of
                      In_redis \<Rightarrow>
                        (case ce_redis e of
                           None \<Rightarrow> st
                         | Some ops \<Rightarrow>
                             (snd (rd_pipeline ops ([Decr day 1, Decr minute 1]
                                 @ (if session_minute = [] then [] else [Decr session_minute 1])
                                 @ (if session_burst = [] then [] else [Decr session_burst 1])) r), c))
                    | In_process \<Rightarrow>
                        (r, fold release_key [day, minute, session_minute, session_burst] c))))"

end
