(* ===== verification/ChannelStore.thy ===== *)
theory ChannelStore
  imports ChannelQuota
begin

text \<open>
  Channel credentials, usage and feedback (\<open>apps/chat/channel_models.py\<close>, the repository and the service of
  \<open>apps/chat/channel_access.py\<close>), in the public schema. A call is one transaction; one that raises or returns
  before its commit leaves the tables as they were. The random parts of a secret are arguments.
\<close>

section \<open>Tables\<close>

record credential_row =
  cc_id :: int
  cc_tenant_id :: int
  cc_channel_type :: string
  cc_name :: string
  cc_key_prefix :: string
  cc_active_secret_hash :: "string option"
  cc_secret_hash :: string
  cc_next_key_prefix :: "string option"
  cc_next_secret_hash :: "string option"
  cc_secret_version :: string
  cc_rotating_until :: "pydatetime option"
  cc_status :: string
  cc_allowed_kb_uuids :: "string list"
  cc_daily_limit :: int
  cc_per_minute_limit :: int
  cc_allowed_origins :: "string list"
  cc_allowed_ip_ranges :: "string list"
  cc_require_signed_requests :: bool
  cc_expires_at :: "pydatetime option"
  cc_last_used_at :: "pydatetime option"
  cc_created_at :: pydatetime
  cc_created_by :: "int option"
  cc_updated_at :: pydatetime
  cc_updated_by :: "int option"
  cc_revoked_at :: "pydatetime option"
  cc_revoked_by :: "int option"

record usage_event =
  ue_id :: int
  ue_tenant_id :: int
  ue_credential_id :: int
  ue_channel_type :: string
  ue_period_key :: string
  ue_status :: string
  ue_question :: string
  ue_kb_uuid :: "string option"
  ue_query_run_id :: "string option"
  ue_response_ms :: int
  ue_llm_ms :: int
  ue_context_build_ms :: int
  ue_total_ms :: int
  ue_origin :: "string option"
  ue_remote_ip :: "string option"
  ue_created_at :: pydatetime

record feedback_event =
  fe_id :: int
  fe_tenant_id :: int
  fe_credential_id :: "int option"
  fe_channel_type :: string
  fe_query_run_id :: "string option"
  fe_trace_id :: "string option"
  fe_helpful :: "bool option"
  fe_reason :: "string option"
  fe_note :: "string option"
  fe_triage_status :: string
  fe_triage_owner :: "string option"
  fe_triage_note :: "string option"
  fe_triaged_at :: "pydatetime option"
  fe_triaged_by :: "int option"
  fe_created_at :: pydatetime

record channel_db =
  cd_credentials :: "credential_row list"
  cd_next_credential :: int
  cd_usage :: "usage_event list"
  cd_next_usage :: int
  cd_feedback :: "feedback_event list"
  cd_next_feedback :: int

datatype channel_error = Policy_invalid string | Raised exn

type_synonym 'a cres = "channel_error + 'a"

section \<open>Creating a credential\<close>

definition str_or :: "string \<Rightarrow> string \<Rightarrow> string" where
  "str_or a b = (if a = [] then b else a)"

text \<open>The unique constraint on tenant and name and the lengths of the columns.\<close>

definition insert_credential :: "credential_row \<Rightarrow> channel_db \<Rightarrow> credential_row cres \<times> channel_db" where
  "insert_credential row d =
     (if list_ex (\<lambda>r. cc_tenant_id r = cc_tenant_id row \<and> cc_name r = cc_name row) (cd_credentials d)
      then (Inl (Raised (IntegrityError ''uq_channel_credentials_tenant_name'')), d)
      else if 16 < length (cc_channel_type row) \<or> 120 < length (cc_name row)
      then (Inl (Raised (OtherError ''value too long for type character varying'')), d)
      else (let row = row\<lparr>cc_id := cd_next_credential d\<rparr>
            in (Inr row, d\<lparr>cd_credentials := cd_credentials d @ [row], cd_next_credential := cd_next_credential d + 1\<rparr>)))"

definition new_secret :: "string \<times> string \<Rightarrow> string \<times> string" where
  "new_secret tokens = (let prefix = py_lower (''ck_'' @ fst tokens) in (prefix, prefix @ ''.'' @ snd tokens))"

definition lift_res :: "'a res \<Rightarrow> 'a cres" where
  "lift_res r = (case r of Inl x \<Rightarrow> Inl (Raised x) | Inr a \<Rightarrow> Inr a)"

record credential_args =
  ca_channel_type :: string
  ca_name :: string
  ca_allowed_kb_uuids :: "string list"
  ca_daily_limit :: int
  ca_per_minute_limit :: int
  ca_allowed_origins :: "string list"
  ca_allowed_ip_ranges :: "string list"
  ca_require_signed_requests :: bool
  ca_expires_at :: "pydatetime option"

definition create_credential ::
  "'r chan_env \<Rightarrow> string \<times> string \<Rightarrow> int \<Rightarrow> credential_args \<Rightarrow> int option \<Rightarrow> channel_db
     \<Rightarrow> (credential_row \<times> string) cres \<times> channel_db" where
  "create_credential e tokens tenant_id a created_by d =
     (let (prefix, secret_value) = new_secret tokens;
          ctype = py_norm (str_or (ca_channel_type a) ''widget'')
      in case (if ctype = ''widget'' then lift_res (normalize_widget_origins (ca_allowed_origins a))
               else Inr (normalize_list (ca_allowed_origins a))) of
           Inl x \<Rightarrow> (Inl x, d)
         | Inr origins \<Rightarrow>
             if ctype = ''widget'' \<and> origins = []
             then (Inl (Policy_invalid ''Widget credential eseten az allowed_origins megadasa kotelezo.''), d)
             else (case lift_res (normalize_ip_ranges (ca_allowed_ip_ranges a)) of
                 Inl x \<Rightarrow> (Inl x, d)
               | Inr ranges \<Rightarrow>
                   if ctype = ''api'' \<and> ranges = [] \<and> \<not> ca_require_signed_requests a
                   then (Inl (Policy_invalid ''API credential eseten allowed_ip_ranges vagy require_signed_requests kotelezo.''), d)
                   else (case insert_credential
                           \<lparr>cc_id = 0, cc_tenant_id = tenant_id, cc_channel_type = ctype,
                            cc_name = str_or (py_strip (str_or (ca_name a) ''Unnamed'')) ''Unnamed'',
                            cc_key_prefix = prefix, cc_active_secret_hash = Some (hash_channel_secret e secret_value),
                            cc_secret_hash = hash_channel_secret e secret_value, cc_next_key_prefix = None,
                            cc_next_secret_hash = None, cc_secret_version = ''active'', cc_rotating_until = None,
                            cc_status = ''active'', cc_allowed_kb_uuids = normalize_list (ca_allowed_kb_uuids a),
                            cc_daily_limit = max 1 (ca_daily_limit a), cc_per_minute_limit = max 1 (ca_per_minute_limit a),
                            cc_allowed_origins = origins, cc_allowed_ip_ranges = ranges,
                            cc_require_signed_requests = ca_require_signed_requests a, cc_expires_at = ca_expires_at a,
                            cc_last_used_at = None, cc_created_at = ce_now e, cc_created_by = created_by,
                            cc_updated_at = ce_now e, cc_updated_by = created_by, cc_revoked_at = None, cc_revoked_by = None\<rparr> d of
                       (Inl x, d') \<Rightarrow> (Inl x, d')
                     | (Inr row, d') \<Rightarrow> (Inr (row, secret_value), d'))))"

section \<open>Reading and changing credentials\<close>

text \<open>\<open>list_credentials\<close>: the credentials of the tenant, the newest first.\<close>

definition list_credentials :: "int \<Rightarrow> channel_db \<Rightarrow> credential_row list" where
  "list_credentials tenant_id d =
     sort_key (\<lambda>r. - cc_id r) (filter (\<lambda>r. cc_tenant_id r = tenant_id) (cd_credentials d))"

definition the_credential :: "int \<Rightarrow> int \<Rightarrow> channel_db \<Rightarrow> credential_row option" where
  "the_credential tenant_id credential_id d =
     tbl_first (\<lambda>r. cc_id r = credential_id \<and> cc_tenant_id r = tenant_id) (cd_credentials d)"

definition put_credential :: "credential_row \<Rightarrow> channel_db \<Rightarrow> channel_db" where
  "put_credential row d = d\<lparr>cd_credentials := tbl_update (\<lambda>r. cc_id r = cc_id row) (\<lambda>_. row) (cd_credentials d)\<rparr>"

record policy_args =
  pa_allowed_kb_uuids :: "string list option"
  pa_daily_limit :: "int option"
  pa_per_minute_limit :: "int option"
  pa_allowed_origins :: "string list option"
  pa_allowed_ip_ranges :: "string list option"
  pa_require_signed_requests :: "bool option"
  pa_expires_at :: "pydatetime option"

definition is_channel :: "string \<Rightarrow> credential_row \<Rightarrow> bool" where
  "is_channel ctype row = (py_norm (str_or (cc_channel_type row) ''widget'') = ctype)"

text \<open>The origins, and the ranges, a policy update leaves the row with.\<close>

definition updated_origins :: "policy_args \<Rightarrow> credential_row \<Rightarrow> string list cres" where
  "updated_origins a row =
     (case pa_allowed_origins a of
        None \<Rightarrow> Inr (cc_allowed_origins row)
      | Some os \<Rightarrow>
          if is_channel ''widget'' row
          then (case lift_res (normalize_widget_origins os) of
                  Inl x \<Rightarrow> Inl x
                | Inr os' \<Rightarrow>
                    if os' = [] then Inl (Policy_invalid ''Widget credential eseten az allowed_origins nem lehet ures.'')
                    else Inr os')
          else Inr (normalize_list os))"

definition updated_ranges :: "policy_args \<Rightarrow> credential_row \<Rightarrow> string list cres" where
  "updated_ranges a row =
     (case pa_allowed_ip_ranges a of
        None \<Rightarrow> Inr (cc_allowed_ip_ranges row) | Some rs \<Rightarrow> lift_res (normalize_ip_ranges rs))"

definition policy_row ::
  "'r chan_env \<Rightarrow> policy_args \<Rightarrow> string list \<Rightarrow> string list \<Rightarrow> bool \<Rightarrow> int option \<Rightarrow> credential_row \<Rightarrow> credential_row" where
  "policy_row e a origins ranges need_sig updated_by row = row\<lparr>
     cc_allowed_kb_uuids := (case pa_allowed_kb_uuids a of None \<Rightarrow> cc_allowed_kb_uuids row | Some us \<Rightarrow> normalize_list us),
     cc_daily_limit := (case pa_daily_limit a of None \<Rightarrow> cc_daily_limit row | Some n \<Rightarrow> max 1 n),
     cc_per_minute_limit := (case pa_per_minute_limit a of None \<Rightarrow> cc_per_minute_limit row | Some n \<Rightarrow> max 1 n),
     cc_allowed_origins := origins, cc_allowed_ip_ranges := ranges, cc_require_signed_requests := need_sig,
     cc_expires_at := pa_expires_at a, cc_updated_by := updated_by, cc_updated_at := ce_now e\<rparr>"

definition update_policy ::
  "'r chan_env \<Rightarrow> int \<Rightarrow> int \<Rightarrow> policy_args \<Rightarrow> int option \<Rightarrow> channel_db \<Rightarrow> credential_row option cres \<times> channel_db" where
  "update_policy e tenant_id credential_id a updated_by d =
     (case the_credential tenant_id credential_id d of
        None \<Rightarrow> (Inr None, d)
      | Some row \<Rightarrow>
          (case updated_origins a row of
             Inl x \<Rightarrow> (Inl x, d)
           | Inr origins \<Rightarrow>
               (case updated_ranges a row of
                  Inl x \<Rightarrow> (Inl x, d)
                | Inr ranges \<Rightarrow>
                    (let need_sig = (case pa_require_signed_requests a of None \<Rightarrow> cc_require_signed_requests row | Some b \<Rightarrow> b)
                     in if is_channel ''api'' row \<and> ranges = [] \<and> \<not> need_sig
                        then (Inl (Policy_invalid ''API credential eseten allowed_ip_ranges vagy require_signed_requests kotelezo.''), d)
                        else (let row' = policy_row e a origins ranges need_sig updated_by row
                              in (Inr (Some row'), put_credential row' d))))))"

definition revoke_credential :: "'r chan_env \<Rightarrow> int \<Rightarrow> int \<Rightarrow> int option \<Rightarrow> channel_db \<Rightarrow> bool \<times> channel_db" where
  "revoke_credential e tenant_id credential_id revoked_by d =
     (case the_credential tenant_id credential_id d of
        None \<Rightarrow> (False, d)
      | Some row \<Rightarrow>
          (True, put_credential (row\<lparr>cc_status := ''revoked'', cc_revoked_at := Some (ce_now e), cc_revoked_by := revoked_by,
             cc_updated_by := revoked_by, cc_updated_at := ce_now e\<rparr>) d))"

definition rotate_credential ::
  "'r chan_env \<Rightarrow> string \<times> string \<Rightarrow> int \<Rightarrow> int \<Rightarrow> int option \<Rightarrow> channel_db \<Rightarrow> (credential_row \<times> string) option \<times> channel_db" where
  "rotate_credential e tokens tenant_id credential_id rotated_by d =
     (let (prefix, secret_value) = new_secret tokens; rotating_until = ce_now e + days 7
      in case the_credential tenant_id credential_id d of
           None \<Rightarrow> (None, d)
         | Some row \<Rightarrow>
             (let row' = row\<lparr>cc_next_key_prefix := Some prefix, cc_next_secret_hash := Some (hash_channel_secret e secret_value),
                   cc_rotating_until := Some rotating_until, cc_secret_version := ''rotating'', cc_status := ''active'',
                   cc_revoked_at := None, cc_revoked_by := None, cc_updated_by := rotated_by, cc_updated_at := ce_now e\<rparr>
              in (Some (row', secret_value), put_credential row' d)))"

section \<open>Authentication\<close>

definition active_secret_hash :: "credential_row \<Rightarrow> string" where
  "active_secret_hash row = str_or (or_empty (cc_active_secret_hash row)) (cc_secret_hash row)"

definition promote_next_secret_if_due :: "pydatetime \<Rightarrow> credential_row \<Rightarrow> bool \<times> credential_row" where
  "promote_next_secret_if_due now row =
     (let next_prefix = py_norm (or_empty (cc_next_key_prefix row)); next_hash = or_empty (cc_next_secret_hash row);
          done_row = row\<lparr>cc_next_key_prefix := None, cc_next_secret_hash := None, cc_rotating_until := None,
            cc_secret_version := ''active''\<rparr>
      in case cc_rotating_until row of
           None \<Rightarrow> (False, row)
         | Some until \<Rightarrow>
             if now < until then (False, row)
             else if next_prefix = [] \<or> next_hash = [] then (True, done_row)
             else (True, done_row\<lparr>cc_key_prefix := next_prefix, cc_active_secret_hash := Some next_hash,
                     cc_secret_hash := next_hash\<rparr>))"

definition resolve_secret_version :: "pydatetime \<Rightarrow> string \<Rightarrow> string \<Rightarrow> credential_row \<Rightarrow> string option" where
  "resolve_secret_version now prefix incoming_hash row =
     (let active_hash = active_secret_hash row;
          active_matches = (active_hash \<noteq> [] \<and> prefix = py_norm (cc_key_prefix row) \<and> active_hash = incoming_hash);
          next_hash = or_empty (cc_next_secret_hash row);
          next_matches = (next_hash \<noteq> [] \<and> prefix = py_norm (or_empty (cc_next_key_prefix row))
             \<and> (case cc_rotating_until row of None \<Rightarrow> False | Some until \<Rightarrow> now \<le> until) \<and> next_hash = incoming_hash)
      in if active_matches then Some ''active'' else if next_matches then Some ''next'' else None)"

record principal =
  cp_tenant_id :: int
  cp_credential_id :: int
  cp_channel_type :: string
  cp_allowed_kb_uuids :: "string list"
  cp_daily_limit :: int
  cp_per_minute_limit :: int
  cp_allowed_origins :: "string list"
  cp_allowed_ip_ranges :: "string list"
  cp_require_signed_requests :: bool
  cp_presented_secret :: string
  cp_secret_version :: string
  cp_expires_at :: "pydatetime option"

definition not_blank :: "string list \<Rightarrow> string list" where
  "not_blank values = filter (\<lambda>v. py_strip v \<noteq> []) values"

definition principal_of :: "int \<Rightarrow> string \<Rightarrow> string \<Rightarrow> credential_row \<Rightarrow> principal" where
  "principal_of tenant_id presented version row =
     \<lparr>cp_tenant_id = tenant_id, cp_credential_id = cc_id row, cp_channel_type = str_or (cc_channel_type row) ''widget'',
      cp_allowed_kb_uuids = not_blank (cc_allowed_kb_uuids row), cp_daily_limit = at_least_one (cc_daily_limit row),
      cp_per_minute_limit = at_least_one (cc_per_minute_limit row), cp_allowed_origins = cc_allowed_origins row,
      cp_allowed_ip_ranges = cc_allowed_ip_ranges row, cp_require_signed_requests = cc_require_signed_requests row,
      cp_presented_secret = presented, cp_secret_version = version, cp_expires_at = cc_expires_at row\<rparr>"

definition presented_prefix :: "string \<Rightarrow> string" where
  "presented_prefix presented = py_norm (takeWhile (\<lambda>c. c \<noteq> CHR ''.'') presented)"

text \<open>The row the query finds: the first one if several have the prefix.\<close>

definition credential_by_prefix :: "int \<Rightarrow> string \<Rightarrow> channel_db \<Rightarrow> credential_row option" where
  "credential_by_prefix tenant_id prefix d =
     tbl_first (\<lambda>r. cc_tenant_id r = tenant_id \<and> (cc_key_prefix r = prefix \<or> cc_next_key_prefix r = Some prefix))
       (cd_credentials d)"

definition origin_allowed :: "credential_row \<Rightarrow> string option \<Rightarrow> bool" where
  "origin_allowed row origin =
     (let allowed = map py_lower (not_blank (cc_allowed_origins row))
      in cc_channel_type row \<noteq> ''widget''
         \<or> (allowed \<noteq> [] \<and> origin_value origin \<noteq> [] \<and> origin_value origin \<in> set allowed))"

definition authenticate_with_reason ::
  "'r chan_env \<Rightarrow> int \<Rightarrow> string \<Rightarrow> string option \<Rightarrow> channel_db \<Rightarrow> (principal option \<times> string) \<times> channel_db" where
  "authenticate_with_reason e tenant_id secret origin d =
     (let presented = py_strip secret; prefix = presented_prefix presented; now = ce_now e
      in if presented = [] \<or> CHR ''.'' \<notin> set presented \<or> prefix = [] then ((None, ''invalid_credential''), d)
         else (case credential_by_prefix tenant_id prefix d of
            None \<Rightarrow> ((None, ''invalid_credential''), d)
          | Some row \<Rightarrow>
              if py_norm (cc_status row) = ''revoked'' then ((None, ''credential_revoked''), d)
              else if py_norm (cc_status row) \<noteq> ''active'' then ((None, ''invalid_credential''), d)
              else if (case cc_expires_at row of None \<Rightarrow> False | Some t \<Rightarrow> t \<le> now) then ((None, ''credential_expired''), d)
              else (case promote_next_secret_if_due now row of
                 (promoted, row1) \<Rightarrow>
                   (case resolve_secret_version now prefix (hash_channel_secret e presented) row1 of
                      None \<Rightarrow> ((None, ''invalid_credential''), d)
                    | Some version \<Rightarrow>
                        if \<not> origin_allowed row1 origin then ((None, ''invalid_origin''), d)
                        else ((Some (principal_of tenant_id presented version row1), []),
                              put_credential (row1\<lparr>cc_last_used_at := Some now, cc_secret_version := version,
                                cc_updated_at := now\<rparr>) d)))))"

definition authenticate :: "'r chan_env \<Rightarrow> int \<Rightarrow> string \<Rightarrow> string option \<Rightarrow> channel_db \<Rightarrow> principal option \<times> channel_db" where
  "authenticate e tenant_id secret origin d =
     (case authenticate_with_reason e tenant_id secret origin d of ((p, _), d') \<Rightarrow> (p, d'))"

definition authorize_api_request ::
  "'r chan_env \<Rightarrow> principal \<Rightarrow> string option \<Rightarrow> signed_request \<Rightarrow> 'r \<times> replay_memory
     \<Rightarrow> (bool \<times> string) res \<times> 'r \<times> replay_memory" where
  "authorize_api_request e p remote_ip q st =
     (let ip_ranges = not_blank (cp_allowed_ip_ranges p)
      in if py_norm (str_or (cp_channel_type p) ''widget'') \<noteq> ''api'' then (Inr (True, []), st)
         else if ip_ranges \<noteq> [] \<and> \<not> remote_ip_allowed remote_ip ip_ranges
         then (Inr (False, ''missing_ip_allowlist: Channel API credential IP allowlist rejected this request.''), st)
         else if cp_require_signed_requests p
         then verify_channel_signature e (cp_presented_secret p) (cp_credential_id p) q st
         else if ip_ranges = []
         then (Inr (False, ''missing_ip_allowlist: Channel API credential requires IP allowlist or signed requests.''), st)
         else (Inr (True, []), st))"

section \<open>Usage and feedback\<close>

definition period_key :: "pydatetime \<Rightarrow> string" where
  "period_key now = isoformat (dt_date now)"

definition current_usage :: "'r chan_env \<Rightarrow> int \<Rightarrow> int \<Rightarrow> channel_db \<Rightarrow> int \<times> int" where
  "current_usage e tenant_id credential_id d =
     (let mine = (\<lambda>u. ue_tenant_id u = tenant_id \<and> ue_credential_id u = credential_id \<and> ue_status u = ''ok'')
      in (int (tbl_count (\<lambda>u. mine u \<and> ue_period_key u = period_key (ce_now e)) (cd_usage d)),
          int (tbl_count (\<lambda>u. mine u \<and> ce_now e - seconds 60 \<le> ue_created_at u) (cd_usage d))))"

definition channel_can_consume_question :: "'r chan_env \<Rightarrow> principal \<Rightarrow> channel_db \<Rightarrow> bool \<times> string" where
  "channel_can_consume_question e p d =
     (case current_usage e (cp_tenant_id p) (cp_credential_id p) d of
        (daily, minute) \<Rightarrow>
          if max 1 (cp_daily_limit p) \<le> daily then (False, daily_limit_reached)
          else if max 1 (cp_per_minute_limit p) \<le> minute then (False, too_many_questions)
          else (True, []))"

record usage_args =
  ua_tenant_id :: int
  ua_credential_id :: int
  ua_channel_type :: string
  ua_status :: string
  ua_question :: string
  ua_kb_uuid :: "string option"
  ua_query_run_id :: "string option"
  ua_origin :: "string option"
  ua_remote_ip :: "string option"
  ua_response_ms :: int
  ua_llm_ms :: int
  ua_context_build_ms :: int
  ua_total_ms :: int

definition record_usage :: "'r chan_env \<Rightarrow> usage_args \<Rightarrow> channel_db \<Rightarrow> channel_db" where
  "record_usage e a d =
     d\<lparr>cd_usage := cd_usage d @
         [\<lparr>ue_id = cd_next_usage d, ue_tenant_id = ua_tenant_id a, ue_credential_id = ua_credential_id a,
           ue_channel_type = str_or (ua_channel_type a) ''widget'', ue_period_key = period_key (ce_now e),
           ue_status = str_or (ua_status a) ''ok'', ue_question = take 2000 (ua_question a),
           ue_kb_uuid = strip_or_none (ua_kb_uuid a), ue_query_run_id = strip_or_none (ua_query_run_id a),
           ue_response_ms = max 0 (ua_response_ms a), ue_llm_ms = max 0 (ua_llm_ms a),
           ue_context_build_ms = max 0 (ua_context_build_ms a), ue_total_ms = max 0 (ua_total_ms a),
           ue_origin = strip_or_none (ua_origin a), ue_remote_ip = strip_or_none (ua_remote_ip a),
           ue_created_at = ce_now e\<rparr>],
       cd_next_usage := cd_next_usage d + 1\<rparr>"

definition record_feedback ::
  "'r chan_env \<Rightarrow> int \<Rightarrow> int option \<Rightarrow> string \<Rightarrow> string option \<Rightarrow> string option \<Rightarrow> bool option \<Rightarrow> string option \<Rightarrow> string option
     \<Rightarrow> channel_db \<Rightarrow> feedback_event \<times> channel_db" where
  "record_feedback e tenant_id credential_id channel_type query_run_id trace_id helpful reason note d =
     (let row = \<lparr>fe_id = cd_next_feedback d, fe_tenant_id = tenant_id, fe_credential_id = credential_id,
            fe_channel_type = str_or channel_type ''widget'', fe_query_run_id = strip_or_none query_run_id,
            fe_trace_id = strip_or_none trace_id, fe_helpful = helpful, fe_reason = strip_or_none reason,
            fe_note = strip_or_none note, fe_triage_status = ''new'', fe_triage_owner = None, fe_triage_note = None,
            fe_triaged_at = None, fe_triaged_by = None, fe_created_at = ce_now e\<rparr>
      in (row, d\<lparr>cd_feedback := cd_feedback d @ [row], cd_next_feedback := cd_next_feedback d + 1\<rparr>))"

definition triage_feedback ::
  "'r chan_env \<Rightarrow> int \<Rightarrow> int \<Rightarrow> string \<Rightarrow> string option \<Rightarrow> string option \<Rightarrow> int option \<Rightarrow> channel_db
     \<Rightarrow> feedback_event option \<times> channel_db" where
  "triage_feedback e tenant_id feedback_id triage_status triage_owner triage_note triaged_by d =
     (case tbl_first (\<lambda>r. fe_id r = feedback_id \<and> fe_tenant_id r = tenant_id) (cd_feedback d) of
        None \<Rightarrow> (None, d)
      | Some row \<Rightarrow>
          (let row' = row\<lparr>fe_triage_status := str_or (py_strip (str_or triage_status ''new'')) ''new'',
                fe_triage_owner := strip_or_none triage_owner, fe_triage_note := strip_or_none triage_note,
                fe_triaged_by := triaged_by, fe_triaged_at := Some (ce_now e)\<rparr>
           in (Some row', d\<lparr>cd_feedback := tbl_update (\<lambda>r. fe_id r = feedback_id) (\<lambda>_. row') (cd_feedback d)\<rparr>)))"

text \<open>\<open>max(1, min(limit, 500))\<close> rows of the tenant, the latest first.\<close>

definition page_limit :: "int \<Rightarrow> nat" where
  "page_limit n = nat (max 1 (min n 500))"

definition analytics_events :: "int \<Rightarrow> int \<Rightarrow> channel_db \<Rightarrow> usage_event list" where
  "analytics_events tenant_id n d =
     take (page_limit n) (sort_key (\<lambda>u. - ue_created_at u) (filter (\<lambda>u. ue_tenant_id u = tenant_id) (cd_usage d)))"

definition analytics_feedback :: "int \<Rightarrow> int \<Rightarrow> channel_db \<Rightarrow> feedback_event list" where
  "analytics_feedback tenant_id n d =
     take (page_limit n) (sort_key (\<lambda>u. - fe_created_at u) (filter (\<lambda>u. fe_tenant_id u = tenant_id) (cd_feedback d)))"

end
