(* ===== verification/ChannelReplay.thy ===== *)
theory ChannelReplay
  imports ChannelPolicy
begin

text \<open>
  Replay protection of signed channel requests. The locale \<open>nonce_guard\<close> states what the code relies on:
  an accepted key is remembered for a time and refused as long as it is. Both stores of the code give
  it, the memory of the process and Redis with the documented \<open>SET NX EX\<close>.
\<close>

section \<open>The interface\<close>

locale nonce_guard =
  fixes step :: "'c \<Rightarrow> 's \<Rightarrow> bool \<times> 's"
    and time :: "'c \<Rightarrow> pydatetime"
    and key :: "'c \<Rightarrow> string"
    and valid :: "'c \<Rightarrow> bool"
    and until :: "'s \<Rightarrow> string \<Rightarrow> pydatetime option"
    and keep_for :: int
  assumes fresh: "valid c \<Longrightarrow> step c s = (True, s') \<Longrightarrow> until s (key c) = Some t \<Longrightarrow> t \<le> time c"
    and stored: "valid c \<Longrightarrow> step c s = (True, s') \<Longrightarrow> until s' (key c) = Some (time c + keep_for)"
    and kept: "valid c \<Longrightarrow> step c s = (b, s') \<Longrightarrow> until s k = Some t \<Longrightarrow> time c < t \<Longrightarrow> until s' k = Some t"
begin

primrec outcomes :: "'c list \<Rightarrow> 's \<Rightarrow> bool list" where
  "outcomes [] s = []"
| "outcomes (c # cs) s = (case step c s of (b, s') \<Rightarrow> b # outcomes cs s')"

lemma length_outcomes [simp]: "length (outcomes cs s) = length cs"
  by (induction cs arbitrary: s) (auto split: prod.splits)

lemma remembered:
  assumes "list_all valid cs" "sorted (map time cs)" "until s k = Some t"
    "j < length cs" "key (cs ! j) = k" "outcomes cs s ! j"
  shows "t \<le> time (cs ! j)"
  using assms
proof (induction cs arbitrary: s j)
  case Nil
  then show ?case by simp
next
  case (Cons c cs)
  obtain b s' where st: "step c s = (b, s')" by (cases "step c s") auto
  show ?case
  proof (cases j)
    case 0
    then show ?thesis using Cons.prems st fresh [of c s s' t] by auto
  next
    case (Suc j')
    show ?thesis
    proof (cases "time c < t")
      case True
      then have "until s' k = Some t" using kept [OF _ st] Cons.prems by auto
      then show ?thesis using Cons.IH [of s' j'] Cons.prems Suc st by auto
    next
      case False
      have "time c \<le> time (cs ! j')" using Cons.prems Suc by auto
      then show ?thesis using False Suc by simp
    qed
  qed
qed

lemma accepted_again_later:
  assumes "list_all valid cs" "sorted (map time cs)" "i < j" "j < length cs"
    "key (cs ! i) = key (cs ! j)" "outcomes cs s ! i" "outcomes cs s ! j"
  shows "time (cs ! i) + keep_for \<le> time (cs ! j)"
  using assms
proof (induction cs arbitrary: s i j)
  case Nil
  then show ?case by simp
next
  case (Cons c cs)
  obtain b s' where st: "step c s = (b, s')" by (cases "step c s") auto
  obtain j' where j: "j = Suc j'" using Cons.prems by (cases j) auto
  show ?case
  proof (cases i)
    case 0
    then have "until s' (key c) = Some (time c + keep_for)" using stored [of c s s'] Cons.prems st by auto
    then show ?thesis using remembered [of cs s' "key c" "time c + keep_for" j'] Cons.prems 0 j st by auto
  next
    case (Suc i')
    then show ?thesis using Cons.IH [of i' j' s'] Cons.prems j st by auto
  qed
qed

end

section \<open>Calls\<close>

record 'r signed_call =
  sc_env :: "'r chan_env"
  sc_secret :: string
  sc_credential :: int
  sc_request :: signed_request

definition call_nonce :: "'r signed_call \<Rightarrow> string" where
  "call_nonce c = replay_key (sc_credential c) (py_strip (or_empty (sr_nonce (sc_request c))))"

definition verify_call :: "'r signed_call \<Rightarrow> 'r \<times> replay_memory \<Rightarrow> bool \<times> 'r \<times> replay_memory" where
  "verify_call c st =
     (case verify_channel_signature (sc_env c) (sc_secret c) (sc_credential c) (sc_request c) st of
        (r, st') \<Rightarrow> (r = Inr (True, []), st'))"

primrec verify_calls :: "'r signed_call list \<Rightarrow> 'r \<times> replay_memory \<Rightarrow> bool list" where
  "verify_calls [] st = []"
| "verify_calls (c # cs) st = (case verify_call c st of (b, st') \<Rightarrow> b # verify_calls cs st')"

text \<open>What an acceptance needs, and what any call does to the state.\<close>

lemma verify_accepts:
  assumes "verify_channel_signature e secret cid q st = (Inr (True, []), st')"
  shows "\<exists>ts. py_int (py_strip (or_empty (sr_timestamp q))) = Some ts
      \<and> \<bar>unix_seconds (ce_now e) - ts\<bar> \<le> max_skew_sec e
      \<and> py_strip (removeprefix ''sha256='' (py_strip (or_empty (sr_signature q))))
          = channel_signature e secret q (py_strip (or_empty (sr_timestamp q))) (py_strip (or_empty (sr_nonce q)))
      \<and> replay_seen_or_record e cid (py_strip (or_empty (sr_nonce q))) (nonce_ttl (max_skew_sec e)) st
          = (Inr (False, []), st')"
  using assms
  by (auto simp: verify_channel_signature_def Let_def compare_digest_def
      split: option.splits if_splits sum.splits prod.splits bool.splits)

lemma verify_state:
  assumes "verify_channel_signature e secret cid q st = (r, st')"
  shows "st' = st \<or> (\<exists>x. replay_seen_or_record e cid (py_strip (or_empty (sr_nonce q))) (nonce_ttl (max_skew_sec e)) st
          = (x, st'))"
  using assms
  by (auto simp: verify_channel_signature_def Let_def compare_digest_def
      split: option.splits if_splits sum.splits prod.splits bool.splits)

section \<open>The memory of the process\<close>

definition in_memory :: "int \<Rightarrow> 'r signed_call \<Rightarrow> bool" where
  "in_memory skew c = (ce_redis (sc_env c) = None \<and> max_skew_sec (sc_env c) = skew)"

definition call_time :: "'r signed_call \<Rightarrow> pydatetime" where
  "call_time c = ce_now (sc_env c)"

lemma nonce_ttl_pos: "1 \<le> nonce_ttl (max_skew_sec e)"
  by (simp add: nonce_ttl_def max_skew_sec_def)

lemma verify_call_accepts:
  "verify_call c st = (True, st') \<Longrightarrow>
   replay_seen_or_record (sc_env c) (sc_credential c) (py_strip (or_empty (sr_nonce (sc_request c))))
     (nonce_ttl (max_skew_sec (sc_env c))) st = (Inr (False, []), st')"
  by (auto simp: verify_call_def split: prod.splits dest!: verify_accepts)

lemma verify_call_state:
  "verify_call c st = (b, st') \<Longrightarrow> st' = st \<or>
   (\<exists>x. replay_seen_or_record (sc_env c) (sc_credential c) (py_strip (or_empty (sr_nonce (sc_request c))))
     (nonce_ttl (max_skew_sec (sc_env c))) st = (x, st'))"
  by (auto simp: verify_call_def split: prod.splits dest!: verify_state)

lemma max_ttl: "max 1 (nonce_ttl (max_skew_sec e)) = nonce_ttl (max_skew_sec e)"
  using nonce_ttl_pos [of e] by simp

lemma replay_memory_fresh:
  assumes "ce_redis e = None" "replay_seen_or_record e cid n (nonce_ttl (max_skew_sec e)) (r, seen) = (Inr (False, []), r', seen')"
  shows "(\<forall>t. seen (replay_key cid n) = Some t \<longrightarrow> t \<le> ce_now e)
    \<and> seen' (replay_key cid n) = Some (ce_now e + seconds (nonce_ttl (max_skew_sec e)))"
  using assms max_ttl [of e]
  by (auto simp: replay_seen_or_record_def replay_fallback_def Let_def seconds_def
      split: option.splits if_splits sum.splits prod.splits bool.splits)

lemma replay_memory_kept:
  assumes "ce_redis e = None" "replay_seen_or_record e cid n ttl (r, seen) = (x, r', seen')"
    "seen k = Some t" "ce_now e < t"
  shows "seen' k = Some t"
  using assms
  by (auto simp: replay_seen_or_record_def replay_fallback_def Let_def seconds_def
      split: option.splits if_splits sum.splits prod.splits bool.splits)

interpretation memory: nonce_guard verify_call call_time call_nonce "in_memory skew" "\<lambda>st k. snd st k"
  "seconds (nonce_ttl skew)" for skew
proof (unfold_locales, goal_cases)
  case (1 c s s' t)
  then show ?case using verify_call_accepts [OF 1(2)] replay_memory_fresh [of "sc_env c"]
    by (cases s; cases s') (auto simp: in_memory_def call_nonce_def call_time_def)
next
  case (2 c s s')
  then show ?case using verify_call_accepts [OF 2(2)] replay_memory_fresh [of "sc_env c"]
    by (cases s; cases s') (auto simp: in_memory_def call_nonce_def call_time_def)
next
  case (3 c s b s' k t)
  then show ?case using verify_call_state [OF 3(2)] replay_memory_kept [of "sc_env c"]
    by (cases s; cases s') (auto simp: in_memory_def call_time_def)
qed

section \<open>Redis\<close>

text \<open>\<open>SET key 1 NX EX ttl\<close> as documented; \<open>expiry r k\<close> is the time at which the server drops the key.\<close>

definition set_nx_documented :: "('r \<Rightarrow> string \<Rightarrow> pydatetime option) \<Rightarrow> pydatetime \<Rightarrow> 'r redis_ops \<Rightarrow> bool" where
  "set_nx_documented expiry now ops \<longleftrightarrow>
     (\<forall>k ttl r. case rd_set_nx ops k ttl r of (a, r') \<Rightarrow>
        (a = Some True \<longrightarrow> (\<forall>t. expiry r k = Some t \<longrightarrow> t \<le> now) \<and> expiry r' k = Some (now + seconds ttl))
      \<and> (\<forall>j t. (j \<noteq> k \<or> a \<noteq> Some True) \<longrightarrow> expiry r j = Some t \<longrightarrow> now < t \<longrightarrow> expiry r' j = Some t))"

definition in_redis :: "('r \<Rightarrow> string \<Rightarrow> pydatetime option) \<Rightarrow> int \<Rightarrow> 'r signed_call \<Rightarrow> bool" where
  "in_redis expiry skew c =
     (case ce_redis (sc_env c) of None \<Rightarrow> False
      | Some ops \<Rightarrow> is_deployed_env (ce_app_env (sc_env c)) = Inr True
          \<and> set_nx_documented expiry (ce_now (sc_env c)) ops \<and> max_skew_sec (sc_env c) = skew)"

lemma replay_redis:
  assumes "ce_redis e = Some ops" "is_deployed_env (ce_app_env e) = Inr True"
    "replay_seen_or_record e cid n ttl (r, seen) = (x, r', seen')"
  shows "\<exists>a. rd_set_nx ops (replay_key cid n) (max 1 ttl) r = (a, r')
    \<and> (x = Inr (False, []) \<longrightarrow> a = Some True)"
  using assms
  by (auto simp: replay_seen_or_record_def Let_def split: option.splits sum.splits prod.splits bool.splits)

lemma set_nx_stored:
  "set_nx_documented expiry now ops \<Longrightarrow> rd_set_nx ops k ttl r = (Some True, r') \<Longrightarrow>
   (\<forall>t. expiry r k = Some t \<longrightarrow> t \<le> now) \<and> expiry r' k = Some (now + seconds ttl)"
  unfolding set_nx_documented_def by (drule spec [of _ k], drule spec [of _ ttl], drule spec [of _ r]) simp

lemma set_nx_kept:
  "set_nx_documented expiry now ops \<Longrightarrow> rd_set_nx ops k ttl r = (a, r') \<Longrightarrow> j \<noteq> k \<or> a \<noteq> Some True \<Longrightarrow>
   expiry r j = Some t \<Longrightarrow> now < t \<Longrightarrow> expiry r' j = Some t"
  unfolding set_nx_documented_def by (drule spec [of _ k], drule spec [of _ ttl], drule spec [of _ r]) simp

lemma in_redisE:
  assumes "in_redis expiry skew c"
  obtains ops where "ce_redis (sc_env c) = Some ops" "is_deployed_env (ce_app_env (sc_env c)) = Inr True"
    "set_nx_documented expiry (call_time c) ops" "max_skew_sec (sc_env c) = skew"
  using assms that by (auto simp: in_redis_def call_time_def split: option.splits)

lemma redis_accepts:
  assumes "in_redis expiry skew c" "verify_call c s = (True, s')"
  shows "(\<forall>t. expiry (fst s) (call_nonce c) = Some t \<longrightarrow> t \<le> call_time c)
    \<and> expiry (fst s') (call_nonce c) = Some (call_time c + seconds (nonce_ttl skew))"
proof -
  obtain ops where ops: "ce_redis (sc_env c) = Some ops" "is_deployed_env (ce_app_env (sc_env c)) = Inr True"
    "set_nx_documented expiry (call_time c) ops" "max_skew_sec (sc_env c) = skew" using assms(1) by (rule in_redisE)
  obtain r seen r' seen' where s: "s = (r, seen)" "s' = (r', seen')" by (cases s; cases s')
  have "rd_set_nx ops (call_nonce c) (max 1 (nonce_ttl skew)) r = (Some True, r')"
    using replay_redis [OF ops(1,2)] verify_call_accepts [OF assms(2)] s ops(4) by (fastforce simp: call_nonce_def)
  from set_nx_stored [OF ops(3) this] show ?thesis using s max_ttl [of "sc_env c"] ops(4) by simp
qed

interpretation redis: nonce_guard verify_call call_time call_nonce "in_redis expiry skew" "\<lambda>st k. expiry (fst st) k"
  "seconds (nonce_ttl skew)" for expiry skew
proof (unfold_locales, goal_cases)
  case (1 c s s' t)
  then show ?case using redis_accepts by blast
next
  case (2 c s s')
  then show ?case using redis_accepts by blast
next
  case (3 c s b s' k t)
  obtain ops where ops: "ce_redis (sc_env c) = Some ops" "is_deployed_env (ce_app_env (sc_env c)) = Inr True"
    "set_nx_documented expiry (call_time c) ops" using 3(1) by (rule in_redisE)
  obtain r seen r' seen' where s: "s = (r, seen)" "s' = (r', seen')" by (cases s; cases s')
  show ?case
  proof (cases "s' = s")
    case False
    then obtain x where "replay_seen_or_record (sc_env c) (sc_credential c)
        (py_strip (or_empty (sr_nonce (sc_request c)))) (nonce_ttl (max_skew_sec (sc_env c))) s = (x, s')"
      using verify_call_state [OF 3(2)] by auto
    then obtain a where a: "rd_set_nx ops (call_nonce c) (max 1 (nonce_ttl (max_skew_sec (sc_env c)))) r = (a, r')"
      using replay_redis [OF ops(1,2)] s unfolding call_nonce_def by blast
    have "k \<noteq> call_nonce c \<or> a \<noteq> Some True" using set_nx_stored [OF ops(3)] a 3(3,4) s by fastforce
    from set_nx_kept [OF ops(3) a this] show ?thesis using 3(3,4) s by simp
  qed (use 3 in simp)
qed

section \<open>Properties\<close>

lemma verify_calls_outcomes: "verify_calls cs st = memory.outcomes cs st" "verify_calls cs st = redis.outcomes cs st"
  by (induction cs arbitrary: st) (auto split: prod.splits)

lemma unix_seconds_add: "s + seconds k \<le> t \<Longrightarrow> unix_seconds s + k \<le> unix_seconds t"
proof -
  assume "s + seconds k \<le> t"
  then have "(s - days 719162 + k * seconds 1) div seconds 1 \<le> (t - days 719162) div seconds 1"
    by (intro zdiv_mono1) (auto simp: seconds_def)
  then show ?thesis by (simp add: unix_seconds_def seconds_def)
qed

lemma verify_calls_accepted:
  "j < length cs \<Longrightarrow> verify_calls cs st ! j \<Longrightarrow>
   \<exists>st1 st2. verify_channel_signature (sc_env (cs ! j)) (sc_secret (cs ! j)) (sc_credential (cs ! j)) (sc_request (cs ! j)) st1
     = (Inr (True, []), st2)"
proof (induction cs arbitrary: st j)
  case (Cons c cs)
  then show ?case by (cases j) (auto simp: verify_call_def simp del: split_paired_Ex split: prod.splits)
qed simp

text \<open>
  C33: A signed channel request is accepted at most once: in any sequence of checks with growing
  times, over the memory of the process or over Redis with the documented SET NX, a request with
  the credential and nonce of an accepted one is refused at whatever later time, provided its
  timestamp was not ahead of the clock of the first check by a fifth of the permitted skew (at
  least 30 seconds) or more.
\<close>

theorem signed_request_accepted_once:
  assumes stores: "list_all (in_memory skew) cs \<or> list_all (in_redis expiry skew) cs"
    and times: "sorted (map call_time cs)" and ij: "i < j" "j < length cs"
    and same: "sc_credential (cs ! j) = sc_credential (cs ! i)"
      "py_strip (or_empty (sr_nonce (sc_request (cs ! j)))) = py_strip (or_empty (sr_nonce (sc_request (cs ! i))))"
      "py_int (py_strip (or_empty (sr_timestamp (sc_request (cs ! j))))) = Some ts"
    and first: "verify_calls cs st ! i"
    and not_ahead: "ts < unix_seconds (call_time (cs ! i)) + max 30 (skew div 5)"
  shows "\<not> verify_calls cs st ! j"
proof
  assume second: "verify_calls cs st ! j"
  have key: "call_nonce (cs ! i) = call_nonce (cs ! j)" using same by (simp add: call_nonce_def)
  have "call_time (cs ! i) + seconds (nonce_ttl skew) \<le> call_time (cs ! j)"
    using stores
  proof
    assume "list_all (in_memory skew) cs"
    from memory.accepted_again_later [OF this times ij key] show ?thesis
      using first second by (simp add: verify_calls_outcomes(1))
  next
    assume "list_all (in_redis expiry skew) cs"
    from redis.accepted_again_later [OF this times ij key] show ?thesis
      using first second by (simp add: verify_calls_outcomes(2))
  qed
  then have "unix_seconds (call_time (cs ! i)) + nonce_ttl skew \<le> unix_seconds (call_time (cs ! j))"
    by (rule unix_seconds_add)
  moreover obtain st1 st2 where "verify_channel_signature (sc_env (cs ! j)) (sc_secret (cs ! j))
      (sc_credential (cs ! j)) (sc_request (cs ! j)) st1 = (Inr (True, []), st2)"
    using verify_calls_accepted [OF ij(2) second] by blast
  moreover have "max_skew_sec (sc_env (cs ! j)) = skew"
    using stores ij by (auto simp: list_all_length in_memory_def in_redis_def split: option.splits)
  ultimately show False
    using not_ahead same(3) verify_accepts by (fastforce simp: nonce_ttl_def call_time_def)
qed

text \<open>A server that keeps the documented promise, and a request that is sent twice.\<close>

definition demo_ops :: "pydatetime \<Rightarrow> (string \<Rightarrow> pydatetime option) redis_ops" where
  "demo_ops now = \<lparr>rd_pipeline = (\<lambda>cmds r. (None, r)),
     rd_set_nx = (\<lambda>k ttl r. if (case r k of Some t \<Rightarrow> now < t | None \<Rightarrow> False) then (Some False, r)
        else (Some True, r(k \<mapsto> now + seconds ttl))),
     rd_get = (\<lambda>k r. (None, r)), rd_set = (\<lambda>k v ttl r. (None, r))\<rparr>"

lemma demo_ops_documented: "set_nx_documented (\<lambda>r. r) now (demo_ops now)"
  by (auto simp: set_nx_documented_def demo_ops_def split: option.splits)

definition demo_env :: "'r redis_ops option \<Rightarrow> string \<Rightarrow> int \<Rightarrow> 'r chan_env" where
  "demo_env redis env sec = \<lparr>ce_now = days 719162 + seconds sec, ce_app_env = env, ce_redis = redis,
     ce_sha256 = (\<lambda>s. ''00''), ce_hmac = (\<lambda>k m. ''ab''), ce_jwt_secret = None, ce_max_skew = 300,
     ce_quota_fail_closed = True, ce_session_per_minute = 30, ce_session_burst = 5,
     ce_session_min_interval = 1500, ce_session_wait_max = 900\<rparr>"

definition demo_request :: "string \<Rightarrow> signed_request" where
  "demo_request ts = \<lparr>sr_method = ''POST'', sr_path = ''/api/channel/chat'', sr_body = ''{}'',
     sr_timestamp = Some ts, sr_nonce = Some ''nonce-value-123'', sr_signature = Some ''sha256=ab'', sr_body_hash = None\<rparr>"

definition demo_call :: "'r redis_ops option \<Rightarrow> string \<Rightarrow> string \<Rightarrow> int \<Rightarrow> 'r signed_call" where
  "demo_call redis env ts sec = \<lparr>sc_env = demo_env redis env sec, sc_secret = ''ck_a.b'', sc_credential = 7,
     sc_request = demo_request ts\<rparr>"

lemmas demo_call_defs = demo_call_def demo_env_def demo_request_def demo_ops_def

lemmas verify_eval = verify_channel_signature_def replay_seen_or_record_def replay_fallback_def is_deployed_env_def
  normalize_app_env_def deployed_def compare_digest_def channel_signature_def max_skew_sec_def nonce_ttl_def
  replay_key_def unix_seconds_def seconds_def or_empty_def

definition demo_calls :: "string \<Rightarrow> int list \<Rightarrow> (string \<Rightarrow> pydatetime option) signed_call list" where
  "demo_calls ts secs =
     map (\<lambda>s. demo_call (Some (demo_ops (days 719162 + seconds s))) ''production'' ts s) secs"

lemma demo_calls_in_redis: "list_all (in_redis (\<lambda>r. r) 300) (demo_calls ts secs)"
  by (auto simp: demo_calls_def list_all_iff in_redis_def demo_call_def demo_env_def is_deployed_env_def
      normalize_app_env_def deployed_def Let_def py_norm_def py_strip_def py_lower_def lower_char_def is_blank_def
      max_skew_sec_def demo_ops_documented)

theorem signed_request_accepted_once_witness:
  "\<not> verify_calls (demo_calls ''1000'' [1000, 1020]) (Map.empty, Map.empty) ! 1"
proof -
  have first: "verify_calls (demo_calls ''1000'' [1000, 1020]) (Map.empty, Map.empty) ! 0" by code_simp
  have ts: "py_int (py_strip (or_empty (sr_timestamp (sc_request (demo_calls ''1000'' [1000, 1020] ! 1))))) = Some 1000"
    by code_simp
  have early: "1000 < unix_seconds (call_time (demo_calls ''1000'' [1000, 1020] ! 0)) + max 30 (300 div 5)" by code_simp
  show ?thesis
    by (rule signed_request_accepted_once [where i = 0 and j = 1 and skew = 300 and expiry = "\<lambda>r. r" and ts = 1000,
          OF disjI2 [OF demo_calls_in_redis] _ _ _ _ _ ts first early])
      (simp_all add: demo_calls_def demo_call_def demo_env_def demo_request_def call_time_def seconds_def)
qed

text \<open>
  The nonce is kept for the permitted skew and a fifth of it, counted from the first acceptance, but a request
  stamped ahead of the server's clock stays valid for up to twice the skew: it is accepted a second time.
\<close>

lemma future_dated_request_is_replayed:
  "verify_calls (demo_calls ''1200'' [1000, 1359, 1360]) (Map.empty, Map.empty) = [True, False, True]"
  by code_simp

end
