(* ===== verification/ChannelAuth.thy ===== *)
theory ChannelAuth
  imports ChannelStore ChannelReplay Interfaces
begin

text \<open>
  Which secret opens a channel: what an authentication needs, what rotation and revocation do to the secrets
  of a credential, whatever other calls follow.
\<close>

section \<open>The table\<close>

definition credential_put :: "int \<Rightarrow> (credential_row \<Rightarrow> credential_row) \<Rightarrow> channel_db \<Rightarrow> channel_db" where
  "credential_put i f d = d\<lparr>cd_credentials := tbl_update (\<lambda>r. cc_id r = i) f (cd_credentials d)\<rparr>"

definition credential_insert :: "(int \<Rightarrow> credential_row) \<Rightarrow> channel_db \<Rightarrow> channel_db" where
  "credential_insert mk d =
     d\<lparr>cd_credentials := cd_credentials d @ [mk (cd_next_credential d)], cd_next_credential := cd_next_credential d + 1\<rparr>"

interpretation creds: keyed_table cd_credentials cc_id cd_next_credential credential_put credential_insert
  by unfold_locales (simp_all add: credential_put_def credential_insert_def)

lemma put_credential_put: "put_credential row d = credential_put (cc_id row) (\<lambda>_. row) d"
  by (simp add: put_credential_def credential_put_def)

lemma put_credential_wf: "creds.wf d \<Longrightarrow> creds.wf (put_credential row d)"
proof -
  assume wf: "creds.wf d"
  have "put_credential row d = credential_put (cc_id row) (\<lambda>r. row\<lparr>cc_id := cc_id r\<rparr>) d"
    by (auto simp: put_credential_def credential_put_def tbl_update_def)
  then show ?thesis using creds.wf_put [OF wf, of "\<lambda>r. row\<lparr>cc_id := cc_id r\<rparr>" "cc_id row"] by simp
qed

lemma put_credential_get:
  "creds.get i (put_credential row d) =
     (if i = cc_id row then map_option (\<lambda>_. row) (creds.get i d) else creds.get i d)"
proof -
  have e: "put_credential row d = credential_put (cc_id row) (\<lambda>r. row\<lparr>cc_id := cc_id r\<rparr>) d"
    by (auto simp: put_credential_def credential_put_def tbl_update_def)
  show ?thesis
  proof (cases "i = cc_id row")
    case True
    then have "creds.get i (put_credential row d) = map_option (\<lambda>r. row\<lparr>cc_id := cc_id r\<rparr>) (creds.get i d)"
      unfolding e by (simp add: creds.get_put_same)
    then show ?thesis using True by (auto dest: creds.get_Some simp: map_option_case split: option.splits)
  next
    case False
    then show ?thesis unfolding e by (simp add: creds.get_put_other)
  qed
qed

lemma the_credential_get: "the_credential t i d = Some row \<Longrightarrow> creds.wf d \<Longrightarrow> creds.get i d = Some row \<and> cc_id row = i \<and> cc_tenant_id row = t"
  using creds.get_member [of d row] by (auto simp: the_credential_def dest!: tbl_first_Some)

section \<open>Calls\<close>

datatype 'r channel_op =
    Create "'r chan_env" "string \<times> string" int credential_args "int option"
  | Update_policy "'r chan_env" int int policy_args "int option"
  | Revoke "'r chan_env" int int "int option"
  | Rotate "'r chan_env" "string \<times> string" int int "int option"
  | Authenticate "'r chan_env" int string "string option"
  | Record_usage "'r chan_env" usage_args
  | Triage "'r chan_env" int int string "string option" "string option" "int option"

fun channel_exec :: "'r channel_op \<Rightarrow> channel_db \<Rightarrow> channel_db" where
  "channel_exec (Create e tk t a by) d = snd (create_credential e tk t a by d)"
| "channel_exec (Update_policy e t c a by) d = snd (update_policy e t c a by d)"
| "channel_exec (Revoke e t c by) d = snd (revoke_credential e t c by d)"
| "channel_exec (Rotate e tk t c by) d = snd (rotate_credential e tk t c by d)"
| "channel_exec (Authenticate e t s origin) d = snd (authenticate_with_reason e t s origin d)"
| "channel_exec (Record_usage e a) d = record_usage e a d"
| "channel_exec (Triage e t i st ow nt by) d = snd (triage_feedback e t i st ow nt by d)"

fun rotates :: "int \<Rightarrow> 'r channel_op \<Rightarrow> bool" where
  "rotates c (Rotate e tk t c' by) = (c' = c)"
| "rotates c _ = False"

definition channel_run :: "'r channel_op list \<Rightarrow> channel_db \<Rightarrow> channel_db" where
  "channel_run ops d = fold channel_exec ops d"

section \<open>What a call does to a credential\<close>

text \<open>The part of a row that decides about secrets: status, prefixes, hashes, end of the rotation.\<close>

definition secrets :: "credential_row \<Rightarrow> string \<times> string \<times> string \<times> string option \<times> string option \<times> pydatetime option" where
  "secrets r = (cc_status r, cc_key_prefix r, active_secret_hash r, cc_next_key_prefix r, cc_next_secret_hash r, cc_rotating_until r)"

definition row_step :: "'r channel_op \<Rightarrow> credential_row \<Rightarrow> credential_row \<Rightarrow> bool" where
  "row_step x r r' \<longleftrightarrow>
     secrets r' = secrets r
   \<or> (\<exists>now. secrets r' = secrets (snd (promote_next_secret_if_due now r)))
   \<or> secrets r' = secrets (r\<lparr>cc_status := ''revoked''\<rparr>)
   \<or> rotates (cc_id r) x"

lemma promote_id [simp]: "cc_id (snd (promote_next_secret_if_due now r)) = cc_id r"
  "cc_status (snd (promote_next_secret_if_due now r)) = cc_status r"
  by (simp_all add: promote_next_secret_if_due_def Let_def split: option.splits)

lemma authenticate_success:
  assumes "authenticate_with_reason e t s origin d = ((Some p, m), d')"
  obtains row row1 version where "credential_by_prefix t (presented_prefix (py_strip s)) d = Some row"
    "py_norm (cc_status row) = ''active''" "\<not> (case cc_expires_at row of None \<Rightarrow> False | Some x \<Rightarrow> x \<le> ce_now e)"
    "row1 = snd (promote_next_secret_if_due (ce_now e) row)"
    "resolve_secret_version (ce_now e) (presented_prefix (py_strip s)) (hash_channel_secret e (py_strip s)) row1 = Some version"
    "origin_allowed row1 origin" "p = principal_of t (py_strip s) version row1"
    "d' = put_credential (row1\<lparr>cc_last_used_at := Some (ce_now e), cc_secret_version := version, cc_updated_at := ce_now e\<rparr>) d"
  using assms that by (auto simp: authenticate_with_reason_def Let_def split: if_splits option.splits prod.splits)

lemma authenticate_failure:
  "authenticate_with_reason e t s origin d = ((None, m), d') \<Longrightarrow> d' = d"
  by (auto simp: authenticate_with_reason_def Let_def split: if_splits option.splits prod.splits)

lemma put_step:
  assumes "creds.wf d" "creds.get i d = Some r" "cc_id new = j" "j = i \<Longrightarrow> row_step x r new"
  shows "\<exists>r'. creds.get i (put_credential new d) = Some r' \<and> row_step x r r'"
  using assms by (auto simp: put_credential_get row_step_def)

lemma create_get:
  assumes "creds.wf d" "creds.get i d = Some r"
  shows "creds.get i (snd (create_credential e tk t a by d)) = Some r \<and> creds.wf (snd (create_credential e tk t a by d))"
proof -
  have ins: "creds.get i (snd (insert_credential row d)) = Some r \<and> creds.wf (snd (insert_credential row d))" for row
  proof -
    have "snd (insert_credential row d) = d \<or> snd (insert_credential row d) = credential_insert (\<lambda>k. row\<lparr>cc_id := k\<rparr>) d"
      by (simp add: insert_credential_def credential_insert_def Let_def)
    then show ?thesis using assms creds.get_ins_old creds.wf_ins [of d "\<lambda>k. row\<lparr>cc_id := k\<rparr>"] by fastforce
  qed
  show ?thesis
  proof (cases "snd (create_credential e tk t a by d) = d")
    case False
    then obtain row where "snd (create_credential e tk t a by d) = snd (insert_credential row d)"
      unfolding create_credential_def Let_def
      by (auto split: if_splits sum.splits prod.splits) (metis snd_conv)+
    then show ?thesis using ins by simp
  qed (use assms in simp)
qed

lemma wf_same_table: "cd_credentials d' = cd_credentials d \<Longrightarrow> cd_next_credential d' = cd_next_credential d \<Longrightarrow>
   creds.wf d' = creds.wf d \<and> creds.get i d' = creds.get i d"
  by (simp add: creds.wf_def creds.get_def)

lemma exec_row:
  assumes wf: "creds.wf d" and r: "creds.get i d = Some r"
  shows "creds.wf (channel_exec x d) \<and> (\<exists>r'. creds.get i (channel_exec x d) = Some r' \<and> row_step x r r')"
proof (cases x)
  case (Create e tk t a bb)
  then show ?thesis using create_get [OF wf r, of e tk t a bb] by (auto simp: row_step_def)
next
  case (Update_policy e t c a bb)
  show ?thesis
  proof (cases "snd (update_policy e t c a bb d) = d")
    case False
    then obtain row origins ranges need_sig where r1: "the_credential t c d = Some row"
      "snd (update_policy e t c a bb d) = put_credential (policy_row e a origins ranges need_sig bb row) d"
      unfolding update_policy_def Let_def by (auto split: if_splits sum.splits option.splits)
    define row' where "row' = policy_row e a origins ranges need_sig bb row"
    have row: "the_credential t c d = Some row" "secrets row' = secrets row" "cc_id row' = cc_id row"
      "snd (update_policy e t c a bb d) = put_credential row' d"
      using r1 by (simp_all add: row'_def policy_row_def secrets_def active_secret_hash_def)
    note g = the_credential_get [OF row(1) wf]
    have "\<exists>r'. creds.get i (put_credential row' d) = Some r' \<and> row_step x r r'"
      by (rule put_step [OF wf r refl]) (use row(2,3) g r in \<open>auto simp: row_step_def\<close>)
    then show ?thesis using Update_policy row(4) put_credential_wf [OF wf] by simp
  qed (use Update_policy wf r in \<open>auto simp: row_step_def\<close>)
next
  case (Revoke e t c bb)
  show ?thesis
  proof (cases "the_credential t c d")
    case (Some row)
    let ?n = "row\<lparr>cc_status := ''revoked'', cc_revoked_at := Some (ce_now e), cc_revoked_by := bb,
             cc_updated_by := bb, cc_updated_at := ce_now e\<rparr>"
    note g = the_credential_get [OF Some wf]
    have "\<exists>r'. creds.get i (put_credential ?n d) = Some r' \<and> row_step x r r'"
      by (rule put_step [OF wf r refl]) (use g r in \<open>auto simp: row_step_def secrets_def active_secret_hash_def\<close>)
    then show ?thesis using Revoke Some put_credential_wf [OF wf] by (simp add: revoke_credential_def)
  qed (use Revoke wf r in \<open>auto simp: row_step_def revoke_credential_def\<close>)
next
  case (Rotate e tk t c bb)
  show ?thesis
  proof (cases "the_credential t c d")
    case (Some row)
    note g = the_credential_get [OF Some wf]
    obtain row' where row': "snd (rotate_credential e tk t c bb d) = put_credential row' d" "cc_id row' = cc_id row"
      using Some by (simp add: rotate_credential_def Let_def split_beta)
    have "\<exists>r'. creds.get i (put_credential row' d) = Some r' \<and> row_step x r r'"
      by (rule put_step [OF wf r refl]) (use g r row'(2) Rotate in \<open>auto simp: row_step_def\<close>)
    then show ?thesis using Rotate row'(1) put_credential_wf [OF wf] by simp
  qed (use Rotate wf r in \<open>auto simp: row_step_def rotate_credential_def Let_def split_beta\<close>)
next
  case (Authenticate e t s origin)
  obtain p m d' where a: "authenticate_with_reason e t s origin d = ((p, m), d')"
    by (cases "authenticate_with_reason e t s origin d") auto
  show ?thesis
  proof (cases p)
    case None
    then show ?thesis using Authenticate a wf r authenticate_failure by (fastforce simp: row_step_def)
  next
    case (Some q)
    obtain row row1 version where row: "credential_by_prefix t (presented_prefix (py_strip s)) d = Some row"
      "row1 = snd (promote_next_secret_if_due (ce_now e) row)"
      "d' = put_credential (row1\<lparr>cc_last_used_at := Some (ce_now e), cc_secret_version := version, cc_updated_at := ce_now e\<rparr>) d"
      using a unfolding Some by (rule authenticate_success)
    let ?n = "row1\<lparr>cc_last_used_at := Some (ce_now e), cc_secret_version := version, cc_updated_at := ce_now e\<rparr>"
    have g: "creds.get (cc_id row) d = Some row"
      using row(1) creds.get_member [OF wf] by (auto simp: credential_by_prefix_def dest: tbl_first_Some)
    have "\<exists>r'. creds.get i (put_credential ?n d) = Some r' \<and> row_step x r r'"
      by (rule put_step [OF wf r refl]) (use row(2) g r in \<open>auto simp: row_step_def secrets_def active_secret_hash_def\<close>)
    then show ?thesis using Authenticate a row(3) put_credential_wf [OF wf] by simp
  qed
next
  case (Record_usage e a)
  then show ?thesis using wf_same_table [of "channel_exec x d" d i] wf r by (simp add: record_usage_def row_step_def)
next
  case (Triage e t j st ow nt bb)
  then show ?thesis using wf_same_table [of "channel_exec x d" d i] wf r
    by (auto simp: triage_feedback_def row_step_def Let_def split: option.splits)
qed

text \<open>A property of the secrets that promotion and revocation keep is kept by every call but a rotation.\<close>

lemma secrets_kept_by_run:
  assumes P: "\<And>r now. P (secrets r) \<Longrightarrow> P (secrets (snd (promote_next_secret_if_due now r)))"
    "\<And>r. P (secrets r) \<Longrightarrow> P (secrets (r\<lparr>cc_status := ''revoked''\<rparr>))"
    and start: "creds.wf d" "creds.get i d = Some r" "P (secrets r)" and ops: "\<forall>x \<in> set ops. \<not> rotates i x"
  shows "creds.wf (channel_run ops d) \<and> (\<exists>r'. creds.get i (channel_run ops d) = Some r' \<and> P (secrets r'))"
  using start ops
proof (induction ops arbitrary: d r)
  case Nil
  then show ?case by (auto simp: channel_run_def)
next
  case (Cons x ops)
  obtain r' where r': "creds.wf (channel_exec x d)" "creds.get i (channel_exec x d) = Some r'" "row_step x r r'"
    using exec_row [OF Cons.prems(1,2)] by blast
  have "cc_id r = i" using Cons.prems(2) creds.get_Some by blast
  then have "P (secrets r')" using r'(3) Cons.prems(3,4) P [of r] unfolding row_step_def by auto
  then show ?case using Cons.IH [OF r'(1,2)] Cons.prems(4) by (simp add: channel_run_def)
qed

section \<open>Rotation and revocation\<close>

text \<open>After a rotation: the new secret waits as the next one, or has taken over.\<close>

definition renewed :: "pydatetime \<Rightarrow> string \<Rightarrow> string \<Rightarrow> string \<times> string \<times> string \<times> string option \<times> string option \<times> pydatetime option \<Rightarrow> bool" where
  "renewed U hn pn z =
     (case z of (status, prefix, active, next_prefix, next_hash, rotating) \<Rightarrow>
        (next_prefix = Some pn \<and> next_hash = Some hn \<and> rotating = Some U)
      \<or> (active = hn \<and> rotating = None \<and> next_hash = None))"

lemma renewed_promote:
  assumes "renewed U hn pn (secrets r)" "hn \<noteq> []" "py_norm pn \<noteq> []"
  shows "renewed U hn pn (secrets (snd (promote_next_secret_if_due now r)))"
    and "U \<le> now \<Longrightarrow> active_secret_hash (snd (promote_next_secret_if_due now r)) = hn
      \<and> cc_next_secret_hash (snd (promote_next_secret_if_due now r)) = None"
  using assms
  by (auto simp: renewed_def secrets_def promote_next_secret_if_due_def Let_def or_empty_def active_secret_hash_def str_or_def
      split: option.splits if_splits)

lemma new_secret_prefix: "py_norm (fst (new_secret tokens)) \<noteq> []"
proof -
  have "fst (new_secret tokens) = CHR ''c'' # py_lower (''k_'' @ fst tokens)"
    by (simp add: new_secret_def py_lower_def lower_char_def)
  moreover have "py_norm (CHR ''c'' # xs) \<noteq> []" for xs
  proof -
    have "dropWhile is_blank (rev (CHR ''c'' # xs)) \<noteq> []" by (auto simp: is_blank_def)
    then show ?thesis by (simp add: py_norm_def py_strip_def py_lower_def is_blank_def)
  qed
  ultimately show ?thesis by simp
qed

lemma login_row:
  assumes wf: "creds.wf d" and a: "authenticate_with_reason e t s origin d = ((Some p, m), d')"
    and r: "creds.get (cp_credential_id p) d = Some r"
  shows "py_norm (cc_status r) = ''active''"
    "resolve_secret_version (ce_now e) (presented_prefix (py_strip s)) (hash_channel_secret e (py_strip s))
       (snd (promote_next_secret_if_due (ce_now e) r)) \<noteq> None"
proof -
  obtain row row1 version where row: "credential_by_prefix t (presented_prefix (py_strip s)) d = Some row"
    "py_norm (cc_status row) = ''active''" "row1 = snd (promote_next_secret_if_due (ce_now e) row)"
    "resolve_secret_version (ce_now e) (presented_prefix (py_strip s)) (hash_channel_secret e (py_strip s)) row1 = Some version"
    "p = principal_of t (py_strip s) version row1"
    using a by (rule authenticate_success)
  have "creds.get (cc_id row) d = Some row"
    using row(1) creds.get_member [OF wf] by (auto simp: credential_by_prefix_def dest: tbl_first_Some)
  moreover have "cp_credential_id p = cc_id row" using row(3,5) by (simp add: principal_of_def)
  ultimately have "r = row" using r by simp
  then show "py_norm (cc_status r) = ''active''"
    "resolve_secret_version (ce_now e) (presented_prefix (py_strip s)) (hash_channel_secret e (py_strip s))
       (snd (promote_next_secret_if_due (ce_now e) r)) \<noteq> None" using row by simp_all
qed

text \<open>
  C38: Old secrets end: once the seven days of a rotation are over, a secret that opens the
  credential has the hash of the secret the rotation handed out, whatever calls other than a
  further rotation of it were made in between, so neither the secret before the rotation nor an
  earlier one opens it.
\<close>

theorem only_the_new_secret_after_the_rotation_window:
  assumes wf: "creds.wf d"
    and rot: "rotate_credential e0 tokens t c bb d = (Some (row, new), d1)"
    and hash: "hash_channel_secret e0 new \<noteq> []"
    and ops: "list_all (\<lambda>x. \<not> rotates c x) ops"
    and login: "authenticate_with_reason e t' s origin (channel_run ops d1) = ((Some p, m), d2)" "cp_credential_id p = c"
    and late: "ce_now e0 + days 7 \<le> ce_now e"
  shows "hash_channel_secret e (py_strip s) = hash_channel_secret e0 new"
proof -
  let ?U = "ce_now e0 + days 7"
  let ?hn = "hash_channel_secret e0 new"
  let ?pn = "fst (new_secret tokens)"
  obtain row0 where row0: "the_credential t c d = Some row0" "cc_id row = cc_id row0" "d1 = put_credential row d"
    "renewed ?U ?hn ?pn (secrets row)"
    using rot by (auto simp: rotate_credential_def Let_def renewed_def secrets_def split: option.splits prod.splits)
  note g = the_credential_get [OF row0(1) wf]
  have d1: "creds.wf d1" "creds.get c d1 = Some row"
    using put_credential_wf [OF wf] g row0 by (simp_all add: put_credential_get)
  note pn = new_secret_prefix [of tokens]
  have "creds.wf (channel_run ops d1) \<and> (\<exists>r'. creds.get c (channel_run ops d1) = Some r' \<and> renewed ?U ?hn ?pn (secrets r'))"
  proof (rule secrets_kept_by_run [where P = "renewed ?U ?hn ?pn", OF _ _ d1 row0(4)])
    show "renewed ?U ?hn ?pn (secrets (snd (promote_next_secret_if_due now r)))"
      if "renewed ?U ?hn ?pn (secrets r)" for r now using renewed_promote(1) [OF that hash pn] .
    show "renewed ?U ?hn ?pn (secrets (r\<lparr>cc_status := ''revoked''\<rparr>))"
      if "renewed ?U ?hn ?pn (secrets r)" for r using that by (simp add: renewed_def secrets_def active_secret_hash_def)
    show "\<forall>x \<in> set ops. \<not> rotates c x" using ops by (simp add: list_all_iff)
  qed
  then obtain r' where r': "creds.wf (channel_run ops d1)" "creds.get c (channel_run ops d1) = Some r'"
    "renewed ?U ?hn ?pn (secrets r')" by blast
  have "creds.get (cp_credential_id p) (channel_run ops d1) = Some r'" using r'(2) login(2) by simp
  from login_row(2) [OF r'(1) login(1) this] renewed_promote(2) [OF r'(3) hash pn late]
  show ?thesis by (auto simp: resolve_secret_version_def Let_def or_empty_def split: if_splits)
qed

text \<open>
  C39: A revoked credential stays closed: after its revocation no secret, from any origin and at any
  time, authenticates as that credential, whatever calls other than a rotation of it follow.
\<close>

theorem revoked_credential_stays_closed:
  assumes wf: "creds.wf d"
    and rev: "revoke_credential e0 t c bb d = (True, d1)"
    and ops: "list_all (\<lambda>x. \<not> rotates c x) ops"
    and login: "authenticate_with_reason e t' s origin (channel_run ops d1) = ((Some p, m), d2)"
  shows "cp_credential_id p \<noteq> c"
proof
  assume c: "cp_credential_id p = c"
  obtain row0 where old: "the_credential t c d = Some row0"
    using rev by (cases "the_credential t c d") (simp_all add: revoke_credential_def)
  define row where "row = row0\<lparr>cc_status := ''revoked'', cc_revoked_at := Some (ce_now e0), cc_revoked_by := bb,
     cc_updated_by := bb, cc_updated_at := ce_now e0\<rparr>"
  have row0: "the_credential t c d = Some row0" "cc_id row = cc_id row0" "d1 = put_credential row d"
    "fst (secrets row) = ''revoked''"
    using rev old by (simp_all add: revoke_credential_def secrets_def row_def)
  note g = the_credential_get [OF row0(1) wf]
  have d1: "creds.wf d1" "creds.get c d1 = Some row"
    using put_credential_wf [OF wf] g row0 by (simp_all add: put_credential_get)
  have "creds.wf (channel_run ops d1) \<and> (\<exists>r'. creds.get c (channel_run ops d1) = Some r' \<and> fst (secrets r') = ''revoked'')"
    by (rule secrets_kept_by_run [where P = "\<lambda>z. fst z = ''revoked''", OF _ _ d1 row0(4)]) (use ops in \<open>simp_all add: secrets_def list_all_iff\<close>)
  then obtain r' where r': "creds.wf (channel_run ops d1)" "creds.get (cp_credential_id p) (channel_run ops d1) = Some r'"
    "cc_status r' = ''revoked''" using c by (auto simp: secrets_def)
  have "py_norm ''revoked'' \<noteq> ''active''" by code_simp
  then show False using login_row(1) [OF r'(1) login r'(2)] r'(3) by simp
qed

section \<open>Rotating a revoked credential\<close>

lemma first_after_update:
  assumes "distinct (map k xs)" "tbl_first P xs = Some r" "P (f r)"
  shows "tbl_first P (tbl_update (\<lambda>x. k x = k r) f xs) = Some (f r)"
  using assms
proof (induction xs)
  case (Cons x xs)
  show ?case
  proof (cases "P x")
    case True
    then show ?thesis using Cons.prems by (simp add: tbl_first_def tbl_update_def)
  next
    case False
    then have "tbl_first P xs = Some r" using Cons.prems(2) by (simp add: tbl_first_def)
    moreover from this have "k x \<noteq> k r" using Cons.prems(1) by (auto dest!: tbl_first_Some)
    ultimately show ?thesis using Cons False by (simp add: tbl_first_def tbl_update_def)
  qed
qed (simp add: tbl_first_def)

lemma put_credentials: "cd_credentials (put_credential row d) = tbl_update (\<lambda>r. cc_id r = cc_id row) (\<lambda>_. row) (cd_credentials d)"
  by (simp add: put_credential_def)

lemma prefix_found_after_put:
  assumes "creds.wf d" "credential_by_prefix t pre d = Some row" "cc_id new = cc_id row"
    "cc_tenant_id new = t" "cc_key_prefix new = pre"
  shows "credential_by_prefix t pre (put_credential new d) = Some new"
  using assms first_after_update [of cc_id "cd_credentials d" _ row "\<lambda>_. new"]
  by (simp add: credential_by_prefix_def put_credentials creds.wf_def)


section \<open>A concrete credential\<close>

definition sec_env :: "int \<Rightarrow> unit chan_env" where
  "sec_env sec = (demo_env None ''local'' sec)\<lparr>ce_sha256 := (\<lambda>s. s)\<rparr>"

definition demo_credential_args :: credential_args where
  "demo_credential_args = \<lparr>ca_channel_type = ''api'', ca_name = ''n'', ca_allowed_kb_uuids = [''kb''], ca_daily_limit = 5,
     ca_per_minute_limit = 2, ca_allowed_origins = [], ca_allowed_ip_ranges = [], ca_require_signed_requests = True,
     ca_expires_at = None\<rparr>"

definition demo_channel_db :: channel_db where
  "demo_channel_db = snd (create_credential (sec_env 0) (''A'', ''x'') 1 demo_credential_args None
     \<lparr>cd_credentials = [], cd_next_credential = 7, cd_usage = [], cd_next_usage = 1, cd_feedback = [], cd_next_feedback = 1\<rparr>)"

lemma demo_channel_db_wf: "creds.wf demo_channel_db"
proof -
  have "map cc_id (cd_credentials demo_channel_db) = [7]" "cd_next_credential demo_channel_db = 8" by code_simp+
  then show ?thesis by (cases "cd_credentials demo_channel_db") (auto simp: creds.wf_def)
qed

lemma demo_login: "fst (authenticate_with_reason (sec_env 1) 1 ''ck_a.x'' None demo_channel_db) \<noteq> (None, m)"
proof -
  have "fst (fst (authenticate_with_reason (sec_env 1) 1 ''ck_a.x'' None demo_channel_db)) \<noteq> None" by code_simp
  then show ?thesis by auto
qed

definition demo_rotated :: "(credential_row \<times> string) option \<times> channel_db" where
  "demo_rotated = rotate_credential (sec_env 2) (''B'', ''y'') 1 7 None demo_channel_db"

theorem only_the_new_secret_after_the_rotation_window_witness:
  "hash_channel_secret (sec_env 700000) (py_strip ''ck_b.y'') = hash_channel_secret (sec_env 2) ''ck_b.y''"
proof -
  have 1: "fst demo_rotated \<noteq> None \<and> snd (the (fst demo_rotated)) = ''ck_b.y''" by code_simp
  then obtain row d1 where rot: "rotate_credential (sec_env 2) (''B'', ''y'') 1 7 None demo_channel_db = (Some (row, ''ck_b.y''), d1)"
    by (metis demo_rotated_def not_None_eq option.sel prod.collapse)
  have "case fst (fst (authenticate_with_reason (sec_env 700000) 1 ''ck_b.y'' None
      (channel_run [Revoke (sec_env 3) 1 6 None] (snd demo_rotated)))) of None \<Rightarrow> False | Some p \<Rightarrow> cp_credential_id p = 7" by code_simp
  then obtain p m d2 where l: "authenticate_with_reason (sec_env 700000) 1 ''ck_b.y'' None
      (channel_run [Revoke (sec_env 3) 1 6 None] d1) = ((Some p, m), d2)" "cp_credential_id p = 7"
    using rot unfolding demo_rotated_def by (auto split: option.splits) (metis prod.collapse)
  have h: "hash_channel_secret (sec_env 2) ''ck_b.y'' \<noteq> []" by code_simp
  have t: "ce_now (sec_env 2) + days 7 \<le> ce_now (sec_env 700000)" by code_simp
  show ?thesis
    by (rule only_the_new_secret_after_the_rotation_window [OF demo_channel_db_wf rot h _ l t]) simp
qed

theorem revoked_credential_stays_closed_witness:
  "\<not> (\<exists>p m d2. authenticate_with_reason (sec_env 5) 1 ''ck_a.x'' None
       (channel_run [Authenticate (sec_env 4) 1 ''ck_a.x'' None]
         (snd (revoke_credential (sec_env 3) 1 7 None demo_channel_db))) = ((Some p, m), d2) \<and> cp_credential_id p = 7)"
proof -
  have "fst (revoke_credential (sec_env 3) 1 7 None demo_channel_db)" by code_simp
  then have rev: "revoke_credential (sec_env 3) 1 7 None demo_channel_db
      = (True, snd (revoke_credential (sec_env 3) 1 7 None demo_channel_db))" by (metis prod.collapse)
  have ops: "list_all (\<lambda>x. \<not> rotates 7 x) [Authenticate (sec_env 4) 1 ''ck_a.x'' None]" by simp
  show ?thesis
    using revoked_credential_stays_closed [OF demo_channel_db_wf rev ops] by blast
qed


end
