(* ===== verification/ChannelSlots.thy ===== *)
theory ChannelSlots
  imports ChannelQuota ChannelReplay
begin

text \<open>
  What the quota guarantees: the counters of the process are the slots that are held, no limit is
  ever exceeded, and Redis and the process take the same decisions.
\<close>

section \<open>Keys\<close>

definition keys_of :: "slot_keys \<Rightarrow> string list" where
  "keys_of k = filter (\<lambda>x. x \<noteq> []) [sk_day k, sk_minute k, sk_session_minute k, sk_session_burst k]"

lemma slot_keys_distinct:
  "distinct (keys_of (slot_keys_of now p q))"
  "sk_day (slot_keys_of now p q) \<noteq> []" "sk_minute (slot_keys_of now p q) \<noteq> []"
  "sk_session_minute (slot_keys_of now p q) = [] \<longleftrightarrow> \<not> session_limit_enabled q"
  "sk_session_burst (slot_keys_of now p q) = [] \<longleftrightarrow> \<not> session_limit_enabled q"
  by (simp_all add: slot_keys_of_def keys_of_def Let_def)

lemma show_int_last: "show_int i \<noteq> [] \<and> is_digit_char (last (show_int i))"
  using digits_show_nat [of "nat i"] digits_show_nat [of "nat (- i)"]
  by (auto simp: show_int_def list_all_iff)

lemma digit_is_digit_char: "is_digit_char (digit n)"
proof -
  have "nat (48 + n mod 10) = 48 + nat (n mod 10)" by (simp add: nat_add_distrib)
  moreover have "nat (n mod 10) < 10" by (simp add: nat_less_iff)
  ultimately show ?thesis using is_digit_char_digit [of "nat (n mod 10)"] by (simp add: digit_def)
qed

lemma key_strip:
  "s \<noteq> [] \<Longrightarrow> hd s = CHR ''q'' \<Longrightarrow> is_digit_char (last s) \<Longrightarrow> py_strip s = s"
  by (rule py_strip_id) (simp_all add: digit_not_blank is_blank_def [of "CHR ''q''"])

lemma minute_key_last: "minute_key now \<noteq> [] \<and> is_digit_char (last (minute_key now))"
  by (simp add: minute_key_def Let_def pad2_def digit_is_digit_char)

lemma isoformat_last: "is_digit_char (last (isoformat d))"
  by (simp add: isoformat_def pad2_def digit_is_digit_char)

lemma slot_keys_strip [simp]:
  "py_strip (sk_day (slot_keys_of now (isoformat d) q)) = sk_day (slot_keys_of now (isoformat d) q)"
  "py_strip (sk_minute (slot_keys_of now p q)) = sk_minute (slot_keys_of now p q)"
  "py_strip (sk_session_minute (slot_keys_of now p q)) = sk_session_minute (slot_keys_of now p q)"
  "py_strip (sk_session_burst (slot_keys_of now p q)) = sk_session_burst (slot_keys_of now p q)"
  using minute_key_last [of now] isoformat_last [of d] show_int_last [of "unix_seconds now div 10"]
  by (simp_all add: slot_keys_of_def Let_def burst_10s_key_def key_strip)

lemma same_before:
  assumes "c \<notin> set a" "c \<notin> set a'" "a @ c # b = a' @ c # b'"
  shows "a = a' \<and> b = b'"
proof -
  have t: "takeWhile (\<lambda>x. x \<noteq> c) (y @ c # z) = y" if "c \<notin> set y" for y z
    using that by (induction y) auto
  have "a = a'" using t [OF assms(1), of b] t [OF assms(2), of b'] assms(3) by simp
  then show ?thesis using assms(3) by simp
qed

lemma show_int_chars: "c \<in> set (show_int i) \<Longrightarrow> c = CHR ''-'' \<or> is_digit_char c"
  using digits_show_nat [of "nat i"] digits_show_nat [of "nat (- i)"]
  by (auto simp: show_int_def list_all_iff split: if_splits)

lemma show_int_inject: "show_int i = show_int j \<longleftrightarrow> i = j"
  by (metis option.inject py_int_show_int)

definition day_key :: "int \<Rightarrow> int \<Rightarrow> string \<Rightarrow> string" where
  "day_key t c p = ''quota:channel:day:'' @ show_int t @ '':'' @ show_int c @ '':'' @ p"

lemma day_key_inject: "day_key t c p = day_key t' c' p' \<longleftrightarrow> t = t' \<and> c = c' \<and> p = p'"
proof
  assume e: "day_key t c p = day_key t' c' p'"
  have n: "CHR '':'' \<notin> set (show_int i)" for i using show_int_chars [of "CHR '':''" i] by (auto simp: is_digit_char_def)
  have "show_int t @ CHR '':'' # (show_int c @ '':'' @ p) = show_int t' @ CHR '':'' # (show_int c' @ '':'' @ p')"
    using e by (simp add: day_key_def)
  from same_before [OF n n this] have t: "t = t'" "show_int c @ CHR '':'' # p = show_int c' @ CHR '':'' # p'"
    by (simp_all add: show_int_inject)
  from same_before [OF n n t(2)] t(1) show "t = t' \<and> c = c' \<and> p = p'" by (simp add: show_int_inject)
qed simp

lemma sk_day_key: "sk_day (slot_keys_of now p q) = day_key (qr_tenant q) (qr_credential q) p"
  by (simp add: slot_keys_of_def Let_def day_key_def)

lemma day_key_only: "day_key t c p \<in> set (keys_of (slot_keys_of now p' q)) \<longleftrightarrow> day_key t c p = sk_day (slot_keys_of now p' q)"
  by (auto simp: keys_of_def slot_keys_of_def Let_def day_key_def)

section \<open>Counters and slots\<close>

text \<open>
  The slots held: one is added by a reservation that is granted, and goes when it is released, which the
  requests do at most once. The clock, the limits and the environment may differ from call to call.
\<close>

definition holds :: "string \<Rightarrow> reservation list \<Rightarrow> nat" where
  "holds k held = length (filter (\<lambda>v. k \<in> set (keys_of (rv_keys v))) held)"

inductive slots :: "(quota_request \<Rightarrow> bool) \<Rightarrow> counters \<Rightarrow> reservation list \<Rightarrow> bool" for ok where
  start: "slots ok Map.empty []"
| granted: "slots ok c held \<Longrightarrow> ok q \<Longrightarrow> ce_redis (e :: unit chan_env) = None \<Longrightarrow>
    reserve_usage_slot e q ((), c) = ((True, m, Some v), r', c') \<Longrightarrow> slots ok c' (v # held)"
| refused: "slots ok c held \<Longrightarrow> ce_redis (e :: unit chan_env) = None \<Longrightarrow>
    reserve_usage_slot e q ((), c) = ((False, m, rv), r', c') \<Longrightarrow> slots ok c' held"
| released: "slots ok c held \<Longrightarrow> v \<in> set held \<Longrightarrow>
    release_usage_slot (e :: unit chan_env) (Some v) ((), c) = (r', c') \<Longrightarrow> slots ok c' (remove1 v held)"

lemma reserve_memory_granted:
  assumes "reserve_memory q (slot_keys_of now p q) c = ((True, m, rv), c')"
  shows "rv = Some \<lparr>rv_backend = In_process, rv_keys = slot_keys_of now p q\<rparr>"
    "x \<noteq> [] \<Longrightarrow> count_of c' x = count_of c x + (if x \<in> set (keys_of (slot_keys_of now p q)) then 1 else 0)"
    "count_of c (sk_day (slot_keys_of now p q)) + 1 \<le> at_least_one (qr_daily q)"
    "count_of c (sk_minute (slot_keys_of now p q)) + 1 \<le> at_least_one (qr_per_minute q)"
proof -
  let ?k = "slot_keys_of now p q"
  let ?n = "\<lambda>x. count_of c x + 1"
  let ?sm = "if session_limit_enabled q then ?n (sk_session_minute ?k) else 0"
  let ?sb = "if session_limit_enabled q then ?n (sk_session_burst ?k) else 0"
  let ?c1 = "c(sk_day ?k \<mapsto> ?n (sk_day ?k), sk_minute ?k \<mapsto> ?n (sk_minute ?k))"
  have ex: "exceeded q (?n (sk_day ?k)) (?n (sk_minute ?k)) ?sm ?sb = None"
    and rv: "rv = Some \<lparr>rv_backend = In_process, rv_keys = ?k\<rparr>"
    and c': "c' = (if session_limit_enabled q
      then ?c1(sk_session_minute ?k \<mapsto> ?sm, sk_session_burst ?k \<mapsto> ?sb) else ?c1)"
    using assms unfolding reserve_memory_def Let_def by (auto split: option.splits)
  show "rv = Some \<lparr>rv_backend = In_process, rv_keys = ?k\<rparr>" by (rule rv)
  have le: "\<not> at_least_one (qr_daily q) < ?n (sk_day ?k)" "\<not> at_least_one (qr_per_minute q) < ?n (sk_minute ?k)"
    using ex unfolding exceeded_def by (metis option.distinct(1))+
  then show "?n (sk_day ?k) \<le> at_least_one (qr_daily q)" "?n (sk_minute ?k) \<le> at_least_one (qr_per_minute q)"
    by simp_all
  show "x \<noteq> [] \<Longrightarrow> count_of c' x = count_of c x + (if x \<in> set (keys_of ?k) then 1 else 0)"
    using slot_keys_distinct [of now p q] unfolding c'
    by (cases "session_limit_enabled q") (simp_all add: keys_of_def count_of_def)
qed

lemma reserve_memory_refused:
  "reserve_memory q k c = ((False, m, rv), c') \<Longrightarrow> c' = c"
  by (auto simp: reserve_memory_def Let_def split: if_splits option.splits)

lemma release_key_count: "k \<noteq> [] \<Longrightarrow> 1 \<le> count_of c k \<Longrightarrow> count_of (release_key k c) x = count_of c x - (if x = k then 1 else 0)"
  by (auto simp: release_key_def count_of_def)

lemma release_keys_count:
  "distinct ks \<Longrightarrow> [] \<notin> set ks \<Longrightarrow> (\<And>k. k \<in> set ks \<Longrightarrow> 1 \<le> count_of c k) \<Longrightarrow>
   count_of (fold release_key ks c) x = count_of c x - (if x \<in> set ks then 1 else 0)"
proof (induction ks arbitrary: c)
  case (Cons k ks)
  have "1 \<le> count_of (release_key k c) y" if "y \<in> set ks" for y
    using Cons.prems that release_key_count [of k c y] by auto
  then have "count_of (fold release_key ks (release_key k c)) x = count_of (release_key k c) x - (if x \<in> set ks then 1 else 0)"
    using Cons by auto
  then show ?case using Cons.prems release_key_count [of k c x] by auto
qed simp

lemma release_empty_keys: "fold release_key ks c = fold release_key (filter (\<lambda>k. k \<noteq> []) ks) c"
  by (induction ks arbitrary: c) (auto simp: release_key_def)

definition slots_inv :: "counters \<Rightarrow> reservation list \<Rightarrow> bool" where
  "slots_inv c held \<longleftrightarrow>
     (\<forall>k. k \<noteq> [] \<longrightarrow> count_of c k = int (holds k held))
   \<and> (\<forall>v \<in> set held. rv_backend v = In_process \<and> (\<exists>now q d. rv_keys v = slot_keys_of now (isoformat d) q))"

lemma holds_Cons: "holds k (v # held) = holds k held + (if k \<in> set (keys_of (rv_keys v)) then 1 else 0)"
  by (simp add: holds_def)

lemma holds_remove1: "v \<in> set held \<Longrightarrow> holds k held = holds k (remove1 v held) + (if k \<in> set (keys_of (rv_keys v)) then 1 else 0)"
  by (induction held) (auto simp: holds_def)

lemma reserve_in_process:
  assumes "ce_redis e = None" "reserve_usage_slot e q (r, c) = (x, r', c')"
  shows "(x = (False, quota_unavailable, None) \<and> c' = c)
    \<or> reserve_memory q (slot_keys_of (ce_now e) (isoformat (dt_date (ce_now e))) q) c = (x, c')"
  using assms by (auto simp: reserve_usage_slot_def Let_def split: if_splits prod.splits)

lemma slots_invariant: "slots ok c held \<Longrightarrow> slots_inv c held"
proof (induction rule: slots.induct)
  case start
  show ?case by (simp add: slots_inv_def holds_def count_of_def)
next
  case (granted c held q e m v r' c')
  let ?k = "slot_keys_of (ce_now e) (isoformat (dt_date (ce_now e))) q"
  have "reserve_memory q ?k c = ((True, m, Some v), c')" using reserve_in_process [OF granted(3,4)] by simp
  note g = reserve_memory_granted(1,2) [OF this]
  show ?case using g granted.IH by (auto simp: slots_inv_def holds_Cons)
next
  case (refused c held e q m rv r' c')
  then show ?case using reserve_in_process [OF refused(2,3)] reserve_memory_refused by fastforce
next
  case (released c held v e r' c')
  then obtain now q d where k: "rv_keys v = slot_keys_of now (isoformat d) q" "rv_backend v = In_process"
    by (auto simp: slots_inv_def)
  let ?ks = "keys_of (rv_keys v)"
  have "c' = fold release_key [sk_day (rv_keys v), sk_minute (rv_keys v), sk_session_minute (rv_keys v), sk_session_burst (rv_keys v)] c"
    using released(3) k slot_keys_distinct(2,3) [of now "isoformat d" q] by (simp add: release_usage_slot_def)
  then have c': "c' = fold release_key ?ks c" unfolding keys_of_def by (metis release_empty_keys)
  have d: "distinct ?ks" "[] \<notin> set ?ks" using k slot_keys_distinct(1) by (simp_all add: keys_of_def)
  have "1 \<le> count_of c x" if "x \<in> set ?ks" for x
    using that d(2) released.IH holds_remove1 [OF released(2), of x] by (cases "x = []") (auto simp: slots_inv_def)
  note r = release_keys_count [OF d this]
  have "count_of c' x = int (holds x (remove1 v held))" if "x \<noteq> []" for x
    using that released.IH holds_remove1 [OF released(2), of x] r [of x] c' by (auto simp: slots_inv_def)
  then show ?case using released.IH set_remove1_subset [of v held] unfolding slots_inv_def by blast
qed

section \<open>Limits\<close>

lemma day_limit_kept:
  "slots ok c held \<Longrightarrow>
   (\<And>q. ok q \<Longrightarrow> qr_tenant q = t \<Longrightarrow> qr_credential q = cr \<Longrightarrow> at_least_one (qr_daily q) \<le> L) \<Longrightarrow> 0 \<le> L \<Longrightarrow>
   int (holds (day_key t cr (isoformat d)) held) \<le> L"
proof (induction rule: slots.induct)
  case start
  then show ?case by (simp add: holds_def)
next
  case (granted c held q e m v r' c')
  let ?k = "slot_keys_of (ce_now e) (isoformat (dt_date (ce_now e))) q"
  let ?K = "day_key t cr (isoformat d)"
  have "reserve_memory q ?k c = ((True, m, Some v), c')" using reserve_in_process [OF granted(3,4)] by simp
  note g = reserve_memory_granted [OF this]
  show ?case
  proof (cases "?K \<in> set (keys_of ?k)")
    case True
    then have k: "?K = sk_day ?k" by (simp add: day_key_only)
    then have "qr_tenant q = t" "qr_credential q = cr" by (simp_all add: sk_day_key day_key_inject)
    then have "at_least_one (qr_daily q) \<le> L" using granted by blast
    moreover have "count_of c ?K = int (holds ?K held)"
      using slots_invariant [OF granted(1)] by (simp add: slots_inv_def day_key_def)
    ultimately show ?thesis using g(1,3) True k by (simp add: holds_Cons)
  next
    case False
    then show ?thesis using g(1) granted by (simp add: holds_Cons)
  qed
next
  case (refused c held e q m rv r' c')
  then show ?case by blast
next
  case (released c held v e r' c')
  then show ?case using holds_remove1 [OF released(2), of "day_key t cr (isoformat d)"] by (simp split: if_splits)
qed

lemma daily_quota_facts:
  assumes s: "slots ok c held"
    and lim: "\<And>q. ok q \<Longrightarrow> qr_tenant q = t \<Longrightarrow> qr_credential q = cr \<Longrightarrow> at_least_one (qr_daily q) \<le> L" and L: "0 \<le> L"
  shows "int (holds (day_key t cr (isoformat d)) held) \<le> L"
    and "count_of c (day_key t cr (isoformat d)) = int (holds (day_key t cr (isoformat d)) held)"
    and "ce_redis e = None \<Longrightarrow> dt_date (ce_now e) = d \<Longrightarrow> qr_tenant q = t \<Longrightarrow> qr_credential q = cr \<Longrightarrow>
      fst (reserve_usage_slot (e :: unit chan_env) q ((), c)) = (False, daily_limit_reached, rv) \<Longrightarrow>
      at_least_one (qr_daily q) \<le> int (holds (day_key t cr (isoformat d)) held)"
proof -
  show "int (holds (day_key t cr (isoformat d)) held) \<le> L" by (rule day_limit_kept [OF s lim L])
  show c: "count_of c (day_key t cr (isoformat d)) = int (holds (day_key t cr (isoformat d)) held)"
    using slots_invariant [OF s] by (simp add: slots_inv_def day_key_def)
  assume e: "ce_redis e = None" "dt_date (ce_now e) = d" "qr_tenant q = t" "qr_credential q = cr"
    and x: "fst (reserve_usage_slot (e :: unit chan_env) q ((), c)) = (False, daily_limit_reached, rv)"
  let ?k = "slot_keys_of (ce_now e) (isoformat (dt_date (ce_now e))) q"
  obtain r' c' where "reserve_usage_slot e q ((), c) = ((False, daily_limit_reached, rv), r', c')"
    using x by (metis prod.collapse)
  then have "reserve_memory q ?k c = ((False, daily_limit_reached, rv), c')"
    using reserve_in_process [OF e(1)] by (fastforce simp: daily_limit_reached_def quota_unavailable_def)
  then have "at_least_one (qr_daily q) < count_of c (sk_day ?k) + 1"
    by (auto simp: reserve_memory_def Let_def exceeded_def daily_limit_reached_def too_many_questions_def
        too_many_in_session_def split: if_splits)
  then show "at_least_one (qr_daily q) \<le> int (holds (day_key t cr (isoformat d)) held)"
    using c e by (simp add: sk_day_key)
qed

text \<open>
  C34: The quota counters of the process are exact: after any reservations and releases, at any
  times and with any limits, the counter of a credential's day is the number of its slots that are
  held, which never exceeds the largest limit in use, and a question is refused for the daily
  limit only when that many slots are held.
\<close>

theorem daily_quota_is_never_exceeded:
  assumes s: "slots ok c held"
    and lim: "\<And>q. ok q \<Longrightarrow> qr_tenant q = t \<Longrightarrow> qr_credential q = cr \<Longrightarrow> at_least_one (qr_daily q) \<le> L" and L: "0 \<le> L"
  shows "int (holds (day_key t cr (isoformat d)) held) \<le> L
    \<and> count_of c (day_key t cr (isoformat d)) = int (holds (day_key t cr (isoformat d)) held)
    \<and> (\<forall>e q rv. ce_redis e = None \<and> dt_date (ce_now e) = d \<and> qr_tenant q = t \<and> qr_credential q = cr
        \<and> fst (reserve_usage_slot (e :: unit chan_env) q ((), c)) = (False, daily_limit_reached, rv)
        \<longrightarrow> at_least_one (qr_daily q) \<le> int (holds (day_key t cr (isoformat d)) held))"
  using daily_quota_facts [OF s lim L] by blast

definition demo_quota :: quota_request where
  "demo_quota = \<lparr>qr_tenant = 3, qr_credential = 7, qr_daily = 1, qr_per_minute = 10, qr_session = None,
     qr_session_per_minute = None, qr_session_burst = None\<rparr>"

definition demo_reserved :: "(bool \<times> string \<times> reservation option) \<times> unit \<times> counters" where
  "demo_reserved = reserve_usage_slot (demo_env None ''local'' 1000) demo_quota ((), Map.empty)"

theorem daily_quota_is_never_exceeded_witness:
  "\<exists>c held. slots (\<lambda>q. q = demo_quota) c held \<and> length held = 1
     \<and> int (holds (day_key 3 7 (isoformat 719163)) held) \<le> 1
     \<and> count_of c (day_key 3 7 (isoformat 719163)) = int (holds (day_key 3 7 (isoformat 719163)) held)
     \<and> 1 \<le> int (holds (day_key 3 7 (isoformat 719163)) held)"
proof -
  let ?e = "demo_env None ''local'' 1000 :: unit chan_env"
  obtain m rv r c where st: "demo_reserved = ((True, m, rv), r, c)"
  proof -
    have "fst (fst demo_reserved)" by code_simp
    then show thesis using that by (metis prod.collapse)
  qed
  have e: "ce_redis ?e = None" "dt_date (ce_now ?e) = 719163" by code_simp+
  have u: "demo_quota = demo_quota" "qr_tenant demo_quota = 3" "qr_credential demo_quota = 7" by (simp_all add: demo_quota_def)
  have "reserve_memory demo_quota (slot_keys_of (ce_now ?e) (isoformat (dt_date (ce_now ?e))) demo_quota) Map.empty = ((True, m, rv), c)"
    using reserve_in_process [OF e(1) st [unfolded demo_reserved_def]] by simp
  then obtain v where v: "rv = Some v" using reserve_memory_granted(1) by blast
  have s: "slots (\<lambda>q. q = demo_quota) c [v]"
    by (rule slots.granted [OF slots.start _ e(1) st [unfolded demo_reserved_def v]]) simp
  have lim: "at_least_one (qr_daily q) \<le> 1" if "q = demo_quota" for q
    using that by (simp add: at_least_one_def demo_quota_def)
  have "fst (reserve_usage_slot ?e demo_quota ((), snd (snd demo_reserved))) = (False, daily_limit_reached, None)"
    by code_simp
  then have full: "fst (reserve_usage_slot ?e demo_quota ((), c)) = (False, daily_limit_reached, None)" by (simp add: st)
  have "at_least_one (qr_daily demo_quota) = 1" by (simp add: at_least_one_def demo_quota_def)
  then show ?thesis
    using daily_quota_is_never_exceeded [OF s lim, where t = 3 and cr = 7 and d = 719163] s e u(2,3) full
    by (intro exI [of _ c] exI [of _ "[v]"]) fastforce
qed

section \<open>Redis and the process\<close>

text \<open>INCRBY, DECRBY and EXPIRE as documented, while no key expires.\<close>

fun redis_exec :: "redis_cmd list \<Rightarrow> (string \<Rightarrow> int) \<Rightarrow> int list \<times> (string \<Rightarrow> int)" where
  "redis_exec [] v = ([], v)"
| "redis_exec (Incr k n # cs) v = (case redis_exec cs (v(k := v k + n)) of (rs, w) \<Rightarrow> ((v k + n) # rs, w))"
| "redis_exec (Decr k n # cs) v = (case redis_exec cs (v(k := v k - n)) of (rs, w) \<Rightarrow> ((v k - n) # rs, w))"
| "redis_exec (Expire k n # cs) v = (case redis_exec cs v of (rs, w) \<Rightarrow> (1 # rs, w))"

definition pipeline_documented :: "('r \<Rightarrow> string \<Rightarrow> int) \<Rightarrow> 'r redis_ops \<Rightarrow> bool" where
  "pipeline_documented val ops \<longleftrightarrow>
     (\<forall>cmds r. case rd_pipeline ops cmds r of
        (None, _) \<Rightarrow> False
      | (Some replies, r') \<Rightarrow> (replies, val r') = redis_exec cmds (val r))"

lemma pipelineE:
  assumes "pipeline_documented val ops"
  obtains replies r' where "rd_pipeline ops cmds r = (Some replies, r')" "(replies, val r') = redis_exec cmds (val r)"
proof -
  from assms have "case rd_pipeline ops cmds r of (None, _) \<Rightarrow> False
      | (Some replies, r') \<Rightarrow> (replies, val r') = redis_exec cmds (val r)"
    unfolding pipeline_documented_def by (elim allE)
  then show thesis using that by (auto split: prod.splits option.splits)
qed

text \<open>
  C35: Redis and the fallback of the process take the same decisions: from equal counters a
  reservation is granted or refused with the same reason and the same keys, and leaves equal
  counters, although Redis counts first and rolls back.
\<close>

theorem quota_stores_agree:
  assumes ops: "pipeline_documented val ops"
    and same: "\<And>x. x \<noteq> [] \<Longrightarrow> val r x = count_of c x"
    and k: "k = slot_keys_of now p q"
    and red: "reserve_redis ops q k r = (a, r')" and mem: "reserve_memory q k c = (b, c')"
  shows "\<exists>x. a = Some x \<and> fst x = fst b \<and> fst (snd x) = fst (snd b)
    \<and> map_option rv_keys (snd (snd x)) = map_option rv_keys (snd (snd b))
    \<and> (\<forall>y. y \<noteq> [] \<longrightarrow> val r' y = count_of c' y)"
proof -
  note d = slot_keys_distinct [of now p q, folded k]
  obtain rs r1 where r1: "rd_pipeline ops (reserve_commands q k) r = (Some rs, r1)"
    "(rs, val r1) = redis_exec (reserve_commands q k) (val r)" by (rule pipelineE [OF ops])
  obtain us r2 where r2: "rd_pipeline ops (rollback_commands q k) r1 = (Some us, r2)"
    "(us, val r2) = redis_exec (rollback_commands q k) (val r1)" by (rule pipelineE [OF ops])
  show ?thesis
  proof (cases "session_limit_enabled q")
    case True
    have ne: "sk_day k \<noteq> sk_minute k" "sk_day k \<noteq> sk_session_minute k" "sk_day k \<noteq> sk_session_burst k"
      "sk_minute k \<noteq> sk_session_minute k" "sk_minute k \<noteq> sk_session_burst k" "sk_session_minute k \<noteq> sk_session_burst k"
      "sk_session_minute k \<noteq> []" "sk_session_burst k \<noteq> []"
      using d True by (auto simp: keys_of_def)
    note ne = ne ne(1-6) [symmetric]
    have rs: "rs = [val r (sk_day k) + 1, 1, val r (sk_minute k) + 1, 1, val r (sk_session_minute k) + 1, 1,
        val r (sk_session_burst k) + 1, 1]"
      and v1: "val r1 = (val r)(sk_day k := val r (sk_day k) + 1, sk_minute k := val r (sk_minute k) + 1,
        sk_session_minute k := val r (sk_session_minute k) + 1, sk_session_burst k := val r (sk_session_burst k) + 1)"
      using r1(2) True ne by (simp_all add: reserve_commands_def)
    have v2: "val r2 = val r"
      using r2(2) True ne unfolding v1 by (simp add: rollback_commands_def fun_eq_iff)
    show ?thesis
    proof (cases "exceeded q (rs ! 0) (rs ! 2) (rs ! 4) (rs ! 6)")
      case None
      then show ?thesis using red mem True d(2,3) ne same r1(1) v1
        by (auto simp: reserve_redis_def reserve_memory_def Let_def rs count_of_def)
    next
      case (Some reason)
      then show ?thesis using red mem True d(2,3) ne same r1(1) r2(1) v2
        by (auto simp: reserve_redis_def reserve_memory_def Let_def rs)
    qed
  next
    case False
    have ne: "sk_day k \<noteq> sk_minute k" "sk_minute k \<noteq> sk_day k" using d by (auto simp: keys_of_def)
    have rs: "rs = [val r (sk_day k) + 1, 1, val r (sk_minute k) + 1, 1]"
      and v1: "val r1 = (val r)(sk_day k := val r (sk_day k) + 1, sk_minute k := val r (sk_minute k) + 1)"
      using r1(2) False ne by (simp_all add: reserve_commands_def)
    have v2: "val r2 = val r" using r2(2) False ne unfolding v1 by (simp add: rollback_commands_def fun_eq_iff)
    show ?thesis
    proof (cases "exceeded q (rs ! 0) (rs ! 2) 0 0")
      case None
      then show ?thesis using red mem False d(2,3) ne same r1(1) v1
        by (auto simp: reserve_redis_def reserve_memory_def Let_def rs count_of_def)
    next
      case (Some reason)
      then show ?thesis using red mem False d(2,3) ne same r1(1) r2(1) v2
        by (auto simp: reserve_redis_def reserve_memory_def Let_def rs)
    qed
  qed
qed


definition counting_ops :: "(string \<Rightarrow> int) redis_ops" where
  "counting_ops = \<lparr>rd_pipeline = (\<lambda>cmds r. case redis_exec cmds r of (rs, w) \<Rightarrow> (Some rs, w)),
     rd_set_nx = (\<lambda>k ttl r. (None, r)), rd_get = (\<lambda>k r. (None, r)), rd_set = (\<lambda>k v ttl r. (None, r))\<rparr>"

theorem quota_stores_agree_witness:
  "\<exists>x. fst (reserve_redis counting_ops demo_quota (slot_keys_of 5 ''d'' demo_quota) (\<lambda>_. 0)) = Some x
     \<and> fst x = fst (fst (reserve_memory demo_quota (slot_keys_of 5 ''d'' demo_quota) Map.empty)) \<and> fst x"
proof -
  have ops: "pipeline_documented (\<lambda>r. r) counting_ops"
    by (auto simp: pipeline_documented_def counting_ops_def split: prod.splits)
  have m: "fst (fst (reserve_memory demo_quota (slot_keys_of 5 ''d'' demo_quota) Map.empty))" by code_simp
  obtain a r' b c' where ab: "reserve_redis counting_ops demo_quota (slot_keys_of 5 ''d'' demo_quota) (\<lambda>_. 0) = (a, r')"
    "reserve_memory demo_quota (slot_keys_of 5 ''d'' demo_quota) Map.empty = (b, c')" by fastforce
  have z: "(\<lambda>_. 0) x = count_of Map.empty x" for x by (simp add: count_of_def)
  show ?thesis using quota_stores_agree [OF ops z refl ab] m ab by auto
qed

end
