(* ===== verification/ChannelOrigin.thy ===== *)
theory ChannelOrigin
  imports ChannelPolicy
begin

text \<open>
  The origins of a widget credential: what \<open>normalize_widget_origin\<close> stores is exactly what
  \<open>origin_value\<close> reads from the header of a request that comes from there.
\<close>

section \<open>Separators\<close>

lemma partition_at_absent [simp]: "c \<notin> set s \<Longrightarrow> partition_at c s = (s, False, [])"
proof -
  assume c: "c \<notin> set s"
  then have "takeWhile (\<lambda>x. x \<noteq> c) s = s" by (intro takeWhile_eq_all_conv [THEN iffD2]) auto
  note w = this
  show ?thesis unfolding partition_at_def Let_def w using c by simp
qed

lemma partition_at_found [simp]: "c \<notin> set a \<Longrightarrow> partition_at c (a @ c # b) = (a, True, b)"
proof -
  assume c: "c \<notin> set a"
  then have "\<forall>x \<in> set a. x \<noteq> c" by auto
  then have "takeWhile (\<lambda>x. x \<noteq> c) (a @ c # b) = a" by simp
  then show ?thesis by (simp add: partition_at_def Let_def)
qed

lemma rpartition_at_absent [simp]: "c \<notin> set s \<Longrightarrow> rpartition_at c s = ([], False, s)"
  by (simp add: rpartition_at_def)

lemma partition_at_parts: "partition_at c s = (a, f, b) \<Longrightarrow> set a \<subseteq> set s \<and> set b \<subseteq> set s \<and> c \<notin> set a"
  by (auto simp: partition_at_def Let_def dest: set_takeWhileD in_set_dropD)

lemma rpartition_at_parts: "rpartition_at c s = (a, f, b) \<Longrightarrow> set a \<subseteq> set s \<and> set b \<subseteq> set s \<and> c \<notin> set b"
proof -
  have "set (takeWhile (\<lambda>x. x \<noteq> c) (rev s)) \<subseteq> set s - {c}" by (auto dest: set_takeWhileD)
  then show "rpartition_at c s = (a, f, b) \<Longrightarrow> set a \<subseteq> set s \<and> set b \<subseteq> set s \<and> c \<notin> set b"
    by (auto simp: rpartition_at_def Let_def split: if_splits dest: in_set_takeD)
qed

section \<open>Case and blanks\<close>

lemma lower_char_idem [simp]: "lower_char (lower_char c) = lower_char c"
proof (cases "65 \<le> (of_char c :: nat) \<and> (of_char c :: nat) \<le> 90")
  case True
  then have "(of_char (char_of ((of_char c :: nat) + 32) :: char) :: nat) = of_char c + 32" by simp
  then show ?thesis using True by (auto simp: lower_char_def Let_def)
next
  case False
  then show ?thesis by (auto simp: lower_char_def Let_def)
qed

definition is_lowered :: "string \<Rightarrow> bool" where
  "is_lowered s = (\<forall>c \<in> set s. lower_char c = c)"

lemma is_lowered_lower: "is_lowered s \<Longrightarrow> py_lower s = s"
  by (auto simp: is_lowered_def py_lower_def intro: map_idI)

lemma is_lowered_subset: "is_lowered s \<Longrightarrow> set t \<subseteq> set s \<Longrightarrow> is_lowered t"
  by (auto simp: is_lowered_def)

lemma is_lowered_py_lower [simp]: "is_lowered (py_lower s)"
  by (auto simp: is_lowered_def py_lower_def)

lemma is_lowered_append [simp]: "is_lowered (a @ b) \<longleftrightarrow> is_lowered a \<and> is_lowered b"
  by (auto simp: is_lowered_def)

lemma set_py_strip: "set (py_strip s) \<subseteq> set s"
  by (auto simp: py_strip_def dest!: set_dropWhileD)

lemma digit_lowered: "is_digit_char c \<Longrightarrow> lower_char c = c"
  by (auto simp: is_digit_char_def lower_char_def Let_def)

lemma strip_ends:
  assumes "py_strip s = s" "s \<noteq> []"
  shows "\<not> is_blank (hd s)" "\<not> is_blank (last s)"
proof -
  let ?d = "dropWhile is_blank s"
  have l: "length s \<le> length ?d" using assms(1) length_dropWhile_le [of is_blank "rev ?d"]
    by (metis length_rev py_strip_def)
  then have d: "?d = s" by (metis dropWhile_eq_drop drop0 length_drop le_antisym length_dropWhile_le
        diff_le_self append_Nil takeWhile_dropWhile_id same_append_eq append_eq_append_conv)
  then show "\<not> is_blank (hd s)" using assms(2) by (metis hd_dropWhile)
  have "dropWhile is_blank (rev s) = rev s" using assms(1) d by (metis py_strip_def rev_rev_ident)
  then show "\<not> is_blank (last s)" using assms(2) by (metis hd_dropWhile hd_rev rev_is_Nil_conv)
qed

section \<open>Hosts\<close>

definition url_marks :: "char set" where
  "url_marks = {CHR ''/'', CHR ''?'', CHR ''#'', CHR ''@'', CHR '':'', CHR ''['', CHR '']'', CHR ''*'',
     CHR 0x09, CHR 0x0A, CHR 0x0D}"

definition clean_host :: "string \<Rightarrow> bool" where
  "clean_host h \<longleftrightarrow> h \<noteq> [] \<and> py_strip h = h \<and> is_lowered h \<and> set h \<inter> url_marks = {}"

definition port_text :: "nat option \<Rightarrow> string" where
  "port_text prt = (case prt of None \<Rightarrow> [] | Some p \<Rightarrow> CHR '':'' # show_nat p)"

lemma digit_marks: "is_digit_char c \<Longrightarrow> c \<notin> url_marks"
  by (auto simp: is_digit_char_def url_marks_def)

lemma port_text_chars: "c \<in> set (port_text prt) \<Longrightarrow> c = CHR '':'' \<or> is_digit_char c"
  using digits_show_nat by (auto simp: port_text_def list_all_iff split: option.splits)

lemma netloc_chars:
  assumes "clean_host h" "c \<in> set (h @ port_text prt)"
  shows "c \<notin> url_marks - {CHR '':''}"
  using assms port_text_chars [of c prt] digit_marks [of c] by (auto simp: clean_host_def)

lemma netloc_no_mark:
  "clean_host h \<Longrightarrow> c \<in> url_marks \<Longrightarrow> c \<noteq> CHR '':'' \<Longrightarrow> c \<notin> set h \<and> c \<notin> set (port_text prt)"
  using netloc_chars [of h c prt] by auto

lemma marks:
  "CHR ''/'' \<in> url_marks" "CHR ''?'' \<in> url_marks" "CHR ''#'' \<in> url_marks" "CHR ''@'' \<in> url_marks" "CHR ''['' \<in> url_marks"
  "CHR '']'' \<in> url_marks" "CHR ''*'' \<in> url_marks" "CHR 0x09 \<in> url_marks" "CHR 0x0A \<in> url_marks" "CHR 0x0D \<in> url_marks"
  "CHR '':'' \<in> url_marks"
  by (simp_all add: url_marks_def)

lemmas no_marks = netloc_no_mark [OF _ marks(1)] netloc_no_mark [OF _ marks(2)] netloc_no_mark [OF _ marks(3)]
  netloc_no_mark [OF _ marks(4)] netloc_no_mark [OF _ marks(5)] netloc_no_mark [OF _ marks(6)]
  netloc_no_mark [OF _ marks(7)] netloc_no_mark [OF _ marks(8)] netloc_no_mark [OF _ marks(9)] netloc_no_mark [OF _ marks(10)]

lemma urlparse_origin:
  assumes h: "clean_host h" and s: "scheme = ''http'' \<or> scheme = ''https''"
  shows "urlparse (origin_text scheme h prt) =
    Some \<lparr>u_scheme = scheme, u_netloc = h @ port_text prt, u_path = [], u_params = [], u_query = [], u_fragment = []\<rparr>"
proof -
  let ?n = "h @ port_text prt"
  note n = no_marks [OF h, where prt = prt, simplified]
  have o: "origin_text scheme h prt = scheme @ CHR '':'' # ''//'' @ ?n"
    by (simp add: origin_text_def port_text_def)
  have e: "scheme \<noteq> []" "\<not> (of_char (hd scheme) :: nat) \<le> 32"
    "\<forall>c \<in> set scheme. c \<notin> {CHR 0x09, CHR 0x0A, CHR 0x0D} \<and> c \<noteq> CHR '':'' \<and> is_scheme_char c"
    "is_letter (hd scheme)" "py_lower scheme = scheme"
    using s by (auto simp: is_letter_def is_lower_def is_upper_def is_scheme_char_def py_lower_def lower_char_def)
  have m: "\<forall>c \<in> set (origin_text scheme h prt). c \<notin> {CHR 0x09, CHR 0x0A, CHR 0x0D}"
    using n e(3) unfolding o by fastforce
  have f: "filter (\<lambda>c. c \<notin> {CHR 0x09, CHR 0x0A, CHR 0x0D}) (dropWhile (\<lambda>c. (of_char c :: nat) \<le> 32) (origin_text scheme h prt))
      = origin_text scheme h prt"
  proof -
    have "dropWhile (\<lambda>c. (of_char c :: nat) \<le> 32) (origin_text scheme h prt) = origin_text scheme h prt"
      using e(1,2) unfolding o by (cases scheme) simp_all
    then show ?thesis using m by (simp only: filter_id_conv simp_thms)
  qed
  have sp: "split_scheme (origin_text scheme h prt) = (scheme, ''//'' @ ?n)"
  proof -
    have "CHR '':'' \<notin> set scheme" using e(3) by blast
    then show ?thesis using e unfolding o split_scheme_def by (simp add: list_all_iff)
  qed
  have inside: "\<forall>c \<in> set ?n. c \<notin> {CHR ''/'', CHR ''?'', CHR ''#''}" using n by auto
  then have nl: "split_netloc (drop 2 (''//'' @ ?n)) = (?n, [])"
    unfolding split_netloc_def Let_def
    by (simp add: takeWhile_eq_all_conv [THEN iffD2] dropWhile_eq_Nil_conv [THEN iffD2])
  have br: "CHR ''['' \<notin> set ?n" "CHR '']'' \<notin> set ?n" using n by simp_all
  show ?thesis
    unfolding urlparse_def f Let_def sp using br nl s
    by (simp add: split_params_def Let_def)
qed

lemma hostinfo_origin:
  assumes h: "clean_host h" and u: "u_netloc u = h @ port_text prt"
  shows "hostinfo u = (h, tl (port_text prt))" "hostname u = Some h" "username u = []" "password u = []"
proof -
  have at: "CHR ''@'' \<notin> set (h @ port_text prt)" "CHR ''['' \<notin> set (h @ port_text prt)"
    using no_marks(4,5) [OF h, where prt = prt] by simp_all
  have c: "CHR '':'' \<notin> set h" using h marks(11) by (auto simp: clean_host_def)
  show hi: "hostinfo u = (h, tl (port_text prt))"
    using at c by (cases prt) (simp_all add: hostinfo_def u port_text_def)
  have h1: "h \<noteq> []" "is_lowered h" using h by (simp_all add: clean_host_def)
  show "hostname u = Some h"
  proof (cases "CHR ''%'' \<in> set h")
    case True
    then obtain a b where ab: "h = a @ CHR ''%'' # b" "CHR ''%'' \<notin> set a" using split_list_first by metis
    then show ?thesis using h1 unfolding hostname_def hi Let_def by (simp add: is_lowered_lower)
  next
    case False
    then show ?thesis using h1 unfolding hostname_def hi Let_def by (simp add: is_lowered_lower)
  qed
  show "username u = []" "password u = []" using at by (simp_all add: username_def password_def u)
qed

lemma port_origin:
  assumes h: "clean_host h" and u: "u_netloc u = h @ port_text prt" and p: "\<And>p. prt = Some p \<Longrightarrow> p \<le> 65535"
  shows "port u = Some prt"
proof (cases prt)
  case None
  then show ?thesis using hostinfo_origin(1) [OF h u] by (simp add: port_def port_text_def)
next
  case (Some p)
  then show ?thesis using hostinfo_origin(1) [OF h u] assms(3)
    by (simp add: port_def port_text_def Let_def py_isdigit_def digits_show_nat digits_value_show_nat)
qed

section \<open>What a parsed network location looks like\<close>

lemma split_scheme_rest: "split_scheme s = (a, b) \<Longrightarrow> set b \<subseteq> set s"
  by (auto simp: split_scheme_def split: prod.splits if_splits dest!: partition_at_parts)

lemma split_netloc_parts:
  "split_netloc s = (a, b) \<Longrightarrow> set a \<subseteq> set s \<and> CHR ''/'' \<notin> set a \<and> CHR ''?'' \<notin> set a \<and> CHR ''#'' \<notin> set a"
  by (auto simp: split_netloc_def Let_def dest: set_takeWhileD)

lemma urlparse_netloc:
  assumes "urlparse t = Some u"
  shows "set (u_netloc u) \<subseteq> set t \<and> CHR ''/'' \<notin> set (u_netloc u) \<and> CHR ''?'' \<notin> set (u_netloc u)
    \<and> CHR ''#'' \<notin> set (u_netloc u) \<and> CHR 0x09 \<notin> set (u_netloc u) \<and> CHR 0x0A \<notin> set (u_netloc u)
    \<and> CHR 0x0D \<notin> set (u_netloc u) \<and> (CHR ''['' \<in> set (u_netloc u) \<longleftrightarrow> CHR '']'' \<in> set (u_netloc u))"
proof -
  define s where "s = filter (\<lambda>c. c \<notin> {CHR 0x09, CHR 0x0A, CHR 0x0D}) (dropWhile (\<lambda>c. (of_char c :: nat) \<le> 32) t)"
  have s: "set s \<subseteq> set t" "CHR 0x09 \<notin> set s" "CHR 0x0A \<notin> set s" "CHR 0x0D \<notin> set s"
    unfolding s_def by (auto dest: set_dropWhileD)
  obtain scheme rest where sc: "split_scheme s = (scheme, rest)" by (cases "split_scheme s")
  obtain n r where nl: "(if is_prefix_of ''//'' rest then split_netloc (drop 2 rest) else ([], rest)) = (n, r)"
    by (cases "if is_prefix_of ''//'' rest then split_netloc (drop 2 rest) else ([], rest)")
  have u: "u_netloc u = n" "CHR ''['' \<in> set n \<longleftrightarrow> CHR '']'' \<in> set n"
    using assms sc nl unfolding urlparse_def Let_def s_def [symmetric] by (auto split: prod.splits if_splits)
  have "set n \<subseteq> set rest \<and> CHR ''/'' \<notin> set n \<and> CHR ''?'' \<notin> set n \<and> CHR ''#'' \<notin> set n"
    using nl split_netloc_parts [of "drop 2 rest" n r] set_drop_subset [of 2 rest] by (auto split: if_splits)
  then show ?thesis using u s split_scheme_rest [OF sc] by blast
qed

lemma hostinfo_host:
  assumes "CHR ''['' \<notin> set (u_netloc u)"
  shows "set (fst (hostinfo u)) \<subseteq> set (u_netloc u) \<and> CHR ''@'' \<notin> set (fst (hostinfo u)) \<and> CHR '':'' \<notin> set (fst (hostinfo u))"
proof -
  obtain a f h where r: "rpartition_at (CHR ''@'') (u_netloc u) = (a, f, h)" by (cases "rpartition_at (CHR ''@'') (u_netloc u)")
  obtain x g y where p: "partition_at (CHR '':'') h = (x, g, y)" by (cases "partition_at (CHR '':'') h")
  have h: "set h \<subseteq> set (u_netloc u)" "CHR ''@'' \<notin> set h" using rpartition_at_parts [OF r] by auto
  then have "CHR ''['' \<notin> set h" using assms by blast
  then have "hostinfo u = (x, y)" unfolding hostinfo_def by (simp add: r p)
  then show ?thesis using h partition_at_parts [OF p] by auto
qed

lemma hostname_lowered:
  assumes "is_lowered (u_netloc u)" "CHR ''['' \<notin> set (u_netloc u)"
  shows "or_empty (hostname u) = fst (hostinfo u)"
proof -
  let ?h = "fst (hostinfo u)"
  have l: "is_lowered ?h" using hostinfo_host [OF assms(2)] is_lowered_subset [OF assms(1)] by blast
  show ?thesis
  proof (cases "CHR ''%'' \<in> set ?h")
    case True
    then obtain a b where ab: "?h = a @ CHR ''%'' # b" "CHR ''%'' \<notin> set a" using split_list_first by metis
    then show ?thesis using l unfolding hostname_def Let_def ab(1) by (simp add: is_lowered_lower or_empty_def)
  next
    case False
    then show ?thesis using l unfolding hostname_def Let_def by (simp add: is_lowered_lower or_empty_def)
  qed
qed

lemma normalized_host_clean:
  assumes "urlparse t = Some u" "is_lowered t" "CHR ''['' \<notin> set t" "CHR ''*'' \<notin> set t"
    "py_norm (or_empty (hostname u)) \<noteq> []"
  shows "clean_host (py_norm (or_empty (hostname u)))"
proof -
  note n = urlparse_netloc [OF assms(1)]
  have br: "CHR ''['' \<notin> set (u_netloc u)" using n assms(3) by blast
  have low: "is_lowered (u_netloc u)" using is_lowered_subset [OF assms(2)] n by blast
  let ?h = "fst (hostinfo u)"
  note h = hostinfo_host [OF br]
  have hl: "is_lowered (py_strip ?h)" using is_lowered_subset [OF low] h set_py_strip [of ?h] by blast
  have e: "py_norm (or_empty (hostname u)) = py_strip ?h"
    using hl by (simp add: py_norm_def hostname_lowered [OF low br] is_lowered_lower)
  have "set ?h \<inter> url_marks = {}"
    using h n br assms(4) unfolding url_marks_def by blast
  then show ?thesis using assms(5) hl set_py_strip [of ?h] unfolding e clean_host_def by auto
qed

section \<open>Round trip\<close>

lemma port_bound: "port u = Some (Some p) \<Longrightarrow> p \<le> 65535"
  by (auto simp: port_def Let_def split: if_splits)

lemma origin_text_strip:
  assumes h: "clean_host h" and s: "scheme = ''http'' \<or> scheme = ''https''"
  shows "py_strip (origin_text scheme h prt) = origin_text scheme h prt" "is_lowered (origin_text scheme h prt)"
proof -
  have o: "origin_text scheme h prt = scheme @ ''://'' @ h @ port_text prt" by (simp add: origin_text_def port_text_def)
  have ne: "h \<noteq> []" "\<not> is_blank (last h)" "is_lowered h" using h strip_ends [of h] by (auto simp: clean_host_def)
  have "last (origin_text scheme h prt) = (if prt = None then last h else last (show_nat (the prt)))"
    using ne by (auto simp: o port_text_def)
  then have "\<not> is_blank (last (origin_text scheme h prt))"
    using ne digits_show_nat [of "the prt"] by (auto simp: list_all_iff digit_not_blank)
  moreover have "\<not> is_blank (hd (origin_text scheme h prt))" "origin_text scheme h prt \<noteq> []"
    using s by (auto simp: o is_blank_def)
  ultimately show "py_strip (origin_text scheme h prt) = origin_text scheme h prt" by (intro py_strip_id)
  have "lower_char (CHR '':'') = CHR '':''" by (simp add: lower_char_def)
  then have "is_lowered (port_text prt)" using port_text_chars [of _ prt] digit_lowered
    unfolding is_lowered_def by metis
  then show "is_lowered (origin_text scheme h prt)"
    using s ne by (auto simp: o is_lowered_def lower_char_def)
qed

lemma contains_middle: "contains w (a @ w @ b)"
proof -
  have "is_prefix_of w (w @ b)" by (induction w) auto
  then have "contains w (w @ b)" by (cases "w @ b") auto
  then show ?thesis by (induction a) auto
qed

lemma origin_reads_back:
  assumes h: "clean_host h" and s: "scheme = ''http'' \<or> scheme = ''https''" and p: "\<And>p. prt = Some p \<Longrightarrow> p \<le> 65535"
  shows "origin_value (Some (origin_text scheme h prt)) = origin_text scheme h prt"
    and "normalize_widget_origin (origin_text scheme h prt) = Inr (origin_text scheme h prt)"
proof -
  let ?o = "origin_text scheme h prt"
  let ?u = "\<lparr>u_scheme = scheme, u_netloc = h @ port_text prt, u_path = [], u_params = [], u_query = [], u_fragment = []\<rparr>"
  have u: "urlparse ?o = Some ?u" by (rule urlparse_origin [OF h s])
  have hn: "hostname ?u = Some h" "username ?u = []" "password ?u = []" by (rule hostinfo_origin(2-) [OF h], simp)+
  have pt: "port ?u = Some prt" by (rule port_origin [OF h _ p]) simp
  have hh: "py_norm h = h" "h \<noteq> []" using h by (auto simp: clean_host_def py_norm_def is_lowered_lower)
  have sn: "py_norm scheme = scheme" using s by (auto simp: py_norm_def py_strip_def is_blank_def py_lower_def lower_char_def)
  have o: "py_strip ?o = ?o" "py_norm ?o = ?o" "?o \<noteq> []"
    using origin_text_strip [OF h s, of prt] s by (auto simp: py_norm_def is_lowered_lower origin_text_def)
  show "origin_value (Some ?o) = ?o"
    using u hn pt hh sn o s by (auto simp: origin_value_def or_empty_def)
  have c: "contains ''://'' ?o" unfolding origin_text_def by (rule contains_middle)
  have star: "CHR ''*'' \<notin> set ?o"
    using no_marks(7) [OF h, where prt = prt] s by (auto simp: origin_text_def port_text_def)
  have colon: "CHR '':'' \<notin> set h" using h marks(11) by (auto simp: clean_host_def)
  show "normalize_widget_origin ?o = Inr ?o"
    using u hn pt hh sn o s c star colon by (auto simp: normalize_widget_origin_def or_empty_def)
qed



text \<open>
  A port that is the default of its scheme is kept; a browser leaves it out of the header \<open>Origin\<close>, so the
  registered origin matches no request.
\<close>

lemma default_port_never_matches:
  "normalize_widget_origin ''https://pelda.hu:443'' = Inr ''https://pelda.hu:443''"
  "origin_value (Some ''https://pelda.hu'') = ''https://pelda.hu''"
  by code_simp+

end
