(* ===== verification/ChannelIp.thy ===== *)
theory ChannelIp
  imports ChannelPolicy
begin

text \<open>
  The IP ranges of an API credential: the normalized text of an IPv4 address or network is read back as the
  same address or network, so that a credential admits the clients its owner listed.
\<close>

section \<open>Texts that read back\<close>

lemma split_on_Cons: "split_on c xs \<noteq> []"
  by (cases xs) (auto split: list.splits)

lemma split_on_append: "c \<notin> set a \<Longrightarrow> split_on c (a @ c # b) = a # split_on c b"
  by (induction a) auto

lemma split_on_join: "ps \<noteq> [] \<Longrightarrow> \<forall>p \<in> set ps. c \<notin> set p \<Longrightarrow> split_on c (join_with [c] ps) = ps"
proof (induction ps)
  case (Cons p ps)
  then show ?case by (cases ps) (simp_all add: split_on_append split_on_absent)
qed simp

lemma show_nat_head: "0 < n \<Longrightarrow> hd (show_nat n) \<noteq> CHR ''0''"
proof (induction n rule: show_nat.induct)
  case (1 n)
  show ?case
  proof (cases "n < 10")
    case True
    have "(char_of (48 + n) :: char) \<noteq> char_of (48 + 0 :: nat)" using digit_inject [of n 0] True 1 by simp
    moreover have "(char_of (48 + 0 :: nat) :: char) = CHR ''0''" by code_simp
    ultimately have "(char_of (48 + n) :: char) \<noteq> CHR ''0''" by metis
    then show ?thesis using True by (subst show_nat.simps) simp
  next
    case False
    then show ?thesis using 1 by (subst show_nat.simps) simp
  qed
qed

lemma parse_octet_show [simp]: "n < 256 \<Longrightarrow> parse_octet (show_nat n) = Some n"
proof -
  assume n: "n < 256"
  then have "length (show_nat n) \<le> Suc 2" by (intro show_nat_length) simp
  moreover have "show_nat n = ''0'' \<or> hd (show_nat n) \<noteq> CHR ''0''"
    using show_nat_head [of n] by (cases "n = 0") (simp_all add: show_nat.simps [of 0])
  ultimately show ?thesis using n
    by (auto simp: parse_octet_def py_isdigit_def digits_show_nat digits_value_show_nat)
qed

lemma digit_in_show_nat: "is_digit_char c = False \<Longrightarrow> c \<notin> set (show_nat n)"
  using digits_show_nat [of n] by (auto simp: list_all_iff)

lemma no_digits: "is_digit_char (CHR ''.'') = False" "is_digit_char (CHR ''/'') = False" "is_digit_char (CHR '':'') = False"
  by (simp_all add: is_digit_char_def)

lemma set_join_with: "set (join_with w ps) \<subseteq> set w \<union> (\<Union>p \<in> set ps. set p)"
proof (induction ps)
  case (Cons p ps)
  then show ?case by (cases ps) auto
qed simp

lemma ip4_str_chars: "c \<in> set (ip_str (V4 n)) \<Longrightarrow> c = CHR ''.'' \<or> is_digit_char c"
  using set_join_with [of "''.''" "map show_nat (digits 256 4 n)"] digit_in_show_nat [of c] by fastforce

lemma ip4_no_slash [simp]: "CHR ''/'' \<notin> set (ip_str (V4 n))"
  using ip4_str_chars [of "CHR ''/''" n] no_digits by auto

lemma ip4_reads_back: "n < 2 ^ 32 \<Longrightarrow> ip4_of (ip_str (V4 n)) = Some n"
proof -
  assume n: "n < 2 ^ 32"
  have l: "length (digits 256 4 n) = 4" by simp
  then have ne: "digits 256 4 n \<noteq> []" by (metis list.size(3) zero_neq_numeral)
  have "split_on (CHR ''.'') (ip_str (V4 n)) = map show_nat (digits 256 4 n)"
    unfolding ip_str.simps using ne by (intro split_on_join) (auto simp: digit_in_show_nat no_digits)
  moreover have "all_some (map parse_octet (map show_nat (digits 256 4 n))) = Some (digits 256 4 n)"
    using digits_less [of 256 _ 4 n] by (intro all_some_map) auto
  moreover have "undigits_of 256 (digits 256 4 n) = n" using n by (intro undigits_of_digits) simp
  ultimately show ?thesis by (simp add: ip4_of_def)
qed

lemma ip4_address_reads_back: "n < 2 ^ 32 \<Longrightarrow> ip_address (ip_str (V4 n)) = Some (V4 n)"
  using ip4_reads_back [of n] ip4_no_slash [of n] by (simp add: ip_address_def ip4_address_def del: ip_str.simps)

lemma prefix_len_show: "p \<le> w \<Longrightarrow> prefix_len w (show_nat p) = Some p"
  by (simp add: prefix_len_def py_isdigit_def digits_show_nat digits_value_show_nat)

lemma net4_reads_back:
  assumes "n < 2 ^ 32" "p \<le> 32" "net_part 32 p n = n"
  shows "ip_network (net_str (Net4 n p)) = Some (Net4 n p)"
proof -
  have "split_on (CHR ''/'') (net_str (Net4 n p)) = [ip_str (V4 n), show_nat p]"
    by (simp add: split_on_append split_on_absent digit_in_show_nat no_digits del: ip_str.simps)
  then show ?thesis
    using assms ip4_reads_back [of n] ip4_no_slash [of n]
    by (simp add: ip_network_def ip4_network_def ip4_address_def prefix_len_show del: ip_str.simps net_str.simps)
qed

section \<open>What parsing gives\<close>

lemma ip4_of_bound: "ip4_of s = Some n \<Longrightarrow> n < 2 ^ 32"
proof -
  assume s: "ip4_of s = Some n"
  then obtain ds where ds: "all_some (map parse_octet (split_on (CHR ''.'') s)) = Some ds" "n = undigits_of 256 ds"
    "length (split_on (CHR ''.'') s) = 4" by (auto simp: ip4_of_def Let_def split: if_splits)
  have *: "all_some (map f xs) = Some ys \<Longrightarrow> length ys = length xs \<and> (\<forall>y \<in> set ys. \<exists>x. f x = Some y)" for f :: "string \<Rightarrow> nat option" and xs ys
  proof (induction xs arbitrary: ys)
    case (Cons x xs)
    then obtain y zs where "f x = Some y" "all_some (map f xs) = Some zs" "ys = y # zs"
      by (cases "f x"; cases "all_some (map f xs)") auto
    then show ?case using Cons.IH [of zs] by auto
  qed simp
  have "\<forall>d \<in> set ds. d < 256"
    using * [OF ds(1)] by (auto simp: parse_octet_def split: if_splits)
  then have "undigits_of 256 ds < 256 ^ length ds" by (rule undigits_of_less)
  then show ?thesis using * [OF ds(1)] ds by simp
qed

lemma no_colon_no_ip6: "CHR '':'' \<notin> set s \<Longrightarrow> ip6_address s = None"
proof -
  assume s: "CHR '':'' \<notin> set s"
  obtain a f z where p: "partition_at (CHR ''%'') s = (a, f, z)" by (cases "partition_at (CHR ''%'') s")
  have "CHR '':'' \<notin> set a" using s p by (auto simp: partition_at_def Let_def dest!: set_takeWhileD)
  then have "v6_parts a = None" by (simp add: v6_parts_def split_on_absent)
  then show ?thesis using p by (simp add: ip6_address_def ip6_of_def)
qed

lemma ip_address_no_colon:
  "CHR '':'' \<notin> set s \<Longrightarrow> ip_address s = Some a \<Longrightarrow> \<exists>n. a = V4 n \<and> n < 2 ^ 32"
  using ip4_of_bound by (auto simp: ip_address_def ip4_address_def no_colon_no_ip6 split: if_splits option.splits)

lemma net_part_le: "net_part w p n \<le> n"
  by (simp add: net_part_def)

lemma net_part_idem: "net_part w p (net_part w p n) = net_part w p n"
  by (simp add: net_part_def)

lemma split_on_parts: "x \<in> set (split_on c s) \<Longrightarrow> set x \<subseteq> set s"
proof (induction s arbitrary: x)
  case (Cons y s)
  then show ?case by (fastforce split: if_splits list.splits)
qed simp

lemma mask_len_bound: "mask_len m = Some p \<Longrightarrow> p \<le> 32"
  by (auto simp: mask_len_def find_Some_iff split: option.splits)

lemma ip4_network_bounds:
  assumes "ip4_network a m = Some n"
  shows "\<exists>b p. n = Net4 b p \<and> b < 2 ^ 32 \<and> p \<le> 32 \<and> net_part 32 p b = b"
proof -
  obtain b p where "ip4_of a = Some b" "n = Net4 (net_part 32 p b) p" "p \<le> 32"
    using assms mask_len_bound
    by (auto simp: ip4_network_def ip4_address_def prefix_len_def split: option.splits if_splits)
  then show ?thesis
    using ip4_of_bound [of a b] net_part_le [of 32 p b] net_part_idem [of 32 p b] by fastforce
qed

lemma ip_network_no_colon:
  assumes "CHR '':'' \<notin> set s" "ip_network s = Some n"
  shows "\<exists>b p. n = Net4 b p \<and> b < 2 ^ 32 \<and> p \<le> 32 \<and> net_part 32 p b = b"
proof -
  have "CHR '':'' \<notin> set a" if "a \<in> set (split_on (CHR ''/'') s)" for a using split_on_parts [OF that] assms(1) by blast
  then show ?thesis
    using assms(2) ip4_network_bounds
    by (auto simp: ip_network_def ip6_network_def no_colon_no_ip6 split: list.splits option.splits)
qed

section \<open>Equivalence\<close>

text \<open>The clients a listed range means: a network those of its addresses, an address itself.\<close>

definition range_means :: "string \<Rightarrow> ip \<Rightarrow> bool" where
  "range_means v c =
     (let s = py_strip v
      in s \<noteq> [] \<and> (if CHR ''/'' \<in> set s then (case ip_network s of Some n \<Rightarrow> in_net c n | None \<Rightarrow> False)
                    else ip_address s = Some c))"

lemma range_kept:
  assumes "CHR '':'' \<notin> set s" "normalize_ip_range s = Inr r" "s = py_strip v" "s \<noteq> []"
  shows "ip_range_allows raw c r \<longleftrightarrow> range_means v c"
proof (cases "CHR ''/'' \<in> set s")
  case True
  then obtain n where n: "ip_network s = Some n" "r = net_str n"
    using assms(2) by (auto simp: normalize_ip_range_def split: option.splits)
  then obtain b p where b: "n = Net4 b p" "b < 2 ^ 32" "p \<le> 32" "net_part 32 p b = b"
    using ip_network_no_colon [OF assms(1)] by blast
  then have "ip_network r = Some n" "CHR ''/'' \<in> set r" using n net4_reads_back by auto
  then show ?thesis using True n(1) assms(3,4) by (simp add: ip_range_allows_def range_means_def)
next
  case False
  then obtain a where a: "ip_address s = Some a" "r = ip_str a"
    using assms(2) by (auto simp: normalize_ip_range_def split: option.splits)
  then obtain n where n: "a = V4 n" "n < 2 ^ 32" using ip_address_no_colon [OF assms(1)] by blast
  then have "ip_address r = Some a" "CHR ''/'' \<notin> set r"
    using a(2) ip4_address_reads_back [of n] ip4_no_slash [of n] by (simp_all del: ip_str.simps)
  then show ?thesis using False a(1) assms(3,4) by (auto simp: ip_range_allows_def range_means_def)
qed

lemma map_res_members: "map_res f xs = Inr ys \<Longrightarrow> length ys = length xs \<and> list_all2 (\<lambda>x y. f x = Inr y) xs ys"
  by (induction xs arbitrary: ys) (auto split: sum.splits)

lemma first_of_each_members: "x \<in> set (first_of_each key seen xs) \<Longrightarrow> x \<in> set xs"
  by (induction xs arbitrary: seen) (auto split: if_splits)

lemma first_of_each_set:
  "inj_on key (set xs) \<Longrightarrow> set (first_of_each key seen xs) = {x \<in> set xs. key x \<notin> set seen}"
proof (induction xs arbitrary: seen)
  case (Cons a xs)
  then have i: "inj_on key (set xs)" by (auto simp: inj_on_def)
  have "key x = key a \<longleftrightarrow> x = a" if "x \<in> set xs" for x using Cons.prems that by (auto simp: inj_on_def)
  then show ?case using Cons.IH [OF i, of seen] Cons.IH [OF i, of "key a # seen"] by auto
qed simp

lemma range_text_lowered:
  assumes "CHR '':'' \<notin> set s" "normalize_ip_range s = Inr r"
  shows "py_lower r = r"
proof -
  have d: "lower_char c = c" if "c = CHR ''.'' \<or> c = CHR ''/'' \<or> is_digit_char c" for c
    using that by (auto simp: lower_char_def is_digit_char_def Let_def)
  have i: "py_lower (ip_str (V4 n)) = ip_str (V4 n)" for n
    unfolding py_lower_def using d ip4_str_chars [of _ n] by (intro map_idI) blast
  have "lower_char x = x" if "x \<in> set (show_nat p)" for x p
    using d that digits_show_nat [of p] by (simp add: list_all_iff)
  then have n: "py_lower (net_str (Net4 n p)) = net_str (Net4 n p)" for n p
    using i [of n] d [of "CHR ''/''"] by (simp add: py_lower_def map_idI del: ip_str.simps)
  show ?thesis
  proof (cases "CHR ''/'' \<in> set s")
    case True
    then obtain m where "ip_network s = Some m" "r = net_str m"
      using assms(2) by (auto simp: normalize_ip_range_def split: option.splits)
    then show ?thesis using ip_network_no_colon [OF assms(1)] n by blast
  next
    case False
    then obtain m where "ip_address s = Some m" "r = ip_str m"
      using assms(2) by (auto simp: normalize_ip_range_def split: option.splits)
    then show ?thesis using ip_address_no_colon [OF assms(1)] i by blast
  qed
qed

text \<open>
  C37: Normalizing an IP allowlist keeps its meaning: for IPv4 entries the stored ranges admit a
  client exactly if it is one of the listed addresses or lies in one of the listed networks.
\<close>

theorem normalized_ranges_admit_the_same_clients:
  assumes rs: "normalize_ip_ranges vs = Inr rs" and v4: "list_all (\<lambda>v. CHR '':'' \<notin> set v) vs"
    and c: "ip_address (py_strip (or_empty remote)) = Some c"
  shows "remote_ip_allowed remote rs \<longleftrightarrow> list_ex (\<lambda>v. range_means v c) vs"
proof -
  let ?ss = "filter (\<lambda>v. v \<noteq> []) (map py_strip vs)"
  obtain ts where ts: "map_res normalize_ip_range ?ss = Inr ts" "rs = first_of_each py_lower [] ts"
    using rs by (auto simp: normalize_ip_ranges_def split: sum.splits)
  have all: "list_all2 (\<lambda>x y. normalize_ip_range x = Inr y) ?ss ts" using map_res_members [OF ts(1)] by simp
  have ss: "s \<noteq> [] \<and> py_strip s = s \<and> CHR '':'' \<notin> set s" if s: "s \<in> set ?ss" for s
  proof -
    obtain v where v: "v \<in> set vs" "s = py_strip v" "s \<noteq> []" using s by auto
    moreover have "set s \<subseteq> set v" unfolding v(2) py_strip_def by (auto dest!: set_dropWhileD)
    ultimately show ?thesis using v4 by (auto simp: list_all_iff)
  qed
  have low: "py_lower t = t" if t: "t \<in> set ts" for t
  proof -
    obtain i where i: "i < length ts" "ts ! i = t" using t by (auto simp: in_set_conv_nth)
    then have "normalize_ip_range (?ss ! i) = Inr t" "?ss ! i \<in> set ?ss"
      using all nth_mem [of i ?ss] by (auto simp only: list_all2_conv_all_nth)
    then show ?thesis using ss range_text_lowered by blast
  qed
  then have "set rs = set ts" using first_of_each_set [of py_lower ts "[]"] ts(2) by (auto simp: inj_on_def)
  then have "list_ex (ip_range_allows raw c) rs \<longleftrightarrow> list_ex (ip_range_allows raw c) ts" for raw by (simp add: list_ex_iff)
  also have "list_ex (ip_range_allows raw c) ts \<longleftrightarrow> list_ex (\<lambda>v. range_means v c) vs" for raw
  proof -
    have "list_ex (\<lambda>v. range_means v c) vs \<longleftrightarrow> list_ex (\<lambda>s. range_means s c) ?ss"
      by (induction vs) (auto simp: range_means_def Let_def)
    also have "\<dots> \<longleftrightarrow> list_ex (ip_range_allows raw c) ts"
      using all ss
    proof (induction rule: list_all2_induct)
      case (Cons x xs y ys)
      have x: "x \<noteq> []" "py_strip x = x" "CHR '':'' \<notin> set x" using Cons.prems by simp_all
      then show ?case using Cons range_kept [of x y x raw c] by simp
    qed simp
    finally show ?thesis by simp
  qed
  finally have "list_ex (ip_range_allows raw c) rs \<longleftrightarrow> list_ex (\<lambda>v. range_means v c) vs" for raw .
  moreover have "py_strip (or_empty remote) \<noteq> []" proof
    assume "py_strip (or_empty remote) = []"
    moreover have "ip_address [] = None" by code_simp
    ultimately show False using c by simp
  qed
  ultimately show ?thesis using c by (cases rs) (auto simp: remote_ip_allowed_def Let_def)
qed


theorem normalized_ranges_admit_the_same_clients_witness:
  "normalize_ip_ranges ['' 0.0.0.3/31 '', ''0.0.0.2/31'', ''0.0.1.0''] = Inr [''0.0.0.2/31'', ''0.0.1.0'']
   \<and> remote_ip_allowed (Some ''0.0.0.3'') [''0.0.0.2/31'', ''0.0.1.0'']"
proof -
  have n: "normalize_ip_ranges ['' 0.0.0.3/31 '', ''0.0.0.2/31'', ''0.0.1.0''] = Inr [''0.0.0.2/31'', ''0.0.1.0'']"
    by code_simp
  have c: "ip_address (py_strip (or_empty (Some ''0.0.0.3''))) = Some (V4 3)" by code_simp
  have m: "list_ex (\<lambda>v. range_means v (V4 3)) ['' 0.0.0.3/31 '', ''0.0.0.2/31'', ''0.0.1.0'']" by code_simp
  show ?thesis using normalized_ranges_admit_the_same_clients [OF n _ c] n m by simp
qed

end
