(* ===== verification/KbText.thy ===== *)
theory KbText
  imports PyRe
begin

text \<open>
  Text of a document on its way into the knowledge base: the clean-up of an extracted part
  (\<open>NormalizeContentService.py\<close>), the classification of a cleaned part into a logical block
  (\<open>NormalizedPartBlockClassifier.py\<close>) and the path of headings (\<open>heading_path.py\<close>). Metadata of a part
  is a JSON object. Characters are bytes, so the bullet and the invisible characters beyond Latin-1
  that the code also knows cannot occur; letters are those of ASCII.
\<close>

section \<open>Cleaning a part\<close>

definition encoding_replacements :: "(string \<times> string) list" where
  "encoding_replacements = [([CHR 0x0D, CHR 0x0A], [CHR 0x0A]), ([CHR 0x0D], [CHR 0x0A]), ([CHR 0xA0], '' '')]"

definition fix_encoding :: "string \<Rightarrow> string \<times> nat" where
  "fix_encoding text = fold (\<lambda>(source, target) (t, n). (replace_all source target t, n + count_all source t))
     encoding_replacements (text, 0)"

text \<open>\<open>_PAGE_NUMBER_LINE\<close>\<close>

definition r_blanks :: re where "r_blanks = r_many is_blank"

definition r_digits14 :: re where
  "r_digits14 s = concat (map (r_upto 3 (r_cls is_digit_char)) (r_cls is_digit_char s))"

definition page_number_line :: re where
  "page_number_line = r_seq [r_blanks, r_opt (r_seq [r_lit ''-'', r_blanks]), r_opt (r_seq [r_word ''page'', r_some is_blank]),
     r_digits14, r_opt (r_seq [r_blanks, r_cls (\<lambda>c. c = CHR ''.'' \<or> c = CHR ''/''), r_blanks, r_digits14]),
     r_opt (r_seq [r_blanks, r_lit ''-'']),
     r_opt (r_seq [r_blanks, r_opt (r_lit ''.''), r_blanks, r_word ''oldal'']), r_blanks]"

definition remove_page_number_lines :: "string list \<Rightarrow> string list \<times> nat" where
  "remove_page_number_lines lines =
     (let kept = filter (\<lambda>l. \<not> re_full page_number_line l) lines in (kept, length lines - length kept))"

definition HEADER_FOOTER_MIN_OCCURRENCES :: nat where "HEADER_FOOTER_MIN_OCCURRENCES = 3"
definition HEADER_FOOTER_MAX_LENGTH :: nat where "HEADER_FOOTER_MAX_LENGTH = 80"

definition repeated_line :: "string list \<Rightarrow> string \<Rightarrow> bool" where
  "repeated_line stripped l =
     (l \<noteq> [] \<and> length l \<le> HEADER_FOOTER_MAX_LENGTH \<and> HEADER_FOOTER_MIN_OCCURRENCES \<le> length (filter (\<lambda>x. x = l) stripped))"

definition remove_repeated_lines :: "string list \<Rightarrow> string list \<times> nat" where
  "remove_repeated_lines lines =
     (let kept = filter (\<lambda>l. \<not> repeated_line (map py_strip lines) (py_strip l)) lines
      in (kept, length lines - length kept))"

fun dedupe_from :: "string option \<Rightarrow> string list \<Rightarrow> string list" where
  "dedupe_from previous [] = []"
| "dedupe_from previous (l # ls) =
     (let current = py_strip l
      in if current \<noteq> [] \<and> Some current = previous then dedupe_from previous ls else l # dedupe_from (Some current) ls)"

definition dedupe_consecutive_lines :: "string list \<Rightarrow> string list \<times> nat" where
  "dedupe_consecutive_lines lines = (let kept = dedupe_from None lines in (kept, length lines - length kept))"

text \<open>\<open>re.sub(r"[ \t]+", " ", line)\<close> and \<open>re.sub(r"\n{3,}", "\n\n", text)\<close>\<close>

definition is_gap :: "char \<Rightarrow> bool" where "is_gap c = (c = CHR '' '' \<or> c = CHR 0x09)"

function squeeze :: "string \<Rightarrow> string" where
  "squeeze [] = []"
| "squeeze (c # cs) = (if is_gap c then CHR '' '' # squeeze (dropWhile is_gap cs) else c # squeeze cs)"
  by pat_completeness auto

termination by (relation "measure length") (auto simp: less_Suc_eq_le length_dropWhile_le)

function cap_newlines :: "string \<Rightarrow> string" where
  "cap_newlines [] = []"
| "cap_newlines (c # cs) =
     (if c = newline
      then (let run = takeWhile (\<lambda>x. x = newline) (c # cs)
            in (if 3 \<le> length run then [newline, newline] else run) @ cap_newlines (dropWhile (\<lambda>x. x = newline) cs))
      else c # cap_newlines cs)"
  by pat_completeness auto

termination by (relation "measure length") (auto simp: less_Suc_eq_le length_dropWhile_le)

definition collapse_whitespace :: "string \<Rightarrow> string \<times> int" where
  "collapse_whitespace text =
     (let t = py_strip (cap_newlines (join_with [newline] (map (\<lambda>l. py_rstrip (squeeze l)) (split_on newline text))))
      in (t, int (length text) - int (length t)))"

definition normalize_part_text :: "string \<Rightarrow> string" where
  "normalize_part_text text =
     (let t = fst (fix_encoding text);
          ls = fst (remove_page_number_lines (split_on newline t));
          ls = fst (remove_repeated_lines ls);
          ls = fst (dedupe_consecutive_lines ls)
      in fst (collapse_whitespace (join_with [newline] ls)))"

section \<open>Logical blocks\<close>

datatype block_type =
    B_title | B_heading | B_paragraph | B_list | B_table | B_header | B_footer | B_ocr_text | B_step | B_faq
  | B_note | B_warning | B_unknown

definition meta_upper :: "string \<Rightarrow> json \<Rightarrow> string" where
  "meta_upper k m = py_upper (jstr (jget k m))"

definition meta_lower :: "string \<Rightarrow> json \<Rightarrow> string" where
  "meta_lower k m = py_lower (jstr (jget k m))"

definition is_ocr_source :: "json \<Rightarrow> bool" where
  "is_ocr_source m =
     (jtruthy (jget ''is_from_ocr'' m) \<or> meta_upper ''part_type'' m = ''OCR_TEXT''
      \<or> meta_lower ''block_kind'' m = ''ocr_text'' \<or> is_prefix_of ''ocr'' (meta_lower ''source'' m))"

definition r_word_end :: re where "r_word_end = r_seq [r_some is_blank, r_some (\<lambda>c. \<not> is_blank c)]"

definition heading_numbered :: re where
  "heading_numbered = r_seq [r_some is_digit_char, r_upto 5 (r_seq [r_lit ''.'', r_some is_digit_char]), r_opt (r_lit ''.''), r_word_end]"

definition list_item :: re where
  "list_item = r_seq [r_blanks, r_alt [r_cls (\<lambda>c. c = CHR ''-'' \<or> c = CHR ''*''), r_seq [r_cls is_letter, r_lit '')'']], r_word_end]"

definition step_item :: re where
  "step_item = r_seq [r_blanks, r_some is_digit_char, r_cls (\<lambda>c. c = CHR ''.'' \<or> c = CHR '')''), r_word_end]"

definition prefixed :: "string list \<Rightarrow> char \<Rightarrow> re" where
  "prefixed ws stop = r_seq [r_blanks, r_alt (map r_word ws), r_blanks, r_cls (\<lambda>c. c = CHR '':'' \<or> c = stop)]"

definition faq_prefix :: re where
  "faq_prefix = prefixed [''q'', ''k'', ''k'' @ [CHR 0xE9] @ ''rd'' @ [CHR 0xE9] @ ''s'', ''question''] (CHR ''.'')"

definition note_prefix :: re where
  "note_prefix = prefixed [''megjegyz'' @ [CHR 0xE9] @ ''s'', ''note'', ''info'', ''tipp'', ''tip''] (CHR ''!'')"

definition warning_prefix :: re where
  "warning_prefix = prefixed [''figyelem'', ''figyelmeztet'' @ [CHR 0xE9] @ ''s'', ''fontos'', ''warning'', ''caution'', ''important'',
     ''attention''] (CHR ''!'')"

definition markdown_heading :: re where
  "markdown_heading = r_seq [r_lit ''#'', r_upto 5 (r_lit ''#''), r_word_end]"

definition ends_any :: "string list \<Rightarrow> string \<Rightarrow> bool" where
  "ends_any ws s = list_ex (\<lambda>w. is_prefix_of (rev w) (rev s)) ws"

definition is_heading_line :: "string \<Rightarrow> bool" where
  "is_heading_line l =
     (if l = [] \<or> 120 < length l then False
      else if re_match markdown_heading l then True
      else if ends_any [''.'', '';'', '',''] l then False
      else if re_match heading_numbered l then True
      else if filter is_letter l \<noteq> [] \<and> list_all is_upper (filter is_letter l) then True
      else length (words_of l) \<le> 8 \<and> \<not> list_ex (\<lambda>c. c \<in> set ''.!?'') l)"

definition is_table_lines :: "string list \<Rightarrow> bool" where
  "is_table_lines lines =
     (if length lines < 2 then False
      else max 2 (int (length lines) - 1) \<le> int (length (filter (\<lambda>l. 2 \<le> length (filter (\<lambda>c. c = CHR ''|'') l)) lines)))"

definition classify_heuristic :: "string \<Rightarrow> bool \<Rightarrow> block_type" where
  "classify_heuristic text is_first =
     (let first_line = py_strip (hd (split_on newline text));
          lines = filter (\<lambda>l. py_strip l \<noteq> []) (split_on newline text)
      in if re_match warning_prefix first_line then B_warning
         else if re_match note_prefix first_line then B_note
         else if re_match faq_prefix first_line \<or> (ends_any [''?''] first_line \<and> 1 < length lines) then B_faq
         else if is_table_lines lines then B_table
         else if 2 \<le> length lines \<and> list_all (re_match step_item) lines then B_step
         else if lines \<noteq> [] \<and> list_all (re_match list_item) lines then B_list
         else if is_heading_line first_line \<and> length lines = 1 then (if is_first then B_title else B_heading)
         else B_paragraph)"

definition classify_from_metadata :: "json \<Rightarrow> string \<Rightarrow> bool \<Rightarrow> block_type" where
  "classify_from_metadata m text is_first =
     (let part_type = meta_upper ''part_type'' m; block_kind = meta_lower ''block_kind'' m
      in if part_type = ''TABLE'' \<or> block_kind = ''table'' then B_table
         else if part_type = ''HEADER'' \<or> block_kind = ''header'' \<or> jtruthy (jget ''is_header_candidate'' m) then B_header
         else if part_type = ''FOOTER'' \<or> block_kind = ''footer'' \<or> jtruthy (jget ''is_footer_candidate'' m) then B_footer
         else if block_kind = ''heading'' \<or> jtruthy (jget ''is_heading'' m) then B_heading
         else if jtruthy (jget ''is_list'' m) \<or> block_kind = ''list'' then B_list
         else if part_type = ''OCR_TEXT'' \<or> block_kind = ''ocr_text'' \<or> is_ocr_source m then B_ocr_text
         else if jget ''heading_level'' m \<in> {JInt 0, JBool False} then B_title
         else if jtruthy (jget ''is_heading_guess'' m) then B_heading
         else if block_kind = ''paragraph'' then B_paragraph
         else classify_heuristic text is_first)"

definition classify :: "string \<Rightarrow> json \<Rightarrow> bool \<Rightarrow> block_type" where
  "classify text m is_first =
     (let cleaned = py_strip text in if cleaned = [] then B_unknown else classify_from_metadata m cleaned is_first)"

section \<open>The path of headings\<close>

definition heading_update :: "int \<Rightarrow> string \<Rightarrow> (int \<times> string) list \<Rightarrow> (int \<times> string) list" where
  "heading_update heading_level text stack =
     (let level = max 0 heading_level
      in rev (dropWhile (\<lambda>e. level \<le> fst e) (rev stack)) @ [(level, take 512 text)])"

record path_info =
  pi_path :: "json list"
  pi_levels :: "json list"
  pi_section :: "string option"

text \<open>\<open>current_section_title or (path[-1] if path else None)\<close>: an empty title counts as none.\<close>

definition snapshot :: "string option \<Rightarrow> (int \<times> string) list \<Rightarrow> path_info" where
  "snapshot title stack = \<lparr>pi_path = map (\<lambda>e. JStr (snd e)) stack, pi_levels = map (\<lambda>e. JInt (fst e)) stack,
     pi_section = (if or_empty title \<noteq> [] then title else if stack = [] then None else Some (snd (last stack)))\<rparr>"

end
