(* ===== verification/KbChunk.thy ===== *)
theory KbChunk
  imports KbText "HOL-Library.List_Lexorder"
begin

text \<open>
  Chunking (\<open>ChunkContentService.py\<close>): the cleaned parts of a document are classified, packed into
  pending chunks by section and size, short ones are merged, long ones are cut with an overlap, and the
  result is numbered and given its metadata. Parameters: identifiers (\<open>new_id\<close>), SHA-256, the JSON
  text of a hash payload, and the mean of OCR confidences, which are floats in the code. The ratio
  of characters to tokens is a whole number. The counters of the trace are left out.
\<close>

record chunk_env =
  ck_max_chars :: nat
  ck_min_chars :: nat
  ck_overlap :: nat
  ck_token_ratio :: nat
  ck_new_id :: "nat \<Rightarrow> string"
  ck_sha256 :: "string \<Rightarrow> string"
  ck_dumps :: "json \<Rightarrow> string"
  ck_mean :: "json list \<Rightarrow> json"

section \<open>Parts\<close>

text \<open>A normalized part as the repository delivers it.\<close>

record norm_part =
  np_id :: "string option"
  np_text :: string
  np_part_type :: json
  np_page_number :: "int option"
  np_part_index :: json
  np_document_order :: json
  np_source_part_id :: "string option"
  np_metadata :: json

record classified_part =
  cp_text :: string
  cp_type :: block_type
  cp_page_number :: "int option"
  cp_section_title :: "string option"
  cp_normalized_id :: "string option"
  cp_source_id :: "string option"
  cp_from_ocr :: bool
  cp_metadata :: json

definition j_opt :: "string option \<Rightarrow> json" where
  "j_opt x = (case x of None \<Rightarrow> JNull | Some s \<Rightarrow> JStr s)"

definition j_opt_int :: "int option \<Rightarrow> json" where
  "j_opt_int x = (case x of None \<Rightarrow> JNull | Some i \<Rightarrow> JInt i)"

definition str_or_none :: "json \<Rightarrow> string option" where
  "str_or_none v = (case v of JStr s \<Rightarrow> Some s | _ \<Rightarrow> None)"

definition j_list :: "json \<Rightarrow> json list" where
  "j_list v = (case v of JArr xs \<Rightarrow> xs | _ \<Rightarrow> [])"

text \<open>The keys are defaults: a value of the stored metadata wins.\<close>

definition part_entry :: "norm_part \<Rightarrow> json" where
  "part_entry p =
     (let m = kv_setdefault ''source_part_id'' (j_opt (np_source_part_id p)) (jitems (np_metadata p));
          m = kv_setdefault ''source_normalized_part_id'' (j_opt (np_id p)) m;
          m = kv_setdefault ''part_type'' (np_part_type p) m;
          m = kv_setdefault ''page_number'' (j_opt_int (np_page_number p)) m;
          m = kv_setdefault ''part_index'' (np_part_index p) m;
          m = kv_setdefault ''document_order'' (np_document_order p) m
      in JObj (if is_ocr_source (JObj m) then kv_set ''is_from_ocr'' (JBool True) m else m))"

definition heading_types :: "block_type set" where "heading_types = {B_title, B_heading}"
definition skip_types :: "block_type set" where "skip_types = {B_header, B_footer}"

text \<open>\<open>_resolve_heading_path\<close>: a stored path wins; a heading moves the tracker.\<close>

definition resolve_heading_path ::
  "json \<Rightarrow> string \<Rightarrow> block_type \<Rightarrow> (int \<times> string) list \<Rightarrow> path_info \<times> (int \<times> string) list" where
  "resolve_heading_path m text bt stack =
     (if jtruthy (jget ''heading_path'' m)
      then (\<lparr>pi_path = j_list (jget ''heading_path'' m), pi_levels = j_list (jget ''heading_levels'' m),
              pi_section = str_or_none (jor (jget ''current_section_title'' m) (last (j_list (jget ''heading_path'' m))))\<rparr>, stack)
      else if bt \<in> heading_types
      then (let level = (case jget ''heading_level'' m of JNull \<Rightarrow> if bt = B_title then 0 else 1 | v \<Rightarrow> jint v);
                stack1 = heading_update level text stack
            in (snapshot (Some (take 512 text)) stack1, stack1))
      else (snapshot None stack, stack))"

definition part_metadata_keys :: "string list" where
  "part_metadata_keys = [''source_part_id'', ''source_normalized_part_id'', ''document_order'', ''part_index'', ''part_type'',
     ''block_kind'', ''page_number'', ''style_name'', ''style_id'', ''heading_level'', ''is_heading'', ''is_list'', ''list_level'',
     ''numbering_id'', ''numbering_level'', ''list_marker'', ''runs'', ''bbox'', ''font_names'', ''font_sizes'',
     ''dominant_font_size'', ''is_bold_guess'', ''is_heading_guess'', ''heading_confidence'', ''is_header_candidate'',
     ''is_footer_candidate'', ''header_footer_confidence'', ''table_index'', ''headers'', ''rows'', ''row_count'',
     ''column_count'', ''ocr_confidence'', ''ocr_language'']"

definition build_part_metadata :: "json \<Rightarrow> path_info \<Rightarrow> json" where
  "build_part_metadata entry info = JObj
     (map (\<lambda>k. (k, if k = ''page_number'' then jor (jget ''page_number'' entry) (jget ''page'' entry) else jget k entry)) part_metadata_keys
      @ [(''is_from_ocr'', JBool (is_ocr_source entry)), (''heading_path'', JArr (pi_path info)),
         (''heading_levels'', JArr (pi_levels info)), (''current_section_title'', j_opt (pi_section info))])"

fun classify_parts :: "norm_part list \<Rightarrow> bool \<Rightarrow> (int \<times> string) list \<Rightarrow> classified_part list" where
  "classify_parts [] is_first stack = []"
| "classify_parts (p # ps) is_first stack =
     (let text = py_strip (np_text p)
      in if text = [] then classify_parts ps is_first stack
         else (let entry = part_entry p; bt = classify text entry is_first
               in if bt \<in> skip_types then classify_parts ps False stack
                  else (let (info, stack1) = resolve_heading_path entry text bt stack; m = build_part_metadata entry info
                        in \<lparr>cp_text = text, cp_type = bt, cp_page_number = np_page_number p,
                            cp_section_title = (if bt \<in> heading_types \<union> skip_types then None else pi_section info),
                            cp_normalized_id = np_id p, cp_source_id = np_source_part_id p,
                            cp_from_ocr = jtruthy (jget ''is_from_ocr'' m), cp_metadata = m\<rparr>
                           # classify_parts ps False stack1)))"

section \<open>Text without parts\<close>

definition split_blocks :: "string \<Rightarrow> string list" where
  "split_blocks text = filter (\<lambda>b. py_strip b \<noteq> []) (re_split (r_seq [r_lit [newline], r_blanks, r_lit [newline]]) text)"

definition page_for_offset :: "json list \<Rightarrow> int \<Rightarrow> int option" where
  "page_for_offset page_map offset =
     (case find (\<lambda>e. jint (jget ''start'' e) \<le> offset \<and> offset < jint (jget ''end'' e)) page_map of
        None \<Rightarrow> None
      | Some e \<Rightarrow> (case jget ''page'' e of JNull \<Rightarrow> None | v \<Rightarrow> Some (jint v)))"

fun classify_legacy :: "string \<Rightarrow> json list \<Rightarrow> string list \<Rightarrow> nat \<Rightarrow> bool \<Rightarrow> string option \<Rightarrow> classified_part list" where
  "classify_legacy text page_map [] offset no_parts section_title = []"
| "classify_legacy text page_map (raw # raws) offset no_parts section_title =
     (let block = py_strip raw; start = find_from raw offset text;
          offset1 = (if 0 \<le> start then nat start + length raw else offset);
          page = page_for_offset page_map (max start 0);
          bt = classify block (JObj []) no_parts
      in if bt \<in> skip_types then classify_legacy text page_map raws offset1 no_parts section_title
         else (let title1 = (if bt \<in> heading_types then Some (take 512 block) else section_title);
                   current = (if bt = B_title then None else title1)
               in \<lparr>cp_text = block, cp_type = bt, cp_page_number = page, cp_section_title = current, cp_normalized_id = None,
                   cp_source_id = None, cp_from_ocr = False,
                   cp_metadata = JObj [(''heading_path'', JArr (if or_empty title1 = [] then [] else [j_opt title1]))]\<rparr>
                  # classify_legacy text page_map raws offset1 False title1))"

definition classify_normalized_parts :: "norm_part list \<Rightarrow> string \<Rightarrow> json list \<Rightarrow> classified_part list" where
  "classify_normalized_parts ps text page_map =
     (let parts = classify_parts ps True []
      in if parts = [] \<and> py_strip text \<noteq> [] then classify_legacy text page_map (split_blocks text) 0 True None else parts)"

section \<open>Pending chunks\<close>

record pending_chunk =
  pc_texts :: "string list"
  pc_block_types :: "block_type list"
  pc_page_number :: "int option"
  pc_section_title :: "string option"
  pc_normalized_ids :: "string option list"
  pc_source_ids :: "string option list"
  pc_page_numbers :: "int option list"
  pc_document_orders :: "json list"
  pc_block_kinds :: "json list"
  pc_heading_path :: "json list"
  pc_heading_levels :: "json list"
  pc_style_names :: "json list"
  pc_table_refs :: "json list"
  pc_bbox_refs :: "json list"
  pc_ocr_confidences :: "json list"
  pc_ocr_languages :: "json list"
  pc_from_ocr :: bool
  pc_extractor :: bool

definition empty_pending :: pending_chunk where
  "empty_pending = \<lparr>pc_texts = [], pc_block_types = [], pc_page_number = None, pc_section_title = None, pc_normalized_ids = [],
     pc_source_ids = [], pc_page_numbers = [], pc_document_orders = [], pc_block_kinds = [], pc_heading_path = [],
     pc_heading_levels = [], pc_style_names = [], pc_table_refs = [], pc_bbox_refs = [], pc_ocr_confidences = [],
     pc_ocr_languages = [], pc_from_ocr = False, pc_extractor = False\<rparr>"

definition pc_length :: "pending_chunk \<Rightarrow> nat" where
  "pc_length c = sum_list (map length (pc_texts c)) + 2 * (length (pc_texts c) - 1)"

definition pc_text :: "pending_chunk \<Rightarrow> string" where
  "pc_text c = join_with [newline, newline] (pc_texts c)"

definition is_table_only :: "pending_chunk \<Rightarrow> bool" where
  "is_table_only c = (pc_block_types c \<noteq> [] \<and> list_all (\<lambda>b. b = B_table) (pc_block_types c))"

definition table_ref :: "json \<Rightarrow> json" where
  "table_ref m =
     (if \<not> jtruthy (jget ''headers'' m) \<and> \<not> jtruthy (jget ''rows'' m) then JNull
      else JObj (map (\<lambda>k. (k, jget k m)) [''table_index'', ''headers'', ''rows'', ''row_count'', ''column_count'']))"

definition with_source :: "classified_part \<Rightarrow> pending_chunk \<Rightarrow> pending_chunk" where
  "with_source p c =
     (if cp_from_ocr p
      then c\<lparr>pc_from_ocr := True,
             pc_ocr_confidences := pc_ocr_confidences c
               @ (if jget ''ocr_confidence'' (cp_metadata p) = JNull then [] else [jget ''ocr_confidence'' (cp_metadata p)]),
             pc_ocr_languages := pc_ocr_languages c @ [jget ''ocr_language'' (cp_metadata p)]\<rparr>
      else c\<lparr>pc_extractor := True\<rparr>)"

text \<open>\<open>metadata.get("current_section_title") or part.text[:512]\<close>\<close>

definition section_of :: "classified_part \<Rightarrow> string option" where
  "section_of p = str_or_none (jor (jget ''current_section_title'' (cp_metadata p)) (JStr (take 512 (cp_text p))))"

text \<open>The seed of a chunk keeps the table reference also when there is none.\<close>

definition seed_pending :: "classified_part \<Rightarrow> pending_chunk" where
  "seed_pending p = with_source p (empty_pending\<lparr>pc_texts := [cp_text p], pc_block_types := [cp_type p],
     pc_page_number := cp_page_number p, pc_section_title := section_of p, pc_normalized_ids := [cp_normalized_id p],
     pc_source_ids := [cp_source_id p], pc_page_numbers := [cp_page_number p],
     pc_document_orders := [jget ''document_order'' (cp_metadata p)], pc_block_kinds := [jget ''block_kind'' (cp_metadata p)],
     pc_heading_path := j_list (jor (jget ''heading_path'' (cp_metadata p)) (JArr [JStr (take 512 (cp_text p))])),
     pc_heading_levels := j_list (jget ''heading_levels'' (cp_metadata p)), pc_style_names := [jget ''style_name'' (cp_metadata p)],
     pc_table_refs := [table_ref (cp_metadata p)], pc_bbox_refs := [jget ''bbox'' (cp_metadata p)]\<rparr>)"

definition with_path :: "classified_part \<Rightarrow> pending_chunk \<Rightarrow> pending_chunk" where
  "with_path p c =
     (let m = cp_metadata p;
          c1 = (if jtruthy (jget ''heading_path'' m) then c\<lparr>pc_heading_path := j_list (jget ''heading_path'' m)\<rparr> else c)
      in if jtruthy (jget ''heading_levels'' m) then c1\<lparr>pc_heading_levels := j_list (jget ''heading_levels'' m)\<rparr> else c1)"

definition append_part :: "classified_part \<Rightarrow> pending_chunk \<Rightarrow> pending_chunk" where
  "append_part p c = with_path p (with_source p (c\<lparr>pc_texts := pc_texts c @ [cp_text p],
     pc_block_types := pc_block_types c @ [cp_type p], pc_normalized_ids := pc_normalized_ids c @ [cp_normalized_id p],
     pc_source_ids := pc_source_ids c @ [cp_source_id p], pc_page_numbers := pc_page_numbers c @ [cp_page_number p],
     pc_document_orders := pc_document_orders c @ [jget ''document_order'' (cp_metadata p)],
     pc_block_kinds := pc_block_kinds c @ [jget ''block_kind'' (cp_metadata p)],
     pc_style_names := pc_style_names c @ [jget ''style_name'' (cp_metadata p)],
     pc_table_refs := pc_table_refs c @ (if table_ref (cp_metadata p) = JNull then [] else [table_ref (cp_metadata p)]),
     pc_bbox_refs := pc_bbox_refs c @ [jget ''bbox'' (cp_metadata p)]\<rparr>))"

section \<open>Packing\<close>

definition flushed :: "pending_chunk \<Rightarrow> pending_chunk list" where
  "flushed c = (if pc_texts c = [] then [] else [c])"

text \<open>\<open>a or b or c\<close> on optional texts.\<close>

definition first_title :: "string option list \<Rightarrow> string option" where
  "first_title xs = (case filter (\<lambda>x. or_empty x \<noteq> []) xs of [] \<Rightarrow> last xs | x # _ \<Rightarrow> x)"

definition paragraph_section :: "classified_part \<Rightarrow> string option \<Rightarrow> string option" where
  "paragraph_section p current_section =
     first_title [cp_section_title p, str_or_none (jget ''current_section_title'' (cp_metadata p)), current_section]"

definition starts_new :: "chunk_env \<Rightarrow> pending_chunk \<Rightarrow> string option \<Rightarrow> classified_part \<Rightarrow> bool" where
  "starts_new e current section p =
     (pc_texts current \<noteq> []
      \<and> ((pc_section_title current \<noteq> None \<and> pc_section_title current \<noteq> section)
         \<or> ck_max_chars e < pc_length current + length (cp_text p)))"

definition opened :: "classified_part \<Rightarrow> string option \<Rightarrow> pending_chunk \<Rightarrow> pending_chunk" where
  "opened p section c =
     (if pc_texts c = []
      then c\<lparr>pc_page_number := cp_page_number p, pc_section_title := section,
             pc_heading_path := j_list (jget ''heading_path'' (cp_metadata p)),
             pc_heading_levels := j_list (jget ''heading_levels'' (cp_metadata p))\<rparr>
      else c)"

fun pack_parts :: "chunk_env \<Rightarrow> classified_part list \<Rightarrow> pending_chunk \<Rightarrow> string option \<Rightarrow> pending_chunk list" where
  "pack_parts e [] current current_section = flushed current"
| "pack_parts e (p # ps) current current_section =
     (if cp_type p \<in> heading_types then flushed current @ pack_parts e ps (seed_pending p) (section_of p)
      else if cp_type p = B_table
      then flushed current @ seed_pending p # pack_parts e ps empty_pending current_section
      else (let section = paragraph_section p current_section
            in if starts_new e current section p
               then current # pack_parts e ps (append_part p (opened p section empty_pending)) current_section
               else pack_parts e ps (append_part p (opened p section current)) current_section))"

definition merged_into :: "pending_chunk \<Rightarrow> pending_chunk \<Rightarrow> pending_chunk" where
  "merged_into a b = a\<lparr>pc_texts := pc_texts a @ pc_texts b, pc_block_types := pc_block_types a @ pc_block_types b,
     pc_normalized_ids := pc_normalized_ids a @ pc_normalized_ids b, pc_source_ids := pc_source_ids a @ pc_source_ids b,
     pc_page_numbers := pc_page_numbers a @ pc_page_numbers b, pc_document_orders := pc_document_orders a @ pc_document_orders b,
     pc_block_kinds := pc_block_kinds a @ pc_block_kinds b, pc_style_names := pc_style_names a @ pc_style_names b,
     pc_table_refs := pc_table_refs a @ pc_table_refs b, pc_bbox_refs := pc_bbox_refs a @ pc_bbox_refs b,
     pc_ocr_confidences := pc_ocr_confidences a @ pc_ocr_confidences b, pc_ocr_languages := pc_ocr_languages a @ pc_ocr_languages b,
     pc_from_ocr := (pc_from_ocr a \<or> pc_from_ocr b), pc_extractor := (pc_extractor a \<or> pc_extractor b),
     pc_heading_path := (if pc_heading_path b \<noteq> [] then pc_heading_path b else pc_heading_path a),
     pc_heading_levels := (if pc_heading_levels b \<noteq> [] then pc_heading_levels b else pc_heading_levels a)\<rparr>"

text \<open>The last of the merged chunks is carried along.\<close>

fun merge_from :: "chunk_env \<Rightarrow> pending_chunk \<Rightarrow> pending_chunk list \<Rightarrow> pending_chunk list" where
  "merge_from e prev [] = [prev]"
| "merge_from e prev (c # cs) =
     (if \<not> is_table_only c \<and> \<not> is_table_only prev \<and> pc_length c < ck_min_chars e \<and> pc_length prev + pc_length c \<le> ck_max_chars e
      then merge_from e (merged_into prev c) cs
      else prev # merge_from e c cs)"

definition merge_short :: "chunk_env \<Rightarrow> pending_chunk list \<Rightarrow> pending_chunk list" where
  "merge_short e cs = (case cs of [] \<Rightarrow> [] | c # cs \<Rightarrow> merge_from e c cs)"

section \<open>Cutting\<close>

definition cut_end :: "nat \<Rightarrow> string \<Rightarrow> nat \<Rightarrow> nat" where
  "cut_end max_chars text start =
     (let end0 = min (start + max_chars) (length text)
      in if end0 < length text
         then (let window = slice start end0 text;
                   cut = max (rfind ''. '' window) (max (rfind [newline] window) (rfind '' '' window))
               in if int (max_chars div 2) < cut then start + nat cut + 1 else end0)
         else end0)"

function cut_from :: "nat \<Rightarrow> nat \<Rightarrow> string \<Rightarrow> nat \<Rightarrow> string list" where
  "cut_from max_chars overlap text start =
     (if start < length text
      then (let stop = cut_end max_chars text start
            in py_strip (slice start stop text)
               # (if length text \<le> stop then [] else cut_from max_chars overlap text (max (stop - overlap) (start + 1))))
      else [])"
  by pat_completeness auto

termination by (relation "measure (\<lambda>(m, n, text, start). length text - start)") auto

declare cut_from.simps [simp del]

definition split_long :: "nat \<Rightarrow> nat \<Rightarrow> string \<Rightarrow> string list" where
  "split_long max_chars overlap text =
     (if length text \<le> max_chars then [text] else filter (\<lambda>p. p \<noteq> []) (cut_from max_chars overlap text 0))"

section \<open>The chunks\<close>

datatype chunk_type = CT_text | CT_list | CT_table | CT_faq | CT_step | CT_note | CT_warning

definition block_to_chunk_type :: "block_type \<Rightarrow> chunk_type option" where
  "block_to_chunk_type b = map_of [(B_list, CT_list), (B_table, CT_table), (B_faq, CT_faq), (B_step, CT_step),
     (B_note, CT_note), (B_warning, CT_warning)] b"

text \<open>Keeps the first of equal entries, as \<open>dict.fromkeys\<close> does.\<close>

definition uniq :: "'a list \<Rightarrow> 'a list" where
  "uniq xs = rev (remdups (rev xs))"

text \<open>The kinds in the order of their first occurrence; the first with the highest count is dominant.\<close>

definition chunk_type_of :: "block_type list \<Rightarrow> chunk_type" where
  "chunk_type_of bts =
     (let mapped = List.map_filter block_to_chunk_type bts;
          count = (\<lambda>k. length (filter (\<lambda>x. x = k) mapped))
      in case uniq mapped of
           [] \<Rightarrow> CT_text
         | k0 # ks \<Rightarrow> (let dominant = fold (\<lambda>k best. if count best < count k then k else best) ks k0;
                          plain = length bts - length mapped
                      in if plain \<le> count dominant then dominant else CT_text))"

record chunk =
  kc_id :: string
  kc_text :: string
  kc_type :: chunk_type
  kc_order_index :: nat
  kc_token_count :: nat
  kc_checksum :: string
  kc_page_number :: "int option"
  kc_section_title :: "string option"
  kc_metadata :: json

definition parent_chunk_hash :: "chunk_env \<Rightarrow> string \<Rightarrow> json list \<Rightarrow> string option \<Rightarrow> string list \<Rightarrow> string" where
  "parent_chunk_hash e item path section source_ids = ck_sha256 e (ck_dumps e (JObj
     [(''heading_path'', JArr path), (''section_title'', JStr (or_empty section)),
      (''source_part_ids'', JArr (map JStr (sort source_ids))), (''training_item_id'', JStr item)]))"

definition ocr_language_hints :: "string \<Rightarrow> string list" where
  "ocr_language_hints raw = uniq (List.map_filter (\<lambda>p. map_of [(''hun'', ''hu''), (''hu'', ''hu''), (''eng'', ''en''), (''en'', ''en''),
     (''spa'', ''es''), (''es'', ''es'')] (py_norm p)) (split_on (CHR ''+'') raw))"

definition language_fields :: "pending_chunk \<Rightarrow> (string \<times> json) list" where
  "language_fields c =
     (let extractor = pc_extractor c \<or> \<not> pc_from_ocr c;
          sources = (if pc_from_ocr c then [''ocr''] else []) @ (if extractor then [''extractor''] else []);
          langs = uniq (filter (\<lambda>s. s \<noteq> []) (map jstr (pc_ocr_languages c)));
          hints = uniq (concat (map ocr_language_hints langs));
          field = (\<lambda>k xs. if xs = [] then [] else [(k, JArr (map JStr xs))])
      in field ''language_hints'' hints @ field ''language_sources'' sources @ field ''ocr_languages'' langs)"

definition sorted_present :: "int option list \<Rightarrow> json list" where
  "sorted_present xs = map JInt (sorted_list_of_set (set (List.map_filter id xs)))"

definition j_int_opt :: "json \<Rightarrow> int option" where
  "j_int_opt v = (case v of JInt i \<Rightarrow> Some i | _ \<Rightarrow> None)"

definition source_ids_of :: "string option list \<Rightarrow> string list" where
  "source_ids_of xs = filter (\<lambda>s. s \<noteq> []) (map or_empty xs)"

definition chunk_metadata :: "chunk_env \<Rightarrow> pending_chunk \<Rightarrow> (nat \<times> nat) option \<Rightarrow> string \<Rightarrow> json" where
  "chunk_metadata e c split hash = JObj
     ([(''source_part_ids'', JArr (map JStr (source_ids_of (pc_source_ids c)))),
       (''source_normalized_part_ids'', JArr (map JStr (source_ids_of (pc_normalized_ids c)))),
       (''page_numbers'', JArr (sorted_present (pc_page_numbers c))),
       (''document_orders'', JArr (sorted_present (map j_int_opt (pc_document_orders c)))),
       (''section_title'', j_opt (pc_section_title c)), (''heading_path'', JArr (pc_heading_path c)),
       (''heading_levels'', JArr (pc_heading_levels c)), (''block_kinds'', JArr (filter jtruthy (pc_block_kinds c))),
       (''table_refs'', JArr (pc_table_refs c)), (''bbox_refs'', JArr (filter jtruthy (pc_bbox_refs c))),
       (''style_names'', JArr (filter jtruthy (pc_style_names c))), (''is_from_ocr'', JBool (pc_from_ocr c)),
       (''ocr_confidence'', if pc_ocr_confidences c = [] then JNull else ck_mean e (pc_ocr_confidences c))]
      @ (case split of None \<Rightarrow> []
         | Some (i, n) \<Rightarrow> [(''split_index'', JInt (int i)), (''split_count'', JInt (int n)),
             (''parent_chunk_id'', JStr (''chunk_parent_'' @ take 32 hash)), (''parent_chunk_hash'', JStr hash),
             (''page_numbers_scope'', JStr ''parent_logical_chunk'')])
      @ language_fields c
      @ (if is_table_only c \<and> pc_table_refs c \<noteq> []
         then map (\<lambda>k. (k, jget k (hd (pc_table_refs c)))) [''headers'', ''row_count'', ''column_count''] else []))"

definition finalize_one :: "chunk_env \<Rightarrow> string \<Rightarrow> pending_chunk \<Rightarrow> nat \<Rightarrow> chunk list" where
  "finalize_one e item c order_index =
     (let hash = parent_chunk_hash e item (pc_heading_path c) (pc_section_title c) (source_ids_of (pc_source_ids c));
          parts = split_long (ck_max_chars e) (ck_overlap e) (pc_text c);
          n = length parts;
          ty = (if is_table_only c then CT_table else chunk_type_of (pc_block_types c))
      in map (\<lambda>(i, text). \<lparr>kc_id = ck_new_id e (order_index + i), kc_text = text, kc_type = ty, kc_order_index = order_index + i,
             kc_token_count = max 1 (length text div ck_token_ratio e), kc_checksum = ck_sha256 e text,
             kc_page_number = pc_page_number c, kc_section_title = pc_section_title c,
             kc_metadata = chunk_metadata e c (if 1 < n then Some (i + 1, n) else None) hash\<rparr>)
           (zip [0..<n] parts))"

datatype understanding_code = CHUNKING_FAILED | NO_CHUNKS | NORMALIZATION_FAILED | VALIDATION_FAILED | JOB_ALREADY_RUNNING
  | JOB_NOT_RETRYABLE | JOB_NOT_FOUND | ITEM_NOT_FOUND | RAW_REF_MISSING | INTERNAL_ERROR | Other_code string

text \<open>
  A chunk of a table block without headers and rows has \<open>None\<close> as its table reference, and reading the
  headers of \<open>None\<close> raises an error that has no code of its own.
\<close>

definition headless_table :: "pending_chunk \<Rightarrow> bool" where
  "headless_table c = (is_table_only c \<and> pc_table_refs c \<noteq> [] \<and> hd (pc_table_refs c) = JNull)"

fun finalize :: "chunk_env \<Rightarrow> string \<Rightarrow> pending_chunk list \<Rightarrow> nat \<Rightarrow> understanding_code + chunk list" where
  "finalize e item [] order_index = Inr []"
| "finalize e item (c # cs) order_index =
     (let ks = finalize_one e item c order_index
      in if ks \<noteq> [] \<and> headless_table c then Inl INTERNAL_ERROR
         else (case finalize e item cs (order_index + length ks) of Inl x \<Rightarrow> Inl x | Inr rest \<Rightarrow> Inr (ks @ rest)))"

definition packed :: "chunk_env \<Rightarrow> classified_part list \<Rightarrow> pending_chunk list" where
  "packed e parts = merge_short e (pack_parts e parts empty_pending None)"

definition build_chunks :: "chunk_env \<Rightarrow> string \<Rightarrow> classified_part list \<Rightarrow> understanding_code + chunk list" where
  "build_chunks e item parts =
     (if parts = [] then Inl CHUNKING_FAILED
      else finalize e item (packed e parts) 0)"

text \<open>\<open>ValidateChunks\<close>: the checks that raise; the others only give warnings.\<close>

definition validate_chunks :: "chunk list \<Rightarrow> understanding_code + unit" where
  "validate_chunks ks =
     (if ks = [] then Inl NO_CHUNKS
      else if sort (map kc_order_index ks) \<noteq> map kc_order_index ks then Inl CHUNKING_FAILED
      else if list_ex (\<lambda>k. py_strip (kc_text k) = [] \<or> kc_checksum k = []) ks then Inl CHUNKING_FAILED
      else Inr ())"

definition chunk_content :: "chunk_env \<Rightarrow> string \<Rightarrow> norm_part list \<Rightarrow> string \<Rightarrow> json list \<Rightarrow> understanding_code + chunk list" where
  "chunk_content e item ps text page_map =
     (case build_chunks e item (classify_normalized_parts ps text page_map) of
        Inl x \<Rightarrow> Inl x
      | Inr ks \<Rightarrow> (case validate_chunks ks of Inl x \<Rightarrow> Inl x | Inr _ \<Rightarrow> Inr ks))"

end
