(* ===== verification/KbStore.thy ===== *)
theory KbStore
  imports KbChunk EventChannel "HOL-Library.Product_Lexorder"
begin

text \<open>
  The tables of the understanding module in one tenant schema and its repositories
  (\<open>UnderstandingJobRepository.py\<close>, \<open>ContentRepository.py\<close>, \<open>ChunkRepository.py\<close>). Every repository
  call is a transaction of its own. Identifiers are drawn from a counter that \<open>new_id\<close> turns into a
  text. The trace summaries inside the metadata columns are left out.
\<close>

section \<open>Rows\<close>

datatype und_status = U_created | U_queued | U_extracting | U_normalizing | U_chunking | U_validating
  | U_ready | U_partial | U_failed | U_retryable

definition und_status_value :: "und_status \<Rightarrow> string" where
  "und_status_value s = (case s of U_created \<Rightarrow> ''created'' | U_queued \<Rightarrow> ''queued'' | U_extracting \<Rightarrow> ''extracting''
     | U_normalizing \<Rightarrow> ''normalizing'' | U_chunking \<Rightarrow> ''chunking'' | U_validating \<Rightarrow> ''validating''
     | U_ready \<Rightarrow> ''ready_for_discovery'' | U_partial \<Rightarrow> ''partial'' | U_failed \<Rightarrow> ''failed'' | U_retryable \<Rightarrow> ''retryable'')"

definition und_terminal :: "und_status set" where
  "und_terminal = {U_ready, U_partial, U_failed, U_retryable}"

record und_job =
  uj_id :: string
  uj_item :: string
  uj_batch :: string
  uj_kb :: string
  uj_status :: und_status
  uj_error_code :: "understanding_code option"
  uj_error_message :: "string option"
  uj_retryable :: bool
  uj_retry_count :: int
  uj_created_by :: "int option"
  uj_created_at :: pydatetime
  uj_started_at :: "pydatetime option"
  uj_completed_at :: "pydatetime option"
  uj_metadata :: json

text \<open>\<open>ExtractPart\<close>, and its row.\<close>

record extract_part =
  xd_type :: string
  xd_page :: "int option"
  xd_index :: int
  xd_text :: "string option"
  xd_char_count :: nat
  xd_status :: string
  xd_metadata :: json

record extract_row =
  xr_id :: string
  xr_content_id :: string
  xr_job :: string
  xr_kb :: string
  xr_item :: string
  xr_part :: extract_part

record content_row =
  ec_id :: string
  ec_job :: string
  ec_item :: string
  ec_kb :: string
  ec_raw_ref :: string
  ec_mime :: "string option"
  ec_total_chars :: nat
  ec_text_parts :: nat
  ec_table_parts :: nat
  ec_ocr_text_parts :: nat
  ec_status :: string

record norm_content =
  nc_id :: string
  nc_job :: string
  nc_item :: string
  nc_kb :: string
  nc_status :: string
  nc_part_count :: nat
  nc_total_chars :: nat

record norm_row =
  nr_id :: string
  nr_content_id :: string
  nr_source_part_id :: string
  nr_job :: string
  nr_item :: string
  nr_kb :: string
  nr_type :: string
  nr_text :: string
  nr_page :: "int option"
  nr_index :: int
  nr_order :: "int option"
  nr_metadata :: json
  nr_status :: string

record chunk_row =
  ch_job :: string
  ch_document :: string
  ch_source :: string
  ch_kb :: string
  ch_version :: nat
  ch_created_by :: "int option"
  ch_chunk :: chunk
  ch_metadata :: json

record kb_db =
  kd_jobs :: "und_job list"
  kd_contents :: "content_row list"
  kd_parts :: "extract_row list"
  kd_norms :: "norm_content list"
  kd_norm_parts :: "norm_row list"
  kd_chunks :: "chunk_row list"
  kd_next :: nat

text \<open>The clock, and \<open>new_id(prefix)\<close> from \<open>shared/ids.py\<close>.\<close>

record kb_clock =
  uc_now :: pydatetime
  uc_uuid :: "nat \<Rightarrow> string"

definition new_id :: "kb_clock \<Rightarrow> string \<Rightarrow> nat \<Rightarrow> string" where
  "new_id e prefix n = prefix @ ''_'' @ uc_uuid e n"

section \<open>Jobs\<close>

definition job_put :: "string \<Rightarrow> (und_job \<Rightarrow> und_job) \<Rightarrow> kb_db \<Rightarrow> kb_db" where
  "job_put i f d = d\<lparr>kd_jobs := tbl_update (\<lambda>j. uj_id j = i) f (kd_jobs d)\<rparr>"

definition create_job :: "kb_clock \<Rightarrow> string \<Rightarrow> string \<Rightarrow> string \<Rightarrow> int option \<Rightarrow> json \<Rightarrow> kb_db \<Rightarrow> und_job \<times> kb_db" where
  "create_job e item batch kb created_by metadata d =
     (let j = \<lparr>uj_id = new_id e ''und_job'' (kd_next d), uj_item = item, uj_batch = batch, uj_kb = kb, uj_status = U_created,
                uj_error_code = None, uj_error_message = None, uj_retryable = False, uj_retry_count = 0, uj_created_by = created_by,
                uj_created_at = uc_now e, uj_started_at = None, uj_completed_at = None, uj_metadata = metadata\<rparr>
      in (j, d\<lparr>kd_jobs := kd_jobs d @ [j], kd_next := kd_next d + 1\<rparr>))"

definition get_job :: "string \<Rightarrow> kb_db \<Rightarrow> und_job option" where
  "get_job i d = tbl_first (\<lambda>j. uj_id j = i) (kd_jobs d)"

text \<open>\<open>ORDER BY created_at DESC, id DESC LIMIT 1\<close>\<close>

definition newer_job :: "und_job \<Rightarrow> und_job \<Rightarrow> und_job" where
  "newer_job a b = (if (uj_created_at a, uj_id a) \<le> (uj_created_at b, uj_id b) then b else a)"

definition latest_job :: "string \<Rightarrow> kb_db \<Rightarrow> und_job option" where
  "latest_job item d =
     (case filter (\<lambda>j. uj_item j = item) (kd_jobs d) of [] \<Rightarrow> None | j # js \<Rightarrow> Some (fold (\<lambda>b a. newer_job a b) js j))"

definition has_active_job :: "string \<Rightarrow> kb_db \<Rightarrow> bool" where
  "has_active_job item d = list_ex (\<lambda>j. uj_item j = item \<and> uj_status j \<notin> und_terminal) (kd_jobs d)"

definition set_status :: "kb_clock \<Rightarrow> string \<Rightarrow> und_status \<Rightarrow> kb_db \<Rightarrow> kb_db" where
  "set_status e i s = job_put i (\<lambda>j. j\<lparr>uj_status := s,
     uj_started_at := (if uj_started_at j = None \<and> s \<noteq> U_created \<and> s \<noteq> U_queued then Some (uc_now e) else uj_started_at j)\<rparr>)"

definition job_completed :: "kb_clock \<Rightarrow> string \<Rightarrow> und_status \<Rightarrow> kb_db \<Rightarrow> kb_db" where
  "job_completed e i s = job_put i (\<lambda>j. j\<lparr>uj_status := s, uj_completed_at := Some (uc_now e)\<rparr>)"

definition job_failed :: "kb_clock \<Rightarrow> string \<Rightarrow> und_status \<Rightarrow> understanding_code \<Rightarrow> string \<Rightarrow> bool \<Rightarrow> kb_db \<Rightarrow> kb_db" where
  "job_failed e i s code message retryable = job_put i (\<lambda>j. j\<lparr>uj_status := s, uj_error_code := Some code,
     uj_error_message := (if message = [] then None else Some (take 4000 message)), uj_retryable := retryable,
     uj_completed_at := Some (uc_now e)\<rparr>)"

definition increment_retry :: "string \<Rightarrow> kb_db \<Rightarrow> kb_db" where
  "increment_retry i = job_put i (\<lambda>j. j\<lparr>uj_retry_count := uj_retry_count j + 1, uj_status := U_queued,
     uj_error_code := None, uj_error_message := None, uj_completed_at := None\<rparr>)"

definition update_extract_progress :: "string \<Rightarrow> json \<Rightarrow> kb_db \<Rightarrow> kb_db" where
  "update_extract_progress i progress = job_put i (\<lambda>j. j\<lparr>uj_metadata := JObj (kv_set ''extract_progress'' progress (jitems (uj_metadata j)))\<rparr>)"

section \<open>Content\<close>

definition normalizable_types :: "string list" where
  "normalizable_types = [''TEXT'', ''TABLE'', ''OCR_TEXT'', ''HEADER'', ''FOOTER'']"

definition begin_extract :: "string \<Rightarrow> content_row \<Rightarrow> kb_db \<Rightarrow> kb_db" where
  "begin_extract item c d = d\<lparr>kd_parts := filter (\<lambda>r. xr_item r \<noteq> item) (kd_parts d),
     kd_contents := filter (\<lambda>r. ec_item r \<noteq> item) (kd_contents d) @ [c]\<rparr>"

definition bulk_insert_parts :: "extract_row list \<Rightarrow> kb_db \<Rightarrow> kb_db" where
  "bulk_insert_parts rows d = d\<lparr>kd_parts := kd_parts d @ rows\<rparr>"

definition finalize_extract :: "string \<Rightarrow> (content_row \<Rightarrow> content_row) \<Rightarrow> kb_db \<Rightarrow> kb_db" where
  "finalize_extract i patch d = d\<lparr>kd_contents := tbl_update (\<lambda>r. ec_id r = i) patch (kd_contents d)\<rparr>"

text \<open>\<open>replace_extracted_with_parts\<close> inserts in batches of one transaction.\<close>

definition replace_extracted_with_parts :: "string \<Rightarrow> content_row \<Rightarrow> extract_row list \<Rightarrow> kb_db \<Rightarrow> kb_db" where
  "replace_extracted_with_parts item c rows d = bulk_insert_parts rows (begin_extract item c d)"

definition delete_normalized :: "string \<Rightarrow> kb_db \<Rightarrow> kb_db" where
  "delete_normalized item d = d\<lparr>kd_norm_parts := filter (\<lambda>r. nr_item r \<noteq> item) (kd_norm_parts d),
     kd_norms := filter (\<lambda>r. nc_item r \<noteq> item) (kd_norms d)\<rparr>"

definition create_normalized_summary :: "norm_content \<Rightarrow> kb_db \<Rightarrow> kb_db" where
  "create_normalized_summary c d = d\<lparr>kd_norms := kd_norms d @ [c]\<rparr>"

definition bulk_insert_normalized_parts :: "norm_row list \<Rightarrow> kb_db \<Rightarrow> kb_db" where
  "bulk_insert_normalized_parts rows d = d\<lparr>kd_norm_parts := kd_norm_parts d @ rows\<rparr>"

definition finalize_normalized_summary :: "string \<Rightarrow> (norm_content \<Rightarrow> norm_content) \<Rightarrow> kb_db \<Rightarrow> kb_db" where
  "finalize_normalized_summary i patch d = d\<lparr>kd_norms := tbl_update (\<lambda>r. nc_id r = i) patch (kd_norms d)\<rparr>"

text \<open>\<open>NULLS FIRST\<close>; rows with equal keys stay in the order of their insertion.\<close>

definition nulls_first :: "int option \<Rightarrow> int \<times> int" where
  "nulls_first x = (case x of None \<Rightarrow> (0, 0) | Some i \<Rightarrow> (1, i))"

definition normalizable :: "string \<Rightarrow> extract_row \<Rightarrow> bool" where
  "normalizable item r =
     (xr_item r = item \<and> xd_type (xr_part r) \<in> set normalizable_types \<and> xd_status (xr_part r) = ''completed'')"

fun batches :: "nat \<Rightarrow> 'a list \<Rightarrow> 'a list list" where
  "batches n [] = []"
| "batches n (x # xs) = (if n = 0 then [] else take n (x # xs) # batches n (drop (n - 1) xs))"

definition normalizable_parts :: "string \<Rightarrow> kb_db \<Rightarrow> extract_row list" where
  "normalizable_parts item d =
     sort_key (\<lambda>r. (xd_index (xr_part r), nulls_first (xd_page (xr_part r)))) (filter (normalizable item) (kd_parts d))"

definition normalized_parts :: "string \<Rightarrow> kb_db \<Rightarrow> norm_row list" where
  "normalized_parts item d =
     sort_key (\<lambda>r. (nulls_first (nr_order r), nulls_first (nr_page r), nr_index r))
       (filter (\<lambda>r. nr_item r = item \<and> nr_status r = ''completed'') (kd_norm_parts d))"

definition count_normalized_parts :: "string \<Rightarrow> kb_db \<Rightarrow> nat" where
  "count_normalized_parts item d =
     tbl_count (\<lambda>r. nr_item r = item \<and> nr_status r = ''completed'' \<and> nr_text r \<noteq> []) (kd_norm_parts d)"

definition count_usable_parts :: "string \<Rightarrow> kb_db \<Rightarrow> nat" where
  "count_usable_parts item d = tbl_count (\<lambda>r. normalizable item r \<and> or_empty (xd_text (xr_part r)) \<noteq> []) (kd_parts d)"

definition get_extracted :: "string \<Rightarrow> kb_db \<Rightarrow> content_row option" where
  "get_extracted item d = tbl_first (\<lambda>r. ec_item r = item) (kd_contents d)"

definition get_normalized :: "string \<Rightarrow> kb_db \<Rightarrow> norm_content option" where
  "get_normalized item d = tbl_first (\<lambda>r. nc_item r = item) (kd_norms d)"

section \<open>Chunks\<close>

definition replace_for_document :: "string \<Rightarrow> chunk_row list \<Rightarrow> kb_db \<Rightarrow> kb_db" where
  "replace_for_document doc rows d = d\<lparr>kd_chunks := filter (\<lambda>r. ch_document r \<noteq> doc) (kd_chunks d) @ rows\<rparr>"

definition list_for_document :: "string \<Rightarrow> kb_db \<Rightarrow> chunk_row list" where
  "list_for_document doc d = sort_key (\<lambda>r. kc_order_index (ch_chunk r)) (filter (\<lambda>r. ch_document r = doc) (kd_chunks d))"

definition max_version :: "string \<Rightarrow> kb_db \<Rightarrow> nat" where
  "max_version doc d = Max (insert 0 (ch_version ` set (filter (\<lambda>r. ch_document r = doc) (kd_chunks d))))"

end
