(* ===== verification/KbSteps.thy ===== *)
theory KbSteps
  imports KbStore
begin

text \<open>
  The four steps of understanding a document: extraction (\<open>ExtractContentService.py\<close>), normalization
  (\<open>NormalizeContentService.py\<close>), chunking (\<open>ChunkContentService.run\<close>) and the final validation
  (\<open>ValidateUnderstandingService.py\<close>). The extractors for PDF, DOCX and plain text are one argument that
  gives what an extractor reports and what it hands over on the way; so is the file storage.
  An error is its code and whether it may be retried.
\<close>

type_synonym 'a und = "(understanding_code \<times> bool) + 'a"

record und_ctx =
  ux_job :: string
  ux_item :: string
  ux_batch :: string
  ux_kb :: string
  ux_tenant :: "string option"
  ux_created_by :: "int option"
  ux_raw_ref :: string
  ux_mime :: "string option"
  ux_source_type :: string
  ux_file_name :: "string option"
  ux_title :: string
  ux_content_hash :: "string option"

section \<open>Extraction\<close>

datatype extractor_kind = Pdf_extractor | Docx_extractor | Text_extractor
datatype extract_strategy = In_memory | Temp_file | Streaming | Rejected_too_large
datatype extract_event = Parts_batch "extract_part list" | Progress json

record extract_result =
  er_parts :: "extract_part list"
  er_total_chars :: nat
  er_status :: string
  er_mime :: "string option"
  er_streaming :: bool
  er_text_parts :: nat
  er_table_parts :: nat
  er_ocr_text_parts :: nat

record extract_env =
  xe_small_max :: nat
  xe_large_max :: nat
  xe_file_max :: nat
  xe_size :: "string \<Rightarrow> nat option"
  xe_read :: "string \<Rightarrow> string option"
  xe_extract :: "extractor_kind \<Rightarrow> bool \<Rightarrow> string \<Rightarrow> string option \<Rightarrow> extract_event list \<times> extract_result und"

definition resolve_extract_strategy :: "extract_env \<Rightarrow> nat \<Rightarrow> extract_strategy" where
  "resolve_extract_strategy x n =
     (if xe_file_max x < n then Rejected_too_large
      else if n \<le> xe_small_max x then In_memory
      else if n \<le> xe_large_max x then Temp_file else Streaming)"

definition select_extractor :: "und_ctx \<Rightarrow> extractor_kind und" where
  "select_extractor c =
     (let mime = py_lower (or_empty (ux_mime c)); name = py_lower (or_empty (ux_file_name c))
      in if contains ''pdf'' mime \<or> ends_any [''.pdf''] name then Inr Pdf_extractor
         else if contains ''wordprocessingml'' mime \<or> ends_any [''.docx''] name then Inr Docx_extractor
         else if is_prefix_of ''text/'' mime \<or> ends_any [''.txt''] name \<or> name = [] then Inr Text_extractor
         else Inl (Other_code ''unsupported_content_type'', False))"

definition storage_error :: "understanding_code \<times> bool" where
  "storage_error = (Other_code ''storage_error'', True)"

definition part_to_row :: "kb_clock \<Rightarrow> und_ctx \<Rightarrow> string \<Rightarrow> nat \<Rightarrow> extract_part \<Rightarrow> extract_row" where
  "part_to_row e c content_id n p = \<lparr>xr_id = new_id e ''und_part'' n, xr_content_id = content_id, xr_job = ux_job c,
     xr_kb = ux_kb c, xr_item = ux_item c, xr_part = p\<rparr>"

definition part_rows :: "kb_clock \<Rightarrow> und_ctx \<Rightarrow> string \<Rightarrow> extract_part list \<Rightarrow> nat \<Rightarrow> extract_row list" where
  "part_rows e c content_id ps n = map (\<lambda>(i, p). part_to_row e c content_id i p) (zip [n..<n + length ps] ps)"

definition drew :: "nat \<Rightarrow> kb_db \<Rightarrow> kb_db" where
  "drew n d = d\<lparr>kd_next := kd_next d + n\<rparr>"

definition handle_event :: "kb_clock \<Rightarrow> und_ctx \<Rightarrow> string \<Rightarrow> extract_event \<Rightarrow> kb_db \<Rightarrow> kb_db" where
  "handle_event e c content_id ev d =
     (case ev of
        Parts_batch ps \<Rightarrow> bulk_insert_parts (part_rows e c content_id ps (kd_next d)) (drew (length ps) d)
      | Progress p \<Rightarrow> update_extract_progress (ux_job c) p d)"

definition content_row_of :: "und_ctx \<Rightarrow> string \<Rightarrow> extract_result \<Rightarrow> content_row" where
  "content_row_of c content_id r = \<lparr>ec_id = content_id, ec_job = ux_job c, ec_item = ux_item c, ec_kb = ux_kb c, ec_raw_ref = ux_raw_ref c,
     ec_mime = (case er_mime r of None \<Rightarrow> ux_mime c | Some [] \<Rightarrow> ux_mime c | m \<Rightarrow> m), ec_total_chars = er_total_chars r,
     ec_text_parts = er_text_parts r, ec_table_parts = er_table_parts r, ec_ocr_text_parts = er_ocr_text_parts r, ec_status = er_status r\<rparr>"

definition initial_content :: "und_ctx \<Rightarrow> string \<Rightarrow> content_row" where
  "initial_content c content_id = content_row_of c content_id \<lparr>er_parts = [], er_total_chars = 0, er_status = ''processing'', er_mime = ux_mime c,
     er_streaming = True, er_text_parts = 0, er_table_parts = 0, er_ocr_text_parts = 0\<rparr>"

definition usable_text :: "extract_part list \<Rightarrow> string" where
  "usable_text ps = join_with [newline, newline]
     (filter (\<lambda>t. t \<noteq> []) (map (\<lambda>p. py_strip (or_empty (xd_text p))) (filter (\<lambda>p. xd_type p \<in> set normalizable_types) ps)))"

text \<open>\<open>ValidateExtractedContent\<close> and the check of the status behind it.\<close>

definition validate_extracted :: "extract_result \<Rightarrow> unit und" where
  "validate_extracted r =
     (if er_text_parts r + er_table_parts r + er_ocr_text_parts r = 0 \<and> py_strip (usable_text (er_parts r)) = []
      then Inl (Other_code ''empty_content'', False)
      else if er_status r = ''failed'' then Inl (Other_code ''empty_content'', False) else Inr ())"

definition run_extractor :: "kb_clock \<Rightarrow> extract_env \<Rightarrow> und_ctx \<Rightarrow> extractor_kind \<Rightarrow> bool \<Rightarrow> string \<Rightarrow> kb_db \<Rightarrow> extract_result und \<times> kb_db" where
  "run_extractor e x c kind in_memory content_id d =
     (case xe_read x (ux_raw_ref c) of
        None \<Rightarrow> (Inl storage_error, d)
      | Some bytes \<Rightarrow>
          if in_memory then (snd (xe_extract x kind False bytes (ux_mime c)), d)
          else (let (evs, r) = xe_extract x kind True bytes (ux_mime c)
                in (r, fold (handle_event e c content_id) evs (begin_extract (ux_item c) (initial_content c content_id) d))))"

definition store_extracted :: "kb_clock \<Rightarrow> und_ctx \<Rightarrow> string \<Rightarrow> extract_result \<Rightarrow> kb_db \<Rightarrow> kb_db" where
  "store_extracted e c content_id r d =
     (if \<not> er_streaming r
      then replace_extracted_with_parts (ux_item c) (content_row_of c content_id r) (part_rows e c content_id (er_parts r) (kd_next d))
             (drew (length (er_parts r)) d)
      else finalize_extract content_id (\<lambda>row. row\<lparr>ec_total_chars := er_total_chars r, ec_text_parts := er_text_parts r,
             ec_table_parts := er_table_parts r, ec_ocr_text_parts := er_ocr_text_parts r, ec_status := er_status r\<rparr>) d)"

definition extract_run :: "kb_clock \<Rightarrow> extract_env \<Rightarrow> und_ctx \<Rightarrow> kb_db \<Rightarrow> extract_result und \<times> kb_db" where
  "extract_run e x c d =
     (case xe_size x (ux_raw_ref c) of
        None \<Rightarrow> (Inl storage_error, d)
      | Some n \<Rightarrow>
          (let strategy = resolve_extract_strategy x n
           in if strategy = Rejected_too_large then (Inl (Other_code ''file_rejected'', False), d)
              else (case select_extractor c of
                      Inl err \<Rightarrow> (Inl err, d)
                    | Inr kind \<Rightarrow>
                        (let content_id = new_id e ''und_extract'' (kd_next d)
                         in case run_extractor e x c kind (strategy = In_memory) content_id (drew 1 d) of
                              (Inl err, d1) \<Rightarrow> (Inl err, d1)
                            | (Inr r, d1) \<Rightarrow> (case validate_extracted r of
                                               Inl err \<Rightarrow> (Inl err, d1)
                                             | Inr _ \<Rightarrow> (Inr r, store_extracted e c content_id r d1))))))"

section \<open>Plain text\<close>

text \<open>
  \<open>ManualTextExtractorAdapter\<close> on bytes that are their own decoding. The reported counts are those of the
  single part, which is there when the text is not blank.
\<close>

definition manual_text_extract :: "nat \<Rightarrow> nat \<Rightarrow> bool \<Rightarrow> string \<Rightarrow> string option \<Rightarrow> extract_event list \<times> extract_result und" where
  "manual_text_extract file_max part_max streaming bytes mime =
     (if file_max < length bytes then ([], Inl (Other_code ''file_too_large'', False))
      else if part_max < length bytes then ([], Inl (Other_code ''part_too_large'', False))
      else (let ps = (if py_strip bytes = [] then [] else [\<lparr>xd_type = ''TEXT'', xd_page = Some 1, xd_index = 0, xd_text = Some bytes,
                        xd_char_count = length bytes, xd_status = ''completed'', xd_metadata = JObj [(''source'', JStr ''plain_text'')]\<rparr>])
            in (if streaming \<and> ps \<noteq> [] then [Parts_batch ps] else [],
                Inr \<lparr>er_parts = (if streaming then [] else ps), er_total_chars = (if ps = [] then 0 else length bytes),
                     er_status = (if ps = [] then ''failed'' else ''completed''),
                     er_mime = (if or_empty mime = [] then Some ''text/plain'' else mime), er_streaming = streaming,
                     er_text_parts = length ps, er_table_parts = 0, er_ocr_text_parts = 0\<rparr>)))"

section \<open>Normalization\<close>

definition downstream_keys :: "string list" where
  "downstream_keys = [''source'', ''document_order'', ''page_number'', ''part_index'', ''part_type'', ''block_kind'', ''style_name'',
     ''style_id'', ''heading_level'', ''heading_path'', ''heading_levels'', ''current_section_title'', ''is_heading'', ''is_list'',
     ''list_level'', ''numbering_id'', ''numbering_level'', ''list_marker'', ''runs'', ''bbox'', ''font_names'', ''font_sizes'',
     ''dominant_font_size'', ''is_bold_guess'', ''is_heading_guess'', ''heading_confidence'', ''is_header_candidate'',
     ''is_footer_candidate'', ''header_footer_confidence'', ''table_index'', ''row_count'', ''column_count'', ''headers'', ''rows'',
     ''ocr_engine'', ''ocr_language'', ''ocr_confidence'', ''is_from_ocr'', ''layout_order'', ''section_index'']"

definition style_keys :: "string list" where
  "style_keys = [''style_name'', ''style_id'', ''heading_level'', ''font_names'', ''font_sizes'', ''is_bold_guess'', ''is_heading_guess'']"

definition layout_keys :: "string list" where
  "layout_keys = [''bbox'', ''layout_order'', ''header_footer_confidence'', ''is_header_candidate'', ''is_footer_candidate'', ''heading_confidence'']"

text \<open>The entries of a dict under the given keys, in the order of the keys.\<close>

definition picked :: "string list \<Rightarrow> (string \<times> json) list \<Rightarrow> (string \<times> json) list" where
  "picked ks kvs = List.map_filter (\<lambda>k. map_option (\<lambda>v. (k, v)) (map_of kvs k)) ks"

definition add_missing :: "(string \<times> json) list \<Rightarrow> (string \<times> json) list \<Rightarrow> (string \<times> json) list" where
  "add_missing extra kvs = fold (\<lambda>(k, v). kv_setdefault k v) extra kvs"

definition jmax :: "json list \<Rightarrow> json" where
  "jmax xs = (if xs = [] then JNull else JInt (Max (set (map jint xs))))"

definition slim_metadata :: "(string \<times> json) list \<Rightarrow> (string \<times> json) list" where
  "slim_metadata m =
     (let s = picked downstream_keys m;
          s = add_missing (picked style_keys (jitems (jget ''style'' (JObj m)))) s;
          s = add_missing (picked layout_keys (jitems (jget ''layout'' (JObj m)))) s;
          sizes = jget ''font_sizes'' (JObj m);
          s = add_missing [(''bbox'', jget ''bbox'' (JObj m)), (''font_names'', jor (jget ''font_names'' (JObj m)) (JArr [])),
                (''font_sizes'', jor sizes (JArr [])),
                (''dominant_font_size'', if jtruthy sizes then jmax (j_list sizes) else jget ''dominant_font_size'' (JObj m))] s
      in if is_ocr_source (JObj m) then kv_setdefault ''is_from_ocr'' (JBool True) s else s)"

definition normalized_metadata :: "extract_row \<Rightarrow> json" where
  "normalized_metadata r =
     (let m = slim_metadata (jitems (xd_metadata (xr_part r)));
          m = kv_set ''source_part_id'' (JStr (xr_id r)) m;
          m = kv_set ''part_type'' (JStr (xd_type (xr_part r))) m;
          m = kv_set ''page_number'' (j_opt_int (xd_page (xr_part r))) m;
          m = kv_set ''part_index'' (JInt (xd_index (xr_part r))) m
      in JObj (if is_ocr_source (JObj m) then kv_set ''is_from_ocr'' (JBool True) m else m))"

definition document_order_of :: "extract_row \<Rightarrow> int option" where
  "document_order_of r = (case jget ''document_order'' (xd_metadata (xr_part r)) of
     JNull \<Rightarrow> Some (xd_index (xr_part r)) | v \<Rightarrow> j_int_opt v)"

definition to_norm_row :: "kb_clock \<Rightarrow> und_ctx \<Rightarrow> string \<Rightarrow> nat \<Rightarrow> extract_row \<Rightarrow> string \<Rightarrow> norm_row" where
  "to_norm_row e c content_id n r t = \<lparr>nr_id = new_id e ''und_norm_part'' n, nr_content_id = content_id, nr_source_part_id = xr_id r,
     nr_job = ux_job c, nr_item = ux_item c, nr_kb = ux_kb c, nr_type = xd_type (xr_part r), nr_text = t,
     nr_page = xd_page (xr_part r), nr_index = xd_index (xr_part r), nr_order = document_order_of r,
     nr_metadata = normalized_metadata r, nr_status = ''completed''\<rparr>"

text \<open>The rows of a batch; a part without text after the clean-up is skipped.\<close>

fun normalized_batch :: "kb_clock \<Rightarrow> und_ctx \<Rightarrow> string \<Rightarrow> nat \<Rightarrow> extract_row list \<Rightarrow> norm_row list" where
  "normalized_batch e c content_id n [] = []"
| "normalized_batch e c content_id n (r # rs) =
     (let t = normalize_part_text (or_empty (xd_text (xr_part r)))
      in if py_strip t = [] then normalized_batch e c content_id n rs
         else to_norm_row e c content_id n r t # normalized_batch e c content_id (Suc n) rs)"

definition normalize_batch :: "kb_clock \<Rightarrow> und_ctx \<Rightarrow> string \<Rightarrow> extract_row list \<Rightarrow> nat \<times> nat \<times> kb_db \<Rightarrow> nat \<times> nat \<times> kb_db" where
  "normalize_batch e c content_id rows = (\<lambda>(parts, chars, d).
     (let out = normalized_batch e c content_id (kd_next d) rows
      in (parts + length out, chars + sum_list (map (\<lambda>r. length (nr_text r)) out),
          bulk_insert_normalized_parts out (drew (length out) d))))"

record norm_result =
  no_content_id :: string
  no_status :: string
  no_part_count :: nat
  no_total_chars :: nat

definition normalize_run :: "kb_clock \<Rightarrow> nat \<Rightarrow> und_ctx \<Rightarrow> kb_db \<Rightarrow> norm_result und \<times> kb_db" where
  "normalize_run e batch_size c d =
     (let d1 = delete_normalized (ux_item c) d;
          content_id = new_id e ''und_norm'' (kd_next d1);
          d2 = create_normalized_summary \<lparr>nc_id = content_id, nc_job = ux_job c, nc_item = ux_item c, nc_kb = ux_kb c,
                 nc_status = ''processing'', nc_part_count = 0, nc_total_chars = 0\<rparr> (drew 1 d1);
          (parts, chars, d3) = fold (normalize_batch e c content_id) (batches batch_size (normalizable_parts (ux_item c) d2)) (0, 0, d2);
          status = (if parts = 0 then ''failed'' else ''completed'');
          d4 = finalize_normalized_summary content_id
                 (\<lambda>r. r\<lparr>nc_status := status, nc_part_count := parts, nc_total_chars := chars\<rparr>) d3
      in (if parts = 0 then Inl (NORMALIZATION_FAILED, False)
          else Inr \<lparr>no_content_id = content_id, no_status = status, no_part_count = parts, no_total_chars = chars\<rparr>, d4))"

section \<open>Chunking\<close>

definition to_norm_part :: "norm_row \<Rightarrow> norm_part" where
  "to_norm_part r = \<lparr>np_id = Some (nr_id r), np_text = nr_text r, np_part_type = JStr (nr_type r), np_page_number = nr_page r,
     np_part_index = JInt (nr_index r), np_document_order = j_opt_int (nr_order r), np_source_part_id = Some (nr_source_part_id r),
     np_metadata = nr_metadata r\<rparr>"

definition chunk_to_row :: "und_ctx \<Rightarrow> nat \<Rightarrow> chunk \<Rightarrow> chunk_row" where
  "chunk_to_row c version k = \<lparr>ch_job = ux_job c, ch_document = ux_item c, ch_source = ux_raw_ref c, ch_kb = ux_kb c,
     ch_version = version, ch_created_by = ux_created_by c, ch_chunk = k,
     ch_metadata = JObj (fold (\<lambda>(i, v). kv_set i v) (jitems (kc_metadata k))
       [(''title'', JStr (ux_title c)), (''content_hash'', j_opt (ux_content_hash c))])\<rparr>"

text \<open>The chunker's identifiers continue the counter of the tables.\<close>

definition chunk_run :: "kb_clock \<Rightarrow> chunk_env \<Rightarrow> und_ctx \<Rightarrow> kb_db \<Rightarrow> chunk list und \<times> kb_db" where
  "chunk_run e k c d =
     (case chunk_content (k\<lparr>ck_new_id := (\<lambda>i. new_id e ''chunk'' (kd_next d + i))\<rparr>) (ux_item c)
             (map to_norm_part (normalized_parts (ux_item c) d)) [] [] of
        Inl code \<Rightarrow> (Inl (code, False), d)
      | Inr ks \<Rightarrow> (Inr ks, replace_for_document (ux_item c) (map (chunk_to_row c (max_version (ux_item c) d + 1)) ks) (drew (length ks) d)))"

section \<open>Validation\<close>

definition checklist :: "bool \<Rightarrow> nat \<Rightarrow> bool \<Rightarrow> nat \<Rightarrow> nat \<Rightarrow> nat \<Rightarrow> (string \<times> bool) list" where
  "checklist has_extracted usable has_summary normalized chunks sourced =
     [(''extracted_content'', has_extracted), (''usable_parts'', 0 < usable), (''normalized_summary'', has_summary),
      (''normalized_parts'', 0 < normalized), (''chunks'', 0 < chunks), (''source_link'', 0 < chunks \<and> sourced = chunks)]"

definition missing_of :: "(string \<times> bool) list \<Rightarrow> string list" where
  "missing_of cl = map fst (filter (\<lambda>x. \<not> snd x) cl)"

definition validate_run :: "und_ctx \<Rightarrow> kb_db \<Rightarrow> und_status \<times> string list" where
  "validate_run c d =
     (let chunks = list_for_document (ux_item c) d;
          cl = checklist (get_extracted (ux_item c) d \<noteq> None) (count_usable_parts (ux_item c) d) (get_normalized (ux_item c) d \<noteq> None)
                 (count_normalized_parts (ux_item c) d) (length chunks) (length (filter (\<lambda>r. py_strip (ch_source r) \<noteq> []) chunks));
          missing = missing_of cl
      in (if missing = [] then U_ready
          else if ''chunks'' \<notin> set missing \<and> ''source_link'' \<notin> set missing then U_partial else U_failed, missing))"

end
