(* ===== verification/KbPipeline.thy ===== *)
theory KbPipeline
  imports KbSteps
begin

text \<open>
  The understanding of an ingest item from request to result: starting a job
  (\<open>StartUnderstandingService.py\<close>), the pipeline (\<open>UnderstandingPipelineService.py\<close>), the handler of the
  request event (\<open>understanding_requested_handler.py\<close>), the retry (\<open>RetryUnderstandingService.py\<close>), and
  the events they put into the outbox. The processing flow's own log is left out; the reader of
  ingest items is an argument.
\<close>

record item_snapshot =
  is_raw_ref :: "string option"
  is_mime :: "string option"
  is_input_type :: string
  is_file_name :: "string option"
  is_title :: string
  is_content_hash :: "string option"

record kb_env =
  ke_clock :: kb_clock
  ke_extract :: extract_env
  ke_batch_size :: nat
  ke_chunk :: chunk_env
  ke_item :: "string \<Rightarrow> item_snapshot option"
  ke_channel :: "channel_env option"

record kb_state =
  ks_db :: kb_db
  ks_outbox :: outbox_db

definition understanding_code_value :: "understanding_code \<Rightarrow> string" where
  "understanding_code_value k = (case k of CHUNKING_FAILED \<Rightarrow> ''chunking_failed'' | NO_CHUNKS \<Rightarrow> ''no_chunks''
     | NORMALIZATION_FAILED \<Rightarrow> ''normalization_failed'' | VALIDATION_FAILED \<Rightarrow> ''validation_failed''
     | JOB_ALREADY_RUNNING \<Rightarrow> ''job_already_running'' | JOB_NOT_RETRYABLE \<Rightarrow> ''job_not_retryable'' | JOB_NOT_FOUND \<Rightarrow> ''job_not_found''
     | ITEM_NOT_FOUND \<Rightarrow> ''item_not_found'' | RAW_REF_MISSING \<Rightarrow> ''raw_ref_missing'' | INTERNAL_ERROR \<Rightarrow> ''internal_error''
     | Other_code s \<Rightarrow> s)"

section \<open>Events\<close>

text \<open>\<open>tenant_slug or "_"\<close>\<close>

definition slug_part :: "string option \<Rightarrow> string" where
  "slug_part t = (if or_empty t = [] then ''_'' else or_empty t)"

definition DISCOVERY_REQUESTED :: string where "DISCOVERY_REQUESTED = ''kb.discovery_requested''"
definition UNDERSTANDING_REQUESTED :: string where "UNDERSTANDING_REQUESTED = ''kb.understanding_requested''"
definition UNDERSTANDING_FAILED :: string where "UNDERSTANDING_FAILED = ''kb.understanding_failed''"

definition discovery_key :: "string option \<Rightarrow> string \<Rightarrow> string" where
  "discovery_key tenant job = DISCOVERY_REQUESTED @ '':'' @ slug_part tenant @ '':'' @ job"

definition enqueue_discovery_requested :: "channel_env option \<Rightarrow> und_ctx \<Rightarrow> outbox_db \<Rightarrow> unit res \<times> outbox_db" where
  "enqueue_discovery_requested ch c = enqueue_job ch DISCOVERY_REQUESTED
     (JObj [(''tenant_slug'', j_opt (ux_tenant c)), (''knowledge_base_id'', JStr (ux_kb c)), (''training_batch_id'', JStr (ux_batch c)),
       (''training_item_id'', JStr (ux_item c)), (''understanding_job_id'', JStr (ux_job c)), (''created_by'', j_opt_int (ux_created_by c))])
     (Some (discovery_key (ux_tenant c) (ux_job c)))"

text \<open>
  \<open>add_understanding_failed_event\<close> takes exactly these keyword arguments; a call with others raises a
  \<open>TypeError\<close> before anything happens.
\<close>

definition failed_event_params :: "string list" where
  "failed_event_params = [''tenant_slug'', ''job_id'', ''training_item_id'', ''knowledge_base_id'', ''status'', ''error_code'']"

definition add_understanding_failed_event :: "channel_env option \<Rightarrow> (string \<times> json) list \<Rightarrow> outbox_db \<Rightarrow> unit res \<times> outbox_db" where
  "add_understanding_failed_event ch kwargs db =
     (if set (map fst kwargs) \<noteq> set failed_event_params
      then (Inl (OtherError ''TypeError: add_understanding_failed_event() got an unexpected keyword argument''), db)
      else enqueue_job ch UNDERSTANDING_FAILED
             (JObj [(''tenant_slug'', jget ''tenant_slug'' (JObj kwargs)), (''understanding_job_id'', jget ''job_id'' (JObj kwargs)),
               (''training_item_id'', jget ''training_item_id'' (JObj kwargs)), (''knowledge_base_id'', jget ''knowledge_base_id'' (JObj kwargs)),
               (''status'', jget ''status'' (JObj kwargs)), (''error_code'', jget ''error_code'' (JObj kwargs))])
             (Some (UNDERSTANDING_FAILED @ '':'' @ slug_part (str_or_none (jget ''tenant_slug'' (JObj kwargs))) @ '':''
               @ jstr (jget ''job_id'' (JObj kwargs)))) db)"

definition failed_kwargs :: "und_ctx \<Rightarrow> und_status \<Rightarrow> understanding_code \<Rightarrow> (string \<times> json) list" where
  "failed_kwargs c s code = [(''tenant_slug'', j_opt (ux_tenant c)), (''job_id'', JStr (ux_job c)), (''training_item_id'', JStr (ux_item c)),
     (''knowledge_base_id'', JStr (ux_kb c)), (''training_batch_id'', JStr (ux_batch c)), (''created_by'', j_opt_int (ux_created_by c)),
     (''status'', JStr (und_status_value s)), (''error_code'', JStr (understanding_code_value code))]"

definition safe_emit :: "(outbox_db \<Rightarrow> unit res \<times> outbox_db) \<Rightarrow> kb_state \<Rightarrow> kb_state" where
  "safe_emit emit st = st\<lparr>ks_outbox := snd (emit (ks_outbox st))\<rparr>"

definition on_db :: "(kb_db \<Rightarrow> kb_db) \<Rightarrow> kb_state \<Rightarrow> kb_state" where
  "on_db f st = st\<lparr>ks_db := f (ks_db st)\<rparr>"

section \<open>The pipeline\<close>

definition run_step :: "kb_env \<Rightarrow> und_ctx \<Rightarrow> und_status \<Rightarrow> (kb_db \<Rightarrow> 'a und \<times> kb_db) \<Rightarrow> kb_db \<Rightarrow> 'a und \<times> kb_db" where
  "run_step e c s action d = action (set_status (ke_clock e) (ux_job c) s d)"

definition pipeline_fail :: "kb_env \<Rightarrow> und_ctx \<Rightarrow> understanding_code \<times> bool \<Rightarrow> kb_state \<Rightarrow> und_status \<times> kb_state" where
  "pipeline_fail e c err st =
     (let (code, retryable) = err; s = (if retryable then U_retryable else U_failed);
          st1 = on_db (job_failed (ke_clock e) (ux_job c) s code (understanding_code_value code) retryable) st
      in (s, safe_emit (add_understanding_failed_event (ke_channel e) (failed_kwargs c s code)) st1))"

definition pipeline_steps :: "kb_env \<Rightarrow> und_ctx \<Rightarrow> kb_db \<Rightarrow> (und_status \<times> string list) und \<times> kb_db" where
  "pipeline_steps e c d =
     (case run_step e c U_extracting (extract_run (ke_clock e) (ke_extract e) c) d of
        (Inl err, d1) \<Rightarrow> (Inl err, d1)
      | (Inr _, d1) \<Rightarrow>
     (case run_step e c U_normalizing (normalize_run (ke_clock e) (ke_batch_size e) c) d1 of
        (Inl err, d2) \<Rightarrow> (Inl err, d2)
      | (Inr _, d2) \<Rightarrow>
     (case run_step e c U_chunking (chunk_run (ke_clock e) (ke_chunk e) c) d2 of
        (Inl err, d3) \<Rightarrow> (Inl err, d3)
      | (Inr _, d3) \<Rightarrow> run_step e c U_validating (\<lambda>d4. (Inr (validate_run c d4), d4)) d3)))"

definition missing_message :: "string list \<Rightarrow> string" where
  "missing_message missing = ''missing: '' @ join_with '', '' missing"

definition pipeline_run :: "kb_env \<Rightarrow> und_ctx \<Rightarrow> kb_state \<Rightarrow> und_status \<times> kb_state" where
  "pipeline_run e c st =
     (let (r, d) = pipeline_steps e c (ks_db st); st1 = st\<lparr>ks_db := d\<rparr>
      in case r of
           Inl err \<Rightarrow> pipeline_fail e c err st1
         | Inr (s, missing) \<Rightarrow>
             if s = U_failed
             then (U_failed, safe_emit (add_understanding_failed_event (ke_channel e) (failed_kwargs c U_failed VALIDATION_FAILED))
                     (on_db (job_failed (ke_clock e) (ux_job c) U_failed VALIDATION_FAILED (missing_message missing) False) st1))
             else (s, safe_emit (enqueue_discovery_requested (ke_channel e) c) (on_db (job_completed (ke_clock e) (ux_job c) s) st1)))"

section \<open>Starting\<close>

definition ctx_of :: "und_job \<Rightarrow> string \<Rightarrow> string \<Rightarrow> string \<Rightarrow> string option \<Rightarrow> int option \<Rightarrow> string \<Rightarrow> item_snapshot \<Rightarrow> und_ctx" where
  "ctx_of j item batch kb tenant created_by raw_ref snap = \<lparr>ux_job = uj_id j, ux_item = item, ux_batch = batch, ux_kb = kb,
     ux_tenant = tenant, ux_created_by = created_by, ux_raw_ref = raw_ref, ux_mime = is_mime snap, ux_source_type = is_input_type snap,
     ux_file_name = is_file_name snap, ux_title = is_title snap, ux_content_hash = is_content_hash snap\<rparr>"

definition start_fresh ::
  "kb_env \<Rightarrow> string \<Rightarrow> string \<Rightarrow> string \<Rightarrow> int option \<Rightarrow> item_snapshot \<Rightarrow> kb_db \<Rightarrow> und_job und \<times> kb_db" where
  "start_fresh e item batch kb created_by snap d =
     (if has_active_job item d then (Inl (JOB_ALREADY_RUNNING, False), d)
      else (let (j, d1) = create_job (ke_clock e) item batch kb created_by
                  (JObj [(''mime_type'', j_opt (is_mime snap)), (''input_type'', JStr (is_input_type snap))]) d
            in (Inr j, set_status (ke_clock e) (uj_id j) U_queued d1)))"

text \<open>A job put back into the queue by a retry is taken up again.\<close>

definition start_understanding ::
  "kb_env \<Rightarrow> string \<Rightarrow> string \<Rightarrow> string \<Rightarrow> string option \<Rightarrow> int option \<Rightarrow> kb_db \<Rightarrow> und_ctx und \<times> kb_db" where
  "start_understanding e item batch kb tenant created_by d =
     (case ke_item e item of
        None \<Rightarrow> (Inl (ITEM_NOT_FOUND, False), d)
      | Some snap \<Rightarrow>
          (let raw_ref = py_strip (or_empty (is_raw_ref snap))
           in if raw_ref = [] then (Inl (RAW_REF_MISSING, False), d)
              else (case (case latest_job item d of
                            Some j \<Rightarrow> if uj_status j = U_queued then (Inr j, d) else start_fresh e item batch kb created_by snap d
                          | None \<Rightarrow> start_fresh e item batch kb created_by snap d) of
                      (Inl err, d1) \<Rightarrow> (Inl err, d1)
                    | (Inr j, d1) \<Rightarrow> (Inr (ctx_of j item batch kb tenant created_by raw_ref snap), d1))))"

section \<open>The handler of the request\<close>

definition payload_text :: "string \<Rightarrow> json \<Rightarrow> string" where
  "payload_text k payload = py_strip (jstr (jget k payload))"

text \<open>A message that is not raised again is acknowledged by the worker; an error here is one the worker retries.\<close>

definition handle_requested :: "kb_env \<Rightarrow> json \<Rightarrow> kb_state \<Rightarrow> unit und \<times> kb_state" where
  "handle_requested e payload st =
     (let item = payload_text ''training_item_id'' payload; batch = payload_text ''training_batch_id'' payload;
          kb = payload_text ''knowledge_base_id'' payload
      in if item = [] \<or> batch = [] \<or> kb = [] then (Inr (), st)
         else (case start_understanding e item batch kb (str_or_none (jget ''tenant_slug'' payload)) (j_int_opt (jget ''created_by'' payload)) (ks_db st) of
                 (Inl (code, retryable), d) \<Rightarrow>
                   (if code = ITEM_NOT_FOUND \<or> code = JOB_ALREADY_RUNNING then Inr () else Inl (code, retryable), st\<lparr>ks_db := d\<rparr>)
               | (Inr c, d) \<Rightarrow> (Inr (), snd (pipeline_run e c (st\<lparr>ks_db := d\<rparr>)))))"

section \<open>Retry\<close>

definition retry_key :: "string option \<Rightarrow> string \<Rightarrow> int \<Rightarrow> string" where
  "retry_key tenant item n = UNDERSTANDING_REQUESTED @ '':'' @ slug_part tenant @ '':'' @ item @ '':retry:'' @ show_int n"

definition add_retry_event :: "channel_env option \<Rightarrow> string option \<Rightarrow> und_job \<Rightarrow> string \<Rightarrow> string \<Rightarrow> int \<Rightarrow> outbox_db \<Rightarrow> unit res \<times> outbox_db" where
  "add_retry_event ch tenant j item kb n = enqueue_job ch UNDERSTANDING_REQUESTED
     (JObj [(''tenant_slug'', j_opt tenant), (''training_batch_id'', JStr (uj_batch j)), (''training_item_id'', JStr item),
       (''knowledge_base_id'', JStr kb), (''created_by'', j_opt_int (uj_created_by j))])
     (Some (retry_key tenant item n))"

text \<open>The first component is an error with a code, an error of the job queue, or the job as it is afterwards.\<close>

definition retry_understanding ::
  "kb_env \<Rightarrow> string \<Rightarrow> string \<Rightarrow> string option \<Rightarrow> bool \<Rightarrow> kb_state \<Rightarrow> (understanding_code + und_job res) \<times> kb_state" where
  "retry_understanding e kb item tenant force st =
     (case latest_job item (ks_db st) of
        None \<Rightarrow> (Inl JOB_NOT_FOUND, st)
      | Some j \<Rightarrow>
          if uj_kb j \<noteq> kb then (Inl JOB_NOT_FOUND, st)
          else if uj_status j \<noteq> U_retryable \<and> uj_status j \<noteq> U_failed \<and> \<not> (force \<and> uj_status j \<in> und_terminal)
          then (Inl JOB_NOT_RETRYABLE, st)
          else (let d1 = increment_retry (uj_id j) (ks_db st);
                    refreshed = get_job (uj_id j) d1;
                    n = (case refreshed of None \<Rightarrow> 0 | Some r \<Rightarrow> uj_retry_count r);
                    (r, ob) = add_retry_event (ke_channel e) tenant j item kb n (ks_outbox st)
                in (Inr (case r of Inl x \<Rightarrow> Inl x | Inr _ \<Rightarrow> Inr (case refreshed of None \<Rightarrow> j | Some r \<Rightarrow> r)),
                    \<lparr>ks_db = d1, ks_outbox = ob\<rparr>)))"

end
