(* ===== verification/KbJobs.thy ===== *)
theory KbJobs
  imports KbPipeline
begin

text \<open>
  The life of understanding jobs: what the steps of the pipeline may do to the table of jobs, the calls a
  tenant's jobs are subject to (a request, a request whose process dies on the way, a retry) as a step
  relation, and the invariant of the table.
\<close>

section \<open>What a step does to the jobs\<close>

definition job_key :: "und_job \<Rightarrow> string \<times> string \<times> string \<times> string \<times> int option \<times> pydatetime" where
  "job_key j = (uj_id j, uj_item j, uj_batch j, uj_kb j, uj_created_by j, uj_created_at j)"

definition touches :: "string \<Rightarrow> kb_db \<Rightarrow> kb_db \<Rightarrow> bool" where
  "touches i d d' = (kd_next d \<le> kd_next d' \<and> (\<exists>g. (\<forall>j. job_key (g j) = job_key j) \<and> kd_jobs d' = tbl_update (\<lambda>j. uj_id j = i) g (kd_jobs d)))"

text \<open>Only the metadata of the job may change.\<close>

definition quiet :: "string \<Rightarrow> kb_db \<Rightarrow> kb_db \<Rightarrow> bool" where
  "quiet i d d' = (kd_next d \<le> kd_next d' \<and> (\<exists>g. (\<forall>j. job_key (g j) = job_key j \<and> uj_status (g j) = uj_status j)
     \<and> kd_jobs d' = tbl_update (\<lambda>j. uj_id j = i) g (kd_jobs d)))"

lemma key_id: "job_key j = job_key k \<Longrightarrow> uj_id j = uj_id k"
  by (simp add: job_key_def)

lemma update_update: "(\<And>j. uj_id (g j) = uj_id j) \<Longrightarrow>
  tbl_update (\<lambda>j. uj_id j = i) h (tbl_update (\<lambda>j. uj_id j = i) g js) = tbl_update (\<lambda>j. uj_id j = i) (h \<circ> g) js"
  by (auto simp: tbl_update_def)

lemma update_id [simp]: "tbl_update p id rows = rows"
  by (induction rows) (auto simp: tbl_update_def)

lemma touches_refl [simp]: "touches i d d"
  by (auto simp: touches_def intro!: exI[of _ id])

lemma quiet_refl [simp]: "quiet i d d"
  by (auto simp: quiet_def intro!: exI[of _ id])

lemma touches_trans:
  assumes "touches i d d1" "touches i d1 d2"
  shows "touches i d d2"
proof -
  obtain g where g: "\<And>j. job_key (g j) = job_key j" "kd_jobs d1 = tbl_update (\<lambda>j. uj_id j = i) g (kd_jobs d)"
    using assms(1) by (auto simp: touches_def)
  obtain h where h: "\<And>j. job_key (h j) = job_key j" "kd_jobs d2 = tbl_update (\<lambda>j. uj_id j = i) h (kd_jobs d1)"
    using assms(2) by (auto simp: touches_def)
  have "kd_jobs d2 = tbl_update (\<lambda>j. uj_id j = i) (h \<circ> g) (kd_jobs d)"
    unfolding h(2) g(2) by (rule update_update) (rule key_id[OF g(1)])
  then show ?thesis using assms g(1) h(1) by (auto simp: touches_def intro!: exI[of _ "h \<circ> g"])
qed

lemma quiet_trans:
  assumes "quiet i d d1" "quiet i d1 d2"
  shows "quiet i d d2"
proof -
  obtain g where g: "\<And>j. job_key (g j) = job_key j \<and> uj_status (g j) = uj_status j" "kd_jobs d1 = tbl_update (\<lambda>j. uj_id j = i) g (kd_jobs d)"
    using assms(1) by (auto simp: quiet_def)
  obtain h where h: "\<And>j. job_key (h j) = job_key j \<and> uj_status (h j) = uj_status j" "kd_jobs d2 = tbl_update (\<lambda>j. uj_id j = i) h (kd_jobs d1)"
    using assms(2) by (auto simp: quiet_def)
  have "kd_jobs d2 = tbl_update (\<lambda>j. uj_id j = i) (h \<circ> g) (kd_jobs d)"
    unfolding h(2) g(2) by (rule update_update) (rule key_id[OF conjunct1[OF g(1)]])
  then show ?thesis using assms g(1) h(1) by (auto simp: quiet_def intro!: exI[of _ "h \<circ> g"])
qed

lemma quiet_touches: "quiet i d d' \<Longrightarrow> touches i d d'"
  by (auto simp: quiet_def touches_def)

lemma quiet_same: "kd_jobs d' = kd_jobs d \<Longrightarrow> kd_next d \<le> kd_next d' \<Longrightarrow> quiet i d d'"
  by (auto simp: quiet_def intro!: exI[of _ id])

lemma touches_put: "(\<And>j. job_key (f j) = job_key j) \<Longrightarrow> touches i d (job_put i f d)"
  by (auto simp: touches_def job_put_def)

lemma touches_ops [simp]:
  "touches i d (set_status e i s d)" "touches i d (job_completed e i s d)" "touches i d (job_failed e i s k m b d)"
  "touches i d (increment_retry i d)"
  unfolding set_status_def job_completed_def job_failed_def increment_retry_def
  by (intro touches_put; simp add: job_key_def)+

lemma quiet_progress [simp]: "quiet i d (update_extract_progress i p d)"
  by (auto simp: quiet_def update_extract_progress_def job_put_def job_key_def
      intro!: exI[of _ "\<lambda>j. j\<lparr>uj_metadata := JObj (kv_set ''extract_progress'' p (jitems (uj_metadata j)))\<rparr>"])

lemmas content_ops = begin_extract_def bulk_insert_parts_def finalize_extract_def replace_extracted_with_parts_def delete_normalized_def
  create_normalized_summary_def bulk_insert_normalized_parts_def finalize_normalized_summary_def replace_for_document_def drew_def

lemma quiet_event: "quiet (ux_job c) d (handle_event e c cid ev d)"
  by (cases ev) (auto simp: handle_event_def content_ops intro: quiet_same)

lemma quiet_events: "quiet (ux_job c) d (fold (handle_event e c cid) evs d)"
  by (induction evs arbitrary: d) (auto intro: quiet_trans[OF quiet_event])

lemma quiet_run_extractor: "quiet (ux_job c) d (snd (run_extractor e x c kind m cid d))"
proof -
  have "quiet (ux_job c) d (begin_extract item row d)" for item row
    by (rule quiet_same) (simp_all add: content_ops)
  then show ?thesis
    by (auto simp: run_extractor_def split: option.splits prod.splits intro: quiet_trans[OF _ quiet_events])
qed

lemma quiet_extract: "quiet (ux_job c) d (snd (extract_run e x c d))"
proof -
  have store: "quiet (ux_job c) d1 (store_extracted e c cid r d1)" for cid r d1
    by (rule quiet_same) (simp_all add: store_extracted_def content_ops)
  have "quiet (ux_job c) d (drew 1 d)" by (rule quiet_same) (simp_all add: drew_def)
  then have run: "quiet (ux_job c) d (snd (run_extractor e x c kind m cid (drew 1 d)))" for kind m cid
    by (rule quiet_trans) (rule quiet_run_extractor)
  have "quiet (ux_job c) d d1" if "run_extractor e x c kind m cid (drew 1 d) = (r, d1)" for kind m cid r d1
    using run[of kind m cid] that by simp
  then show ?thesis
    by (auto simp: extract_run_def Let_def split: option.splits sum.splits prod.splits intro: quiet_trans[OF _ store])
qed

lemma jobs_normalize_batches:
  "kd_jobs (snd (snd (fold (normalize_batch e c cid) bs acc))) = kd_jobs (snd (snd acc))
   \<and> kd_next (snd (snd acc)) \<le> kd_next (snd (snd (fold (normalize_batch e c cid) bs acc)))"
proof (induction bs arbitrary: acc)
  case (Cons b bs)
  have "kd_jobs (snd (snd (normalize_batch e c cid b acc))) = kd_jobs (snd (snd acc))
    \<and> kd_next (snd (snd acc)) \<le> kd_next (snd (snd (normalize_batch e c cid b acc)))"
    by (auto simp: normalize_batch_def content_ops Let_def split: prod.splits)
  then show ?case using Cons.IH[of "normalize_batch e c cid b acc"] by simp
qed simp

lemma normalize_run_unfold:
  obtains cid d2 parts chars d3 f where
    "kd_jobs d2 = kd_jobs d" "kd_next d \<le> kd_next d2" "kd_parts d2 = kd_parts d"
    "fold (normalize_batch e c cid) (batches n (normalizable_parts (ux_item c) d2)) (0, 0, d2) = (parts, chars, d3)"
    "normalize_run e n c d = (if parts = 0 then Inl (NORMALIZATION_FAILED, False)
       else Inr \<lparr>no_content_id = cid, no_status = ''completed'', no_part_count = parts, no_total_chars = chars\<rparr>,
       finalize_normalized_summary cid f d3)"
    "kd_contents d2 = kd_contents d" "\<exists>r \<in> set (kd_norms d2). nc_item r = ux_item c" "\<And>r. nc_item (f r) = nc_item r"
    "kd_chunks d2 = kd_chunks d"
proof -
  define d1 where "d1 = delete_normalized (ux_item c) d"
  define cid where "cid = new_id e ''und_norm'' (kd_next d1)"
  define d2 where "d2 = create_normalized_summary \<lparr>nc_id = cid, nc_job = ux_job c, nc_item = ux_item c, nc_kb = ux_kb c,
     nc_status = ''processing'', nc_part_count = 0, nc_total_chars = 0\<rparr> (drew 1 d1)"
  obtain parts chars d3 where fold: "fold (normalize_batch e c cid) (batches n (normalizable_parts (ux_item c) d2)) (0, 0, d2) = (parts, chars, d3)"
    by (metis prod_cases3)
  have eq: "normalize_run e n c d = (if parts = 0 then Inl (NORMALIZATION_FAILED, False)
       else Inr \<lparr>no_content_id = cid, no_status = ''completed'', no_part_count = parts, no_total_chars = chars\<rparr>,
       finalize_normalized_summary cid (\<lambda>r. r\<lparr>nc_status := if parts = 0 then ''failed'' else ''completed'',
         nc_part_count := parts, nc_total_chars := chars\<rparr>) d3)"
    using fold unfolding d2_def cid_def d1_def by (simp add: normalize_run_def Let_def)
  show thesis
    by (rule that[OF _ _ _ fold eq]) (auto simp: d2_def d1_def content_ops)
qed

lemma quiet_normalize: "quiet (ux_job c) d (snd (normalize_run e n c d))"
proof -
  obtain cid d2 parts chars d3 f where n: "kd_jobs d2 = kd_jobs d" "kd_next d \<le> kd_next d2"
    "fold (normalize_batch e c cid) (batches n (normalizable_parts (ux_item c) d2)) (0, 0, d2) = (parts, chars, d3)"
    "snd (normalize_run e n c d) = finalize_normalized_summary cid f d3"
    by (rule normalize_run_unfold[of d e c n]) simp
  then show ?thesis
    using jobs_normalize_batches[of e c cid "batches n (normalizable_parts (ux_item c) d2)" "(0, 0, d2)"]
    by (intro quiet_same) (auto simp: content_ops)
qed

lemma quiet_chunk: "quiet (ux_job c) d (snd (chunk_run e k c d))"
  by (rule quiet_same) (auto simp: chunk_run_def content_ops split: sum.splits)

end
