(* ===== verification/KbLife.thy ===== *)
theory KbLife
  imports KbJobs
begin

text \<open>
  The calls the jobs of a tenant are subject to, as a step relation: a request, a request whose process
  dies on the way, a retry. The invariant: at most the latest job of an item is not at its end.
\<close>

section \<open>A process that dies\<close>

text \<open>The tables when the process ends at the beginning of a step; a step that failed before leaves its error unrecorded.\<close>

definition died_in :: "kb_env \<Rightarrow> und_ctx \<Rightarrow> und_status \<Rightarrow> kb_db \<Rightarrow> kb_db" where
  "died_in e c step d =
     (let d0 = set_status (ke_clock e) (ux_job c) U_extracting d
      in if step = U_extracting then d0
         else (case extract_run (ke_clock e) (ke_extract e) c d0 of
                 (Inl err, d1) \<Rightarrow> d1
               | (Inr _, d1) \<Rightarrow>
         (let d1 = set_status (ke_clock e) (ux_job c) U_normalizing d1
          in if step = U_normalizing then d1
             else (case normalize_run (ke_clock e) (ke_batch_size e) c d1 of
                     (Inl err, d2) \<Rightarrow> d2
                   | (Inr _, d2) \<Rightarrow>
             (let d2 = set_status (ke_clock e) (ux_job c) U_chunking d2
              in if step = U_chunking then d2
                 else (case chunk_run (ke_clock e) (ke_chunk e) c d2 of
                         (Inl err, d3) \<Rightarrow> d3
                       | (Inr _, d3) \<Rightarrow> set_status (ke_clock e) (ux_job c) U_validating d3))))))"

definition dies_handling :: "kb_env \<Rightarrow> json \<Rightarrow> und_status \<Rightarrow> kb_state \<Rightarrow> kb_state" where
  "dies_handling e payload step st =
     (let item = payload_text ''training_item_id'' payload; batch = payload_text ''training_batch_id'' payload;
          kb = payload_text ''knowledge_base_id'' payload
      in if item = [] \<or> batch = [] \<or> kb = [] then st
         else (case start_understanding e item batch kb (str_or_none (jget ''tenant_slug'' payload)) (j_int_opt (jget ''created_by'' payload)) (ks_db st) of
                 (Inl err, d) \<Rightarrow> st\<lparr>ks_db := d\<rparr>
               | (Inr c, d) \<Rightarrow> st\<lparr>ks_db := died_in e c step d\<rparr>))"

section \<open>Steps\<close>

text \<open>Calls come in the order of the clock, and all draw identifiers from the same source.\<close>

definition clocked :: "(nat \<Rightarrow> string) \<Rightarrow> kb_env \<Rightarrow> kb_state \<Rightarrow> bool" where
  "clocked u e st = (uc_uuid (ke_clock e) = u \<and> list_all (\<lambda>j. uj_created_at j < uc_now (ke_clock e)) (kd_jobs (ks_db st)))"

inductive kb_step :: "(nat \<Rightarrow> string) \<Rightarrow> kb_state \<Rightarrow> kb_state \<Rightarrow> bool" for u where
  step_request: "clocked u e st \<Longrightarrow> kb_step u st (snd (handle_requested e payload st))"
| step_dies: "clocked u e st \<Longrightarrow> kb_step u st (dies_handling e payload s st)"
| step_retry: "kb_step u st (snd (retry_understanding e kb item tenant force st))"

inductive_cases kb_stepE: "kb_step u st st'"

section \<open>The invariant\<close>

definition before_job :: "und_job \<Rightarrow> und_job \<Rightarrow> bool" where
  "before_job a b = (uj_created_at a < uj_created_at b \<and> uj_id a \<noteq> uj_id b \<and> (uj_item a = uj_item b \<longrightarrow> uj_status a \<in> und_terminal))"

definition issued :: "(nat \<Rightarrow> string) \<Rightarrow> nat \<Rightarrow> string \<Rightarrow> bool" where
  "issued u n i = (\<exists>k < n. i = ''und_job_'' @ u k)"

lemma issued_mono: "issued u m i \<Longrightarrow> m \<le> n \<Longrightarrow> issued u n i"
  by (auto simp: issued_def intro: less_le_trans)

lemma not_issued: "inj u \<Longrightarrow> \<not> issued u n (''und_job_'' @ u n)"
  by (auto simp: issued_def dest: injD)

lemma issued_next: "issued u (Suc n) (''und_job_'' @ u n)"
  by (auto simp: issued_def)

definition jobs_ok :: "(nat \<Rightarrow> string) \<Rightarrow> kb_db \<Rightarrow> bool" where
  "jobs_ok u d = (sorted_wrt before_job (kd_jobs d) \<and> list_all (\<lambda>j. issued u (kd_next d) (uj_id j)) (kd_jobs d))"

definition none_after :: "und_job \<Rightarrow> und_job list \<Rightarrow> bool" where
  "none_after j js = (\<exists>xs ys. js = xs @ j # ys \<and> list_all (\<lambda>k. uj_item k \<noteq> uj_item j) ys)"

lemma fold_newer:
  "sorted_wrt (\<lambda>a b. uj_created_at a < uj_created_at b) (j # js) \<Longrightarrow> fold (\<lambda>b a. newer_job a b) js j = last (j # js)"
proof (induction js arbitrary: j)
  case (Cons k js)
  then have "newer_job j k = k" by (simp add: newer_job_def)
  then show ?case using Cons by simp
qed simp

lemma filter_sorted: "sorted_wrt P xs \<Longrightarrow> sorted_wrt P (filter Q xs)"
  by (induction xs) auto

lemma latest_job_last:
  assumes "sorted_wrt before_job (kd_jobs d)"
  shows "latest_job item d = (let js = filter (\<lambda>j. uj_item j = item) (kd_jobs d) in if js = [] then None else Some (last js))"
proof -
  have "sorted_wrt before_job (filter (\<lambda>j. uj_item j = item) (kd_jobs d))"
    by (rule filter_sorted[OF assms])
  then have "sorted_wrt (\<lambda>a b. uj_created_at a < uj_created_at b) (filter (\<lambda>j. uj_item j = item) (kd_jobs d))"
    by (rule sorted_wrt_mono_rel[rotated]) (simp add: before_job_def)
  then show ?thesis by (auto simp: latest_job_def Let_def fold_newer split: list.split)
qed

lemma latest_none_after:
  assumes "sorted_wrt before_job (kd_jobs d)" "latest_job item d = Some j"
  shows "none_after j (kd_jobs d)" "uj_item j = item" "j \<in> set (kd_jobs d)"
proof -
  define js where "js = filter (\<lambda>j. uj_item j = item) (kd_jobs d)"
  have js: "js \<noteq> []" "j = last js" using assms(2) latest_job_last[OF assms(1), of item] by (auto simp: js_def Let_def split: if_splits)
  then show "uj_item j = item" "j \<in> set (kd_jobs d)" using last_in_set[OF js(1)] by (auto simp: js_def)
  have "\<exists>xs ys. ks = xs @ last (filter P ks) # ys \<and> list_all (\<lambda>k. \<not> P k) ys" if "filter P ks \<noteq> []" for P ks
    using that
  proof (induction ks)
    case (Cons k ks)
    show ?case
    proof (cases "filter P ks = []")
      case True
      then show ?thesis using Cons.prems by (intro exI[of _ "[]"] exI[of _ ks]) (auto simp: filter_empty_conv list_all_iff split: if_splits)
    next
      case False
      then obtain xs ys where "ks = xs @ last (filter P ks) # ys" "list_all (\<lambda>k. \<not> P k) ys" using Cons.IH by auto
      then show ?thesis using False by (intro exI[of _ "k # xs"] exI[of _ ys]) auto
    qed
  qed simp
  from this[of "\<lambda>k. uj_item k = item" "kd_jobs d"] show "none_after j (kd_jobs d)"
    using js \<open>uj_item j = item\<close> by (simp add: js_def none_after_def)
qed

text \<open>A job that is not at its end is the latest of its item.\<close>

lemma active_is_latest:
  assumes "sorted_wrt before_job (kd_jobs d)" "j \<in> set (kd_jobs d)" "uj_status j \<notin> und_terminal"
  shows "latest_job (uj_item j) d = Some j"
proof -
  define js where "js = filter (\<lambda>k. uj_item k = uj_item j) (kd_jobs d)"
  have s: "sorted_wrt before_job js" unfolding js_def by (rule filter_sorted[OF assms(1)])
  have j: "j \<in> set js" using assms(2) by (simp add: js_def)
  then obtain xs ys where xs: "js = xs @ j # ys" by (meson split_list)
  have "ys = []"
  proof (rule ccontr)
    assume "ys \<noteq> []"
    then obtain k where k: "k \<in> set ys" by (meson last_in_set)
    then have "before_job j k" using s xs by (simp add: sorted_wrt_append)
    moreover have "uj_item k = uj_item j" using k xs js_def by (metis (mono_tags, lifting) filter_eq_ConsD in_set_conv_decomp mem_Collect_eq set_filter in_set_conv_decomp_last append_Cons append_assoc)
    ultimately show False using assms(3) by (simp add: before_job_def)
  qed
  then show ?thesis using latest_job_last[OF assms(1), of "uj_item j"] xs by (simp add: js_def[symmetric])
qed

section \<open>The invariant is kept\<close>

text \<open>A job without a later one of its item may be changed at will.\<close>

lemma sorted_update:
  assumes "sorted_wrt before_job js" "none_after j js" "uj_id j = i" "\<And>k. job_key (g k) = job_key k"
  shows "sorted_wrt before_job (tbl_update (\<lambda>k. uj_id k = i) g js)"
proof -
  obtain xs ys where js: "js = xs @ j # ys" "list_all (\<lambda>k. uj_item k \<noteq> uj_item j) ys"
    using assms(2) by (auto simp: none_after_def)
  have other: "uj_id k \<noteq> i" if "k \<in> set xs \<union> set ys" for k
    using that assms(1,3) js(1) by (auto simp: sorted_wrt_append before_job_def)
  have "tbl_update (\<lambda>k. uj_id k = i) g js = xs @ g j # ys"
    using other assms(3) tbl_update_none[of xs "\<lambda>k. uj_id k = i" g] tbl_update_none[of ys "\<lambda>k. uj_id k = i" g]
    by (simp add: js(1) tbl_update_append) (simp add: tbl_update_def)
  moreover have "uj_id (g j) = uj_id j" "uj_item (g j) = uj_item j" "uj_created_at (g j) = uj_created_at j"
    using assms(4)[of j] by (auto simp: job_key_def)
  ultimately show ?thesis using assms(1) js by (auto simp: sorted_wrt_append before_job_def list_all_iff)
qed

lemma jobs_ok_touches:
  assumes "jobs_ok u d" "touches i d d'" "none_after j (kd_jobs d)" "uj_id j = i"
  shows "jobs_ok u d'"
proof -
  obtain g where g: "\<And>k. job_key (g k) = job_key k" "kd_jobs d' = tbl_update (\<lambda>k. uj_id k = i) g (kd_jobs d)" "kd_next d \<le> kd_next d'"
    using assms(2) by (auto simp: touches_def)
  have "list_all (\<lambda>j. issued u (kd_next d') (uj_id j)) (kd_jobs d')"
    using assms(1) issued_mono[OF _ g(3)] key_id[OF g(1)] by (auto simp: jobs_ok_def g(2) list_all_iff tbl_update_def)
  then show ?thesis
    using sorted_update[OF _ assms(3,4) g(1)] assms(1) by (simp add: jobs_ok_def g(2))
qed

lemma jobs_ok_create:
  assumes "jobs_ok u d" "list_all (\<lambda>j. uj_created_at j < uc_now e) (kd_jobs d)" "uc_uuid e = u" "inj u" "\<not> has_active_job item d"
  shows "jobs_ok u (snd (create_job e item batch kb cb m d))" "none_after (fst (create_job e item batch kb cb m d)) (kd_jobs (snd (create_job e item batch kb cb m d)))"
proof -
  have new: "uj_id j \<noteq> ''und_job_'' @ u (kd_next d)" if "j \<in> set (kd_jobs d)" for j
    using that assms(1) not_issued[OF assms(4)] by (auto simp: jobs_ok_def list_all_iff)
  have "list_all (\<lambda>j. issued u (Suc (kd_next d)) (uj_id j)) (kd_jobs d)"
    using assms(1) by (auto simp: jobs_ok_def list_all_iff intro: issued_mono)
  then show "jobs_ok u (snd (create_job e item batch kb cb m d))"
    using assms(1,2,3,5) new issued_next[of u "kd_next d"] by (auto simp: jobs_ok_def create_job_def new_id_def Let_def sorted_wrt_append before_job_def list_all_iff
        has_active_job_def list_ex_iff)
  show "none_after (fst (create_job e item batch kb cb m d)) (kd_jobs (snd (create_job e item batch kb cb m d)))"
    unfolding none_after_def by (rule exI[of _ "kd_jobs d"], rule exI[of _ "[]"]) (simp add: create_job_def Let_def)
qed

text \<open>The identifier belongs to a job that has no later one of its item.\<close>

definition current :: "string \<Rightarrow> kb_db \<Rightarrow> bool" where
  "current i d = (\<exists>j. none_after j (kd_jobs d) \<and> uj_id j = i)"

lemma current_touches: "current i d \<Longrightarrow> touches i d d' \<Longrightarrow> current i d'"
proof -
  assume "current i d" "touches i d d'"
  then obtain j xs ys where j: "uj_id j = i" "kd_jobs d = xs @ j # ys" "list_all (\<lambda>k. uj_item k \<noteq> uj_item j) ys"
    by (auto simp: current_def none_after_def)
  obtain g where g: "\<And>k. job_key (g k) = job_key k" "kd_jobs d' = tbl_update (\<lambda>k. uj_id k = i) g (kd_jobs d)"
    using \<open>touches i d d'\<close> by (auto simp: touches_def)
  have same: "uj_item (g k) = uj_item k" "uj_id (g k) = uj_id k" for k using g(1)[of k] by (auto simp: job_key_def)
  have "kd_jobs d' = tbl_update (\<lambda>k. uj_id k = i) g xs @ g j # tbl_update (\<lambda>k. uj_id k = i) g ys"
    unfolding g(2) j(2) tbl_update_append using j(1) by (simp add: tbl_update_def)
  moreover have "list_all (\<lambda>k. uj_item k \<noteq> uj_item (g j)) (tbl_update (\<lambda>k. uj_id k = i) g ys)"
    using j(3) same by (auto simp: tbl_update_def list_all_iff)
  ultimately have "none_after (g j) (kd_jobs d')" unfolding none_after_def by blast
  then show ?thesis using same(2)[of j] j(1) by (auto simp: current_def)
qed

lemma ok_touches: "jobs_ok u d \<Longrightarrow> current i d \<Longrightarrow> touches i d d' \<Longrightarrow> jobs_ok u d' \<and> current i d'"
  using jobs_ok_touches current_touches by (auto simp: current_def)

lemma current_latest: "jobs_ok u d \<Longrightarrow> latest_job item d = Some j \<Longrightarrow> current (uj_id j) d"
  using latest_none_after(1)[of d item j] by (auto simp: jobs_ok_def current_def)

lemma touches_step: "touches (ux_job c) d (snd (run_step e c s a d))" if "\<And>d. touches (ux_job c) d (snd (a d))"
  unfolding run_step_def by (rule touches_trans[OF touches_ops(1) that])

lemmas touches_steps = touches_step[OF quiet_touches[OF quiet_extract]] touches_step[OF quiet_touches[OF quiet_normalize]]
  touches_step[OF quiet_touches[OF quiet_chunk]]

lemma touches_pipeline_steps: "touches (ux_job c) d (snd (pipeline_steps e c d))"
proof -
  have s: "a d1 = (r, d2) \<Longrightarrow> (\<And>d. touches (ux_job c) d (snd (a d))) \<Longrightarrow> touches (ux_job c) d d1 \<Longrightarrow> touches (ux_job c) d d2"
    for a :: "kb_db \<Rightarrow> 'z und \<times> kb_db" and d1 d2 r
    using touches_trans[of "ux_job c" d d1 d2] by (metis snd_conv)
  have v: "touches (ux_job c) d1 (snd (run_step e c U_validating (\<lambda>d4. (Inr (validate_run c d4), d4)) d1))" for d1
    by (rule touches_step) simp
  show ?thesis
    unfolding pipeline_steps_def
    using touches_steps[of c _ e]
    by (auto split: prod.splits sum.splits intro!: touches_trans[OF _ v] dest!: s[OF _ touches_steps(1)] s[OF _ touches_steps(2)] s[OF _ touches_steps(3)])
qed

lemma fail_db: "ks_db (snd (pipeline_fail e c err st)) =
    job_failed (ke_clock e) (ux_job c) (if snd err then U_retryable else U_failed) (fst err) (understanding_code_value (fst err)) (snd err) (ks_db st)"
  by (cases err) (simp add: pipeline_fail_def Let_def safe_emit_def on_db_def)

lemma touches_pipeline: "touches (ux_job c) (ks_db st) (ks_db (snd (pipeline_run e c st)))"
proof -
  obtain r d where r: "pipeline_steps e c (ks_db st) = (r, d)" by force
  have d: "touches (ux_job c) (ks_db st) d" using touches_pipeline_steps[of c "ks_db st" e] r by simp
  show ?thesis
    unfolding pipeline_run_def r
    by (auto simp: Let_def fail_db safe_emit_def on_db_def split: sum.splits prod.splits intro: touches_trans[OF d])
qed

lemma touches_died: "touches (ux_job c) d (died_in e c s d)"
proof -
  let ?up = "set_status (ke_clock e) (ux_job c)"
  have t: "touches (ux_job c) d d2" if "a (?up t d1) = (r, d2)" "\<And>d. quiet (ux_job c) d (snd (a d))" "touches (ux_job c) d d1"
    for a :: "kb_db \<Rightarrow> 'z und \<times> kb_db" and t d1 r d2
    using that quiet_touches[OF that(2)[of "?up t d1"]] touches_trans[OF that(3) touches_trans[OF touches_ops(1)]] by fastforce
  obtain r1 d1 where e1: "extract_run (ke_clock e) (ke_extract e) c (?up U_extracting d) = (r1, d1)" by force
  obtain r2 d2 where e2: "normalize_run (ke_clock e) (ke_batch_size e) c (?up U_normalizing d1) = (r2, d2)" by force
  obtain r3 d3 where e3: "chunk_run (ke_clock e) (ke_chunk e) c (?up U_chunking d2) = (r3, d3)" by force
  note t1 = t[OF e1 quiet_extract touches_refl] note t2 = t[OF e2 quiet_normalize t1] note t3 = t[OF e3 quiet_chunk t2]
  show ?thesis
    using t1 t2 t3 by (auto simp: died_in_def Let_def e1 e2 e3 split: sum.splits intro: touches_trans[OF _ touches_ops(1)])
qed

lemma sorted_distinct: "sorted_wrt before_job js \<Longrightarrow> distinct (map uj_id js)"
  by (induction js) (auto simp: before_job_def)

section \<open>Starting\<close>

lemma start_fresh_cases:
  assumes "start_fresh e item batch kb cb snap d = (r, d')" "jobs_ok u d" "inj u" "uc_uuid (ke_clock e) = u"
    "list_all (\<lambda>j. uj_created_at j < uc_now (ke_clock e)) (kd_jobs d)"
  shows "(r = Inl (JOB_ALREADY_RUNNING, False) \<and> d' = d \<and> has_active_job item d)
    \<or> (\<exists>j. r = Inr j \<and> jobs_ok u d' \<and> current (uj_id j) d' \<and> uj_item j = item \<and> \<not> has_active_job item d
         \<and> uj_id j = ''und_job_'' @ u (kd_next d) \<and> (\<forall>k \<in> set (kd_jobs d). k \<in> set (kd_jobs d'))
         \<and> (\<forall>k \<in> set (kd_jobs d'). uj_id k = uj_id j \<longrightarrow> uj_item k = item))"
proof (cases "has_active_job item d")
  case False
  define m where "m = JObj [(''mime_type'', j_opt (is_mime snap)), (''input_type'', JStr (is_input_type snap))]"
  obtain j d1 where c: "create_job (ke_clock e) item batch kb cb m d = (j, d1)" by force
  have r: "r = Inr j" "d' = set_status (ke_clock e) (uj_id j) U_queued d1"
    using assms(1) False c by (auto simp: start_fresh_def m_def Let_def)
  have new: "jobs_ok u d1" "none_after j (kd_jobs d1)"
    using jobs_ok_create[OF assms(2,5,4,3) False, of batch kb cb m] c by auto
  have j: "uj_item j = item" "uj_id j = ''und_job_'' @ u (kd_next d)" "kd_jobs d1 = kd_jobs d @ [j]"
    using c assms(4) by (auto simp: create_job_def new_id_def Let_def)
  have "current (uj_id j) d1" using new(2) by (auto simp: current_def)
  then have "jobs_ok u d'" "current (uj_id j) d'"
    unfolding r(2) using ok_touches[OF new(1) _ touches_ops(1)] by auto
  moreover have "k \<in> set (kd_jobs d')" if "k \<in> set (kd_jobs d)" for k
  proof -
    have "uj_id k \<noteq> uj_id j"
      using that assms(2) not_issued[OF assms(3), of "kd_next d"] j(2) by (auto simp: jobs_ok_def list_all_iff)
    then show ?thesis using that j(3) by (auto simp: r(2) set_status_def job_put_def tbl_update_def image_iff intro!: bexI[of _ k])
  qed
  moreover have "uj_item k = item" if k: "k \<in> set (kd_jobs d')" "uj_id k = uj_id j" for k
  proof -
    have "uj_id k \<noteq> uj_id j" if "k \<in> set (kd_jobs d)" for k
      using that assms(2) not_issued[OF assms(3), of "kd_next d"] j(2) by (auto simp: jobs_ok_def list_all_iff)
    then show ?thesis using k j(1,3) by (auto simp: r(2) set_status_def job_put_def tbl_update_def)
  qed
  ultimately show ?thesis using r(1) j(1,2) False by blast
qed (use assms(1) in \<open>simp add: start_fresh_def\<close>)

text \<open>Starting leaves the jobs that are there as they are; the job it returns is the last of its item.\<close>

lemma start_cases:
  assumes "start_understanding e item batch kb tenant cb d = (r, d')" "jobs_ok u d" "inj u" "uc_uuid (ke_clock e) = u"
    "list_all (\<lambda>j. uj_created_at j < uc_now (ke_clock e)) (kd_jobs d)"
  shows "jobs_ok u d'" "\<forall>k \<in> set (kd_jobs d). k \<in> set (kd_jobs d')"
    "r = Inr c \<Longrightarrow> current (ux_job c) d' \<and> ux_item c = item
       \<and> (\<forall>k \<in> set (kd_jobs d'). uj_id k = ux_job c \<longrightarrow> uj_item k = item)
       \<and> (\<forall>k \<in> set (kd_jobs d). uj_id k = ux_job c \<longrightarrow> uj_item k = item \<and> uj_status k = U_queued)"
    "r = Inl err \<Longrightarrow> d' = d"
proof -
  define G where "G \<longleftrightarrow> jobs_ok u d' \<and> (\<forall>k \<in> set (kd_jobs d). k \<in> set (kd_jobs d'))
     \<and> (r = Inr c \<longrightarrow> current (ux_job c) d' \<and> ux_item c = item
       \<and> (\<forall>k \<in> set (kd_jobs d'). uj_id k = ux_job c \<longrightarrow> uj_item k = item)
       \<and> (\<forall>k \<in> set (kd_jobs d). uj_id k = ux_job c \<longrightarrow> uj_item k = item \<and> uj_status k = U_queued))
     \<and> (r = Inl err \<longrightarrow> d' = d)"
  have unissued: "uj_id k \<noteq> ''und_job_'' @ u (kd_next d)" if "k \<in> set (kd_jobs d)" for k
    using that assms(2) not_issued[OF assms(3), of "kd_next d"] by (auto simp: jobs_ok_def list_all_iff)
  have f1: G if "start_fresh e item batch kb cb snap d = (Inl x, d')" "r = Inl x" for snap x
    using start_fresh_cases[OF that(1) assms(2,3,4,5)] that(2) assms(2) by (auto simp: G_def)
  have f2: G if "start_fresh e item batch kb cb snap d = (Inr j, d')" "r = Inr (ctx_of j item batch kb tenant cb ref snap)" for snap j ref
    using start_fresh_cases[OF that(1) assms(2,3,4,5)] that(2) assms(2) unissued by (auto simp: G_def ctx_of_def)
  have q: G if l: "latest_job item d = Some j" "uj_status j = U_queued" "d' = d" "r = Inr (ctx_of j item batch kb tenant cb ref snap)" for j ref snap
  proof -
    have s: "sorted_wrt before_job (kd_jobs d)" using assms(2) by (simp add: jobs_ok_def)
    have "k = j" if k: "k \<in> set (kd_jobs d)" "uj_id k = uj_id j" for k
      using k sorted_distinct[OF s] latest_none_after(3)[OF s l(1)] by (auto simp: distinct_map inj_on_def)
    then have "\<forall>k \<in> set (kd_jobs d). uj_id k = uj_id j \<longrightarrow> uj_item k = item \<and> uj_status k = U_queued"
      using l(2) latest_none_after(2)[OF s l(1)] by blast
    then show ?thesis using l current_latest[OF assms(2) l(1)] assms(2) by (auto simp: G_def ctx_of_def)
  qed
  have n: G if "d' = d" "r = Inl x" for x using that assms(2) by (simp add: G_def)
  have G
    using assms(1) unfolding start_understanding_def
    by (auto simp: Let_def split: option.splits if_splits sum.splits prod.splits intro: f1 f2 q n)
  then show "jobs_ok u d'" "\<forall>k \<in> set (kd_jobs d). k \<in> set (kd_jobs d')"
    "r = Inr c \<Longrightarrow> current (ux_job c) d' \<and> ux_item c = item
       \<and> (\<forall>k \<in> set (kd_jobs d'). uj_id k = ux_job c \<longrightarrow> uj_item k = item)
       \<and> (\<forall>k \<in> set (kd_jobs d). uj_id k = ux_job c \<longrightarrow> uj_item k = item \<and> uj_status k = U_queued)"
    "r = Inl err \<Longrightarrow> d' = d" by (auto simp: G_def)
qed

section \<open>The steps keep the invariant\<close>

lemma request_keeps:
  assumes "jobs_ok u (ks_db st)" "inj u" "clocked u e st"
  shows "jobs_ok u (ks_db (snd (handle_requested e payload st)))" "jobs_ok u (ks_db (dies_handling e payload s st))"
proof -
  have "jobs_ok u d \<and> jobs_ok u (ks_db (snd (pipeline_run e c (st\<lparr>ks_db := d\<rparr>)))) \<and> jobs_ok u (died_in e c s d)"
    if "start_understanding e item batch kb tenant cb (ks_db st) = (Inr c, d)" for item batch kb tenant cb c d
  proof -
    have d: "jobs_ok u d" "current (ux_job c) d"
      using start_cases(1,3)[OF that assms(1,2)] assms(3) by (auto simp: clocked_def)
    then show ?thesis
      using ok_touches[OF d touches_pipeline[of c "st\<lparr>ks_db := d\<rparr>" e, simplified]] ok_touches[OF d touches_died] by auto
  qed
  moreover have "jobs_ok u d" if "start_understanding e item batch kb tenant cb (ks_db st) = (Inl err, d)" for item batch kb tenant cb err d
    using start_cases(1)[OF that assms(1,2)] assms(3) by (auto simp: clocked_def)
  ultimately show "jobs_ok u (ks_db (snd (handle_requested e payload st)))" "jobs_ok u (ks_db (dies_handling e payload s st))"
    using assms(1) by (auto simp: handle_requested_def dies_handling_def Let_def split: prod.splits sum.splits)
qed

lemma retry_keeps:
  assumes "jobs_ok u (ks_db st)"
  shows "jobs_ok u (ks_db (snd (retry_understanding e kb item tenant force st)))"
proof -
  have "jobs_ok u (increment_retry (uj_id j) (ks_db st))" if "latest_job item (ks_db st) = Some j" for j
    using ok_touches[OF assms current_latest[OF assms that] touches_ops(4)] by simp
  then show ?thesis using assms
    by (auto simp: retry_understanding_def Let_def split: option.splits prod.splits)
qed

lemma step_keeps: "kb_step u st st' \<Longrightarrow> inj u \<Longrightarrow> jobs_ok u (ks_db st) \<Longrightarrow> jobs_ok u (ks_db st')"
  by (auto elim!: kb_stepE intro: request_keeps retry_keeps)

lemma steps_keep: "(kb_step u)\<^sup>*\<^sup>* st st' \<Longrightarrow> inj u \<Longrightarrow> jobs_ok u (ks_db st) \<Longrightarrow> jobs_ok u (ks_db st')"
  by (induction rule: rtranclp_induct) (auto intro: step_keeps)

section \<open>A job left in the middle\<close>

lemma touches_item: "touches i d d' \<Longrightarrow> \<forall>k \<in> set (kd_jobs d). uj_id k = i \<longrightarrow> uj_item k = item \<Longrightarrow>
  \<forall>k \<in> set (kd_jobs d'). uj_id k = i \<longrightarrow> uj_item k = item"
proof -
  assume t: "touches i d d'" "\<forall>k \<in> set (kd_jobs d). uj_id k = i \<longrightarrow> uj_item k = item"
  then obtain g where g: "\<And>k. job_key (g k) = job_key k" "kd_jobs d' = tbl_update (\<lambda>k. uj_id k = i) g (kd_jobs d)"
    by (auto simp: touches_def)
  have "uj_item (g k) = uj_item k" "uj_id (g k) = uj_id k" for k using g(1)[of k] by (auto simp: job_key_def)
  then show ?thesis using t(2) by (auto simp: g(2) tbl_update_def)
qed

definition in_work :: "und_job \<Rightarrow> bool" where
  "in_work j = (uj_status j \<notin> und_terminal \<and> uj_status j \<noteq> U_queued)"

lemma in_work_blocks_start:
  assumes "jobs_ok u d" "j \<in> set (kd_jobs d)" "in_work j"
  shows "start_understanding e (uj_item j) batch kb tenant cb d = (Inl err, d') \<Longrightarrow> d' = d \<and> fst err \<in> {ITEM_NOT_FOUND, RAW_REF_MISSING, JOB_ALREADY_RUNNING}"
    "start_understanding e (uj_item j) batch kb tenant cb d \<noteq> (Inr c, d')"
proof -
  have l: "latest_job (uj_item j) d = Some j"
    using active_is_latest[OF _ assms(2)] assms(1,3) by (auto simp: jobs_ok_def in_work_def)
  have "has_active_job (uj_item j) d" using assms(2,3) by (auto simp: has_active_job_def list_ex_iff in_work_def)
  then show "start_understanding e (uj_item j) batch kb tenant cb d = (Inl err, d') \<Longrightarrow> d' = d \<and> fst err \<in> {ITEM_NOT_FOUND, RAW_REF_MISSING, JOB_ALREADY_RUNNING}"
    "start_understanding e (uj_item j) batch kb tenant cb d \<noteq> (Inr c, d')"
    using l assms(3) by (auto simp: start_understanding_def start_fresh_def in_work_def Let_def split: option.splits if_splits)
qed

lemma kept_row: "touches i d d' \<Longrightarrow> j \<in> set (kd_jobs d) \<Longrightarrow> uj_id j \<noteq> i \<Longrightarrow> j \<in> set (kd_jobs d')"
  by (auto simp: touches_def tbl_update_def image_iff intro!: bexI[of _ j])

lemma request_keeps_row:
  assumes "jobs_ok u (ks_db st)" "inj u" "clocked u e st" "j \<in> set (kd_jobs (ks_db st))" "in_work j"
  shows "j \<in> set (kd_jobs (ks_db (snd (handle_requested e payload st))))" "j \<in> set (kd_jobs (ks_db (dies_handling e payload s st)))"
proof -
  have "j \<in> set (kd_jobs (ks_db (snd (pipeline_run e c (st\<lparr>ks_db := d\<rparr>))))) \<and> j \<in> set (kd_jobs (died_in e c s d))"
    if start: "start_understanding e item batch kb tenant cb (ks_db st) = (Inr c, d)" for item batch kb tenant cb c d
  proof -
    have d: "\<forall>k \<in> set (kd_jobs (ks_db st)). k \<in> set (kd_jobs d)"
      "\<forall>k \<in> set (kd_jobs (ks_db st)). uj_id k = ux_job c \<longrightarrow> uj_item k = item \<and> uj_status k = U_queued"
      using start_cases(2,3)[OF start assms(1,2)] assms(3) by (auto simp: clocked_def)
    then have "uj_id j \<noteq> ux_job c" "j \<in> set (kd_jobs d)" using assms(4,5) by (auto simp: in_work_def)
    then show ?thesis using kept_row[OF touches_pipeline[of c "st\<lparr>ks_db := d\<rparr>" e, simplified]] kept_row[OF touches_died] by auto
  qed
  moreover have "j \<in> set (kd_jobs d)" if "start_understanding e item batch kb tenant cb (ks_db st) = (Inl err, d)" for item batch kb tenant cb err d
    using start_cases(2)[OF that assms(1,2)] assms(3,4) by (auto simp: clocked_def)
  ultimately show "j \<in> set (kd_jobs (ks_db (snd (handle_requested e payload st))))" "j \<in> set (kd_jobs (ks_db (dies_handling e payload s st)))"
    using assms(4) by (auto simp: handle_requested_def dies_handling_def Let_def split: prod.splits sum.splits)
qed

lemma retry_keeps_row:
  assumes "jobs_ok u (ks_db st)" "j \<in> set (kd_jobs (ks_db st))" "in_work j"
  shows "j \<in> set (kd_jobs (ks_db (snd (retry_understanding e kb item tenant force st))))"
proof -
  have s: "sorted_wrt before_job (kd_jobs (ks_db st))" using assms(1) by (simp add: jobs_ok_def)
  have l: "latest_job (uj_item j) (ks_db st) = Some j"
    using active_is_latest[OF s assms(2)] assms(3) by (simp add: in_work_def)
  have "uj_id k \<noteq> uj_id j" if k: "latest_job item (ks_db st) = Some k" "uj_status k \<in> und_terminal" for k
  proof
    assume "uj_id k = uj_id j"
    then have "k = j" using latest_none_after(3)[OF s k(1)] sorted_distinct[OF s] assms(2) by (auto simp: distinct_map inj_on_def)
    then show False using k(2) assms(3) by (simp add: in_work_def)
  qed
  then show ?thesis
    using assms(2) kept_row[OF touches_ops(4) assms(2)]
    by (auto simp: retry_understanding_def Let_def und_terminal_def split: option.splits prod.splits)
qed

lemma steps_keep_row:
  "(kb_step u)\<^sup>*\<^sup>* st st' \<Longrightarrow> inj u \<Longrightarrow> jobs_ok u (ks_db st) \<Longrightarrow> j \<in> set (kd_jobs (ks_db st)) \<Longrightarrow> in_work j \<Longrightarrow>
   j \<in> set (kd_jobs (ks_db st'))"
proof (induction rule: rtranclp_induct)
  case (step st1 st2)
  have ok: "jobs_ok u (ks_db st1)" by (rule steps_keep[OF step.hyps(1) step.prems(1,2)])
  show ?case using step.hyps(2) step.IH[OF step.prems] ok step.prems(1,4)
    by (auto elim!: kb_stepE intro: request_keeps_row retry_keeps_row)
qed simp

end
