(* ===== verification/KbChunkProps.thy ===== *)
theory KbChunkProps
  imports KbChunk
begin

text \<open>
  What the chunker guarantees: packing keeps every part in its order, cutting loses no character and
  ends, and its result passes the validator that follows it.
\<close>

section \<open>Cutting\<close>

lemma cut_end_bounds:
  assumes "1 \<le> m" "start < length t"
  shows "start < cut_end m t start" "cut_end m t start \<le> start + m" "cut_end m t start \<le> length t"
proof -
  have w: "slice start (start + m) t \<noteq> []" if "start + m < length t"
    using that assms by (simp add: slice_def)
  have "max (rfind ''. '' (slice start (start + m) t)) (max (rfind [newline] (slice start (start + m) t))
      (rfind '' '' (slice start (start + m) t))) < int m" if "start + m < length t"
    using w[OF that] rfind_less[OF _ w[OF that], of "''. ''"] rfind_less[OF _ w[OF that], of "[newline]"]
      rfind_less[OF _ w[OF that], of "'' ''"] that by simp
  then show "start < cut_end m t start" "cut_end m t start \<le> start + m" "cut_end m t start \<le> length t"
    using assms by (auto simp: cut_end_def Let_def min_def)
qed

lemma cut_from_end: "length t \<le> start \<Longrightarrow> cut_from m n t start = []"
  by (subst cut_from.simps) simp

lemma take_slice_append:
  "start \<le> s' \<Longrightarrow> s' \<le> stop \<Longrightarrow> take (s' - start) (slice start stop t) @ drop s' t = drop start t"
proof -
  assume s: "start \<le> s'" "s' \<le> stop"
  have "take (s' - start) (slice start stop t) = take (s' - start) (drop start t)"
    using s by (simp add: slice_def drop_take)
  moreover have "drop s' t = drop (s' - start) (drop start t)" using s by simp
  ultimately show ?thesis by (metis append_take_drop_id)
qed

text \<open>The windows, and for each the length after which the next one begins.\<close>

lemma cut_from_windows:
  assumes "1 \<le> m" "start \<le> length t"
  shows "\<exists>ws ks. cut_from m n t start = map py_strip ws \<and> length ks = length ws
           \<and> concat (map2 take ks ws) = drop start t
           \<and> (\<forall>(k, w) \<in> set (zip ks ws). 1 \<le> k \<and> k \<le> length w \<and> length w \<le> k + n \<and> length w \<le> m)"
  using assms
proof (induction m n t start rule: cut_from.induct)
  case (1 m n t start)
  show ?case
  proof (cases "start < length t")
    case False
    then show ?thesis by (intro exI[of _ "[]"]) (simp add: cut_from_end)
  next
    case start: True
    define stop where "stop = cut_end m t start"
    define next_start where "next_start = max (stop - n) (Suc start)"
    have stop: "start < stop" "stop \<le> start + m" "stop \<le> length t"
      using cut_end_bounds[OF 1(2) start] by (auto simp: stop_def)
    have len: "length (slice start stop t) = stop - start" using stop by simp
    have next_start: "start < next_start" "next_start \<le> stop" "stop \<le> next_start + n"
      using stop by (auto simp: next_start_def)
    show ?thesis
    proof (cases "length t \<le> stop")
      case True
      then have "stop = length t" using stop by simp
      then have "cut_from m n t start = map py_strip [slice start stop t]"
        using start by (subst cut_from.simps) (simp add: stop_def[symmetric] Let_def)
      moreover have "concat (map2 take [stop - start] [slice start stop t]) = drop start t"
        using \<open>stop = length t\<close> len by (simp add: slice_def)
      ultimately show ?thesis using stop len
        by (intro exI[of _ "[slice start stop t]"] exI[of _ "[stop - start]"]) auto
    next
      case False
      from 1(1)[OF start stop_def False 1(2)] next_start(2) stop(3)
      obtain ws ks where ws: "cut_from m n t next_start = map py_strip ws" "length ks = length ws"
        "concat (map2 take ks ws) = drop next_start t"
        "\<forall>(k, w) \<in> set (zip ks ws). 1 \<le> k \<and> k \<le> length w \<and> length w \<le> k + n \<and> length w \<le> m"
        by (auto simp: next_start_def[symmetric])
      have "cut_from m n t start = map py_strip (slice start stop t # ws)"
        using start False ws(1) by (subst cut_from.simps) (simp add: stop_def[symmetric] next_start_def[symmetric] Let_def)
      moreover have "take (next_start - start) (slice start stop t) @ drop next_start t = drop start t"
        using next_start by (intro take_slice_append) auto
      ultimately show ?thesis using ws next_start len stop
        by (intro exI[of _ "slice start stop t # ws"] exI[of _ "(next_start - start) # ks"]) auto
    qed
  qed
qed

lemma cut_from_length: "1 \<le> m \<Longrightarrow> length (cut_from m n t start) \<le> length t - start"
proof (induction m n t start rule: cut_from.induct)
  case (1 m n t start)
  show ?case
  proof (cases "start < length t")
    case start: True
    define stop where "stop = cut_end m t start"
    have "length (cut_from m n t (max (stop - n) (Suc start))) \<le> length t - max (stop - n) (Suc start)"
      if "\<not> length t \<le> stop" using 1(1)[OF start stop_def that 1(2)] by simp
    then show ?thesis
      using start by (subst cut_from.simps) (fastforce simp: stop_def[symmetric] Let_def)
  qed (simp add: cut_from_end)
qed

lemma cut_end_far:
  "start + m < length t \<Longrightarrow> start + m div 2 + 2 \<le> cut_end m t start \<or> cut_end m t start = start + m"
proof -
  have "\<lbrakk>int (m div 2) < c\<rbrakk> \<Longrightarrow> start + m div 2 + 2 \<le> start + nat c + 1" for c by linarith
  then show "start + m < length t \<Longrightarrow> ?thesis" by (auto simp: cut_end_def Let_def simp del: max_less_iff_conj less_max_iff_disj)
qed

text \<open>With an overlap of at most half of the maximum every round but the last advances by a fixed stride.\<close>

lemma cut_from_rounds:
  "3 \<le> m \<Longrightarrow> n \<le> m div 2 + 1 \<Longrightarrow> start < length t \<Longrightarrow>
   (length (cut_from m n t start) - 1) * (m div 2 + 2 - n) + start < length t"
proof (induction m n t start rule: cut_from.induct)
  case (1 m n t start)
  define stop where "stop = cut_end m t start"
  have bounds: "start < stop" "stop \<le> length t" using cut_end_bounds[of m start t] 1(2,4) by (auto simp: stop_def)
  show ?case
  proof (cases "length t \<le> stop")
    case True
    then have "length (cut_from m n t start) = 1"
      using 1(4) by (subst cut_from.simps) (simp add: stop_def[symmetric] Let_def)
    then show ?thesis using 1(4) by simp
  next
    case False
    define s' where "s' = max (stop - n) (Suc start)"
    have "start + m < length t"
      using False by (auto simp: stop_def cut_end_def Let_def min_def split: if_splits)
    then have "start + (m div 2 + 2 - n) \<le> s'"
      using cut_end_far[of start m t] 1(2,3) by (auto simp: s'_def stop_def)
    moreover have "s' < length t" using bounds False 1(2,3) by (auto simp: s'_def)
    moreover have "(length (cut_from m n t s') - 1) * (m div 2 + 2 - n) + s' < length t"
      using 1(1)[OF 1(4) stop_def False 1(2,3)] \<open>s' < length t\<close> by (simp add: s'_def)
    moreover have "cut_from m n t start = py_strip (slice start stop t) # cut_from m n t s'"
      using 1(4) False by (subst cut_from.simps) (simp add: stop_def[symmetric] s'_def[symmetric] Let_def)
    moreover have "cut_from m n t s' \<noteq> []"
      using \<open>s' < length t\<close> by (subst cut_from.simps) (simp add: Let_def)
    moreover have "length (cut_from m n t s') * q = (length (cut_from m n t s') - 1) * q + q" if "cut_from m n t s' \<noteq> []" for q
      using that by (cases "cut_from m n t s'") simp_all
    ultimately show ?thesis by simp
  qed
qed

section \<open>Packing\<close>

lemma texts_of [simp]:
  "pc_texts (seed_pending p) = [cp_text p]" "pc_texts (append_part p c) = pc_texts c @ [cp_text p]"
  "pc_texts (opened p s c) = pc_texts c" "pc_texts (merged_into c d) = pc_texts c @ pc_texts d"
  "pc_texts empty_pending = []"
  by (simp_all add: seed_pending_def append_part_def with_path_def with_source_def opened_def merged_into_def empty_pending_def Let_def)

lemma texts_flushed: "concat (map pc_texts (flushed c)) = pc_texts c"
  by (simp add: flushed_def)

lemma pack_texts: "concat (map pc_texts (pack_parts e ps c s)) = pc_texts c @ map cp_text ps"
  by (induction e ps c s rule: pack_parts.induct) (auto simp: texts_flushed Let_def)

lemma merge_texts: "concat (map pc_texts (merge_from e c cs)) = pc_texts c @ concat (map pc_texts cs)"
  by (induction e c cs rule: merge_from.induct) auto

text \<open>A chunk is a single part, or its counted length is at most two above the maximum.\<close>

definition fits :: "chunk_env \<Rightarrow> pending_chunk \<Rightarrow> bool" where
  "fits e c = (length (pc_texts c) = 1 \<or> pc_texts c \<noteq> [] \<and> pc_length c \<le> ck_max_chars e + 2)"

lemma pc_length_append_part: "pc_texts c \<noteq> [] \<Longrightarrow> pc_length (append_part p c) = pc_length c + length (cp_text p) + 2"
  by (cases "pc_texts c") (simp_all add: pc_length_def)

lemma pc_length_merged:
  "pc_texts c \<noteq> [] \<Longrightarrow> pc_texts d \<noteq> [] \<Longrightarrow> pc_length (merged_into c d) = pc_length c + pc_length d + 2"
  by (cases "pc_texts c"; cases "pc_texts d") (simp_all add: pc_length_def)

lemma fits_seed: "fits e (seed_pending p)" and fits_first: "pc_texts c = [] \<Longrightarrow> fits e (append_part p c)"
  by (simp_all add: fits_def)

lemma pc_length_opened [simp]: "pc_length (opened p s c) = pc_length c"
  by (simp add: pc_length_def)

lemma fits_append:
  assumes "pc_texts c = [] \<or> fits e c" "\<not> starts_new e c s p"
  shows "fits e (append_part p (opened p s c))"
proof (cases "pc_texts c = []")
  case False
  then show ?thesis using assms by (simp add: fits_def starts_new_def pc_length_append_part)
qed (simp add: fits_first)

lemma pack_fits: "pc_texts c = [] \<or> fits e c \<Longrightarrow> list_all (fits e) (pack_parts e ps c s)"
  by (induction e ps c s rule: pack_parts.induct)
     (auto simp: Let_def flushed_def fits_seed fits_first fits_append starts_new_def)

lemma merge_fits: "fits e c \<Longrightarrow> list_all (fits e) cs \<Longrightarrow> list_all (fits e) (merge_from e c cs)"
proof (induction e c cs rule: merge_from.induct)
  case (2 e prev c cs)
  have "pc_texts prev \<noteq> []" "pc_texts c \<noteq> []" using 2(3,4) by (auto simp: fits_def)
  then have "pc_length prev + pc_length c \<le> ck_max_chars e \<Longrightarrow> fits e (merged_into prev c)"
    by (simp add: fits_def pc_length_merged)
  then show ?case using 2 by simp
qed simp

lemma packed_texts: "concat (map pc_texts (packed e parts)) = map cp_text parts"
  using pack_texts[of e parts empty_pending None] by (auto simp: packed_def merge_short_def merge_texts split: list.split)

lemma packed_fits: "list_all (fits e) (packed e parts)"
  using pack_fits[of empty_pending e parts None] by (auto simp: packed_def merge_short_def merge_fits split: list.split)

lemma length_join: "xs \<noteq> [] \<Longrightarrow> length (join_with sep xs) = sum_list (map length xs) + length sep * (length xs - 1)"
  by (induction sep xs rule: join_with.induct) (auto simp: algebra_simps)

lemma length_pc_text: "pc_texts c \<noteq> [] \<Longrightarrow> length (pc_text c) = pc_length c"
  by (simp add: pc_text_def pc_length_def length_join)

section \<open>The result\<close>

lemma dropWhile_empty: "dropWhile P xs = [] \<longleftrightarrow> list_all P xs"
  by (induction xs) auto

lemma strip_empty: "py_strip xs = [] \<longleftrightarrow> list_all is_blank xs"
proof -
  have "list_all is_blank (dropWhile is_blank xs) \<longleftrightarrow> list_all is_blank xs"
    by (induction xs) auto
  then show ?thesis by (auto simp: py_strip_def dropWhile_empty list_all_iff)
qed

lemma length_strip: "length (py_strip xs) \<le> length xs"
  unfolding py_strip_def by (metis length_dropWhile_le length_rev le_trans)

definition readable :: "string \<Rightarrow> bool" where
  "readable t = (py_strip t \<noteq> [])"

lemma concat_takes: "length ks = length ws \<Longrightarrow> c \<in> set (concat (map2 take ks ws)) \<Longrightarrow> \<exists>w \<in> set ws. c \<in> set w"
  by (induction ks ws rule: list_induct2) (auto dest: in_set_takeD)

lemma split_long_pieces:
  assumes "1 \<le> m" "readable t"
  shows "split_long m n t \<noteq> []" "list_all (\<lambda>p. readable p \<and> length p \<le> m) (split_long m n t)"
proof -
  obtain ws ks where ws: "cut_from m n t 0 = map py_strip ws" "length ks = length ws" "concat (map2 take ks ws) = t"
    "\<forall>(k, w) \<in> set (zip ks ws). 1 \<le> k \<and> k \<le> length w \<and> length w \<le> k + n \<and> length w \<le> m"
    using cut_from_windows[OF assms(1), of 0 t n] by auto
  have short: "length w \<le> m" if w: "w \<in> set ws" for w
  proof -
    obtain k where "(k, w) \<in> set (zip ks ws)" using in_set_impl_in_set_zip2[OF ws(2) w] by blast
    then show ?thesis using ws(4) by auto
  qed
  obtain c where c: "c \<in> set t" "\<not> is_blank c"
    using assms(2) by (auto simp: readable_def strip_empty list_all_iff)
  then obtain w where "w \<in> set ws" "c \<in> set w" using concat_takes[OF ws(2), of c] ws(3) by auto
  then show "split_long m n t \<noteq> []"
    using c(2) ws(1) by (auto simp: split_long_def filter_empty_conv strip_empty list_all_iff)
  have "length (py_strip w) \<le> m" if "w \<in> set ws" for w
    using short[OF that] length_strip[of w] by simp
  then show "list_all (\<lambda>p. readable p \<and> length p \<le> m) (split_long m n t)"
    using assms(2) ws(1) by (auto simp: split_long_def list_all_iff readable_def)
qed

lemma readable_join: "xs \<noteq> [] \<Longrightarrow> list_all readable xs \<Longrightarrow> readable (join_with sep xs)"
  by (induction sep xs rule: join_with.induct) (auto simp: readable_def strip_empty)

definition good_chunk :: "chunk_env \<Rightarrow> chunk \<Rightarrow> bool" where
  "good_chunk e k = (readable (kc_text k) \<and> length (kc_text k) \<le> ck_max_chars e \<and> kc_checksum k = ck_sha256 e (kc_text k)
     \<and> 1 \<le> kc_token_count k)"

lemma finalize_one_good:
  assumes "1 \<le> ck_max_chars e" "pc_texts c \<noteq> []" "list_all readable (pc_texts c)"
  shows "finalize_one e item c n \<noteq> []" "list_all (good_chunk e) (finalize_one e item c n)"
    "map kc_order_index (finalize_one e item c n) = [n..<n + length (finalize_one e item c n)]"
proof -
  define ps where "ps = split_long (ck_max_chars e) (ck_overlap e) (pc_text c)"
  have ps: "ps \<noteq> []" "list_all (\<lambda>p. readable p \<and> length p \<le> ck_max_chars e) ps"
    using split_long_pieces[OF assms(1), of "pc_text c" "ck_overlap e"] readable_join[OF assms(2,3)]
    by (auto simp: ps_def pc_text_def)
  show "finalize_one e item c n \<noteq> []" "list_all (good_chunk e) (finalize_one e item c n)"
    using ps by (auto simp: finalize_one_def ps_def[symmetric] Let_def list_all_iff good_chunk_def dest!: set_zip_rightD)
  show "map kc_order_index (finalize_one e item c n) = [n..<n + length (finalize_one e item c n)]"
    by (auto simp: finalize_one_def Let_def intro!: nth_equalityI)
qed

lemma finalize_good:
  "finalize e item cs n = Inr ks \<Longrightarrow> 1 \<le> ck_max_chars e \<Longrightarrow>
   list_all (\<lambda>c. pc_texts c \<noteq> [] \<and> list_all readable (pc_texts c)) cs \<Longrightarrow>
   list_all (good_chunk e) ks \<and> map kc_order_index ks = [n..<n + length ks] \<and> (cs \<noteq> [] \<longrightarrow> ks \<noteq> [])"
proof (induction cs arbitrary: n ks)
  case (Cons c cs)
  obtain rest where rest: "finalize e item cs (n + length (finalize_one e item c n)) = Inr rest" "ks = finalize_one e item c n @ rest"
    using Cons.prems(1) by (auto simp: Let_def split: if_splits sum.splits)
  have "list_all (good_chunk e) rest \<and> map kc_order_index rest =
      [n + length (finalize_one e item c n)..<n + length (finalize_one e item c n) + length rest]"
    using Cons.IH[OF rest(1)] Cons.prems by simp
  moreover note finalize_one_good[of e c item n]
  moreover have "[n..<n + length (finalize_one e item c n)]
      @ [n + length (finalize_one e item c n)..<n + length (finalize_one e item c n) + length rest] = [n..<n + length ks]"
    using upt_add_eq_append[of n "n + length (finalize_one e item c n)" "length rest"] by (simp add: rest(2) add.assoc)
  ultimately show ?case using Cons.prems by (simp add: rest(2))
qed simp

lemma classify_parts_readable: "list_all (\<lambda>p. readable (cp_text p)) (classify_parts ps f stack)"
  by (induction ps f stack rule: classify_parts.induct)
     (auto simp: Let_def readable_def split: prod.splits)

lemma classify_legacy_readable:
  "list_all readable raws \<Longrightarrow> list_all (\<lambda>p. readable (cp_text p)) (classify_legacy t pm raws n b s)"
  by (induction t pm raws n b s rule: classify_legacy.induct)
     (auto simp: Let_def readable_def)

lemma classified_readable: "list_all (\<lambda>p. readable (cp_text p)) (classify_normalized_parts ps t pm)"
proof -
  have "list_all readable (split_blocks t)" by (auto simp: split_blocks_def list_all_iff readable_def)
  then show ?thesis
    by (auto simp: classify_normalized_parts_def Let_def classify_parts_readable classify_legacy_readable)
qed

lemma packed_readable:
  assumes "list_all (\<lambda>p. readable (cp_text p)) parts"
  shows "list_all (\<lambda>c. pc_texts c \<noteq> [] \<and> list_all readable (pc_texts c)) (packed e parts)"
proof -
  have "\<forall>t \<in> set (concat (map pc_texts (packed e parts))). readable t"
    using assms by (auto simp: packed_texts list_all_iff)
  then show ?thesis using packed_fits[of e parts] by (auto simp: list_all_iff fits_def)
qed

lemma packed_nonempty: "parts \<noteq> [] \<Longrightarrow> packed e parts \<noteq> []"
  using packed_texts[of e parts] by (cases "packed e parts") auto

lemma validate_good:
  assumes "list_all (good_chunk e) ks" "map kc_order_index ks = [0..<length ks]" "ks \<noteq> []" "\<forall>t. ck_sha256 e t \<noteq> []"
  shows "validate_chunks ks = Inr ()"
proof -
  have "\<not> list_ex (\<lambda>k. py_strip (kc_text k) = [] \<or> kc_checksum k = []) ks"
    using assms(1,4) by (auto simp: list_ex_iff list_all_iff good_chunk_def readable_def)
  then show ?thesis using assms(2,3) by (simp add: validate_chunks_def)
qed

section \<open>Table blocks\<close>

text \<open>A table block stays alone in its chunk; no other chunk consists of tables only.\<close>

definition has_plain :: "pending_chunk \<Rightarrow> bool" where
  "has_plain c = (\<exists>b \<in> set (pc_block_types c). b \<noteq> B_table)"

definition of_table :: "classified_part list \<Rightarrow> pending_chunk \<Rightarrow> bool" where
  "of_table parts c = (\<exists>p \<in> set parts. cp_type p = B_table \<and> c = seed_pending p)"

lemma block_types_of [simp]:
  "pc_block_types (seed_pending p) = [cp_type p]" "pc_block_types (append_part p c) = pc_block_types c @ [cp_type p]"
  "pc_block_types (opened p s c) = pc_block_types c" "pc_block_types (merged_into c d) = pc_block_types c @ pc_block_types d"
  "pc_block_types empty_pending = []"
  by (simp_all add: seed_pending_def append_part_def with_path_def with_source_def opened_def merged_into_def empty_pending_def Let_def)

lemma plain_not_table: "has_plain c \<Longrightarrow> \<not> is_table_only c"
  by (auto simp: has_plain_def is_table_only_def list_all_iff)

lemma pack_shape:
  "pc_texts c = [] \<or> has_plain c \<Longrightarrow> set ps \<subseteq> set parts \<Longrightarrow>
   list_all (\<lambda>c. has_plain c \<or> of_table parts c) (pack_parts e ps c s)"
proof (induction e ps c s rule: pack_parts.induct)
  case (2 e p ps current s)
  have plain: "cp_type p \<noteq> B_table \<Longrightarrow> has_plain (append_part p d)" "cp_type p \<noteq> B_table \<Longrightarrow> has_plain (seed_pending p)" for d
    by (auto simp: has_plain_def)
  moreover have "cp_type p = B_table \<Longrightarrow> of_table parts (seed_pending p)" using 2(6) by (auto simp: of_table_def)
  moreover have "pc_texts current \<noteq> [] \<Longrightarrow> has_plain current" using 2(5) by simp
  ultimately show ?case using 2
    by (auto simp: Let_def flushed_def heading_types_def starts_new_def)
qed (auto simp: flushed_def)

lemma merge_shape:
  "has_plain c \<or> of_table ps c \<Longrightarrow> list_all (\<lambda>c. has_plain c \<or> of_table ps c) cs \<Longrightarrow>
   list_all (\<lambda>c. has_plain c \<or> of_table ps c) (merge_from e c cs)"
proof (induction e c cs rule: merge_from.induct)
  case (2 e prev c cs)
  have "has_plain prev \<Longrightarrow> has_plain (merged_into prev c)" by (auto simp: has_plain_def)
  moreover have "of_table ps prev \<Longrightarrow> is_table_only prev" by (auto simp: of_table_def is_table_only_def)
  ultimately show ?case using 2 by auto
qed simp

lemma packed_shape: "list_all (\<lambda>c. has_plain c \<or> of_table parts c) (packed e parts)"
  using pack_shape[of empty_pending parts parts e None]
  by (auto simp: packed_def merge_short_def merge_shape split: list.split)

lemma pack_has_tables: "p \<in> set ps \<Longrightarrow> cp_type p = B_table \<Longrightarrow> seed_pending p \<in> set (pack_parts e ps c s)"
  by (induction e ps c s rule: pack_parts.induct) (auto simp: Let_def heading_types_def)

lemma merge_keeps_tables: "is_table_only d \<Longrightarrow> d \<in> set (c # cs) \<Longrightarrow> d \<in> set (merge_from e c cs)"
  by (induction e c cs rule: merge_from.induct) auto

lemma packed_has_tables:
  assumes "p \<in> set parts" "cp_type p = B_table"
  shows "seed_pending p \<in> set (packed e parts)"
proof -
  have "is_table_only (seed_pending p)" using assms(2) by (simp add: is_table_only_def)
  then show ?thesis
    using pack_has_tables[OF assms, of e empty_pending None] merge_keeps_tables[of "seed_pending p"]
    by (cases "pack_parts e parts empty_pending None") (auto simp: packed_def merge_short_def simp del: set_ConsD)
qed

text \<open>A table part that has neither headers nor rows.\<close>

definition bare_table :: "classified_part \<Rightarrow> bool" where
  "bare_table p = (cp_type p = B_table \<and> \<not> jtruthy (jget ''headers'' (cp_metadata p)) \<and> \<not> jtruthy (jget ''rows'' (cp_metadata p)))"

lemma table_refs_seed: "pc_table_refs (seed_pending p) = [table_ref (cp_metadata p)]"
  by (simp add: seed_pending_def with_source_def)

lemma headless_seed: "headless_table (seed_pending p) \<longleftrightarrow> bare_table p"
  by (auto simp: headless_table_def bare_table_def is_table_only_def table_refs_seed table_ref_def)

lemma packed_headless: "(\<exists>c \<in> set (packed e parts). headless_table c) \<longleftrightarrow> (\<exists>p \<in> set parts. bare_table p)"
proof
  assume "\<exists>c \<in> set (packed e parts). headless_table c"
  then obtain c where c: "c \<in> set (packed e parts)" "headless_table c" by auto
  then have "of_table parts c"
    using packed_shape[of parts e] plain_not_table[of c] by (auto simp: list_all_iff headless_table_def)
  then show "\<exists>p \<in> set parts. bare_table p" using c(2) by (auto simp: of_table_def headless_seed)
next
  assume "\<exists>p \<in> set parts. bare_table p"
  then obtain p where p: "p \<in> set parts" "bare_table p" by auto
  then have "seed_pending p \<in> set (packed e parts)" by (intro packed_has_tables) (simp_all add: bare_table_def)
  then show "\<exists>c \<in> set (packed e parts). headless_table c" using p(2) headless_seed by blast
qed

lemma finalize_fails:
  assumes "1 \<le> ck_max_chars e"
  shows "list_all (\<lambda>c. pc_texts c \<noteq> [] \<and> list_all readable (pc_texts c)) cs \<Longrightarrow>
    (\<exists>x. finalize e item cs n = Inl x) = (\<exists>c \<in> set cs. headless_table c)"
proof (induction cs arbitrary: n)
  case (Cons c cs)
  have "finalize_one e item c n \<noteq> []" using finalize_one_good(1)[OF assms] Cons.prems by simp
  then show ?case using Cons.IH[of "n + length (finalize_one e item c n)"] Cons.prems
    by (auto simp: Let_def split: sum.splits)
qed simp

section \<open>Properties\<close>

text \<open>
  C30: Cutting loses nothing: a text above the maximum is cut into windows of at most the maximum,
  every window overlaps the next by at most the configured overlap, the pieces are the stripped
  windows, and the text is the windows put together again without their overlaps.
\<close>

lemma cutting_loses_no_text:
  assumes "1 \<le> m" "m < length t"
  shows "\<exists>ws ks. split_long m n t = filter (\<lambda>p. p \<noteq> []) (map py_strip ws) \<and> length ks = length ws
           \<and> concat (map2 take ks ws) = t
           \<and> list_all (\<lambda>(k, w). 1 \<le> k \<and> k \<le> length w \<and> length w \<le> k + n \<and> length w \<le> m) (zip ks ws)"
  using cut_from_windows[OF assms(1), of 0 t n] assms(2) by (auto simp: split_long_def list_all_iff)

lemma cutting_loses_no_text_witness:
  "\<exists>ws ks. split_long 4 1 ''ab cd'' = filter (\<lambda>p. p \<noteq> []) (map py_strip ws) \<and> length ks = length ws
     \<and> concat (map2 take ks ws) = ''ab cd''
     \<and> list_all (\<lambda>(k, w). 1 \<le> k \<and> k \<le> length w \<and> length w \<le> k + 1 \<and> length w \<le> 4) (zip ks ws)"
  by (rule cutting_loses_no_text) simp_all



text \<open>Packing and merging keep every part, once and in the order of the document; a chunk is a
  single part or at most two characters longer than the maximum. The two characters are the blank
  line between parts, which the test for an overflow does not count.\<close>

lemma packing_keeps_every_part:
  "concat (map pc_texts (packed e parts)) = map cp_text parts
   \<and> list_all (\<lambda>c. length (pc_texts c) = 1 \<or> length (pc_text c) \<le> ck_max_chars e + 2) (packed e parts)"
  using packed_texts[of e parts] packed_fits[of e parts] by (auto simp: list_all_iff fits_def length_pc_text)

text \<open>
  C32: What the chunker builds always passes the validator behind it: the chunks are numbered from 0
  without a gap, each has text, at most the maximum of it, at least one token and the checksum of
  its text.
\<close>

lemma chunks_pass_their_validator:
  assumes "1 \<le> ck_max_chars e" "\<forall>t. ck_sha256 e t \<noteq> []"
    and "build_chunks e item (classify_normalized_parts ps t pm) = Inr ks"
  shows "chunk_content e item ps t pm = Inr ks \<and> ks \<noteq> [] \<and> map kc_order_index ks = [0..<length ks]
    \<and> list_all (\<lambda>k. py_strip (kc_text k) \<noteq> [] \<and> length (kc_text k) \<le> ck_max_chars e
         \<and> kc_checksum k = ck_sha256 e (kc_text k) \<and> 1 \<le> kc_token_count k) ks"
proof -
  define parts where "parts = classify_normalized_parts ps t pm"
  have parts: "parts \<noteq> []" "finalize e item (packed e parts) 0 = Inr ks"
    using assms(3) by (auto simp: parts_def build_chunks_def split: if_splits)
  have "list_all (good_chunk e) ks" "map kc_order_index ks = [0..<length ks]" "ks \<noteq> []"
    using finalize_good[OF parts(2) assms(1) packed_readable] classified_readable[of ps t pm]
      packed_nonempty[OF parts(1)] by (auto simp: parts_def)
  then show ?thesis
    using validate_good[of e ks] assms(2,3) by (auto simp: chunk_content_def good_chunk_def readable_def list_all_iff)
qed

text \<open>Chunking fails exactly for a document without a readable part, or with a part classified as a
  table that has neither headers nor rows: for such a part the chunk keeps None as its table
  reference, whose headers are then read.\<close>

lemma chunking_fails_exactly:
  assumes "1 \<le> ck_max_chars e" "\<forall>t. ck_sha256 e t \<noteq> []"
  shows "(\<exists>x. chunk_content e item ps t pm = Inl x)
    = (classify_normalized_parts ps t pm = []
       \<or> list_ex (\<lambda>p. cp_type p = B_table \<and> \<not> jtruthy (jget ''headers'' (cp_metadata p))
            \<and> \<not> jtruthy (jget ''rows'' (cp_metadata p))) (classify_normalized_parts ps t pm))"
proof -
  define parts where "parts = classify_normalized_parts ps t pm"
  have "(\<exists>x. chunk_content e item ps t pm = Inl x) = (\<exists>x. build_chunks e item parts = Inl x)"
  proof (cases "build_chunks e item parts")
    case (Inr ks)
    have "map kc_order_index ks = [0..<length ks] \<and> ks \<noteq> [] \<and> list_all (good_chunk e) ks"
      using Inr finalize_good[of e item "packed e parts" 0 ks, OF _ assms(1) packed_readable] classified_readable[of ps t pm]
        packed_nonempty[of parts e] by (auto simp: parts_def build_chunks_def split: if_splits)
    then have "validate_chunks ks = Inr ()" using validate_good assms(2) by blast
    then show ?thesis using Inr by (simp add: chunk_content_def parts_def)
  qed (simp add: chunk_content_def parts_def)
  also have "\<dots> = (parts = [] \<or> (\<exists>p \<in> set parts. bare_table p))"
    using finalize_fails[OF assms(1) packed_readable] classified_readable[of ps t pm]
      packed_headless[of e parts] by (auto simp: parts_def build_chunks_def)
  finally show ?thesis by (auto simp: parts_def bare_table_def list_ex_iff)
qed

section \<open>A document\<close>

definition demo_chunk_env :: chunk_env where
  "demo_chunk_env = \<lparr>ck_max_chars = 40, ck_min_chars = 4, ck_overlap = 5, ck_token_ratio = 4,
     ck_new_id = (\<lambda>n. ''c'' @ show_nat n), ck_sha256 = (\<lambda>t. CHR ''#'' # t), ck_dumps = (\<lambda>j. ''j''), ck_mean = (\<lambda>xs. JNull)\<rparr>"

definition demo_part :: "string \<Rightarrow> norm_part" where
  "demo_part t = \<lparr>np_id = Some ''n'', np_text = t, np_part_type = JStr ''paragraph'', np_page_number = None, np_part_index = JInt 0,
     np_document_order = JInt 0, np_source_part_id = Some ''s'', np_metadata = JObj []\<rparr>"

lemma demo_env_sane: "1 \<le> ck_max_chars demo_chunk_env" "\<forall>t. ck_sha256 demo_chunk_env t \<noteq> []"
  by (simp_all add: demo_chunk_env_def)

lemma jget_part_metadata:
  "jget ''headers'' (build_part_metadata m info) = jget ''headers'' m" "jget ''rows'' (build_part_metadata m info) = jget ''rows'' m"
  by (simp_all add: build_part_metadata_def part_metadata_keys_def jget_def [of _ "JObj _"])

lemma demo_entry:
  "jtruthy (jget ''heading_path'' (part_entry (demo_part t))) = False"
  "jtruthy (jget ''headers'' (part_entry (demo_part t))) = False" "jtruthy (jget ''rows'' (part_entry (demo_part t))) = False"
  by (code_simp, code_simp, code_simp)

lemma demo_fields [simp]:
  "np_text (demo_part t) = t" "np_page_number (demo_part t) = None" "np_id (demo_part t) = Some ''n''"
  "np_source_part_id (demo_part t) = Some ''s''"
  by (simp_all add: demo_part_def)

lemma demo_classified:
  assumes "classify t (part_entry (demo_part t)) True = bt" "bt \<notin> heading_types" "bt \<notin> skip_types" "py_strip t = t" "t \<noteq> []"
  shows "\<exists>p. classify_normalized_parts [demo_part t] [] [] = [p] \<and> cp_type p = bt
    \<and> \<not> jtruthy (jget ''headers'' (cp_metadata p)) \<and> \<not> jtruthy (jget ''rows'' (cp_metadata p))"
  using assms
  by (simp add: classify_normalized_parts_def resolve_heading_path_def demo_entry Let_def jget_part_metadata)

lemma chunking_fails_exactly_witness:
  "\<exists>x. chunk_content demo_chunk_env ''i'' [demo_part (''|a|b|'' @ [newline] @ ''|1|2|'')] [] [] = Inl x"
proof -
  define t where "t = ''|a|b|'' @ [newline] @ ''|1|2|''"
  have "classify t (part_entry (demo_part t)) True = B_table" "py_strip t = t"
    unfolding t_def by (code_simp, code_simp)
  then obtain p where p: "classify_normalized_parts [demo_part t] [] [] = [p]" "cp_type p = B_table"
    "\<not> jtruthy (jget ''headers'' (cp_metadata p))" "\<not> jtruthy (jget ''rows'' (cp_metadata p))"
    using demo_classified[of t B_table] by (auto simp: heading_types_def skip_types_def t_def)
  then have "list_ex (\<lambda>p. cp_type p = B_table \<and> \<not> jtruthy (jget ''headers'' (cp_metadata p))
      \<and> \<not> jtruthy (jget ''rows'' (cp_metadata p))) (classify_normalized_parts [demo_part t] [] [])" by simp
  then show ?thesis unfolding t_def[symmetric] using chunking_fails_exactly[OF demo_env_sane] by blast
qed

lemma demo_builds: "\<exists>ks. build_chunks demo_chunk_env ''i'' (classify_normalized_parts [demo_part ''Hi.''] [] []) = Inr ks"
proof -
  have "classify ''Hi.'' (part_entry (demo_part ''Hi.'')) True = B_paragraph" "py_strip ''Hi.'' = ''Hi.''"
    by (code_simp, code_simp)
  then obtain p where p: "classify_normalized_parts [demo_part ''Hi.''] [] [] = [p]" "cp_type p = B_paragraph"
    using demo_classified[of "''Hi.''" B_paragraph] by (auto simp: heading_types_def skip_types_def)
  have "\<not> (\<exists>x. finalize demo_chunk_env ''i'' (packed demo_chunk_env [p]) 0 = Inl x)"
    using finalize_fails[OF demo_env_sane(1) packed_readable] classified_readable[of "[demo_part ''Hi.'']" "[]" "[]"]
      packed_headless[of demo_chunk_env "[p]"] p by (simp add: bare_table_def)
  then show ?thesis unfolding p(1) build_chunks_def by (simp, metis sum.exhaust)
qed

lemma chunks_pass_their_validator_witness:
  "\<exists>ks. chunk_content demo_chunk_env ''i'' [demo_part ''Hi.''] [] [] = Inr ks \<and> ks \<noteq> [] \<and> map kc_order_index ks = [0..<length ks]"
proof -
  obtain ks where ks: "build_chunks demo_chunk_env ''i'' (classify_normalized_parts [demo_part ''Hi.''] [] []) = Inr ks"
    using demo_builds by auto
  show ?thesis using chunks_pass_their_validator[OF demo_env_sane ks] by blast
qed

end
