(* ===== verification/KbOutcome.thy ===== *)
theory KbOutcome
  imports KbLife KbChunkProps
begin

text \<open>
  What a run of the understanding pipeline ends with: the states of its job, the completeness of what it
  stored, and the events it leaves in the outbox.
\<close>

section \<open>Tables other than the jobs\<close>

lemma content_of_put [simp]:
  "kd_contents (job_put i f d) = kd_contents d" "kd_parts (job_put i f d) = kd_parts d" "kd_norms (job_put i f d) = kd_norms d"
  "kd_norm_parts (job_put i f d) = kd_norm_parts d" "kd_chunks (job_put i f d) = kd_chunks d"
  by (simp_all add: job_put_def)

lemma content_of_status [simp]:
  "kd_contents (set_status e i s d) = kd_contents d" "kd_parts (set_status e i s d) = kd_parts d" "kd_norms (set_status e i s d) = kd_norms d"
  "kd_norm_parts (set_status e i s d) = kd_norm_parts d" "kd_chunks (set_status e i s d) = kd_chunks d"
  by (simp_all add: set_status_def)

definition extracted_ok :: "string \<Rightarrow> kb_db \<Rightarrow> bool" where
  "extracted_ok item d = (item \<in> set (map ec_item (kd_contents d)))"

lemma get_extracted_ok: "get_extracted item d \<noteq> None \<longleftrightarrow> extracted_ok item d"
  by (auto simp: get_extracted_def extracted_ok_def tbl_first_None)

text \<open>An extractor reports a streamed result only when it was asked to stream.\<close>

definition honest_extractor :: "extract_env \<Rightarrow> bool" where
  "honest_extractor x = (\<forall>kind bytes mime r. snd (xe_extract x kind False bytes mime) = Inr r \<longrightarrow> \<not> er_streaming r)"

lemma contents_event [simp]: "kd_contents (handle_event e c cid ev d) = kd_contents d"
  by (cases ev) (simp_all add: handle_event_def bulk_insert_parts_def drew_def update_extract_progress_def)

lemma contents_events [simp]: "kd_contents (fold (handle_event e c cid) evs d) = kd_contents d"
  by (induction evs arbitrary: d) simp_all

lemma store_extracted_ok:
  "er_streaming r \<Longrightarrow> extracted_ok item d \<Longrightarrow> extracted_ok item (store_extracted e c cid r d)"
  "\<not> er_streaming r \<Longrightarrow> extracted_ok (ux_item c) (store_extracted e c cid r d)"
  by (simp_all add: store_extracted_def extracted_ok_def content_ops content_row_of_def map_tbl_update del: set_map)

lemma extract_run_ok:
  assumes "extract_run e x c d = (Inr r, d1)" "honest_extractor x"
  shows "extracted_ok (ux_item c) d1"
proof -
  obtain kind m cid d0 where run: "run_extractor e x c kind m cid (drew 1 d) = (Inr r, d0)" "d1 = store_extracted e c cid r d0"
    using assms(1) by (auto simp: extract_run_def Let_def split: option.splits if_splits sum.splits prod.splits)
  show ?thesis
  proof (cases "er_streaming r")
    case True
    then have "\<not> m" using run(1) assms(2) by (auto simp: run_extractor_def honest_extractor_def split: option.splits)
    then have "extracted_ok (ux_item c) d0"
      using run(1) by (auto simp: run_extractor_def extracted_ok_def content_ops initial_content_def content_row_of_def
          split: option.splits prod.splits)
    then show ?thesis using True store_extracted_ok(1) run(2) by simp
  qed (simp add: run(2) store_extracted_ok(2))
qed

section \<open>Normalization\<close>

lemma normalize_empty: "py_strip (normalize_part_text []) = []"
  by code_simp

lemma normalized_batch_rows:
  "r \<in> set (normalized_batch e c cid n rows) \<Longrightarrow>
   nr_item r = ux_item c \<and> nr_status r = ''completed'' \<and> nr_text r \<noteq> [] \<and> (\<exists>x \<in> set rows. or_empty (xd_text (xr_part x)) \<noteq> [])"
proof (induction e c cid n rows rule: normalized_batch.induct)
  case (2 e c cid n x xs)
  then show ?case using normalize_empty by (auto simp: Let_def to_norm_row_def split: if_splits)
qed simp

lemma normalize_batch_step:
  assumes "normalize_batch e c cid rows (p, ch, d) = (p', ch', d')"
  shows "kd_contents d' = kd_contents d" "kd_parts d' = kd_parts d" "kd_norms d' = kd_norms d" "p \<le> p'"
    "set (kd_norm_parts d) \<subseteq> set (kd_norm_parts d')"
    "p < p' \<Longrightarrow> \<exists>r \<in> set (kd_norm_parts d'). nr_item r = ux_item c \<and> nr_status r = ''completed'' \<and> nr_text r \<noteq> []"
    "p < p' \<Longrightarrow> \<exists>x \<in> set rows. or_empty (xd_text (xr_part x)) \<noteq> []"
proof -
  define out where "out = normalized_batch e c cid (kd_next d) rows"
  have d': "p' = p + length out" "d' = bulk_insert_normalized_parts out (drew (length out) d)"
    using assms by (auto simp: normalize_batch_def out_def Let_def)
  then show "kd_contents d' = kd_contents d" "kd_parts d' = kd_parts d" "kd_norms d' = kd_norms d" "p \<le> p'"
    "set (kd_norm_parts d) \<subseteq> set (kd_norm_parts d')" by (auto simp: content_ops)
  assume "p < p'"
  then obtain r where "r \<in> set out" using d'(1) by (cases out) auto
  then show "\<exists>r \<in> set (kd_norm_parts d'). nr_item r = ux_item c \<and> nr_status r = ''completed'' \<and> nr_text r \<noteq> []"
    "\<exists>x \<in> set rows. or_empty (xd_text (xr_part x)) \<noteq> []"
    using normalized_batch_rows[of r e c cid "kd_next d" rows] d'(2) by (auto simp: out_def content_ops)
qed

lemma normalize_batches:
  "fold (normalize_batch e c cid) bs (p, ch, d) = (p', ch', d') \<Longrightarrow>
   kd_contents d' = kd_contents d \<and> kd_parts d' = kd_parts d \<and> kd_norms d' = kd_norms d \<and> p \<le> p'
   \<and> set (kd_norm_parts d) \<subseteq> set (kd_norm_parts d')
   \<and> (p < p' \<longrightarrow> (\<exists>r \<in> set (kd_norm_parts d'). nr_item r = ux_item c \<and> nr_status r = ''completed'' \<and> nr_text r \<noteq> [])
        \<and> (\<exists>b \<in> set bs. \<exists>x \<in> set b. or_empty (xd_text (xr_part x)) \<noteq> []))"
proof (induction bs arbitrary: p ch d)
  case (Cons b bs)
  obtain p1 ch1 d1 where b: "normalize_batch e c cid b (p, ch, d) = (p1, ch1, d1)" by (metis prod_cases3)
  have "fold (normalize_batch e c cid) bs (p1, ch1, d1) = (p', ch', d')" using Cons.prems b by simp
  from Cons.IH[OF this] normalize_batch_step[OF b] show ?case by (cases "p < p1") auto
qed simp

lemma set_batches: "\<Union> (set ` set (batches n xs)) \<subseteq> set xs"
proof (induction n xs rule: batches.induct)
  case (2 n x xs)
  then show ?case
    by (auto dest: in_set_takeD in_set_dropD simp: take_Cons split: nat.splits)
qed simp

definition normalized_ok :: "string \<Rightarrow> kb_db \<Rightarrow> bool" where
  "normalized_ok item d = (get_normalized item d \<noteq> None \<and> 0 < count_normalized_parts item d \<and> 0 < count_usable_parts item d)"

lemma count_pos: "0 < tbl_count P rows \<longleftrightarrow> (\<exists>r \<in> set rows. P r)"
  by (auto simp: tbl_count_def filter_empty_conv)

lemma normalize_run_ok:
  assumes "normalize_run e n c d = (Inr r, d1)"
  shows "normalized_ok (ux_item c) d1" "kd_contents d1 = kd_contents d"
proof -
  obtain cid d2 parts chars d3 f where run:
    "fold (normalize_batch e c cid) (batches n (normalizable_parts (ux_item c) d2)) (0, 0, d2) = (parts, chars, d3)"
    "kd_parts d2 = kd_parts d" "kd_contents d2 = kd_contents d" "\<exists>r \<in> set (kd_norms d2). nc_item r = ux_item c" "\<And>r. nc_item (f r) = nc_item r"
    "normalize_run e n c d = (if parts = 0 then Inl (NORMALIZATION_FAILED, False)
       else Inr \<lparr>no_content_id = cid, no_status = ''completed'', no_part_count = parts, no_total_chars = chars\<rparr>,
       finalize_normalized_summary cid f d3)"
    by (rule normalize_run_unfold[of d e c n], rule that, assumption+)
  have d1: "0 < parts" "d1 = finalize_normalized_summary cid f d3" using assms run(6) by (auto split: if_splits)
  note b = normalize_batches[OF run(1)]
  then show "kd_contents d1 = kd_contents d" using run(3) by (simp add: d1(2) finalize_normalized_summary_def)
  obtain x where "x \<in> set (normalizable_parts (ux_item c) d2)" "or_empty (xd_text (xr_part x)) \<noteq> []"
    using b d1(1) set_batches by fastforce
  then have "0 < count_usable_parts (ux_item c) d1"
    using b run(2) by (auto simp: count_usable_parts_def count_pos normalizable_parts_def d1(2) finalize_normalized_summary_def)
  moreover have "0 < count_normalized_parts (ux_item c) d1"
    using b d1(1) by (auto simp: count_normalized_parts_def count_pos d1(2) finalize_normalized_summary_def)
  moreover have "map nc_item (kd_norms d1) = map nc_item (kd_norms d2)"
    using b run(5) by (simp add: d1(2) finalize_normalized_summary_def map_tbl_update)
  then have "ux_item c \<in> nc_item ` set (kd_norms d1)" using run(4) by (metis image_eqI set_map)
  then have "get_normalized (ux_item c) d1 \<noteq> None" by (auto simp: get_normalized_def tbl_first_None)
  ultimately show "normalized_ok (ux_item c) d1" by (simp add: normalized_ok_def)
qed

section \<open>The whole run\<close>

lemma chunk_content_nonempty: "chunk_content k item ps t pm = Inr ks \<Longrightarrow> ks \<noteq> []"
  by (auto simp: chunk_content_def validate_chunks_def split: sum.splits if_splits)

lemma chunk_run_ok:
  assumes "chunk_run e k c d = (Inr ks, d1)"
  shows "list_for_document (ux_item c) d1 \<noteq> []" "\<forall>r \<in> set (list_for_document (ux_item c) d1). ch_source r = ux_raw_ref c"
    "kd_contents d1 = kd_contents d" "kd_parts d1 = kd_parts d" "kd_norms d1 = kd_norms d" "kd_norm_parts d1 = kd_norm_parts d"
proof -
  define rows where "rows = map (chunk_to_row c (max_version (ux_item c) d + 1)) ks"
  have "ks \<noteq> []" "d1 = replace_for_document (ux_item c) rows (drew (length ks) d)"
    using assms chunk_content_nonempty by (auto simp: chunk_run_def rows_def split: sum.splits)
  moreover have "\<forall>r \<in> set rows. ch_document r = ux_item c \<and> ch_source r = ux_raw_ref c" by (simp add: rows_def chunk_to_row_def)
  moreover have "rows \<noteq> []" using \<open>ks \<noteq> []\<close> by (simp add: rows_def)
  ultimately show "list_for_document (ux_item c) d1 \<noteq> []" "\<forall>r \<in> set (list_for_document (ux_item c) d1). ch_source r = ux_raw_ref c"
    "kd_contents d1 = kd_contents d" "kd_parts d1 = kd_parts d" "kd_norms d1 = kd_norms d" "kd_norm_parts d1 = kd_norm_parts d"
    by (auto simp: list_for_document_def replace_for_document_def drew_def filter_empty_conv set_empty[symmetric] simp del: set_empty)
qed

lemma pipeline_steps_complete:
  assumes "pipeline_steps e c d = (Inr (s, missing), d')" "honest_extractor (ke_extract e)" "py_strip (ux_raw_ref c) \<noteq> []"
  shows "validate_run c d' = (U_ready, []) \<and> s = U_ready \<and> missing = [] \<and> list_for_document (ux_item c) d' \<noteq> []"
proof -
  let ?up = "set_status (ke_clock e) (ux_job c)"
  obtain r1 d1 r2 d2 ks d3 where runs: "extract_run (ke_clock e) (ke_extract e) c (?up U_extracting d) = (Inr r1, d1)"
    "normalize_run (ke_clock e) (ke_batch_size e) c (?up U_normalizing d1) = (Inr r2, d2)"
    "chunk_run (ke_clock e) (ke_chunk e) c (?up U_chunking d2) = (Inr ks, d3)"
    "d' = ?up U_validating d3" "(s, missing) = validate_run c d'"
    using assms(1) by (auto simp: pipeline_steps_def run_step_def split: prod.splits sum.splits)
  note n = normalize_run_ok[OF runs(2)] note k = chunk_run_ok[OF runs(3)]
  have ext: "get_extracted (ux_item c) d' \<noteq> None"
    unfolding get_extracted_ok using extract_run_ok[OF runs(1) assms(2)] n(2) k(3) by (simp add: extracted_ok_def runs(4))
  have norm: "get_normalized (ux_item c) d' \<noteq> None" "0 < count_normalized_parts (ux_item c) d'" "0 < count_usable_parts (ux_item c) d'"
    using n(1) k(4-6) by (simp_all add: normalized_ok_def runs(4) get_normalized_def count_normalized_parts_def count_usable_parts_def)
  have chunks: "list_for_document (ux_item c) d' = list_for_document (ux_item c) d3"
    by (simp add: list_for_document_def runs(4))
  have "filter (\<lambda>r. py_strip (ch_source r) \<noteq> []) (list_for_document (ux_item c) d') = list_for_document (ux_item c) d'"
    using k(2) assms(3) by (intro filter_True) (simp add: chunks)
  then have "validate_run c d' = (U_ready, [])"
    using ext norm k(1) by (simp add: validate_run_def checklist_def missing_of_def chunks)
  then show ?thesis using runs(5) k(1) chunks by simp
qed

text \<open>The pipeline passes two arguments the event does not take.\<close>

lemma failed_event_refused:
  "add_understanding_failed_event ch (failed_kwargs c s code) ob
     = (Inl (OtherError ''TypeError: add_understanding_failed_event() got an unexpected keyword argument''), ob)"
proof -
  have "''training_batch_id'' \<in> set (map fst (failed_kwargs c s code))" by (simp add: failed_kwargs_def)
  moreover have "''training_batch_id'' \<notin> set failed_event_params" by (simp add: failed_event_params_def)
  ultimately have "set (map fst (failed_kwargs c s code)) \<noteq> set failed_event_params" by blast
  then show ?thesis by (simp add: add_understanding_failed_event_def)
qed

lemma failing_emits_nothing: "ks_outbox (snd (pipeline_fail e c err st)) = ks_outbox st"
  by (cases err) (simp add: pipeline_fail_def Let_def safe_emit_def on_db_def failed_event_refused)

lemma pipeline_run_cases:
  assumes "honest_extractor (ke_extract e)" "py_strip (ux_raw_ref c) \<noteq> []"
  obtains err d where "pipeline_steps e c (ks_db st) = (Inl err, d)" "pipeline_run e c st = pipeline_fail e c err (st\<lparr>ks_db := d\<rparr>)"
  | d where "pipeline_steps e c (ks_db st) = (Inr (U_ready, []), d)"
    "pipeline_run e c st = (U_ready, \<lparr>ks_db = job_completed (ke_clock e) (ux_job c) U_ready d,
       ks_outbox = snd (enqueue_discovery_requested (ke_channel e) c (ks_outbox st))\<rparr>)"
    "validate_run c d = (U_ready, [])" "list_for_document (ux_item c) d \<noteq> []"
proof -
  obtain r d where r: "pipeline_steps e c (ks_db st) = (r, d)" by force
  show thesis
  proof (cases r)
    case (Inl err)
    then show thesis using that(1) r by (simp add: pipeline_run_def)
  next
    case (Inr sm)
    then obtain s m where sm: "r = Inr (s, m)" by (cases sm) simp
    from pipeline_steps_complete[OF r[unfolded sm] assms] show thesis
      using that(2)[of d] r sm by (cases st) (simp add: pipeline_run_def safe_emit_def on_db_def)
  qed
qed

section \<open>Versions\<close>

lemma chunks_event [simp]: "kd_chunks (handle_event e c cid ev d) = kd_chunks d"
  by (cases ev) (simp_all add: handle_event_def bulk_insert_parts_def drew_def update_extract_progress_def)

lemma chunks_events [simp]: "kd_chunks (fold (handle_event e c cid) evs d) = kd_chunks d"
  by (induction evs arbitrary: d) simp_all

lemma chunks_extract: "extract_run e x c d = (r, d1) \<Longrightarrow> kd_chunks d1 = kd_chunks d"
  by (auto simp: extract_run_def run_extractor_def store_extracted_def content_ops Let_def split: option.splits if_splits sum.splits prod.splits)

lemma chunks_batches: "kd_chunks (snd (snd (fold (normalize_batch e c cid) bs acc))) = kd_chunks (snd (snd acc))"
  by (induction bs arbitrary: acc) (auto simp: normalize_batch_def content_ops Let_def split: prod.splits)

lemma chunks_normalize: "kd_chunks (snd (normalize_run e n c d)) = kd_chunks d"
proof -
  obtain cid d2 parts chars d3 f where "kd_chunks d2 = kd_chunks d"
    "fold (normalize_batch e c cid) (batches n (normalizable_parts (ux_item c) d2)) (0, 0, d2) = (parts, chars, d3)"
    "snd (normalize_run e n c d) = finalize_normalized_summary cid f d3"
    by (rule normalize_run_unfold[of d e c n]) simp
  then show ?thesis
    using chunks_batches[of e c cid "batches n (normalizable_parts (ux_item c) d2)" "(0, 0, d2)"]
    by (simp add: finalize_normalized_summary_def)
qed

lemma pipeline_versions:
  assumes "pipeline_steps e c d = (Inr sm, d')"
  shows "list_all (\<lambda>r. ch_version r = max_version (ux_item c) d + 1) (list_for_document (ux_item c) d')"
proof -
  let ?up = "set_status (ke_clock e) (ux_job c)"
  obtain r1 d1 r2 d2 ks d3 where runs: "extract_run (ke_clock e) (ke_extract e) c (?up U_extracting d) = (Inr r1, d1)"
    "normalize_run (ke_clock e) (ke_batch_size e) c (?up U_normalizing d1) = (Inr r2, d2)"
    "chunk_run (ke_clock e) (ke_chunk e) c (?up U_chunking d2) = (Inr ks, d3)" "d' = ?up U_validating d3"
    using assms by (auto simp: pipeline_steps_def run_step_def split: prod.splits sum.splits)
  have "kd_chunks d2 = kd_chunks d"
    using chunks_extract[OF runs(1)] chunks_normalize[of "ke_clock e" "ke_batch_size e" c "?up U_normalizing d1"] runs(2) by simp
  then have "max_version (ux_item c) (?up U_chunking d2) = max_version (ux_item c) d" by (simp add: max_version_def)
  then show ?thesis
    using runs(3,4) by (auto simp: chunk_run_def list_for_document_def replace_for_document_def drew_def chunk_to_row_def list_all_iff
        split: sum.splits)
qed

end
