(* ===== verification/KbProps.thy ===== *)
theory KbProps
  imports KbOutcome
begin

text \<open>
  Properties of the understanding of documents: the life of its jobs, the outcome of a run, and what a
  retry can and cannot do.
\<close>

section \<open>Jobs\<close>


lemma status_working:
  assumes "\<exists>j \<in> set (kd_jobs d). uj_id j = i" "s \<notin> und_terminal" "s \<noteq> U_queued"
  shows "\<exists>j \<in> set (kd_jobs (set_status e i s d)). uj_id j = i \<and> in_work j"
proof -
  obtain j where j: "j \<in> set (kd_jobs d)" "uj_id j = i" using assms(1) by auto
  then have m: "f j \<in> set (kd_jobs (job_put i f d))" for f by (auto simp: job_put_def tbl_update_def)
  show ?thesis unfolding set_status_def by (rule bexI[OF _ m]) (use assms(2,3) j in \<open>simp add: in_work_def\<close>)
qed

lemma quiet_working: "quiet i d d' \<Longrightarrow> \<exists>j \<in> set (kd_jobs d). uj_id j = i \<and> in_work j \<Longrightarrow>
  \<exists>j \<in> set (kd_jobs d'). uj_id j = i \<and> in_work j"
proof -
  assume "quiet i d d'" "\<exists>j \<in> set (kd_jobs d). uj_id j = i \<and> in_work j"
  then obtain j g where j: "j \<in> set (kd_jobs d)" "uj_id j = i" "in_work j"
    and g: "\<And>j. job_key (g j) = job_key j \<and> uj_status (g j) = uj_status j" "kd_jobs d' = tbl_update (\<lambda>j. uj_id j = i) g (kd_jobs d)"
    by (auto simp: quiet_def)
  have "g j \<in> set (kd_jobs d')" using j(1,2) by (auto simp: g(2) tbl_update_def)
  moreover have "uj_id (g j) = i" "in_work (g j)" using g(1)[of j] j(2,3) by (auto simp: job_key_def in_work_def)
  ultimately show ?thesis by blast
qed

lemma died_working:
  assumes "\<exists>j \<in> set (kd_jobs d). uj_id j = ux_job c"
  shows "\<exists>j \<in> set (kd_jobs (died_in e c s d)). uj_id j = ux_job c \<and> in_work j"
proof -
  let ?up = "set_status (ke_clock e) (ux_job c)"
  let ?w = "\<lambda>d. \<exists>j \<in> set (kd_jobs d). uj_id j = ux_job c \<and> in_work j"
  have up: "?w (?up t d)" if "?w d" "t \<in> {U_extracting, U_normalizing, U_chunking, U_validating}" for t d
    by (rule status_working) (use that in \<open>auto simp: und_terminal_def\<close>)
  have w0: "?w (?up U_extracting d)" by (rule status_working[OF assms]) (simp_all add: und_terminal_def)
  obtain r1 d1 where e1: "extract_run (ke_clock e) (ke_extract e) c (?up U_extracting d) = (r1, d1)" by force
  have w1: "?w d1" using quiet_working[OF quiet_extract w0, of "ke_clock e" "ke_extract e"] e1 by simp
  then have w1': "?w (?up U_normalizing d1)" by (rule up) simp
  obtain r2 d2 where e2: "normalize_run (ke_clock e) (ke_batch_size e) c (?up U_normalizing d1) = (r2, d2)" by force
  have w2: "?w d2" using quiet_working[OF quiet_normalize w1', of "ke_clock e" "ke_batch_size e"] e2 by simp
  then have w2': "?w (?up U_chunking d2)" by (rule up) simp
  obtain r3 d3 where e3: "chunk_run (ke_clock e) (ke_chunk e) c (?up U_chunking d2) = (r3, d3)" by force
  have w3: "?w d3" using quiet_working[OF quiet_chunk w2', of "ke_clock e" "ke_chunk e"] e3 by simp
  then have w3': "?w (?up U_validating d3)" by (rule up) simp
  show ?thesis
    using w0 w1 w1' w2 w2' w3 w3' by (auto simp only: died_in_def Let_def e1 e2 e3 prod.case split: sum.splits if_split)
qed

text \<open>
  C26: A process that dies while it handles a request leaves the job of the item in the middle for
  good: whatever requests and retries follow, the job is still there unchanged, a request for the
  item is acknowledged or refused without an effect, and a retry of the item is refused, also when
  forced.
\<close>

lemma died_job_blocks_its_item:
  assumes "inj u" "(kb_step u)\<^sup>*\<^sup>* st0 st" "kd_jobs (ks_db st0) = []" "clocked u e st"
    and "start_understanding e item batch kb tenant cb (ks_db st) = (Inr c, d)"
    and "(kb_step u)\<^sup>*\<^sup>* (st\<lparr>ks_db := died_in e c s d\<rparr>) st2"
  shows "\<exists>j \<in> set (kd_jobs (died_in e c s d)). uj_id j = ux_job c \<and> uj_item j = item \<and> j \<in> set (kd_jobs (ks_db st2))
    \<and> (\<forall>e2 payload. payload_text ''training_item_id'' payload = item \<longrightarrow> snd (handle_requested e2 payload st2) = st2)
    \<and> (\<forall>e2 kb2 tenant2 force. retry_understanding e2 kb2 item tenant2 force st2 = (Inl (if uj_kb j = kb2 then JOB_NOT_RETRYABLE else JOB_NOT_FOUND), st2))"
proof -
  have ok: "jobs_ok u (ks_db st)" by (rule steps_keep[OF assms(2,1)]) (simp add: jobs_ok_def assms(3))
  have clock: "uc_uuid (ke_clock e) = u" "list_all (\<lambda>j. uj_created_at j < uc_now (ke_clock e)) (kd_jobs (ks_db st))"
    using assms(4) by (auto simp: clocked_def)
  have d: "jobs_ok u d" "current (ux_job c) d" "\<forall>k \<in> set (kd_jobs d). uj_id k = ux_job c \<longrightarrow> uj_item k = item"
    using start_cases(1,3)[OF assms(5) ok assms(1) clock] by auto
  have died: "jobs_ok u (died_in e c s d)" "current (ux_job c) (died_in e c s d)"
    using ok_touches[OF d(1,2) touches_died] by auto
  have "\<exists>j \<in> set (kd_jobs d). uj_id j = ux_job c" using d(2) by (auto simp: current_def none_after_def)
  then obtain j where j: "j \<in> set (kd_jobs (died_in e c s d))" "uj_id j = ux_job c" "in_work j"
    using died_working by blast
  have item: "uj_item j = item" using touches_item[OF touches_died d(3)] j(1,2) by blast
  have st2: "j \<in> set (kd_jobs (ks_db st2))" "jobs_ok u (ks_db st2)"
    using steps_keep_row[OF assms(6,1)] steps_keep[OF assms(6,1)] died(1) j(1,3) by auto
  have "snd (handle_requested e2 payload st2) = st2" if "payload_text ''training_item_id'' payload = item" for e2 payload
    using in_work_blocks_start[OF st2(2,1) j(3)] that
    by (auto simp: item handle_requested_def Let_def split: prod.splits sum.splits)
  moreover have "latest_job item (ks_db st2) = Some j"
    using active_is_latest[OF _ st2(1)] st2(2) j(3) by (simp add: item jobs_ok_def in_work_def)
  then have "retry_understanding e2 kb2 item tenant2 force st2 = (Inl (if uj_kb j = kb2 then JOB_NOT_RETRYABLE else JOB_NOT_FOUND), st2)"
    for e2 kb2 tenant2 force
    using j(3) by (auto simp: retry_understanding_def in_work_def und_terminal_def)
  ultimately show ?thesis using j(1,2) item st2(1) by blast
qed

section \<open>Runs\<close>

lemma validate_of_completed [simp]: "validate_run c (job_completed e i s d) = validate_run c d"
  "list_for_document item (job_completed e i s d) = list_for_document item d"
  by (simp_all add: validate_run_def list_for_document_def get_extracted_def get_normalized_def count_usable_parts_def
      count_normalized_parts_def job_completed_def)

lemma job_there: "touches i d d' \<Longrightarrow> \<exists>j \<in> set (kd_jobs d). uj_id j = i \<Longrightarrow> \<exists>j \<in> set (kd_jobs d'). uj_id j = i"
proof -
  assume "touches i d d'" "\<exists>j \<in> set (kd_jobs d). uj_id j = i"
  then obtain j g where j: "j \<in> set (kd_jobs d)" "uj_id j = i" "\<And>k. job_key (g k) = job_key k"
    "kd_jobs d' = tbl_update (\<lambda>k. uj_id k = i) g (kd_jobs d)" by (auto simp: touches_def)
  then have "g j \<in> set (kd_jobs d')" "uj_id (g j) = i" using j(3)[of j] by (auto simp: tbl_update_def job_key_def)
  then show ?thesis by blast
qed

lemma put_there:
  assumes "\<exists>j \<in> set (kd_jobs d). uj_id j = i"
    and "\<And>j. uj_id (f j) = uj_id j" "\<And>j. uj_status (f j) = s" "\<And>j. uj_completed_at (f j) = t"
  shows "\<exists>j \<in> set (kd_jobs (job_put i f d)). uj_id j = i \<and> uj_status j = s \<and> uj_completed_at j = t"
proof -
  obtain j where "j \<in> set (kd_jobs d)" "uj_id j = i" using assms(1) by auto
  then have "f j \<in> set (kd_jobs (job_put i f d))" by (auto simp: job_put_def tbl_update_def)
  then show ?thesis using assms(2-4)[of j] \<open>uj_id j = i\<close> by blast
qed

text \<open>
  C27: A run that is not cut short ends its job as ready, failed or retryable, never as partial.
  Ready means that nothing is missing: extracted content, usable and normalized parts, and chunks
  that all have a source. A run that fails puts no event into the outbox, although it means to.
\<close>

lemma understanding_is_all_or_nothing:
  assumes "honest_extractor (ke_extract e)" "py_strip (ux_raw_ref c) \<noteq> []" "\<exists>j \<in> set (kd_jobs (ks_db st)). uj_id j = ux_job c"
    and "pipeline_run e c st = (s, st')"
  shows "(s = U_ready \<and> validate_run c (ks_db st') = (U_ready, []) \<and> list_for_document (ux_item c) (ks_db st') \<noteq> []
      \<or> (s = U_failed \<or> s = U_retryable) \<and> ks_outbox st' = ks_outbox st)
    \<and> (\<exists>j \<in> set (kd_jobs (ks_db st')). uj_id j = ux_job c \<and> uj_status j = s \<and> uj_completed_at j = Some (uc_now (ke_clock e)))"
proof (rule pipeline_run_cases[OF assms(1,2), of st])
  fix err d
  assume p: "pipeline_steps e c (ks_db st) = (Inl err, d)" "pipeline_run e c st = pipeline_fail e c err (st\<lparr>ks_db := d\<rparr>)"
  have "\<exists>j \<in> set (kd_jobs d). uj_id j = ux_job c"
    using job_there[OF touches_pipeline_steps assms(3), of e] p(1) by simp
  moreover have "st' = snd (pipeline_fail e c err (st\<lparr>ks_db := d\<rparr>))" "s = (if snd err then U_retryable else U_failed)"
    using assms(4) p(2) by (auto simp: pipeline_fail_def Let_def split: prod.splits)
  moreover have "\<exists>j \<in> set (kd_jobs (ks_db (snd (pipeline_fail e c err (st\<lparr>ks_db := d\<rparr>))))).
      uj_id j = ux_job c \<and> uj_status j = (if snd err then U_retryable else U_failed) \<and> uj_completed_at j = Some (uc_now (ke_clock e))"
    if there: "\<exists>j \<in> set (kd_jobs d). uj_id j = ux_job c"
    unfolding fail_db job_failed_def by (rule put_there) (simp_all add: there)
  ultimately show ?thesis
    using failing_emits_nothing[of e c err "st\<lparr>ks_db := d\<rparr>"] by auto
next
  fix d
  assume p: "pipeline_steps e c (ks_db st) = (Inr (U_ready, []), d)"
    "pipeline_run e c st = (U_ready, \<lparr>ks_db = job_completed (ke_clock e) (ux_job c) U_ready d,
       ks_outbox = snd (enqueue_discovery_requested (ke_channel e) c (ks_outbox st))\<rparr>)"
    "validate_run c d = (U_ready, [])" "list_for_document (ux_item c) d \<noteq> []"
  have "\<exists>j \<in> set (kd_jobs d). uj_id j = ux_job c"
    using job_there[OF touches_pipeline_steps assms(3), of e] p(1) by simp
  then have "\<exists>j \<in> set (kd_jobs (job_completed (ke_clock e) (ux_job c) U_ready d)).
      uj_id j = ux_job c \<and> uj_status j = U_ready \<and> uj_completed_at j = Some (uc_now (ke_clock e))"
    unfolding job_completed_def by (rule put_there) simp_all
  then show ?thesis using assms(4) p(2-4) by auto
qed

section \<open>Retries\<close>

text \<open>
  C28: A retry while the job queue is not configured or over its limit raises an error, but the job
  is in the queue already: no message is there to take it up, and every further retry is refused.
\<close>

lemma refused_retry_strands_the_job:
  assumes "jobs_ok u (ks_db st)" "latest_job item (ks_db st) = Some j" "uj_kb j = kb" "uj_status j = U_failed \<or> uj_status j = U_retryable"
    and "ke_channel e = None \<or> (\<exists>ch. ke_channel e = Some ch \<and> effective_soft_limit (ce_soft_limit ch) \<le> backlog_size (ks_outbox st))"
    and "retry_understanding e kb item tenant force st = (r, st1)"
  shows "(\<exists>x. r = Inr (Inl x)) \<and> ks_outbox st1 = ks_outbox st
    \<and> retry_understanding e2 kb item tenant2 force2 st1 = (Inl JOB_NOT_RETRYABLE, st1)"
proof -
  have s: "sorted_wrt before_job (kd_jobs (ks_db st))" using assms(1) by (simp add: jobs_ok_def)
  define d1 where "d1 = increment_retry (uj_id j) (ks_db st)"
  have st1: "ks_db st1 = d1" "ks_outbox st1 = ks_outbox st" "\<exists>x. r = Inr (Inl x)"
    using assms(2-6) by (auto simp: retry_understanding_def d1_def[symmetric] Let_def add_retry_event_def enqueue_job_def publish_def
        UNDERSTANDING_REQUESTED_def split: prod.splits if_splits)
  obtain q where q: "uj_id q = uj_id j" "q \<in> set (kd_jobs (ks_db st))"
    "q\<lparr>uj_retry_count := uj_retry_count q + 1, uj_status := U_queued, uj_error_code := None, uj_error_message := None, uj_completed_at := None\<rparr>
       \<in> set (kd_jobs d1)"
    using latest_none_after(3)[OF s assms(2)] by (auto simp: d1_def increment_retry_def job_put_def tbl_update_def)
  then have "q = j" using sorted_distinct[OF s] latest_none_after(3)[OF s assms(2)] by (auto simp: distinct_map inj_on_def)
  define j1 where "j1 = j\<lparr>uj_retry_count := uj_retry_count j + 1, uj_status := U_queued, uj_error_code := None, uj_error_message := None, uj_completed_at := None\<rparr>"
  have j1: "j1 \<in> set (kd_jobs d1)" "uj_status j1 = U_queued" "uj_item j1 = item" "uj_kb j1 = kb"
    using q(3) latest_none_after(2)[OF s assms(2)] assms(3) by (simp_all add: \<open>q = j\<close> j1_def)
  have "jobs_ok u d1" using ok_touches[OF assms(1) current_latest[OF assms(1,2)] touches_ops(4)] by (simp add: d1_def)
  then have "latest_job item d1 = Some j1"
    using active_is_latest[OF _ j1(1)] j1(2,3) by (simp add: jobs_ok_def und_terminal_def)
  then have "retry_understanding e2 kb item tenant2 force2 st1 = (Inl JOB_NOT_RETRYABLE, st1)"
    using j1(2,4) st1(1) by (simp add: retry_understanding_def und_terminal_def)
  then show ?thesis using st1 by blast
qed

lemma enqueue_taken:
  assumes "key_taken (strip_or_none key) ob"
  shows "snd (enqueue_job ch t p key ob) = ob"
proof -
  obtain k where k: "strip_or_none key = Some k" "\<exists>r \<in> set (ob_rows ob). has_key k r"
    using assms by (auto simp: key_taken_def split: option.splits)
  then obtain r where "tbl_first (has_key k) (ob_rows ob) = Some r" using tbl_first_exists by metis
  then have "append_event now et pl key ob = (Inr r, ob)" for now et pl
    using k(1) by (simp add: append_event_def append_with_def Let_def)
  then show ?thesis by (simp add: enqueue_job_def publish_def Let_def split: option.split)
qed

text \<open>
  C29: A job keeps its identifier when it is retried, and the request for discovery is keyed by it.
  Once discovery was requested for the job, a further run of it, for which a forced retry gives
  the occasion, requests nothing, although it has replaced all chunks of the document by those of
  the next version.
\<close>

lemma rerun_requests_no_discovery:
  assumes "honest_extractor (ke_extract e)" "py_strip (ux_raw_ref c) \<noteq> []"
    and "key_taken (strip_or_none (Some (discovery_key (ux_tenant c) (ux_job c)))) (ks_outbox st)"
    and "pipeline_run e c st = (s, st')"
  shows "ks_outbox st' = ks_outbox st
    \<and> (s = U_ready \<longrightarrow> list_for_document (ux_item c) (ks_db st') \<noteq> []
         \<and> list_all (\<lambda>r. ch_version r = max_version (ux_item c) (ks_db st) + 1) (list_for_document (ux_item c) (ks_db st')))"
proof (rule pipeline_run_cases[OF assms(1,2), of st])
  fix err d
  assume "pipeline_run e c st = pipeline_fail e c err (st\<lparr>ks_db := d\<rparr>)"
  then have "st' = snd (pipeline_fail e c err (st\<lparr>ks_db := d\<rparr>))" "s \<noteq> U_ready"
    using assms(4) by (auto simp: pipeline_fail_def Let_def split: prod.splits if_splits)
  then show ?thesis using failing_emits_nothing[of e c err "st\<lparr>ks_db := d\<rparr>"] by simp
next
  fix d
  assume p: "pipeline_steps e c (ks_db st) = (Inr (U_ready, []), d)"
    "pipeline_run e c st = (U_ready, \<lparr>ks_db = job_completed (ke_clock e) (ux_job c) U_ready d,
       ks_outbox = snd (enqueue_discovery_requested (ke_channel e) c (ks_outbox st))\<rparr>)" "list_for_document (ux_item c) d \<noteq> []"
  have "ks_outbox st' = ks_outbox st"
    using assms(4) p(2) enqueue_taken[OF assms(3)] by (auto simp: enqueue_discovery_requested_def)
  then show ?thesis using pipeline_versions[OF p(1)] p(2,3) assms(4) by auto
qed

section \<open>An item\<close>

definition demo_uuid :: "nat \<Rightarrow> string" where
  "demo_uuid n = replicate n (CHR ''a'')"

lemma inj_demo_uuid: "inj demo_uuid"
  by (rule inj_on_inverseI[of _ length]) (simp add: demo_uuid_def)

definition demo_kb_env :: "pydatetime \<Rightarrow> kb_env" where
  "demo_kb_env now = \<lparr>ke_clock = \<lparr>uc_now = now, uc_uuid = demo_uuid\<rparr>,
     ke_extract = \<lparr>xe_small_max = 100, xe_large_max = 200, xe_file_max = 300, xe_size = (\<lambda>_. Some 3), xe_read = (\<lambda>_. Some ''Hi.''),
       xe_extract = (\<lambda>kind. manual_text_extract 300 100)\<rparr>,
     ke_batch_size = 100, ke_chunk = demo_chunk_env,
     ke_item = (\<lambda>i. Some \<lparr>is_raw_ref = Some ''raw'', is_mime = Some ''text/plain'', is_input_type = ''text'', is_file_name = None,
       is_title = ''T'', is_content_hash = None\<rparr>),
     ke_channel = None\<rparr>"

definition demo_kb_state :: kb_state where
  "demo_kb_state = \<lparr>ks_db = \<lparr>kd_jobs = [], kd_contents = [], kd_parts = [], kd_norms = [], kd_norm_parts = [], kd_chunks = [], kd_next = 0\<rparr>,
     ks_outbox = \<lparr>ob_rows = [], ob_next_id = 1\<rparr>\<rparr>"

definition demo_payload :: json where
  "demo_payload = JObj [(''training_item_id'', JStr ''i''), (''training_batch_id'', JStr ''b''), (''knowledge_base_id'', JStr ''k'')]"

lemma demo_payload_texts: "payload_text ''training_item_id'' demo_payload = ''i''" "payload_text ''training_batch_id'' demo_payload = ''b''"
  "payload_text ''knowledge_base_id'' demo_payload = ''k''"
  by (code_simp, code_simp, code_simp)

definition demo_job :: und_job where
  "demo_job = \<lparr>uj_id = ''und_job_'', uj_item = ''i'', uj_batch = ''b'', uj_kb = ''k'', uj_status = U_queued, uj_error_code = None,
     uj_error_message = None, uj_retryable = False, uj_retry_count = 0, uj_created_by = None, uj_created_at = 5, uj_started_at = None,
     uj_completed_at = None, uj_metadata = JObj [(''mime_type'', JStr ''text/plain''), (''input_type'', JStr ''text'')]\<rparr>"

definition demo_started :: kb_db where
  "demo_started = (ks_db demo_kb_state)\<lparr>kd_jobs := [demo_job], kd_next := 1\<rparr>"

lemma demo_start: "\<exists>c. start_understanding (demo_kb_env 5) ''i'' ''b'' ''k'' None None (ks_db demo_kb_state) = (Inr c, demo_started)
    \<and> ux_job c = ''und_job_'' \<and> ux_item c = ''i'' \<and> ux_raw_ref c = ''raw''"
proof -
  have "py_strip ''raw'' = ''raw''" by code_simp
  then show ?thesis
    by (simp add: start_understanding_def start_fresh_def create_job_def demo_kb_env_def demo_kb_state_def latest_job_def has_active_job_def
        or_empty_def new_id_def demo_uuid_def set_status_def job_put_def tbl_update_def demo_started_def demo_job_def ctx_of_def j_opt_def Let_def)
qed

lemma demo_clocked: "clocked demo_uuid (demo_kb_env 5) demo_kb_state"
  by (simp add: clocked_def demo_kb_env_def demo_kb_state_def)

lemma demo_reached: "\<exists>d. (kb_step demo_uuid)\<^sup>*\<^sup>* demo_kb_state (demo_kb_state\<lparr>ks_db := d\<rparr>)
    \<and> (\<exists>c. d = died_in (demo_kb_env 5) c U_extracting demo_started \<and> ux_job c = ''und_job_'')"
proof -
  obtain c where c: "start_understanding (demo_kb_env 5) ''i'' ''b'' ''k'' None None (ks_db demo_kb_state) = (Inr c, demo_started)" "ux_job c = ''und_job_''"
    using demo_start by blast
  have "str_or_none (jget ''tenant_slug'' demo_payload) = None" "j_int_opt (jget ''created_by'' demo_payload) = None"
    by (code_simp, code_simp)
  then have "dies_handling (demo_kb_env 5) demo_payload U_extracting demo_kb_state
      = demo_kb_state\<lparr>ks_db := died_in (demo_kb_env 5) c U_extracting demo_started\<rparr>"
    by (simp add: dies_handling_def demo_payload_texts c(1))
  then show ?thesis using step_dies[OF demo_clocked, of demo_payload U_extracting] c(2) by auto
qed


lemma died_job_blocks_its_item_witness:
  "\<exists>st2 j. uj_item j = ''i'' \<and> j \<in> set (kd_jobs (ks_db st2))
     \<and> snd (handle_requested (demo_kb_env 9) demo_payload st2) = st2
     \<and> retry_understanding (demo_kb_env 9) (uj_kb j) ''i'' None True st2 = (Inl JOB_NOT_RETRYABLE, st2)"
proof -
  obtain c where c: "start_understanding (demo_kb_env 5) ''i'' ''b'' ''k'' None None (ks_db demo_kb_state) = (Inr c, demo_started)"
    using demo_start by blast
  define st2 where "st2 = demo_kb_state\<lparr>ks_db := died_in (demo_kb_env 5) c U_chunking demo_started\<rparr>"
  have "kd_jobs (ks_db demo_kb_state) = []" by (simp add: demo_kb_state_def)
  from died_job_blocks_its_item[OF inj_demo_uuid rtranclp.rtrancl_refl this demo_clocked c rtranclp.rtrancl_refl, of U_chunking]
  obtain j where j: "uj_item j = ''i''" "j \<in> set (kd_jobs (ks_db st2))"
    "\<And>e2 payload. payload_text ''training_item_id'' payload = ''i'' \<Longrightarrow> snd (handle_requested e2 payload st2) = st2"
    "\<And>e2 kb2 tenant2 force. retry_understanding e2 kb2 ''i'' tenant2 force st2 = (Inl (if uj_kb j = kb2 then JOB_NOT_RETRYABLE else JOB_NOT_FOUND), st2)"
    unfolding st2_def[symmetric] by blast
  from j(3)[OF demo_payload_texts(1), of "demo_kb_env 9"] j(4)[of "demo_kb_env 9" "uj_kb j" None True] j(1,2)
  show ?thesis by (intro exI[of _ st2] exI[of _ j]) simp
qed

lemma demo_honest: "honest_extractor (ke_extract (demo_kb_env now))"
  by (auto simp: honest_extractor_def demo_kb_env_def manual_text_extract_def Let_def split: if_splits)

lemma understanding_is_all_or_nothing_witness:
  "\<exists>c s st'. pipeline_run (demo_kb_env 6) c (demo_kb_state\<lparr>ks_db := demo_started\<rparr>) = (s, st')
     \<and> s \<in> {U_ready, U_failed, U_retryable} \<and> ux_item c = ''i'' \<and> (\<exists>j \<in> set (kd_jobs (ks_db st')). uj_status j = s)"
proof -
  obtain c :: und_ctx where c: "ux_job c = ''und_job_''" "ux_item c = ''i''" "ux_raw_ref c = ''raw''" using demo_start by blast
  obtain s st' where p: "pipeline_run (demo_kb_env 6) c (demo_kb_state\<lparr>ks_db := demo_started\<rparr>) = (s, st')" by force
  have "py_strip ''raw'' \<noteq> []" by code_simp
  then show ?thesis
    using understanding_is_all_or_nothing[OF demo_honest _ _ p] c p by (fastforce simp: demo_started_def demo_job_def)
qed

lemma refused_retry_strands_the_job_witness:
  "\<exists>st1. ks_outbox st1 = ks_outbox demo_kb_state \<and> retry_understanding (demo_kb_env 9) ''k'' ''i'' None True st1 = (Inl JOB_NOT_RETRYABLE, st1)"
proof -
  define st where "st = demo_kb_state\<lparr>ks_db := (ks_db demo_kb_state)\<lparr>kd_jobs := [demo_job\<lparr>uj_status := U_failed\<rparr>], kd_next := 1\<rparr>\<rparr>"
  have ok: "jobs_ok demo_uuid (ks_db st)" by (simp add: jobs_ok_def st_def demo_job_def issued_def demo_uuid_def)
  have l: "latest_job ''i'' (ks_db st) = Some (demo_job\<lparr>uj_status := U_failed\<rparr>)" by (simp add: latest_job_def st_def demo_job_def)
  obtain r st1 where r: "retry_understanding (demo_kb_env 8) ''k'' ''i'' None False st = (r, st1)" by force
  have ch: "ke_channel (demo_kb_env 8) = None" by (simp add: demo_kb_env_def)
  show ?thesis
    using refused_retry_strands_the_job[OF ok l _ _ disjI1[OF ch] r, of "demo_kb_env 9" None True] by (auto simp: demo_job_def st_def)
qed

lemma rerun_requests_no_discovery_witness:
  "\<exists>c st. key_taken (Some (discovery_key None (ux_job c))) (ks_outbox st) \<and> ks_outbox (snd (pipeline_run (demo_kb_env 6) c st)) = ks_outbox st"
proof -
  obtain c0 :: und_ctx where "ux_job c0 = ''und_job_''" "ux_raw_ref c0 = ''raw''" using demo_start by blast
  define c where "c = c0\<lparr>ux_tenant := None\<rparr>"
  have c: "ux_tenant c = None" "ux_raw_ref c = ''raw''" "ux_job c = ''und_job_''" using \<open>ux_job c0 = _\<close> \<open>ux_raw_ref c0 = _\<close> by (simp_all add: c_def)
  define key where "key = discovery_key None ''und_job_''"
  have key: "strip_or_none (Some key) = Some key" unfolding key_def by code_simp
  define st where "st = demo_kb_state\<lparr>ks_outbox := \<lparr>ob_rows = [new_row 1 DISCOVERY_REQUESTED JNull (Some key) 1], ob_next_id = 2\<rparr>\<rparr>"
  have taken: "key_taken (Some key) (ks_outbox st)" by (simp add: key_taken_def st_def has_key_def new_row_def)
  obtain s st' where p: "pipeline_run (demo_kb_env 6) c st = (s, st')" by force
  have "py_strip (ux_raw_ref c) \<noteq> []" unfolding c by code_simp
  then show ?thesis
    using rerun_requests_no_discovery[OF demo_honest _ _ p] key taken p c by (auto simp: key_def intro!: exI[of _ c] exI[of _ st])
qed

end
