(* ===== verification/AuthRepo.thy ===== *)
theory AuthRepo
  imports AuthTypes Interfaces
begin

text \<open>
  The repositories of the authentication module (\<open>repository/persistence\<close> of \<open>core/modules/auth\<close>
  and the user repository of \<open>core/modules/users\<close>) on the tables of one tenant schema, and the
  transaction a use case runs in: its writes are flushed into one session, committed when the use
  case returns and rolled back when it raises.
\<close>

named_theorems auth_defs \<open>definitions of the authentication repositories\<close>

section \<open>Users\<close>

definition user_is :: "int \<Rightarrow> user_row \<Rightarrow> bool" where
  "user_is uid r = (us_id r = uid \<and> us_deleted_at r = None)"

definition user_by_id :: "int \<Rightarrow> auth_db \<Rightarrow> user_row option" where
  "user_by_id uid d = tbl_first (user_is uid) (ad_users d)"

definition user_by_email :: "string \<Rightarrow> auth_db \<Rightarrow> user_row option" where
  "user_by_email email d =
     tbl_first (\<lambda>r. py_lower (us_email r) = py_norm email \<and> us_deleted_at r = None) (ad_users d)"

text \<open>\<open>db.get\<close> finds the row also when it is marked deleted.\<close>

definition user_put :: "int \<Rightarrow> (user_row \<Rightarrow> user_row) \<Rightarrow> auth_db \<Rightarrow> auth_db" where
  "user_put uid f d = d\<lparr>ad_users := tbl_update (\<lambda>r. us_id r = uid) f (ad_users d)\<rparr>"

text \<open>\<open>update\<close> does not write the password hash and the security version.\<close>

definition user_update :: "user_row \<Rightarrow> auth_db \<Rightarrow> auth_db" where
  "user_update u = user_put (us_id u) (\<lambda>r. r\<lparr>us_email := us_email u, us_is_active := us_is_active u,
     us_role := us_role u, us_failed_login_attempts := us_failed_login_attempts u\<rparr>)"

definition increment_security_version :: "int \<Rightarrow> auth_db \<Rightarrow> auth_db" where
  "increment_security_version uid = user_put uid (\<lambda>r. r\<lparr>us_security_version := us_security_version r + 1\<rparr>)"

definition FAILED_LOGIN_LOCKOUT_THRESHOLD :: int where "FAILED_LOGIN_LOCKOUT_THRESHOLD = 5"

text \<open>\<open>evaluate_failed_login\<close>: the new count and whether the account is locked.\<close>

definition evaluate_failed_login :: "user_row \<Rightarrow> int \<times> bool" where
  "evaluate_failed_login u =
     (let new_count = us_failed_login_attempts u + 1;
          should_lock = FAILED_LOGIN_LOCKOUT_THRESHOLD \<le> new_count \<and> us_role u \<noteq> ''owner''
      in (if should_lock then 0 else new_count, should_lock))"

definition record_failed_login :: "int \<Rightarrow> auth_db \<Rightarrow> auth_db" where
  "record_failed_login uid d =
     (case user_by_id uid d of
        None \<Rightarrow> d
      | Some u \<Rightarrow>
          (let (count, lock) = evaluate_failed_login u;
               u1 = u\<lparr>us_failed_login_attempts := count\<rparr>
           in user_update (if lock then u1\<lparr>us_is_active := False\<rparr> else u1) d))"

definition reset_failed_login :: "int \<Rightarrow> auth_db \<Rightarrow> auth_db" where
  "reset_failed_login uid d =
     (case user_by_id uid d of None \<Rightarrow> d | Some u \<Rightarrow> user_update (u\<lparr>us_failed_login_attempts := 0\<rparr>) d)"

section \<open>Sessions\<close>

definition session_insert :: "(int \<Rightarrow> session_row) \<Rightarrow> auth_db \<Rightarrow> auth_db" where
  "session_insert mk d = d\<lparr>ad_sessions := ad_sessions d @ [mk (ad_next_session d)], ad_next_session := ad_next_session d + 1\<rparr>"

definition session_put :: "int \<Rightarrow> (session_row \<Rightarrow> session_row) \<Rightarrow> auth_db \<Rightarrow> auth_db" where
  "session_put i f d = d\<lparr>ad_sessions := tbl_update (\<lambda>r. se_id r = i) f (ad_sessions d)\<rparr>"

text \<open>\<open>Session.new\<close> and \<open>create\<close>; the column \<open>jti\<close> is unique.\<close>

definition session_new :: "int \<Rightarrow> string \<Rightarrow> string \<Rightarrow> pydatetime \<Rightarrow> client \<Rightarrow> int \<Rightarrow> session_row" where
  "session_new uid jti token_hash expires_at c i = \<lparr>se_id = i, se_user_id = uid, se_jti = jti,
     se_token_hash = token_hash, se_valid = True, se_ip = rq_ip c, se_user_agent = rq_ua c, se_expires_at = expires_at\<rparr>"

definition session_create :: "(int \<Rightarrow> session_row) \<Rightarrow> auth_db \<Rightarrow> session_row res \<times> auth_db" where
  "session_create mk d =
     (if list_ex (\<lambda>r. se_jti r = se_jti (mk (ad_next_session d))) (ad_sessions d)
      then (Inl (IntegrityError ''refresh_tokens_jti_key''), d)
      else (Inr (mk (ad_next_session d)), session_insert mk d))"

definition session_by_jti :: "string option \<Rightarrow> auth_db \<Rightarrow> session_row option" where
  "session_by_jti jti d = (case jti of None \<Rightarrow> None | Some j \<Rightarrow> tbl_first (\<lambda>r. se_jti r = j) (ad_sessions d))"

definition session_invalidated :: "session_row \<Rightarrow> session_row" where
  "session_invalidated r = r\<lparr>se_valid := False\<rparr>"

definition session_is_expired :: "pydatetime \<Rightarrow> session_row \<Rightarrow> bool" where
  "session_is_expired now r = (se_expires_at r \<le> now)"

text \<open>\<open>update\<close> writes the state of the session object to its row.\<close>

definition session_update :: "session_row \<Rightarrow> auth_db \<Rightarrow> auth_db" where
  "session_update u = session_put (se_id u) (\<lambda>r. r\<lparr>se_valid := se_valid u, se_expires_at := se_expires_at u,
     se_ip := se_ip u, se_user_agent := se_user_agent u\<rparr>)"

definition invalidate_all_for_user :: "int \<Rightarrow> auth_db \<Rightarrow> auth_db" where
  "invalidate_all_for_user uid d =
     d\<lparr>ad_sessions := tbl_update (\<lambda>r. se_user_id r = uid \<and> se_valid r) session_invalidated (ad_sessions d)\<rparr>"

definition session_invalidate :: "string \<Rightarrow> auth_db \<Rightarrow> auth_db" where
  "session_invalidate jti d = d\<lparr>ad_sessions := tbl_update (\<lambda>r. se_jti r = jti) session_invalidated (ad_sessions d)\<rparr>"

definition invalidate_by_hash :: "string \<Rightarrow> auth_db \<Rightarrow> auth_db" where
  "invalidate_by_hash h d =
     d\<lparr>ad_sessions := tbl_update (\<lambda>r. se_token_hash r = h \<and> se_valid r) session_invalidated (ad_sessions d)\<rparr>"

section \<open>Pending two-factor logins\<close>

definition pending_create :: "string \<Rightarrow> int \<Rightarrow> pydatetime \<Rightarrow> auth_db \<Rightarrow> unit res \<times> auth_db" where
  "pending_create token uid expires_at d =
     (if list_ex (\<lambda>r. pf_token r = token) (ad_pending d) then (Inl (IntegrityError ''pending_2fa_logins_token_key''), d)
      else (Inr (), d\<lparr>ad_pending := ad_pending d @ [\<lparr>pf_token = token, pf_user_id = uid, pf_expires_at = expires_at\<rparr>]\<rparr>))"

definition pending_user_id :: "pydatetime \<Rightarrow> string \<Rightarrow> auth_db \<Rightarrow> int option" where
  "pending_user_id now token d =
     map_option pf_user_id (tbl_first (\<lambda>r. pf_token r = token \<and> now < pf_expires_at r) (ad_pending d))"

definition pending_consume :: "string \<Rightarrow> auth_db \<Rightarrow> auth_db" where
  "pending_consume token d = d\<lparr>ad_pending := filter (\<lambda>r. pf_token r \<noteq> token) (ad_pending d)\<rparr>"

section \<open>Mailed codes\<close>

definition code_insert :: "(int \<Rightarrow> code_row) \<Rightarrow> auth_db \<Rightarrow> auth_db" where
  "code_insert mk d = d\<lparr>ad_codes := ad_codes d @ [mk (ad_next_code d)], ad_next_code := ad_next_code d + 1\<rparr>"

definition code_put :: "int \<Rightarrow> (code_row \<Rightarrow> code_row) \<Rightarrow> auth_db \<Rightarrow> auth_db" where
  "code_put i f d = d\<lparr>ad_codes := tbl_update (\<lambda>r. tf_id r = i) f (ad_codes d)\<rparr>"

definition code_create :: "(string \<Rightarrow> string) \<Rightarrow> int \<Rightarrow> string \<Rightarrow> string \<Rightarrow> pydatetime \<Rightarrow> auth_db \<Rightarrow> auth_db" where
  "code_create sha256 uid code email expires_at = code_insert (\<lambda>i. \<lparr>tf_id = i, tf_user_id = uid,
     tf_code_hash = sha256 code, tf_email = email, tf_expires_at = expires_at, tf_used = False\<rparr>)"

definition valid_code :: "(string \<Rightarrow> string) \<Rightarrow> pydatetime \<Rightarrow> int \<Rightarrow> string \<Rightarrow> auth_db \<Rightarrow> code_row option" where
  "valid_code sha256 now uid code d =
     tbl_first (\<lambda>r. tf_user_id r = uid \<and> tf_code_hash r = sha256 code \<and> \<not> tf_used r \<and> now < tf_expires_at r) (ad_codes d)"

definition invalidate_user_codes :: "int \<Rightarrow> auth_db \<Rightarrow> auth_db" where
  "invalidate_user_codes uid d =
     d\<lparr>ad_codes := tbl_update (\<lambda>r. tf_user_id r = uid \<and> \<not> tf_used r) (\<lambda>r. r\<lparr>tf_used := True\<rparr>) (ad_codes d)\<rparr>"

definition code_mark_used :: "int \<Rightarrow> auth_db \<Rightarrow> auth_db" where
  "code_mark_used i = code_put i (\<lambda>r. r\<lparr>tf_used := True\<rparr>)"

section \<open>Attempt counters\<close>

definition at_is :: "string \<times> string \<Rightarrow> attempt_row \<Rightarrow> bool" where
  "at_is k r = (at_scope r = fst k \<and> at_key r = snd k)"

text \<open>\<open>_get_or_create\<close> and the increment: a counter whose window is over starts again.\<close>

definition attempt_counted :: "pydatetime \<Rightarrow> int \<Rightarrow> attempt_row \<Rightarrow> attempt_row" where
  "attempt_counted now window_minutes r =
     (if minutes window_minutes < now - at_window_start r then r\<lparr>at_attempts := 1, at_window_start := now\<rparr>
      else r\<lparr>at_attempts := at_attempts r + 1\<rparr>)"

definition record_failed :: "pydatetime \<Rightarrow> int \<Rightarrow> string \<times> string \<Rightarrow> auth_db \<Rightarrow> auth_db" where
  "record_failed now window_minutes k d =
     (case tbl_first (at_is k) (ad_attempts d) of
        None \<Rightarrow> d\<lparr>ad_attempts := ad_attempts d @ [\<lparr>at_scope = fst k, at_key = snd k, at_attempts = 1, at_window_start = now\<rparr>]\<rparr>
      | Some _ \<Rightarrow> d\<lparr>ad_attempts := tbl_update (at_is k) (attempt_counted now window_minutes) (ad_attempts d)\<rparr>)"

definition is_blocked :: "pydatetime \<Rightarrow> int \<Rightarrow> int \<Rightarrow> string \<times> string \<Rightarrow> auth_db \<Rightarrow> bool" where
  "is_blocked now max_attempts window_minutes k d =
     (case tbl_first (at_is k) (ad_attempts d) of
        None \<Rightarrow> False
      | Some r \<Rightarrow> \<not> minutes window_minutes < now - at_window_start r \<and> max_attempts \<le> at_attempts r)"

definition reset_for_success :: "string \<Rightarrow> int \<Rightarrow> string option \<Rightarrow> auth_db \<Rightarrow> auth_db" where
  "reset_for_success token_key uid ip d =
     d\<lparr>ad_attempts := filter (\<lambda>r. \<not> at_is (''token'', token_key) r \<and> \<not> at_is (''user'', show_int uid) r
         \<and> \<not> (case ip of None \<Rightarrow> False | Some i \<Rightarrow> i \<noteq> [] \<and> at_is (''ip'', i) r)) (ad_attempts d)\<rparr>"

section \<open>Authenticator secrets\<close>

definition authenticator_of :: "int \<Rightarrow> auth_db \<Rightarrow> authenticator_row option" where
  "authenticator_of uid d = tbl_first (\<lambda>r. ar_user_id r = uid) (ad_authenticators d)"

definition authenticator_put :: "int \<Rightarrow> (authenticator_row \<Rightarrow> authenticator_row) \<Rightarrow> auth_db \<Rightarrow> auth_db" where
  "authenticator_put uid f d =
     (case authenticator_of uid d of
        None \<Rightarrow> d\<lparr>ad_authenticators := ad_authenticators d @
           [f \<lparr>ar_user_id = uid, ar_secret = None, ar_is_enabled = False, ar_pending_secret = None, ar_pending_expires_at = None\<rparr>]\<rparr>
      | Some _ \<Rightarrow> d\<lparr>ad_authenticators := tbl_update (\<lambda>r. ar_user_id r = uid) f (ad_authenticators d)\<rparr>)"

definition upsert_pending_secret :: "int \<Rightarrow> string \<Rightarrow> pydatetime \<Rightarrow> auth_db \<Rightarrow> auth_db" where
  "upsert_pending_secret uid secret expires_at =
     authenticator_put uid (\<lambda>r. r\<lparr>ar_pending_secret := Some secret, ar_pending_expires_at := Some expires_at\<rparr>)"

definition enable_secret :: "int \<Rightarrow> string \<Rightarrow> auth_db \<Rightarrow> auth_db" where
  "enable_secret uid secret = authenticator_put uid (\<lambda>r. r\<lparr>ar_secret := Some secret, ar_is_enabled := True,
     ar_pending_secret := None, ar_pending_expires_at := None\<rparr>)"

definition disable_secret :: "int \<Rightarrow> auth_db \<Rightarrow> auth_db" where
  "disable_secret uid d =
     (case authenticator_of uid d of
        None \<Rightarrow> d
      | Some _ \<Rightarrow> authenticator_put uid (\<lambda>r. r\<lparr>ar_secret := None, ar_is_enabled := False,
          ar_pending_secret := None, ar_pending_expires_at := None\<rparr>) d)"

definition enabled_secret :: "int \<Rightarrow> auth_db \<Rightarrow> string option" where
  "enabled_secret uid d =
     (case authenticator_of uid d of
        None \<Rightarrow> None
      | Some r \<Rightarrow> if ar_is_enabled r then strip_or_none (ar_secret r) else None)"

definition pending_secret :: "pydatetime \<Rightarrow> int \<Rightarrow> auth_db \<Rightarrow> string option" where
  "pending_secret now uid d =
     (case authenticator_of uid d of
        None \<Rightarrow> None
      | Some r \<Rightarrow>
          (case (ar_pending_secret r, ar_pending_expires_at r) of
             (Some sec, Some t) \<Rightarrow> if sec \<noteq> [] \<and> now < t then Some sec else None
           | _ \<Rightarrow> None))"

section \<open>Deleting a user\<close>

definition user_delete :: "pydatetime \<Rightarrow> string \<Rightarrow> string \<Rightarrow> int \<Rightarrow> auth_db \<Rightarrow> unit res \<times> auth_db" where
  "user_delete now hex url_token uid d =
     (if \<not> list_ex (\<lambda>r. us_id r = uid) (ad_users d) then (Inl (ValueError (''User not found: '' @ show_int uid)), d)
      else (Inr (),
        user_put uid (\<lambda>r. r\<lparr>us_email := ''deleted-user-'' @ show_int uid @ ''-'' @ hex @ ''@deleted.local'',
            us_password_hash := url_token, us_is_active := False, us_role := ''user'', us_failed_login_attempts := 0,
            us_security_version := us_security_version r + 1, us_deleted_at := Some now\<rparr>)
          (invalidate_user_codes uid (invalidate_all_for_user uid
             (d\<lparr>ad_pending := tbl_update (\<lambda>r. pf_user_id r = uid \<and> now < pf_expires_at r)
                 (\<lambda>r. r\<lparr>pf_expires_at := now\<rparr>) (ad_pending d)\<rparr>)))))"

section \<open>Transactions\<close>

record auth_state =
  as_db :: auth_db
  as_outbox :: outbox_db

definition emit :: "auth_event \<Rightarrow> auth_db \<Rightarrow> auth_db" where
  "emit ev d = d\<lparr>ad_events := ad_events d @ [ev]\<rparr>"

definition publish_event :: "channel_env \<Rightarrow> auth_event \<Rightarrow> outbox_db \<Rightarrow> unit res \<times> outbox_db" where
  "publish_event c ev ob =
     (case ev of
        Audit a \<Rightarrow> proxy_log c JNull a ob
      | Security name args kwargs \<Rightarrow> publish c ''security'' (security_payload name args kwargs) None ob
      | Mail_2fa email code pending \<Rightarrow> enqueue_email_2fa c (JStr email) (JStr code) (JStr pending) JNull ob)"

fun publish_events :: "channel_env \<Rightarrow> auth_event list \<Rightarrow> outbox_db \<Rightarrow> unit res \<times> outbox_db" where
  "publish_events c [] ob = (Inr (), ob)"
| "publish_events c (ev # evs) ob =
     (case publish_event c ev ob of
        (Inl x, ob1) \<Rightarrow> (Inl x, ob1)
      | (Inr _, ob1) \<Rightarrow> publish_events c evs ob1)"

text \<open>
  The events are written into the outbox through the same session. An event that is refused raises
  where it is sent; since everything the use case wrote is then rolled back, the events can be
  written when it ends.
\<close>

definition in_transaction :: "channel_env \<Rightarrow> (auth_db \<Rightarrow> 'a res \<times> auth_db) \<Rightarrow> auth_state \<Rightarrow> 'a res \<times> auth_state" where
  "in_transaction c body s =
     (let (res, d) = body ((as_db s)\<lparr>ad_events := []\<rparr>)
      in case publish_events c (ad_events d) (as_outbox s) of
           (Inl x, _) \<Rightarrow> (Inl x, s)
         | (Inr _, ob) \<Rightarrow>
             (case res of
                Inl x \<Rightarrow> (Inl x, s)
              | Inr v \<Rightarrow> (Inr v, s\<lparr>as_db := d\<lparr>ad_events := []\<rparr>, as_outbox := ob\<rparr>)))"

end
