(* ===== verification/AuthLogin.thy ===== *)
theory AuthLogin
  imports AuthRepo
begin

text \<open>
  The use cases of a login (\<open>use_cases/login_service.py\<close>, \<open>two_factor_service.py\<close>): password step,
  second factor by mailed code or authenticator, issue of the token pair, set-up of an
  authenticator. \<open>client\<close> is the address and agent of the request.
\<close>

definition opt_str :: "string option \<Rightarrow> json" where
  "opt_str x = (case x of None \<Rightarrow> JNull | Some s \<Rightarrow> JStr s)"

definition opt_id :: "int option \<Rightarrow> json" where
  "opt_id x = (case x of None \<Rightarrow> JNull | Some i \<Rightarrow> JInt i)"

text \<open>A record of the audit service and of the security logger.\<close>

definition audited :: "string \<Rightarrow> int option \<Rightarrow> json \<Rightarrow> client \<Rightarrow> auth_db \<Rightarrow> auth_db" where
  "audited action uid details c = emit (Audit \<lparr>aa_action = action, aa_user_id = opt_id uid, aa_actor_type = JNull,
     aa_event_name = JNull, aa_outcome = JNull, aa_target_type = JNull, aa_target_id = JNull,
     aa_correlation_id = JNull, aa_details = details, aa_ip = opt_str (rq_ip c), aa_user_agent = opt_str (rq_ua c)\<rparr>)"

definition logged :: "string \<Rightarrow> json list \<Rightarrow> client \<Rightarrow> tenant_ctx option \<Rightarrow> auth_db \<Rightarrow> auth_db" where
  "logged method args c tenant = emit (Security method (args @ [opt_str (rq_ip c), opt_str (rq_ua c)])
     [(''tenant_slug'', case tenant of None \<Rightarrow> JNull | Some t \<Rightarrow> opt_str (tx_slug t)),
      (''correlation_id'', case tenant of None \<Rightarrow> JNull | Some t \<Rightarrow> opt_str (tx_correlation_id t))])"

definition because :: "string \<Rightarrow> json" where
  "because r = JObj [(''reason'', JStr r)]"

section \<open>Mailed codes\<close>

definition too_many_attempts :: exn where
  "too_many_attempts = OtherError ''TwoFactorTooManyAttemptsError''"

definition create_and_send_code :: "'t aenv \<Rightarrow> int \<Rightarrow> string \<Rightarrow> string \<Rightarrow> auth_db \<Rightarrow> auth_db" where
  "create_and_send_code e uid email pending d =
     emit (Mail_2fa email (ae_code e) pending)
       (code_create (ae_sha256 e) uid (ae_code e) email (ae_now e + minutes (ae_code_expiry_minutes e))
         (invalidate_user_codes uid d))"

definition mail_scopes :: "int \<Rightarrow> string \<Rightarrow> client \<Rightarrow> (string \<times> string) list" where
  "mail_scopes uid pending c = [(''token'', pending), (''user'', show_int uid), (''ip'', or_empty (rq_ip c))]"

definition blocked_scope :: "pydatetime \<Rightarrow> int \<Rightarrow> int \<Rightarrow> (string \<times> string) list \<Rightarrow> auth_db \<Rightarrow> bool" where
  "blocked_scope now max_attempts window_minutes ks d =
     list_ex (\<lambda>k. snd k \<noteq> [] \<and> is_blocked now max_attempts window_minutes k d) ks"

definition record_scopes :: "pydatetime \<Rightarrow> int \<Rightarrow> (string \<times> string) list \<Rightarrow> auth_db \<Rightarrow> auth_db" where
  "record_scopes now window_minutes ks d =
     fold (\<lambda>k d. if snd k = [] then d else record_failed now window_minutes k d) ks d"

definition verify_code :: "'t aenv \<Rightarrow> int \<Rightarrow> string \<Rightarrow> string \<Rightarrow> client \<Rightarrow> auth_db \<Rightarrow> bool res \<times> auth_db" where
  "verify_code e uid code pending c d =
     (if blocked_scope (ae_now e) (ae_max_attempts e) (ae_window_minutes e) (mail_scopes uid pending c) d
      then (Inl too_many_attempts, d)
      else (case valid_code (ae_sha256 e) (ae_now e) uid code d of
              None \<Rightarrow> (Inr False,
                if pending \<noteq> [] \<or> rq_ip c \<noteq> None
                then record_scopes (ae_now e) (ae_window_minutes e) (mail_scopes uid pending c) d else d)
            | Some r \<Rightarrow> (Inr True, code_mark_used (tf_id r) (reset_for_success pending uid (rq_ip c) d))))"

section \<open>Authenticator codes\<close>

definition authenticator_max :: "'t aenv \<Rightarrow> int" where
  "authenticator_max e = max 1 (if ae_max_attempts e = 0 then 5 else ae_max_attempts e)"

definition authenticator_window :: "'t aenv \<Rightarrow> int" where
  "authenticator_window e = max 1 (if ae_window_minutes e = 0 then 15 else ae_window_minutes e)"

definition authenticator_scopes :: "int \<Rightarrow> string \<Rightarrow> client \<Rightarrow> (string \<times> string) list" where
  "authenticator_scopes uid pending c =
     [(''token'', py_strip pending), (''user'', show_int uid), (''ip'', py_strip (or_empty (rq_ip c)))]"

text \<open>Every scope is counted, then tested: the counters are independent of each other.\<close>

definition record_scope :: "'t aenv \<Rightarrow> string \<times> string \<Rightarrow> bool \<times> auth_db \<Rightarrow> bool \<times> auth_db" where
  "record_scope e k bd =
     (if snd k = [] then bd
      else (let d1 = record_failed (ae_now e) (authenticator_window e) k (snd bd)
            in (fst bd \<or> is_blocked (ae_now e) (authenticator_max e) (authenticator_window e) k d1, d1)))"

definition record_authenticator_failed :: "'t aenv \<Rightarrow> int \<Rightarrow> string \<Rightarrow> client \<Rightarrow> auth_db \<Rightarrow> bool \<times> auth_db" where
  "record_authenticator_failed e uid pending c d = fold (record_scope e) (authenticator_scopes uid pending c) (False, d)"

definition authenticator_step ::
  "'t aenv \<Rightarrow> int \<Rightarrow> string \<Rightarrow> string \<Rightarrow> string \<Rightarrow> client \<Rightarrow> tenant_ctx \<Rightarrow> auth_db \<Rightarrow> bool res \<times> auth_db" where
  "authenticator_step e uid secret code pending c tenant d =
     (if blocked_scope (ae_now e) (authenticator_max e) (authenticator_window e) (authenticator_scopes uid pending c) d
      then (Inl too_many_attempts, d)
      else (case verify_authenticator_code (ae_hmac_sha1 e) (ae_now e) secret code of
              Inl x \<Rightarrow> (Inl x, d)
            | Inr True \<Rightarrow> (Inr True, reset_for_success pending uid (rq_ip c) d)
            | Inr False \<Rightarrow>
                (let (blocked_now, d1) = record_authenticator_failed e uid pending c d;
                     d2 = audited ''login_2fa_failed'' (Some uid) (because ''invalid_authenticator_code'') c
                            (logged ''login_bad_password_attempt'' [JInt uid] c (Some tenant) d1)
                 in (if blocked_now then Inl too_many_attempts else Inr False, d2))))"

section \<open>Token pairs\<close>

definition issue_tokens ::
  "'t aenv \<Rightarrow> int \<Rightarrow> client \<Rightarrow> bool \<Rightarrow> int \<Rightarrow> int \<Rightarrow> string \<Rightarrow> auth_db \<Rightarrow> ('t \<times> 't \<times> string) res \<times> auth_db" where
  "issue_tokens e uid c auto_login user_ver tenant_ver role d =
     (let d1 = invalidate_all_for_user uid d;
          (refresh, cl) = make_refresh_pair e uid auto_login user_ver tenant_ver
      in case session_create (session_new uid (ae_refresh_jti e) (ae_token_hash e refresh) (cl_exp cl) c) d1 of
           (Inl x, d2) \<Rightarrow> (Inl x, d2)
         | (Inr _, d2) \<Rightarrow>
             (let (access, jti) = make_access e uid user_ver tenant_ver role in (Inr (access, refresh, jti), d2)))"

record 't login_success =
  ls_access :: 't
  ls_refresh :: 't
  ls_user :: user_row
  ls_access_jti :: string

datatype 't login_result = No_login | Logged_in "'t login_success" | Second_factor string string

definition logged_in :: "'t aenv \<Rightarrow> user_row \<Rightarrow> client \<Rightarrow> bool \<Rightarrow> tenant_ctx \<Rightarrow> auth_db \<Rightarrow> 't login_result res \<times> auth_db" where
  "logged_in e u c auto_login tenant d =
     (case issue_tokens e (us_id u) c auto_login (us_security_version u) (tx_security_version tenant) (us_role u) d of
        (Inl x, d1) \<Rightarrow> (Inl x, d1)
      | (Inr (access, refresh, jti), d1) \<Rightarrow>
          (Inr (Logged_in \<lparr>ls_access = access, ls_refresh = refresh, ls_user = u, ls_access_jti = jti\<rparr>), d1))"

section \<open>The password step\<close>

definition authenticator_required :: "user_row \<Rightarrow> tenant_ctx \<Rightarrow> bool" where
  "authenticator_required u tenant =
     (py_norm (us_role u) \<in> {''admin'', ''owner'', ''platform_admin''} \<and> \<not> tx_trial_active tenant)"

definition login_challenge ::
  "'t aenv \<Rightarrow> user_row \<Rightarrow> string option \<Rightarrow> client \<Rightarrow> auth_db \<Rightarrow> 't login_result res \<times> auth_db" where
  "login_challenge e u secret c d =
     (let d1 = audited ''login_2fa_required'' (Some (us_id u)) (JObj [(''email'', JStr (us_email u))]) c d
      in case pending_create (ae_pending_token e) (us_id u) (ae_now e + minutes 10) d1 of
           (Inl x, d2) \<Rightarrow> (Inl x, d2)
         | (Inr _, d2) \<Rightarrow>
             (case secret of
                None \<Rightarrow> (Inr (Second_factor (ae_pending_token e) ''email''),
                  create_and_send_code e (us_id u) (us_email u) (ae_pending_token e) d2)
              | Some _ \<Rightarrow> (Inr (Second_factor (ae_pending_token e) ''authenticator''), d2)))"

definition login_verified ::
  "'t aenv \<Rightarrow> user_row \<Rightarrow> client \<Rightarrow> bool \<Rightarrow> tenant_ctx \<Rightarrow> auth_db \<Rightarrow> 't login_result res \<times> auth_db" where
  "login_verified e u c auto_login tenant d =
     (let uid = us_id u; required = authenticator_required u tenant; secret = enabled_secret uid d
      in if required \<and> secret = None
         then (Inl (ValueError ''authenticator_required_setup''),
           audited ''login_failed'' (Some uid)
             (JObj [(''reason'', JStr ''authenticator_required_not_configured''), (''email'', JStr (us_email u))]) c d)
         else if \<not> ae_two_factor_enabled e \<and> \<not> required \<and> secret = None
         then logged_in e u c auto_login tenant
           (audited ''login_success'' (Some uid) (JObj [(''email'', JStr (us_email u)), (''2fa'', JBool False)]) c
             (logged ''login_successful_login'' [JInt uid] c (Some tenant) d))
         else login_challenge e u secret c d)"

definition login_step1 ::
  "'t aenv \<Rightarrow> string \<Rightarrow> string \<Rightarrow> client \<Rightarrow> bool \<Rightarrow> tenant_ctx \<Rightarrow> auth_db \<Rightarrow> 't login_result res \<times> auth_db" where
  "login_step1 e email password c auto_login tenant d =
     (if email = [] \<or> password = [] then (Inr No_login, d)
      else (case user_by_email email d of
              None \<Rightarrow> (Inr No_login,
                audited ''login_failed'' None (JObj [(''reason'', JStr ''invalid_user''), (''email'', JStr email)]) c
                  (logged ''login_invalid_user_attempt'' [JStr email] c (Some tenant) d))
            | Some u \<Rightarrow>
                if \<not> us_is_active u
                then (Inr No_login, audited ''login_failed'' (Some (us_id u)) (because ''inactive_user'') c
                  (logged ''login_inactive_user_attempt'' [JInt (us_id u)] c (Some tenant) d))
                else if \<not> ae_password_ok e password (us_password_hash u)
                then (Inr No_login, record_failed_login (us_id u)
                  (audited ''login_failed'' (Some (us_id u)) (JObj [(''reason'', JStr ''bad_password''), (''email'', JStr email)]) c
                    (logged ''login_bad_password_attempt'' [JInt (us_id u)] c (Some tenant) d)))
                else login_verified e u c auto_login tenant (reset_failed_login (us_id u) d)))"

section \<open>The second step\<close>

text \<open>A pending login whose user id is 0 counts as none (\<open>if not user_id\<close>).\<close>

definition second_factor_ok ::
  "'t aenv \<Rightarrow> int \<Rightarrow> string \<Rightarrow> string \<Rightarrow> client \<Rightarrow> tenant_ctx \<Rightarrow> auth_db \<Rightarrow> bool res \<times> auth_db" where
  "second_factor_ok e uid pending code c tenant d =
     (case enabled_secret uid d of
        Some secret \<Rightarrow> authenticator_step e uid secret code pending c tenant d
      | None \<Rightarrow>
          (case verify_code e uid code pending c d of
             (Inr False, d1) \<Rightarrow> (Inr False, audited ''login_2fa_failed'' (Some uid) (because ''invalid_code'') c
               (logged ''login_bad_password_attempt'' [JInt uid] c (Some tenant) d1))
           | r \<Rightarrow> r))"

definition login_finish ::
  "'t aenv \<Rightarrow> int \<Rightarrow> string \<Rightarrow> client \<Rightarrow> bool \<Rightarrow> tenant_ctx \<Rightarrow> string \<Rightarrow> auth_db \<Rightarrow> 't login_result res \<times> auth_db" where
  "login_finish e uid pending c auto_login tenant challenge_type d =
     (let d1 = pending_consume pending d
      in case user_by_id uid d1 of
           None \<Rightarrow> (Inr No_login, d1)
         | Some u \<Rightarrow>
             if \<not> us_is_active u then (Inr No_login, d1)
             else logged_in e u c auto_login tenant
               (audited ''login_success'' (Some uid) (JObj [(''email'', JStr (us_email u))]) c
                 (audited ''login_2fa_success'' (Some uid)
                    (JObj [(''email'', JStr (us_email u)), (''challenge_type'', JStr challenge_type)]) c
                   (logged ''login_successful_login'' [JInt uid] c (Some tenant) d1))))"

definition login_step2 ::
  "'t aenv \<Rightarrow> string \<Rightarrow> string \<Rightarrow> client \<Rightarrow> bool \<Rightarrow> tenant_ctx \<Rightarrow> auth_db \<Rightarrow> 't login_result res \<times> auth_db" where
  "login_step2 e pending code c auto_login tenant d =
     (case pending_user_id (ae_now e) pending d of
        None \<Rightarrow> (Inr No_login, d)
      | Some uid \<Rightarrow>
          if uid = 0 then (Inr No_login, d)
          else (case second_factor_ok e uid pending code c tenant d of
                  (Inl x, d1) \<Rightarrow>
                    (Inl x, if x = too_many_attempts
                            then audited ''login_2fa_rate_limited'' (Some uid) (because ''too_many_attempts'') c (pending_consume pending d1)
                            else d1)
                | (Inr False, d1) \<Rightarrow> (Inr No_login, d1)
                | (Inr True, d1) \<Rightarrow> login_finish e uid pending c auto_login tenant
                    (if enabled_secret uid d \<noteq> None then ''authenticator'' else ''email'') d1))"

record login_input =
  li_email :: "string option"
  li_password :: "string option"
  li_pending_token :: "string option"
  li_two_factor_code :: "string option"
  li_client :: client
  li_auto_login :: bool
  li_tenant :: "tenant_ctx option"

definition no_tenant :: tenant_ctx where
  "no_tenant = \<lparr>tx_slug = None, tx_correlation_id = None, tx_security_version = 0, tx_trial_active = False\<rparr>"

definition login_body :: "'t aenv \<Rightarrow> login_input \<Rightarrow> auth_db \<Rightarrow> 't login_result res \<times> auth_db" where
  "login_body e inp d =
     (let tenant = (case li_tenant inp of None \<Rightarrow> no_tenant | Some t \<Rightarrow> t)
      in if or_empty (li_pending_token inp) \<noteq> [] \<and> or_empty (li_two_factor_code inp) \<noteq> []
         then login_step2 e (or_empty (li_pending_token inp)) (or_empty (li_two_factor_code inp)) (li_client inp)
                (li_auto_login inp) tenant d
         else login_step1 e (or_empty (li_email inp)) (or_empty (li_password inp)) (li_client inp)
                (li_auto_login inp) tenant d)"

definition login :: "'t aenv \<Rightarrow> login_input \<Rightarrow> auth_state \<Rightarrow> 't login_result res \<times> auth_state" where
  "login e inp = in_transaction (ae_channel e) (login_body e inp)"

definition issue_tokens_for_user ::
  "'t aenv \<Rightarrow> user_row \<Rightarrow> client \<Rightarrow> bool \<Rightarrow> tenant_ctx \<Rightarrow> auth_state \<Rightarrow> 't login_result res \<times> auth_state" where
  "issue_tokens_for_user e u c auto_login tenant =
     in_transaction (ae_channel e) (logged_in e u c auto_login tenant)"

section \<open>Setting up an authenticator\<close>

text \<open>These run outside a transaction of their own: every repository call commits.\<close>

definition start_authenticator_setup :: "'t aenv \<Rightarrow> int \<Rightarrow> auth_db \<Rightarrow> string \<times> auth_db" where
  "start_authenticator_setup e uid d =
     (let secret = base32_secret (fst (ae_uuids e)) (snd (ae_uuids e)) 20
      in (secret, upsert_pending_secret uid secret (ae_now e + minutes 10) d))"

definition confirm_authenticator_setup :: "'t aenv \<Rightarrow> int \<Rightarrow> string \<Rightarrow> auth_db \<Rightarrow> unit res \<times> auth_db" where
  "confirm_authenticator_setup e uid code d =
     (case pending_secret (ae_now e) uid d of
        None \<Rightarrow> (Inl (ValueError ''authenticator_setup_not_started''), d)
      | Some secret \<Rightarrow>
          (case verify_authenticator_code (ae_hmac_sha1 e) (ae_now e) secret code of
             Inl x \<Rightarrow> (Inl x, d)
           | Inr False \<Rightarrow> (Inl (ValueError ''invalid_authenticator_code''), d)
           | Inr True \<Rightarrow>
               (Inr (), invalidate_all_for_user uid (increment_security_version uid (enable_secret uid secret d)))))"

definition authenticator_status :: "'t aenv \<Rightarrow> int \<Rightarrow> auth_db \<Rightarrow> bool \<times> bool" where
  "authenticator_status e uid d =
     (case authenticator_of uid d of
        None \<Rightarrow> (False, False)
      | Some r \<Rightarrow> (ar_is_enabled r \<and> or_empty (ar_secret r) \<noteq> [], pending_secret (ae_now e) uid d \<noteq> None))"

definition disable_authenticator :: "int \<Rightarrow> auth_db \<Rightarrow> auth_db" where
  "disable_authenticator uid d = invalidate_all_for_user uid (increment_security_version uid (disable_secret uid d))"

end
