(* ===== verification/AuthSession.thy ===== *)
theory AuthSession
  imports AuthLogin
begin

text \<open>
  Refresh and logout (\<open>use_cases/refresh_service.py\<close>, \<open>logout_service.py\<close>), the allowlist of access
  tokens (\<open>repository/token_allowlist.py\<close>) and the parts of the routes that change state
  (\<open>router/auth_router.py\<close>, \<open>auth_response_builder.py\<close>).
\<close>

section \<open>Refresh\<close>

datatype refresh_fail_reason =
    EXPIRED_TOKEN | INVALID_TOKEN | WRONG_TOKEN_TYPE | SECURITY_VERSION_MISMATCH | UNKNOWN_SESSION
  | PERMISSIONS_CHANGED | SESSION_REUSE_DETECTED | SESSION_EXPIRED | RE_2FA_REQUIRED

record 't refresh_success =
  rs_access :: 't
  rs_refresh :: 't
  rs_access_jti :: string
  rs_user :: "user_row option"
  rs_auto_login :: bool

datatype 't refresh_result = Refresh_failed refresh_fail_reason | Refresh_success "'t refresh_success"

definition tenant_version :: "tenant_ctx option \<Rightarrow> int" where
  "tenant_version tenant = (case tenant of None \<Rightarrow> 0 | Some t \<Rightarrow> tx_security_version t)"

definition tenant_slug_of :: "tenant_ctx option \<Rightarrow> string option" where
  "tenant_slug_of tenant = (case tenant of None \<Rightarrow> None | Some t \<Rightarrow> tx_slug t)"

text \<open>Both the address and the agent are stored and both are different now.\<close>

definition fingerprint_mismatch :: "session_row \<Rightarrow> client \<Rightarrow> bool" where
  "fingerprint_mismatch r c =
     (case (se_ip r, se_user_agent r) of
        (Some ip, Some ua) \<Rightarrow>
          py_strip ip \<noteq> [] \<and> py_strip ua \<noteq> []
          \<and> py_strip (or_empty (rq_ip c)) \<noteq> py_strip ip \<and> py_strip (or_empty (rq_ua c)) \<noteq> py_strip ua
      | _ \<Rightarrow> False)"

text \<open>An unhandled exception of PyJWT or of \<open>int\<close>.\<close>

definition unhandled :: "string \<Rightarrow> exn" where
  "unhandled s = OtherError s"

definition version_mismatch :: "claims \<Rightarrow> user_row option \<Rightarrow> tenant_ctx option \<Rightarrow> bool" where
  "version_mismatch cl u tenant =
     (case_option 0 id (cl_user_ver cl) \<noteq> (case u of None \<Rightarrow> 0 | Some x \<Rightarrow> us_security_version x)
      \<or> case_option 0 id (cl_tenant_ver cl) \<noteq> tenant_version tenant)"

text \<open>The rotation: the old session is invalidated and a new pair is issued with its own session.\<close>

definition rotate ::
  "'t aenv \<Rightarrow> int \<Rightarrow> claims \<Rightarrow> user_row option \<Rightarrow> session_row \<Rightarrow> client \<Rightarrow> tenant_ctx option \<Rightarrow> auth_db
     \<Rightarrow> 't refresh_result res \<times> auth_db" where
  "rotate e uid cl u rec c tenant d =
     (let d1 = session_update (session_invalidated rec) d;
          auto_login = case_option False id (cl_al cl);
          user_ver = (case u of None \<Rightarrow> 0 | Some x \<Rightarrow> us_security_version x);
          (new_refresh, new_claims) = make_refresh_pair e uid auto_login user_ver (tenant_version tenant)
      in case session_create (session_new uid (ae_refresh_jti e) (ae_token_hash e new_refresh) (cl_exp new_claims) c) d1 of
           (Inl x, d2) \<Rightarrow> (Inl x, d2)
         | (Inr _, d2) \<Rightarrow>
             (let (new_access, jti) = make_access e uid user_ver (tenant_version tenant)
                    (case u of None \<Rightarrow> ''user'' | Some x \<Rightarrow> us_role x)
              in (Inr (Refresh_success \<lparr>rs_access = new_access, rs_refresh = new_refresh, rs_access_jti = jti,
                        rs_user = u, rs_auto_login = auto_login\<rparr>),
                  audited ''refresh'' (Some uid) JNull c (logged ''refresh_success'' [JInt uid] c tenant d2))))"

definition suspicious_details :: "session_row \<Rightarrow> client \<Rightarrow> json" where
  "suspicious_details rec c = JObj [(''reason'', JStr ''fingerprint_mismatch''),
     (''stored_ip'', opt_str (se_ip rec)), (''current_ip'', opt_str (rq_ip c)),
     (''stored_ua'', opt_str (map_option (\<lambda>s. if 80 < length s then take 80 s @ ''...'' else s) (se_user_agent rec))),
     (''current_ua'', opt_str (map_option (\<lambda>s. if 80 < length s then take 80 s @ ''...'' else s) (rq_ua c)))]"

definition refresh_session ::
  "'t aenv \<Rightarrow> int \<Rightarrow> claims \<Rightarrow> user_row option \<Rightarrow> session_row \<Rightarrow> client \<Rightarrow> tenant_ctx option \<Rightarrow> auth_db
     \<Rightarrow> 't refresh_result res \<times> auth_db" where
  "refresh_session e uid cl u rec c tenant d =
     (if \<not> se_valid rec
      then if ae_permissions_changed e (tenant_slug_of tenant) (se_user_id rec)
           then (Inr (Refresh_failed PERMISSIONS_CHANGED),
             audited ''refresh_failed'' (Some uid) (because ''permissions_changed'') c d)
           else (Inr (Refresh_failed SESSION_REUSE_DETECTED), invalidate_all_for_user (se_user_id rec)
             (audited ''refresh_failed'' (Some uid) (because ''reuse_detected'') c
               (logged ''refresh_reuse_detected'' [JInt uid] c tenant d)))
      else if session_is_expired (ae_now e) rec
      then (Inr (Refresh_failed SESSION_EXPIRED),
        audited ''refresh_failed'' (Some uid) (because ''session_expired'') c
          (logged ''refresh_session_expired'' [JInt uid] c tenant (session_update (session_invalidated rec) d)))
      else if fingerprint_mismatch rec c
      then (Inr (Refresh_failed RE_2FA_REQUIRED),
        audited ''refresh_suspicious_fingerprint'' (Some uid) (suspicious_details rec c) c d)
      else rotate e uid cl u rec c tenant d)"

definition refresh_claims ::
  "'t aenv \<Rightarrow> claims \<Rightarrow> client \<Rightarrow> tenant_ctx option \<Rightarrow> auth_db \<Rightarrow> 't refresh_result res \<times> auth_db" where
  "refresh_claims e cl c tenant d =
     (if cl_typ cl \<noteq> Some ''refresh''
      then (Inr (Refresh_failed WRONG_TOKEN_TYPE),
        audited ''refresh_failed'' None (because ''wrong_type'') c (logged ''refresh_wrong_type'' [] c tenant d))
      else (case py_int (or_empty (cl_sub cl)) of
              None \<Rightarrow> (Inl (unhandled ''sub''), d)
            | Some uid \<Rightarrow>
                (let u = user_by_id uid d
                 in if version_mismatch cl u tenant
                    then (Inr (Refresh_failed SECURITY_VERSION_MISMATCH),
                      audited ''refresh_failed'' (Some uid) (because ''security_version_mismatch'') c
                        (logged ''refresh_session_expired'' [JInt uid] c tenant d))
                    else (case session_by_jti (cl_jti cl) d of
                            None \<Rightarrow> (Inr (Refresh_failed UNKNOWN_SESSION),
                              audited ''refresh_failed'' (Some uid) (because ''unknown_jti'') c
                                (logged ''refresh_unknown_jti'' [JInt uid] c tenant d))
                          | Some rec \<Rightarrow> refresh_session e uid cl u rec c tenant d))))"

definition refresh_body ::
  "'t aenv \<Rightarrow> 't \<Rightarrow> client \<Rightarrow> tenant_ctx option \<Rightarrow> auth_db \<Rightarrow> 't refresh_result res \<times> auth_db" where
  "refresh_body e token c tenant d =
     (case token_verify e token of
        Inl ExpiredSignature \<Rightarrow> (Inr (Refresh_failed EXPIRED_TOKEN),
          audited ''refresh_failed'' None (because ''expired_token'') c (logged ''refresh_expired_token'' [] c tenant d))
      | Inl err \<Rightarrow>
          if err \<in> {InvalidSignature, DecodeError}
          then (Inr (Refresh_failed INVALID_TOKEN),
            audited ''refresh_failed'' None (because ''invalid_token'') c (logged ''refresh_invalid_token'' [] c tenant d))
          else (Inl (unhandled ''InvalidTokenError''), d)
      | Inr cl \<Rightarrow> refresh_claims e cl c tenant d)"

definition refresh :: "'t aenv \<Rightarrow> 't \<Rightarrow> client \<Rightarrow> tenant_ctx option \<Rightarrow> auth_state \<Rightarrow> 't refresh_result res \<times> auth_state" where
  "refresh e token c tenant = in_transaction (ae_channel e) (refresh_body e token c tenant)"

section \<open>Logout\<close>

definition logout_expired ::
  "'t aenv \<Rightarrow> 't \<Rightarrow> client \<Rightarrow> tenant_ctx option \<Rightarrow> auth_db \<Rightarrow> bool res \<times> auth_db" where
  "logout_expired e token c tenant d =
     (case decode_ignore_exp e token of
        Inl err \<Rightarrow> (Inl (unhandled ''InvalidTokenError''), d)
      | Inr payload \<Rightarrow>
          (let sub = (case payload of None \<Rightarrow> None | Some cl \<Rightarrow> cl_sub cl);
               relevant = (case payload of None \<Rightarrow> False
                 | Some cl \<Rightarrow> cl_typ cl = Some ''refresh'' \<and> or_empty (cl_jti cl) \<noteq> [] \<and> or_empty (cl_sub cl) \<noteq> []);
               uid = (case sub of None \<Rightarrow> None | Some s \<Rightarrow> py_int s);
               session = (if relevant then session_by_jti (case payload of None \<Rightarrow> None | Some cl \<Rightarrow> cl_jti cl) d else None);
               d1 = (case session of
                       None \<Rightarrow> d
                     | Some rec \<Rightarrow> if se_token_hash rec = ae_token_hash e token
                                   then session_update (session_invalidated rec) d else d)
           in if relevant \<and> uid = None then (Inl (unhandled ''sub''), d)
              else (Inr True, audited ''logout_failed'' uid (because ''expired_token'') c
                     (logged ''logout_expired_token'' [] c tenant d1))))"

definition logout_claims ::
  "'t aenv \<Rightarrow> 't \<Rightarrow> claims \<Rightarrow> client \<Rightarrow> tenant_ctx option \<Rightarrow> auth_db \<Rightarrow> bool res \<times> auth_db" where
  "logout_claims e token cl c tenant d =
     (if cl_typ cl \<noteq> Some ''refresh''
      then (Inr True, audited ''logout_failed'' None (because ''wrong_type'') c (logged ''logout_wrong_type'' [] c tenant d))
      else (case py_int (or_empty (cl_sub cl)) of
              None \<Rightarrow> (Inl (unhandled ''sub''), d)
            | Some uid \<Rightarrow>
                (case session_by_jti (cl_jti cl) d of
                   None \<Rightarrow> (Inr True, audited ''logout_failed'' (Some uid) (because ''unknown_jti'') c
                     (logged ''logout_unknown_jti'' [JInt uid] c tenant d))
                 | Some rec \<Rightarrow>
                     if se_token_hash rec \<noteq> ae_token_hash e token
                     then (Inr True, audited ''logout_failed'' (Some uid) (because ''replay_detected'') c
                       (logged ''logout_replay_detected'' [JInt uid] c tenant d))
                     else (Inr True, audited ''logout'' (Some uid) JNull c
                       (logged ''logout_success'' [JInt uid] c tenant (session_update (session_invalidated rec) d))))))"

definition logout_body :: "'t aenv \<Rightarrow> 't \<Rightarrow> client \<Rightarrow> tenant_ctx option \<Rightarrow> auth_db \<Rightarrow> bool res \<times> auth_db" where
  "logout_body e token c tenant d =
     (case token_verify e token of
        Inl ExpiredSignature \<Rightarrow> logout_expired e token c tenant d
      | Inl err \<Rightarrow>
          if err \<in> {InvalidSignature, DecodeError}
          then (Inr True, audited ''logout_failed'' None (because ''invalid_token'') c (logged ''logout_invalid_token'' [] c tenant d))
          else (Inl (unhandled ''InvalidTokenError''), d)
      | Inr cl \<Rightarrow> logout_claims e token cl c tenant d)"

definition logout :: "'t aenv \<Rightarrow> 't \<Rightarrow> client \<Rightarrow> tenant_ctx option \<Rightarrow> auth_state \<Rightarrow> bool res \<times> auth_state" where
  "logout e token c tenant = in_transaction (ae_channel e) (logout_body e token c tenant)"

section \<open>The allowlist of access tokens\<close>

text \<open>
  A Redis set per tenant and user with a time to live, or a map in memory. The Redis key writes a
  missing tenant as the empty slug.
\<close>

record allowlist =
  al_redis :: "string \<times> int \<Rightarrow> (string list \<times> pydatetime) option"
  al_memory :: "string option \<times> int \<Rightarrow> string list"

definition redis_key :: "string option \<Rightarrow> int \<Rightarrow> string \<times> int" where
  "redis_key slug uid = (or_empty slug, uid)"

definition redis_members :: "pydatetime \<Rightarrow> string \<times> int \<Rightarrow> allowlist \<Rightarrow> string list" where
  "redis_members now k a = (case al_redis a k of None \<Rightarrow> [] | Some (js, t) \<Rightarrow> if now < t then js else [])"

definition redis_ttl :: "'t aenv \<Rightarrow> int" where
  "redis_ttl e = minutes (ae_access_exp e) + seconds 60"

definition allow_add :: "'t aenv \<Rightarrow> string option \<Rightarrow> int \<Rightarrow> string \<Rightarrow> allowlist \<Rightarrow> unit res \<times> allowlist" where
  "allow_add e slug uid jti a =
     (if ae_redis e = Redis_up
      then (Inr (), a\<lparr>al_redis := (al_redis a)(redis_key slug uid \<mapsto>
              (jti # redis_members (ae_now e) (redis_key slug uid) a, ae_now e + redis_ttl e))\<rparr>)
      else if ae_fail_closed e then (Inl (RuntimeError ''TokenAllowlistUnavailableError''), a)
      else (Inr (), a\<lparr>al_memory := (al_memory a)((slug, uid) := jti # al_memory a (slug, uid))\<rparr>))"

definition allow_remove :: "'t aenv \<Rightarrow> string option \<Rightarrow> int \<Rightarrow> allowlist \<Rightarrow> allowlist" where
  "allow_remove e slug uid a =
     (if ae_redis e = Redis_up then a\<lparr>al_redis := (al_redis a)(redis_key slug uid := None)\<rparr>
      else if ae_fail_closed e then a
      else a\<lparr>al_memory := (al_memory a)((slug, uid) := [])\<rparr>)"

definition is_allowed :: "'t aenv \<Rightarrow> string option \<Rightarrow> int \<Rightarrow> string \<Rightarrow> allowlist \<Rightarrow> bool" where
  "is_allowed e slug uid jti a =
     (if ae_redis e = Redis_up then jti \<in> set (redis_members (ae_now e) (redis_key slug uid) a)
      else if ae_fail_closed e then False
      else jti \<in> set (al_memory a (slug, uid)))"

end
