(* ===== verification/AuthInv.thy ===== *)
theory AuthInv
  imports AuthSession
begin

text \<open>
  The sessions under any sequence of calls. Every operation of the module is a sequence of primitive
  steps on the session table: rows are appended under a new \<open>jti\<close>, or rows keep their identity and
  at most lose their validity.
\<close>

named_theorems asteps \<open>operations as sequences of primitive steps\<close>

section \<open>Primitive steps\<close>

definition keeps_session :: "(session_row \<Rightarrow> session_row) \<Rightarrow> bool" where
  "keeps_session f = (\<forall>r. se_id (f r) = se_id r \<and> se_user_id (f r) = se_user_id r \<and> se_jti (f r) = se_jti r
     \<and> se_token_hash (f r) = se_token_hash r \<and> (se_valid (f r) \<longrightarrow> se_valid r))"

inductive sess_prim :: "auth_db \<Rightarrow> auth_db \<Rightarrow> bool" where
  quiet: "ad_sessions d' = ad_sessions d \<Longrightarrow> ad_next_session d' = ad_next_session d \<Longrightarrow> sess_prim d d'"
| weaken: "keeps_session f \<Longrightarrow> sess_prim d (d\<lparr>ad_sessions := tbl_update P f (ad_sessions d)\<rparr>)"
| create: "\<forall>r \<in> set (ad_sessions d). se_jti r \<noteq> se_jti (mk (ad_next_session d)) \<Longrightarrow>
    (\<And>i. se_id (mk i) = i) \<Longrightarrow> sess_prim d (session_insert mk d)"

definition sess_steps :: "auth_db \<Rightarrow> auth_db \<Rightarrow> bool" where
  "sess_steps = sess_prim\<^sup>*\<^sup>*"

lemma sess_refl [asteps, simp]: "sess_steps a a"
  by (simp add: sess_steps_def)

lemma sess_trans: "sess_steps a b \<Longrightarrow> sess_steps b c \<Longrightarrow> sess_steps a c"
  by (simp add: sess_steps_def)

lemma sess_step: "sess_steps a b \<Longrightarrow> sess_prim b c \<Longrightarrow> sess_steps a c"
  by (simp add: sess_steps_def)

lemma sess_quiet: "sess_steps a b \<Longrightarrow> ad_sessions c = ad_sessions b \<Longrightarrow> ad_next_session c = ad_next_session b \<Longrightarrow> sess_steps a c"
  by (rule sess_step) (auto intro: quiet)

lemma keeps_invalidated [simp]: "keeps_session session_invalidated"
  by (simp add: keeps_session_def session_invalidated_def)

section \<open>The repositories\<close>

lemma quiet_writes [simp]:
  "ad_sessions (user_put i f d) = ad_sessions d" "ad_next_session (user_put i f d) = ad_next_session d"
  "ad_sessions (pending_consume t d) = ad_sessions d" "ad_next_session (pending_consume t d) = ad_next_session d"
  "ad_sessions (snd (pending_create t i x d)) = ad_sessions d" "ad_next_session (snd (pending_create t i x d)) = ad_next_session d"
  "ad_sessions (code_create sh i co em x d) = ad_sessions d" "ad_next_session (code_create sh i co em x d) = ad_next_session d"
  "ad_sessions (invalidate_user_codes i d) = ad_sessions d" "ad_next_session (invalidate_user_codes i d) = ad_next_session d"
  "ad_sessions (code_mark_used i d) = ad_sessions d" "ad_next_session (code_mark_used i d) = ad_next_session d"
  "ad_sessions (record_failed n w k d) = ad_sessions d" "ad_next_session (record_failed n w k d) = ad_next_session d"
  "ad_sessions (reset_for_success t i ip d) = ad_sessions d" "ad_next_session (reset_for_success t i ip d) = ad_next_session d"
  "ad_sessions (authenticator_put i g d) = ad_sessions d" "ad_next_session (authenticator_put i g d) = ad_next_session d"
  "ad_sessions (emit ev d) = ad_sessions d" "ad_next_session (emit ev d) = ad_next_session d"
  by (simp_all add: user_put_def pending_consume_def pending_create_def code_create_def code_insert_def invalidate_user_codes_def
      code_mark_used_def code_put_def record_failed_def reset_for_success_def authenticator_put_def emit_def split: option.split)

lemma quiet_users [simp]:
  "ad_sessions (user_update u d) = ad_sessions d" "ad_next_session (user_update u d) = ad_next_session d"
  "ad_sessions (increment_security_version i d) = ad_sessions d" "ad_next_session (increment_security_version i d) = ad_next_session d"
  "ad_sessions (record_failed_login i d) = ad_sessions d" "ad_next_session (record_failed_login i d) = ad_next_session d"
  "ad_sessions (reset_failed_login i d) = ad_sessions d" "ad_next_session (reset_failed_login i d) = ad_next_session d"
  "ad_sessions (upsert_pending_secret i x t d) = ad_sessions d" "ad_next_session (upsert_pending_secret i x t d) = ad_next_session d"
  "ad_sessions (enable_secret i x d) = ad_sessions d" "ad_next_session (enable_secret i x d) = ad_next_session d"
  "ad_sessions (disable_secret i d) = ad_sessions d" "ad_next_session (disable_secret i d) = ad_next_session d"
  by (simp_all add: user_update_def increment_security_version_def record_failed_login_def reset_failed_login_def Let_def
      upsert_pending_secret_def enable_secret_def disable_secret_def split: option.split prod.split)

lemma quiet_uses [simp]:
  "ad_sessions (audited ac oi x c d) = ad_sessions d" "ad_next_session (audited ac oi x c d) = ad_next_session d"
  "ad_sessions (logged m xs c t d) = ad_sessions d" "ad_next_session (logged m xs c t d) = ad_next_session d"
  "ad_sessions (create_and_send_code e i em p d) = ad_sessions d" "ad_next_session (create_and_send_code e i em p d) = ad_next_session d"
  by (simp_all add: audited_def logged_def create_and_send_code_def)

lemma quiet_scopes [simp]:
  "ad_sessions (record_scopes n w ks d) = ad_sessions d" "ad_next_session (record_scopes n w ks d) = ad_next_session d"
  unfolding record_scopes_def by (induction ks arbitrary: d) auto

lemma quiet_authenticator_failed [simp]:
  "ad_sessions (snd (record_authenticator_failed e i p c d)) = ad_sessions d"
  "ad_next_session (snd (record_authenticator_failed e i p c d)) = ad_next_session d"
proof -
  have "ad_sessions (snd (fold (record_scope e) ks bd)) = ad_sessions (snd bd)
    \<and> ad_next_session (snd (fold (record_scope e) ks bd)) = ad_next_session (snd bd)" for ks bd
    by (induction ks arbitrary: bd) (simp_all add: record_scope_def Let_def)
  then show "ad_sessions (snd (record_authenticator_failed e i p c d)) = ad_sessions d"
    "ad_next_session (snd (record_authenticator_failed e i p c d)) = ad_next_session d"
    by (simp_all add: record_authenticator_failed_def)
qed

lemma quiet_steps [asteps]:
  "sess_steps a d \<Longrightarrow> sess_steps a (audited ac oi x c d)"
  "sess_steps a d \<Longrightarrow> sess_steps a (logged m xs c t d)"
  "sess_steps a d \<Longrightarrow> sess_steps a (record_failed_login i d)"
  "sess_steps a d \<Longrightarrow> sess_steps a (reset_failed_login i d)"
  "sess_steps a d \<Longrightarrow> sess_steps a (increment_security_version i d)"
  "sess_steps a d \<Longrightarrow> sess_steps a (enable_secret i se d)"
  "sess_steps a d \<Longrightarrow> sess_steps a (disable_secret i d)"
  "sess_steps a d \<Longrightarrow> sess_steps a (upsert_pending_secret i se ti d)"
  "sess_steps a d \<Longrightarrow> sess_steps a (pending_consume pt d)"
  "sess_steps a d \<Longrightarrow> sess_steps a (snd (pending_create pt i ti d))"
  "sess_steps a d \<Longrightarrow> sess_steps a (create_and_send_code e i em pt d)"
  "sess_steps a d \<Longrightarrow> sess_steps a (reset_for_success pt i ip d)"
  "sess_steps a d \<Longrightarrow> sess_steps a (code_mark_used i d)"
  "sess_steps a d \<Longrightarrow> sess_steps a (record_scopes n w ks d)"
  "sess_steps a d \<Longrightarrow> sess_steps a (snd (record_authenticator_failed e i pt c d))"
  by (erule sess_quiet; simp)+

lemma session_steps [asteps]:
  "sess_steps a d \<Longrightarrow> sess_steps a (invalidate_all_for_user i d)"
  "sess_steps a d \<Longrightarrow> sess_steps a (session_invalidate j d)"
  "sess_steps a d \<Longrightarrow> sess_steps a (invalidate_by_hash h d)"
  "sess_steps a d \<Longrightarrow> sess_steps a (session_update (session_invalidated rec) d)"
  unfolding invalidate_all_for_user_def session_invalidate_def invalidate_by_hash_def session_update_def session_put_def
  by (erule sess_step, rule weaken, simp add: keeps_session_def session_invalidated_def)+

lemma create_steps [asteps]: "sess_steps a d \<Longrightarrow> sess_steps a (snd (session_create (session_new i j h x c) d))"
proof -
  assume a: "sess_steps a d"
  show ?thesis
  proof (cases "list_ex (\<lambda>r. se_jti r = j) (ad_sessions d)")
    case True
    then show ?thesis using a by (simp add: session_create_def session_new_def)
  next
    case False
    then have "sess_prim d (session_insert (session_new i j h x c) d)"
      by (intro create) (auto simp: session_new_def list_ex_iff)
    then show ?thesis using a False by (simp add: session_create_def session_new_def sess_step)
  qed
qed

section \<open>The use cases\<close>

lemmas actrl = ctrl [where P = "sess_steps a" for a]

lemma steps_issue [asteps]: "sess_steps a d \<Longrightarrow> sess_steps a (snd (issue_tokens e i c al uv tv ro d))"
  unfolding issue_tokens_def Let_def make_refresh_pair_def make_access_def prod.case
  by (intro actrl) (simp_all add: asteps)

lemma steps_logged_in [asteps]: "sess_steps a d \<Longrightarrow> sess_steps a (snd (logged_in e u c al t d))"
  unfolding logged_in_def by (intro actrl) (simp_all add: asteps split: prod.split)

lemma steps_challenge [asteps]: "sess_steps a d \<Longrightarrow> sess_steps a (snd (login_challenge e u se c d))"
  unfolding login_challenge_def Let_def by (intro actrl) (simp_all add: asteps)

lemma steps_verified [asteps]: "sess_steps a d \<Longrightarrow> sess_steps a (snd (login_verified e u c al t d))"
  unfolding login_verified_def Let_def by (intro actrl) (simp_all add: asteps)

lemma steps_step1 [asteps]: "sess_steps a d \<Longrightarrow> sess_steps a (snd (login_step1 e em pw c al t d))"
  unfolding login_step1_def by (intro actrl) (simp_all add: asteps)

lemma steps_verify_code [asteps]: "sess_steps a d \<Longrightarrow> sess_steps a (snd (verify_code e i co p c d))"
  unfolding verify_code_def by (intro actrl) (simp_all add: asteps)

lemma steps_authenticator [asteps]: "sess_steps a d \<Longrightarrow> sess_steps a (snd (authenticator_step e i se co p c t d))"
  unfolding authenticator_step_def Let_def by (intro actrl) (simp_all add: asteps prod.case_eq_if)

lemma steps_second_factor [asteps]: "sess_steps a d \<Longrightarrow> sess_steps a (snd (second_factor_ok e i p co c t d))"
  unfolding second_factor_ok_def by (intro actrl) (simp_all add: asteps)

lemma steps_finish [asteps]: "sess_steps a d \<Longrightarrow> sess_steps a (snd (login_finish e i p c al t ch d))"
  unfolding login_finish_def Let_def by (intro actrl) (simp_all add: asteps)

lemma steps_step2 [asteps]: "sess_steps a d \<Longrightarrow> sess_steps a (snd (login_step2 e p co c al t d))"
  unfolding login_step2_def by (intro actrl) (simp_all add: asteps)

lemma steps_login_body [asteps]: "sess_steps a d \<Longrightarrow> sess_steps a (snd (login_body e inp d))"
  unfolding login_body_def Let_def by (simp add: asteps)

lemma steps_rotate [asteps]: "sess_steps a d \<Longrightarrow> sess_steps a (snd (rotate e i cl u rec c t d))"
  unfolding rotate_def Let_def make_refresh_pair_def make_access_def prod.case
  by (intro actrl) (simp_all add: asteps)

lemma steps_refresh_session [asteps]: "sess_steps a d \<Longrightarrow> sess_steps a (snd (refresh_session e i cl u rec c t d))"
  unfolding refresh_session_def by (intro actrl) (simp_all add: asteps)

lemma steps_refresh_claims [asteps]: "sess_steps a d \<Longrightarrow> sess_steps a (snd (refresh_claims e cl c t d))"
  unfolding refresh_claims_def Let_def by (intro actrl) (simp_all add: asteps)

lemma steps_refresh_body [asteps]: "sess_steps a d \<Longrightarrow> sess_steps a (snd (refresh_body e tok c t d))"
  unfolding refresh_body_def by (auto simp: asteps split: sum.split jwt_error.split)

lemma steps_logout_expired [asteps]: "sess_steps a d \<Longrightarrow> sess_steps a (snd (logout_expired e tok c t d))"
  unfolding logout_expired_def Let_def by (intro actrl) (auto simp: asteps split: option.split)

lemma steps_logout_body [asteps]: "sess_steps a d \<Longrightarrow> sess_steps a (snd (logout_body e tok c t d))"
  unfolding logout_body_def logout_claims_def
  by (auto simp: asteps split: sum.split jwt_error.split option.split)

lemma steps_confirm [asteps]: "sess_steps a d \<Longrightarrow> sess_steps a (snd (confirm_authenticator_setup e i co d))"
  unfolding confirm_authenticator_setup_def by (auto simp: asteps split: option.split sum.split bool.split)

lemma steps_setup [asteps]:
  "sess_steps a d \<Longrightarrow> sess_steps a (snd (start_authenticator_setup e i d))"
  "sess_steps a d \<Longrightarrow> sess_steps a (disable_authenticator i d)"
  by (simp_all add: start_authenticator_setup_def disable_authenticator_def Let_def asteps)

lemma steps_user_delete [asteps]: "sess_steps a d \<Longrightarrow> sess_steps a (snd (user_delete n h u i d))"
proof -
  assume a: "sess_steps a d"
  let ?d1 = "d\<lparr>ad_pending := tbl_update (\<lambda>r. pf_user_id r = i \<and> n < pf_expires_at r) (\<lambda>r. r\<lparr>pf_expires_at := n\<rparr>) (ad_pending d)\<rparr>"
  have "sess_steps a (invalidate_all_for_user i ?d1)"
    by (intro session_steps sess_quiet [OF a]) simp_all
  then have "sess_steps a (user_put i f (invalidate_user_codes i (invalidate_all_for_user i ?d1)))" for f
    by (rule sess_quiet) simp_all
  then show ?thesis using a by (simp add: user_delete_def)
qed

end
