(* ===== verification/AuthRun.thy ===== *)
theory AuthRun
  imports AuthInv
begin

text \<open>
  Runs of the authentication module: a list of calls, each with the environment of its request, and
  what no run can break. Sessions form a table with serial ids, their \<open>jti\<close> stays unique, and a
  session that is not valid never becomes valid again.
\<close>

section \<open>Runs\<close>

datatype 't auth_call =
    Call_login login_input
  | Call_issue user_row client bool tenant_ctx
  | Call_refresh 't client "tenant_ctx option"
  | Call_logout 't client "tenant_ctx option"
  | Call_setup int
  | Call_confirm int string
  | Call_disable int
  | Call_delete_user string string int

definition on_db :: "(auth_db \<Rightarrow> auth_db) \<Rightarrow> auth_state \<Rightarrow> auth_state" where
  "on_db f s = s\<lparr>as_db := f (as_db s)\<rparr>"

fun auth_exec :: "'t aenv \<Rightarrow> 't auth_call \<Rightarrow> auth_state \<Rightarrow> auth_state" where
  "auth_exec e (Call_login inp) s = snd (login e inp s)"
| "auth_exec e (Call_issue u c al t) s = snd (issue_tokens_for_user e u c al t s)"
| "auth_exec e (Call_refresh tok c t) s = snd (refresh e tok c t s)"
| "auth_exec e (Call_logout tok c t) s = snd (logout e tok c t s)"
| "auth_exec e (Call_setup uid) s = on_db (\<lambda>d. snd (start_authenticator_setup e uid d)) s"
| "auth_exec e (Call_confirm uid code) s = on_db (\<lambda>d. snd (confirm_authenticator_setup e uid code d)) s"
| "auth_exec e (Call_disable uid) s = on_db (disable_authenticator uid) s"
| "auth_exec e (Call_delete_user hex url_token uid) s = on_db (\<lambda>d. snd (user_delete (ae_now e) hex url_token uid d)) s"

definition auth_run :: "('t aenv \<times> 't auth_call) list \<Rightarrow> auth_state \<Rightarrow> auth_state" where
  "auth_run calls s = fold (\<lambda>(e, c). auth_exec e c) calls s"

section \<open>The session table\<close>

interpretation sessions: keyed_table ad_sessions se_id ad_next_session session_put session_insert
  by unfold_locales (simp_all add: session_put_def session_insert_def)

interpretation codes: keyed_table ad_codes tf_id ad_next_code code_put code_insert
  by unfold_locales (simp_all add: code_put_def code_insert_def)

definition auth_wf :: "auth_db \<Rightarrow> bool" where
  "auth_wf d = (sessions.wf d \<and> distinct (map se_jti (ad_sessions d)))"

lemma wf_prim: "sess_prim d d' \<Longrightarrow> auth_wf d \<Longrightarrow> auth_wf d'"
proof (induction rule: sess_prim.induct)
  case (quiet d' d)
  then show ?case by (simp add: auth_wf_def sessions.wf_def)
next
  case (weaken f d P)
  then have "map se_id (tbl_update P f (ad_sessions d)) = map se_id (ad_sessions d)"
    "map se_jti (tbl_update P f (ad_sessions d)) = map se_jti (ad_sessions d)"
    by (simp_all add: map_tbl_update keeps_session_def)
  moreover from weaken have "\<forall>r \<in> set (tbl_update P f (ad_sessions d)). se_id r < ad_next_session d"
    by (auto simp: auth_wf_def sessions.wf_def set_tbl_update keeps_session_def)
  ultimately show ?case using weaken.prems by (simp add: auth_wf_def sessions.wf_def)
next
  case (create d mk)
  then show ?case
    using sessions.wf_ins [of d mk] by (auto simp: auth_wf_def session_insert_def)
qed

lemma wf_steps: "sess_steps d d' \<Longrightarrow> auth_wf d \<Longrightarrow> auth_wf d'"
  unfolding sess_steps_def by (induction rule: rtranclp_induct) (auto intro: wf_prim)

section \<open>Revoked sessions\<close>

definition revoked :: "string \<Rightarrow> auth_db \<Rightarrow> bool" where
  "revoked jti d = (jti \<in> set (map se_jti (ad_sessions d)) \<and> (\<forall>r \<in> set (ad_sessions d). se_jti r = jti \<longrightarrow> \<not> se_valid r))"

lemma revoked_prim: "sess_prim d d' \<Longrightarrow> revoked jti d \<Longrightarrow> revoked jti d'"
proof (induction rule: sess_prim.induct)
  case (weaken f d P)
  then have "map se_jti (tbl_update P f (ad_sessions d)) = map se_jti (ad_sessions d)"
    by (simp add: map_tbl_update keeps_session_def)
  with weaken show ?case by (auto simp: revoked_def keeps_session_def set_tbl_update simp del: set_map)
qed (auto simp: revoked_def session_insert_def)

lemma revoked_steps: "sess_steps d d' \<Longrightarrow> revoked jti d \<Longrightarrow> revoked jti d'"
  unfolding sess_steps_def by (induction rule: rtranclp_induct) (auto intro: revoked_prim)

lemma revoked_lookup: "revoked jti d \<Longrightarrow> session_by_jti (Some jti) d = Some r \<Longrightarrow> \<not> se_valid r"
  by (auto simp: revoked_def session_by_jti_def dest: tbl_first_Some)

section \<open>Calls as steps\<close>

lemma steps_transaction:
  assumes "\<And>d. sess_steps d (snd (body d))"
  shows "sess_steps (as_db s) (as_db (snd (in_transaction c body s)))"
proof -
  have "sess_steps (as_db s) ((as_db s)\<lparr>ad_events := []\<rparr>)" by (rule sess_quiet [OF sess_refl]) simp_all
  then have b: "sess_steps (as_db s) (snd (body ((as_db s)\<lparr>ad_events := []\<rparr>)))" by (rule sess_trans) (rule assms)
  have "sess_steps (as_db s) ((snd (body ((as_db s)\<lparr>ad_events := []\<rparr>)))\<lparr>ad_events := []\<rparr>)"
    by (rule sess_quiet [OF b]) simp_all
  then show ?thesis by (simp add: in_transaction_def split_def Let_def split: sum.split)
qed

lemma steps_exec: "sess_steps (as_db s) (as_db (auth_exec e c s))"
proof (cases c)
  case (Call_login inp)
  show ?thesis unfolding Call_login auth_exec.simps login_def by (rule steps_transaction) (simp add: asteps)
next
  case (Call_issue u c al t)
  show ?thesis unfolding Call_issue auth_exec.simps issue_tokens_for_user_def by (rule steps_transaction) (simp add: asteps)
next
  case (Call_refresh tok c t)
  show ?thesis unfolding Call_refresh auth_exec.simps refresh_def by (rule steps_transaction) (simp add: asteps)
next
  case (Call_logout tok c t)
  show ?thesis unfolding Call_logout auth_exec.simps logout_def by (rule steps_transaction) (simp add: asteps)
qed (simp_all add: on_db_def asteps)

lemma steps_run: "sess_steps (as_db s) (as_db (auth_run calls s))"
proof (induction calls arbitrary: s)
  case Nil
  then show ?case by (simp add: auth_run_def)
next
  case (Cons ec calls)
  obtain e c where ec: "ec = (e, c)" by force
  show ?case
    using sess_trans [OF steps_exec [of s e c] Cons.IH [of "auth_exec e c s"]] by (simp add: auth_run_def ec)
qed

lemma wf_run: "auth_wf (as_db s) \<Longrightarrow> auth_wf (as_db (auth_run calls s))"
  by (rule wf_steps [OF steps_run])

lemma revoked_run: "revoked jti (as_db s) \<Longrightarrow> revoked jti (as_db (auth_run calls s))"
  by (rule revoked_steps [OF steps_run])

section \<open>What a transaction returns\<close>

lemma in_transaction_ok:
  assumes "in_transaction c body s = (Inr v, s')"
  obtains d where "body ((as_db s)\<lparr>ad_events := []\<rparr>) = (Inr v, d)" "as_db s' = d\<lparr>ad_events := []\<rparr>"
    "is_ok (fst (publish_events c (ad_events d) (as_outbox s)))"
  using assms by (auto simp: in_transaction_def split_def Let_def prod_eq_iff split: sum.splits)

lemma in_transaction_raise: "in_transaction c body s = (Inl x, s') \<Longrightarrow> s' = s"
  by (auto simp: in_transaction_def split_def Let_def split: sum.splits)

text \<open>A refresh that succeeds found a valid session and invalidated it.\<close>

lemma rotate_revokes:
  assumes "rotate e uid cl u rec c t d = (Inr v, d')" "distinct (map se_jti (ad_sessions d))" "rec \<in> set (ad_sessions d)"
  shows "revoked (se_jti rec) d'"
proof -
  let ?d1 = "session_update (session_invalidated rec) d"
  have only: "r = rec" if "r \<in> set (ad_sessions d)" "se_jti r = se_jti rec" for r
    using that assms(2,3) by (metis distinct_map inj_onD)
  have "map se_jti (ad_sessions ?d1) = map se_jti (ad_sessions d)"
    by (simp add: session_update_def session_put_def map_tbl_update)
  moreover have "se_jti rec \<in> set (map se_jti (ad_sessions d))" using assms(3) by simp
  ultimately have "revoked (se_jti rec) ?d1"
    using only
    by (auto simp: revoked_def session_update_def session_put_def session_invalidated_def set_tbl_update simp del: set_map)
  moreover have "sess_steps ?d1 d'"
    using assms(1) create_steps [of ?d1 ?d1 uid]
    unfolding rotate_def Let_def make_refresh_pair_def make_access_def prod.case
    by (auto split: prod.splits sum.splits intro!: quiet_steps) (metis snd_conv)
  ultimately show ?thesis by (rule revoked_steps [rotated])
qed

lemma refresh_success_claims:
  assumes "refresh_body e tok c t d = (Inr (Refresh_success v), d')"
  obtains cl uid rec u where "token_verify e tok = Inr cl" "cl_typ cl = Some ''refresh''"
    "py_int (or_empty (cl_sub cl)) = Some uid" "u = user_by_id uid d" "\<not> version_mismatch cl u t"
    "session_by_jti (cl_jti cl) d = Some rec" "se_valid rec" "\<not> session_is_expired (ae_now e) rec"
    "\<not> fingerprint_mismatch rec c" "rotate e uid cl u rec c t d = (Inr (Refresh_success v), d')"
  using assms
  by (auto simp: refresh_body_def refresh_claims_def refresh_session_def Let_def
      split: sum.splits jwt_error.splits if_splits option.splits)

end
