(* ===== verification/AuthDemo.thy ===== *)
theory AuthDemo
  imports AuthRun
begin

text \<open>
  A small concrete instance: tokens are the claims with the key they were signed with, decoding
  checks the key and the expiry, passwords are stored as they are. And the outbox as the
  transactions use it: while it has room, every event of a use case is accepted.
\<close>

section \<open>Room in the outbox\<close>

lemma publish_unkeyed:
  "backlog_size ob < effective_soft_limit (ce_soft_limit c) \<Longrightarrow>
     \<exists>ob'. publish c et p None ob = (Inr (), ob') \<and> backlog_size ob' = backlog_size ob + 1"
  by (simp add: publish_def append_event_def append_with_def key_taken_def backlog_size_def obt.rows_ins in_backlog_def
      new_row_def tbl_count_def Let_def)

lemma publish_event_room:
  assumes "backlog_size ob < effective_soft_limit (ce_soft_limit c)"
  shows "\<exists>ob'. publish_event c ev ob = (Inr (), ob') \<and> backlog_size ob' = backlog_size ob + 1"
proof (cases ev)
  case (Audit a)
  then show ?thesis using publish_unkeyed [OF assms] by (simp add: publish_event_def proxy_log_def)
next
  case (Security n as ks)
  then show ?thesis using publish_unkeyed [OF assms] by (simp add: publish_event_def)
next
  case (Mail_2fa em co p)
  then show ?thesis using publish_unkeyed [OF assms] by (simp add: publish_event_def enqueue_email_2fa_def)
qed

lemma publish_events_room:
  "backlog_size ob + int (length evs) \<le> effective_soft_limit (ce_soft_limit c) \<Longrightarrow>
     \<exists>ob'. publish_events c evs ob = (Inr (), ob')"
proof (induction evs arbitrary: ob)
  case Nil
  then show ?case by simp
next
  case (Cons ev evs)
  then obtain ob1 where "publish_event c ev ob = (Inr (), ob1)" "backlog_size ob1 = backlog_size ob + 1"
    using publish_event_room [of ob c ev] by auto
  then show ?case using Cons.IH [of ob1] Cons.prems by simp
qed

lemma in_transaction_room:
  assumes "body ((as_db s)\<lparr>ad_events := []\<rparr>) = (Inr v, d)"
    "backlog_size (as_outbox s) + int (length (ad_events d)) \<le> effective_soft_limit (ce_soft_limit c)"
  shows "\<exists>ob. in_transaction c body s = (Inr v, s\<lparr>as_db := d\<lparr>ad_events := []\<rparr>, as_outbox := ob\<rparr>)"
  using publish_events_room [OF assms(2)] assms(1) by (auto simp: in_transaction_def)

section \<open>A concrete instance\<close>

type_synonym demo_token = "claims \<times> string"

definition demo_decode ::
  "demo_token \<Rightarrow> string \<Rightarrow> bool \<Rightarrow> string option \<Rightarrow> string option \<Rightarrow> pydatetime \<Rightarrow> jwt_error + claims" where
  "demo_decode tok key verify_exp iss aud now =
     (if snd tok \<noteq> key then Inl InvalidSignature
      else if verify_exp \<and> cl_exp (fst tok) \<le> now then Inl ExpiredSignature
      else if iss \<noteq> None \<and> cl_iss (fst tok) \<noteq> iss then Inl InvalidIssuer
      else if aud \<noteq> None \<and> cl_aud (fst tok) \<noteq> aud then Inl InvalidAudience
      else Inr (fst tok))"

definition demo_aenv :: "pydatetime \<Rightarrow> string \<Rightarrow> demo_token aenv" where
  "demo_aenv now jti = \<lparr>ae_now = now, ae_secret = ''k'', ae_issuer = None, ae_audience = None, ae_access_exp = 15,
     ae_refresh_exp = 1440, ae_encode = (\<lambda>c k. (c, k)), ae_decode = demo_decode,
     ae_token_hash = (\<lambda>tok. or_empty (cl_jti (fst tok))), ae_sha256 = (\<lambda>s. s), ae_password_ok = (\<lambda>p h. p = h),
     ae_hmac_sha1 = (\<lambda>k m. replicate 20 0), ae_uuids = ([], []), ae_refresh_jti = jti, ae_access_jti = ''a'',
     ae_pending_token = ''p'', ae_code = ''123456'', ae_two_factor_enabled = False, ae_max_attempts = 2,
     ae_window_minutes = 15, ae_code_expiry_minutes = 10,
     ae_channel = \<lparr>ce_ctx = [], ce_schema = JNull, ce_role = Inr Web, ce_soft_limit = 100, ce_now = now\<rparr>,
     ae_redis = Redis_up, ae_fail_closed = True, ae_permissions_changed = (\<lambda>_ _. False)\<rparr>"

definition demo_user :: "string \<Rightarrow> user_row" where
  "demo_user role = \<lparr>us_id = 7, us_email = ''a@b'', us_password_hash = ''pw'', us_is_active = True, us_role = role,
     us_failed_login_attempts = 0, us_security_version = 1, us_deleted_at = None\<rparr>"

definition demo_session :: "string \<Rightarrow> int \<Rightarrow> bool \<Rightarrow> pydatetime \<Rightarrow> session_row" where
  "demo_session jti i ok expires = \<lparr>se_id = i, se_user_id = 7, se_jti = jti, se_token_hash = jti, se_valid = ok,
     se_ip = None, se_user_agent = None, se_expires_at = expires\<rparr>"

definition demo_db :: "session_row list \<Rightarrow> pending_row list \<Rightarrow> authenticator_row list \<Rightarrow> auth_db" where
  "demo_db ses ps ars = \<lparr>ad_users = [demo_user ''user''], ad_sessions = ses, ad_next_session = 10, ad_pending = ps,
     ad_codes = [], ad_next_code = 1, ad_attempts = [], ad_authenticators = ars, ad_events = []\<rparr>"

definition demo_auth :: "auth_db \<Rightarrow> auth_state" where
  "demo_auth d = \<lparr>as_db = d, as_outbox = \<lparr>ob_rows = [], ob_next_id = 1\<rparr>\<rparr>"

definition demo_client :: client where "demo_client = \<lparr>rq_ip = None, rq_ua = None\<rparr>"

definition demo_refresh :: "string \<Rightarrow> pydatetime \<Rightarrow> demo_token" where
  "demo_refresh jti now = fst (make_refresh_pair (demo_aenv now jti) 7 False 1 0)"

lemma demo_simps [simp]:
  "as_db (demo_auth d) = d" "ad_events (demo_db ses ps ars) = []" "ad_sessions (demo_db ses ps ars) = ses"
  "ad_users (demo_db ses ps ars) = [demo_user ''user'']" "ad_pending (demo_db ses ps ars) = ps"
  "ad_authenticators (demo_db ses ps ars) = ars" "ad_attempts (demo_db ses ps ars) = []"
  "ad_next_session (demo_db ses ps ars) = 10" "ad_codes (demo_db ses ps ars) = []"
  "backlog_size (as_outbox (demo_auth d)) = 0" "effective_soft_limit (ce_soft_limit (ae_channel (demo_aenv now jti))) = 100"
  "ae_now (demo_aenv now jti) = now" "ae_refresh_jti (demo_aenv now jti) = jti"
  "\<not> ae_permissions_changed (demo_aenv now jti) slug uid"
  "(demo_db ses ps ars)\<lparr>ad_events := []\<rparr> = demo_db ses ps ars"
  by (simp_all add: demo_auth_def demo_db_def backlog_size_def tbl_count_def effective_soft_limit_def demo_aenv_def)

lemma demo_commit:
  assumes "body d = (Inr v, d')" "ad_events d = []" "length (ad_events d') \<le> 100"
  shows "\<exists>s'. in_transaction (ae_channel (demo_aenv now jti)) body (demo_auth d) = (Inr v, s') \<and> as_db s' = d'\<lparr>ad_events := []\<rparr>"
proof -
  have "body ((as_db (demo_auth d))\<lparr>ad_events := []\<rparr>) = (Inr v, d')" using assms(1,2) by (cases d) simp
  from in_transaction_room [of body "demo_auth d" v d' "ae_channel (demo_aenv now jti)", OF this] assms(3)
  show ?thesis by auto
qed

lemma demo_commits:
  "refresh_body (demo_aenv now jti) tok c t d = (Inr r, d') \<Longrightarrow> ad_events d = [] \<Longrightarrow> length (ad_events d') \<le> 100 \<Longrightarrow>
     \<exists>s'. refresh (demo_aenv now jti) tok c t (demo_auth d) = (Inr r, s') \<and> as_db s' = d'\<lparr>ad_events := []\<rparr>"
  "login_body (demo_aenv now jti) inp d = (Inr l, d') \<Longrightarrow> ad_events d = [] \<Longrightarrow> length (ad_events d') \<le> 100 \<Longrightarrow>
     \<exists>s'. login (demo_aenv now jti) inp (demo_auth d) = (Inr l, s') \<and> as_db s' = d'\<lparr>ad_events := []\<rparr>"
  unfolding refresh_def login_def by (rule demo_commit; assumption)+

lemma demo_verify: "now < t + minutes 1440 \<Longrightarrow> token_verify (demo_aenv now x) (demo_refresh jti t) = Inr (snd (make_refresh_pair (demo_aenv t jti) 7 False 1 0))"
  by (simp add: token_verify_def demo_refresh_def make_refresh_pair_def demo_aenv_def demo_decode_def no_claims_def Let_def)

lemma demo_refresh_ok:
  assumes "0 < now" "now < minutes 1440" "jti \<noteq> ''r1''"
  shows "\<exists>v s. refresh (demo_aenv now jti) (demo_refresh ''r1'' 0) demo_client None
      (demo_auth (demo_db [demo_session ''r1'' 1 True (minutes 1440)] [] [])) = (Inr (Refresh_success v), s)"
proof -
  let ?e = "demo_aenv now jti" and ?d = "demo_db [demo_session ''r1'' 1 True (minutes 1440)] [] []"
  let ?cl = "snd (make_refresh_pair (demo_aenv 0 ''r1'') 7 False 1 0)"
  have v: "token_verify ?e (demo_refresh ''r1'' 0) = Inr ?cl"
    by (rule demo_verify) (use assms in simp)
  have "\<exists>v d'. refresh_body ?e (demo_refresh ''r1'' 0) demo_client None ?d = (Inr (Refresh_success v), d') \<and> length (ad_events d') = 2"
    using assms
    by (simp add: or_empty_def refresh_body_def v refresh_claims_def make_refresh_pair_def no_claims_def Let_def user_by_id_def tbl_first_def
        user_is_def demo_user_def version_mismatch_def tenant_version_def session_by_jti_def demo_session_def refresh_session_def
        session_is_expired_def fingerprint_mismatch_def rotate_def session_update_def session_put_def tbl_update_def
        session_create_def session_new_def session_insert_def make_access_def audited_def logged_def emit_def session_invalidated_def demo_db_def)
  then obtain r d' where b: "refresh_body ?e (demo_refresh ''r1'' 0) demo_client None ?d = (Inr (Refresh_success r), d')"
    "length (ad_events d') = 2" by blast
  show ?thesis using demo_commits(1) [OF b(1)] b(2) by auto
qed

end
