(* ===== verification/AuthReplay.thy ===== *)
theory AuthReplay
  imports AuthDemo
begin

text \<open>
  Refresh tokens are used once: the rotation revokes the session of the token it accepts, no later
  call revives a revoked session, and a revoked token that comes back ends all sessions of its user.
\<close>

section \<open>Refreshing\<close>

lemma revoked_not_refreshed:
  assumes "revoked jti (as_db s)" "token_verify e tok = Inr cl" "cl_jti cl = Some jti"
  shows "fst (refresh e tok c t s) \<noteq> Inr (Refresh_success v)"
proof
  assume "fst (refresh e tok c t s) = Inr (Refresh_success v)"
  then obtain s' where "refresh e tok c t s = (Inr (Refresh_success v), s')" by (metis prod.collapse)
  then obtain d where b: "refresh_body e tok c t ((as_db s)\<lparr>ad_events := []\<rparr>) = (Inr (Refresh_success v), d)"
    unfolding refresh_def by (rule in_transaction_ok)
  obtain cl' rec where r: "token_verify e tok = Inr cl'" "session_by_jti (cl_jti cl') ((as_db s)\<lparr>ad_events := []\<rparr>) = Some rec"
    "se_valid rec"
    by (rule refresh_success_claims [OF b]) blast
  then have "session_by_jti (Some jti) (as_db s) = Some rec" using assms(2,3) by (simp add: session_by_jti_def)
  then show False using revoked_lookup [OF assms(1)] r(3) by blast
qed

lemma refresh_revokes:
  assumes "auth_wf (as_db s)" "token_verify e tok = Inr cl" "refresh e tok c t s = (Inr (Refresh_success v), s1)"
  shows "\<exists>jti. cl_jti cl = Some jti \<and> revoked jti (as_db s1)"
proof -
  let ?d = "(as_db s)\<lparr>ad_events := []\<rparr>"
  obtain d where b: "refresh_body e tok c t ?d = (Inr (Refresh_success v), d)" "as_db s1 = d\<lparr>ad_events := []\<rparr>"
    using assms(3) unfolding refresh_def by (rule in_transaction_ok)
  obtain cl' uid rec u where r: "token_verify e tok = Inr cl'" "session_by_jti (cl_jti cl') ?d = Some rec"
    "rotate e uid cl' u rec c t ?d = (Inr (Refresh_success v), d)"
    by (rule refresh_success_claims [OF b(1)]) blast
  then obtain jti where j: "cl_jti cl = Some jti" "se_jti rec = jti" "rec \<in> set (ad_sessions ?d)"
    using assms(2) by (auto simp: session_by_jti_def split: option.splits dest: tbl_first_Some)
  have "revoked (se_jti rec) d"
    by (rule rotate_revokes [OF r(3)]) (use assms(1) j(3) in \<open>simp_all add: auth_wf_def\<close>)
  then show ?thesis using j b(2) by (simp add: revoked_def)
qed

text \<open>
  C19: A refresh token works once: after a refresh that succeeded, presenting the same token again,
  after whatever other calls and from whatever client, never succeeds.
\<close>

theorem refresh_token_works_once:
  fixes e e' :: "'t aenv" and calls :: "('t aenv \<times> 't auth_call) list"
  assumes "auth_wf (as_db s)" "token_verify e tok = Inr cl"
    "refresh e tok c t s = (Inr (Refresh_success v), s1)"
    "token_verify e' tok = Inr cl'" "cl_jti cl' = cl_jti cl"
  shows "fst (refresh e' tok c' t' (auth_run calls s1)) \<noteq> Inr (Refresh_success v')"
proof -
  obtain jti where j: "cl_jti cl = Some jti" "revoked jti (as_db s1)" using refresh_revokes [OF assms(1,2,3)] by blast
  show ?thesis by (rule revoked_not_refreshed [OF revoked_run [OF j(2)] assms(4)]) (simp add: assms(5) j(1))
qed

theorem refresh_token_works_once_witness:
  "\<exists>v s1. refresh (demo_aenv 5 ''r2'') (demo_refresh ''r1'' 0) demo_client None
       (demo_auth (demo_db [demo_session ''r1'' 1 True (minutes 1440)] [] [])) = (Inr (Refresh_success v), s1)
     \<and> fst (refresh (demo_aenv 9 ''r3'') (demo_refresh ''r1'' 0) demo_client None
         (auth_run [(demo_aenv 7 ''r4'', Call_refresh (rs_refresh v) demo_client None)] s1)) \<noteq> Inr (Refresh_success v)"
proof -
  let ?s = "demo_auth (demo_db [demo_session ''r1'' 1 True (minutes 1440)] [] [])"
  obtain v s1 where ok: "refresh (demo_aenv 5 ''r2'') (demo_refresh ''r1'' 0) demo_client None ?s = (Inr (Refresh_success v), s1)"
    using demo_refresh_ok [of 5 "''r2''"] by (auto simp: minutes_def seconds_def)
  have v: "token_verify (demo_aenv n x) (demo_refresh ''r1'' 0) = Inr (snd (make_refresh_pair (demo_aenv 0 ''r1'') 7 False 1 0))"
    if "n < minutes 1440" for n x by (rule demo_verify) (use that in simp)
  have t: "(5::int) < minutes 1440" "(9::int) < minutes 1440" by (simp_all add: minutes_def seconds_def)
  have w: "auth_wf (as_db ?s)" by (simp add: auth_wf_def sessions.wf_def demo_session_def)
  show ?thesis using refresh_token_works_once [OF w v [OF t(1)] ok v [OF t(2)] refl] ok by blast
qed

section \<open>Reuse\<close>

lemma refresh_reuse_claims:
  assumes "refresh_body e tok c t d = (Inr (Refresh_failed SESSION_REUSE_DETECTED), d')"
  obtains cl rec where "token_verify e tok = Inr cl" "session_by_jti (cl_jti cl) d = Some rec" "\<not> se_valid rec"
    "ad_sessions d' = tbl_update (\<lambda>r. se_user_id r = se_user_id rec \<and> se_valid r) session_invalidated (ad_sessions d)"
  using assms
  by (auto simp: refresh_body_def refresh_claims_def refresh_session_def rotate_def Let_def invalidate_all_for_user_def
      split: sum.splits jwt_error.splits if_splits option.splits prod.splits)

lemma invalidated_revoked:
  assumes "r \<in> set rows" "se_user_id r = uid" "distinct (map se_jti rows)"
    "ad_sessions d = tbl_update (\<lambda>r. se_user_id r = uid \<and> se_valid r) session_invalidated rows"
  shows "revoked (se_jti r) d"
proof -
  have "map se_jti (ad_sessions d) = map se_jti rows" by (simp add: assms(4) map_tbl_update session_invalidated_def)
  moreover have "se_jti r \<in> set (map se_jti rows)" using assms(1) by simp
  moreover have "r' = r" if "r' \<in> set rows" "se_jti r' = se_jti r" for r'
    using that assms(1,3) by (metis distinct_map inj_onD)
  ultimately show ?thesis using assms(2)
    by (auto simp: revoked_def assms(4) set_tbl_update session_invalidated_def simp del: set_map)
qed

text \<open>
  C20: A reused refresh token ends everything: when a refresh detects that the session of its token
  was already invalidated, no refresh token of any session that user had at that time works again,
  whatever calls follow.
\<close>

theorem reuse_ends_all_sessions:
  fixes e e' :: "'t aenv" and calls :: "('t aenv \<times> 't auth_call) list"
  assumes "auth_wf (as_db s)" "token_verify e tok = Inr cl"
    "refresh e tok c t s = (Inr (Refresh_failed SESSION_REUSE_DETECTED), s1)"
    "session_by_jti (cl_jti cl) (as_db s) = Some rec"
    "r \<in> set (ad_sessions (as_db s))" "se_user_id r = se_user_id rec"
    "token_verify e' tok' = Inr cl'" "cl_jti cl' = Some (se_jti r)"
  shows "fst (refresh e' tok' c' t' (auth_run calls s1)) \<noteq> Inr (Refresh_success v)"
proof -
  let ?d = "(as_db s)\<lparr>ad_events := []\<rparr>"
  obtain d where b: "refresh_body e tok c t ?d = (Inr (Refresh_failed SESSION_REUSE_DETECTED), d)" "as_db s1 = d\<lparr>ad_events := []\<rparr>"
    using assms(3) unfolding refresh_def by (rule in_transaction_ok)
  obtain cl0 rec0 where x: "token_verify e tok = Inr cl0" "session_by_jti (cl_jti cl0) ?d = Some rec0"
    "ad_sessions d = tbl_update (\<lambda>r. se_user_id r = se_user_id rec0 \<and> se_valid r) session_invalidated (ad_sessions ?d)"
    by (rule refresh_reuse_claims [OF b(1)]) blast
  then have "rec0 = rec" using assms(2,4) by (auto simp: session_by_jti_def split: option.splits)
  then have "revoked (se_jti r) (as_db s1)"
    using invalidated_revoked [OF assms(5) assms(6), of "as_db s1"] x(3) assms(1) b(2) by (simp add: auth_wf_def)
  then show ?thesis by (rule revoked_not_refreshed [OF revoked_run assms(7,8)])
qed

theorem reuse_ends_all_sessions_witness:
  "\<exists>s1. refresh (demo_aenv 5 ''r3'') (demo_refresh ''r1'' 0) demo_client None
       (demo_auth (demo_db [demo_session ''r1'' 1 False (minutes 1440), demo_session ''r2'' 2 True (minutes 1440)] [] []))
         = (Inr (Refresh_failed SESSION_REUSE_DETECTED), s1)
     \<and> (\<nexists>v. fst (refresh (demo_aenv 9 ''r4'') (demo_refresh ''r2'' 0) demo_client None
          (auth_run [(demo_aenv 7 ''r5'', Call_disable 8)] s1)) = Inr (Refresh_success v))"
proof -
  let ?d = "demo_db [demo_session ''r1'' 1 False (minutes 1440), demo_session ''r2'' 2 True (minutes 1440)] [] []"
  let ?e = "demo_aenv 5 ''r3''"
  have v: "token_verify (demo_aenv n x) (demo_refresh j 0) = Inr (snd (make_refresh_pair (demo_aenv 0 j) 7 False 1 0))"
    if "n < minutes 1440" for n x j by (rule demo_verify) (use that in simp)
  have t: "(5::int) < minutes 1440" "(9::int) < minutes 1440" by (simp_all add: minutes_def seconds_def)
  have "\<exists>d'. refresh_body ?e (demo_refresh ''r1'' 0) demo_client None ?d = (Inr (Refresh_failed SESSION_REUSE_DETECTED), d')
      \<and> length (ad_events d') = 2"
    by (simp add: or_empty_def refresh_body_def v [OF t(1)] refresh_claims_def make_refresh_pair_def no_claims_def Let_def
        user_by_id_def tbl_first_def user_is_def demo_user_def version_mismatch_def tenant_version_def session_by_jti_def
        demo_session_def refresh_session_def audited_def logged_def emit_def invalidate_all_for_user_def demo_db_def)
  then obtain d' where b: "refresh_body ?e (demo_refresh ''r1'' 0) demo_client None ?d = (Inr (Refresh_failed SESSION_REUSE_DETECTED), d')"
    "length (ad_events d') = 2" by blast
  obtain s1 where s1: "refresh ?e (demo_refresh ''r1'' 0) demo_client None (demo_auth ?d) = (Inr (Refresh_failed SESSION_REUSE_DETECTED), s1)"
    using demo_commits(1) [OF b(1)] b(2) by auto
  show ?thesis
    using reuse_ends_all_sessions [OF _ v [OF t(1)] s1, of "demo_session ''r1'' 1 False (minutes 1440)"
        "demo_session ''r2'' 2 True (minutes 1440)" "demo_aenv 9 ''r4''" "demo_refresh ''r2'' 0", OF _ _ _ _ v [OF t(2)]] s1
    by (simp add: auth_wf_def sessions.wf_def demo_session_def session_by_jti_def make_refresh_pair_def no_claims_def tbl_first_def Let_def)
qed

end
