(* ===== verification/AuthFactors.thy ===== *)
theory AuthFactors
  imports AuthReplay
begin

text \<open>
  What a login proves about its user: a session is only opened for an active account after every
  factor the account demands was checked, and it replaces the sessions the user had.
\<close>

section \<open>Frames\<close>

lemma factor_frames [simp]:
  "enabled_secret uid (reset_failed_login i d) = enabled_secret uid d"
  "ad_users (pending_consume t d) = ad_users d"
  by (simp_all add: enabled_secret_def authenticator_of_def reset_failed_login_def user_update_def user_put_def
      pending_consume_def split: option.split)

lemma users_frames [simp]:
  "ad_users (audited ac oi x c d) = ad_users d" "ad_users (logged m xs c t d) = ad_users d"
  "ad_users (reset_for_success p i ip d) = ad_users d" "ad_users (code_mark_used n d) = ad_users d"
  by (simp_all add: audited_def logged_def emit_def reset_for_success_def code_mark_used_def code_put_def)

lemma record_failed_users [simp]: "ad_users (record_failed n w k d) = ad_users d"
  by (simp add: record_failed_def split: option.split)

lemma record_scopes_users [simp]: "ad_users (record_scopes n w ks d) = ad_users d"
  unfolding record_scopes_def by (induction ks arbitrary: d) auto

section \<open>Opening a session\<close>

lemma logged_in_user: "logged_in e u c al t d = (Inr (Logged_in ls), d') \<Longrightarrow> ls_user ls = u"
  by (auto simp: logged_in_def split: prod.splits sum.splits)

lemma logged_in_only: "logged_in e u c al t d = (Inr res, d') \<Longrightarrow> \<exists>ls. res = Logged_in ls \<and> ls_user ls = u"
  by (auto simp: logged_in_def split: prod.splits sum.splits)

lemma logged_in_sessions:
  assumes "logged_in e u c al t d = (Inr (Logged_in ls), d')"
  shows "ad_sessions d' = ad_sessions (invalidate_all_for_user (us_id u) d) @
    [session_new (us_id u) (ae_refresh_jti e) (ae_token_hash e (ls_refresh ls)) (ae_now e + minutes (ae_refresh_exp e)) c (ad_next_session d)]"
  using assms
  by (auto simp: logged_in_def issue_tokens_def session_create_def make_refresh_pair_def make_access_def Let_def session_insert_def
      invalidate_all_for_user_def split: prod.splits sum.splits if_splits)

section \<open>The first step\<close>

lemma step1_logged_in:
  assumes "login_step1 e em pw c al t d = (Inr (Logged_in ls), d')"
  shows "\<exists>d0. user_by_email em d = Some (ls_user ls) \<and> us_is_active (ls_user ls)
    \<and> ae_password_ok e pw (us_password_hash (ls_user ls)) \<and> \<not> ae_two_factor_enabled e
    \<and> \<not> authenticator_required (ls_user ls) t \<and> enabled_secret (us_id (ls_user ls)) d = None
    \<and> ad_sessions d0 = ad_sessions d \<and> logged_in e (ls_user ls) c al t d0 = (Inr (Logged_in ls), d')"
proof -
  obtain u where u: "user_by_email em d = Some u" "us_is_active u" "ae_password_ok e pw (us_password_hash u)"
    "login_verified e u c al t (reset_failed_login (us_id u) d) = (Inr (Logged_in ls), d')"
    using assms by (auto simp: login_step1_def split: if_splits option.splits)
  obtain d0 where f: "\<not> ae_two_factor_enabled e" "\<not> authenticator_required u t" "enabled_secret (us_id u) d = None"
    "ad_sessions d0 = ad_sessions d" "logged_in e u c al t d0 = (Inr (Logged_in ls), d')"
    using u(4) unfolding login_verified_def Let_def login_challenge_def
    by (auto split: if_splits option.splits prod.splits sum.splits) (metis quiet_uses(1,3) quiet_users(7))
  have "ls_user ls = u" by (rule logged_in_user [OF f(5)])
  then show ?thesis using u f by blast
qed

section \<open>The second step\<close>

definition factor_checked :: "'t aenv \<Rightarrow> int \<Rightarrow> string \<Rightarrow> string \<Rightarrow> client \<Rightarrow> auth_db \<Rightarrow> bool" where
  "factor_checked e uid pending code c d =
     (case enabled_secret uid d of
        Some secret \<Rightarrow> verify_authenticator_code (ae_hmac_sha1 e) (ae_now e) secret code = Inr True
          \<and> \<not> blocked_scope (ae_now e) (authenticator_max e) (authenticator_window e) (authenticator_scopes uid pending c) d
      | None \<Rightarrow> valid_code (ae_sha256 e) (ae_now e) uid code d \<noteq> None
          \<and> \<not> blocked_scope (ae_now e) (ae_max_attempts e) (ae_window_minutes e) (mail_scopes uid pending c) d)"

lemma second_factor_checked:
  assumes "second_factor_ok e uid p code c t d = (Inr True, d')"
  shows "factor_checked e uid p code c d \<and> ad_users d' = ad_users d \<and> ad_sessions d' = ad_sessions d"
proof (cases "enabled_secret uid d")
  case None
  then show ?thesis using assms
    by (auto simp: second_factor_ok_def verify_code_def factor_checked_def
        split: if_splits option.splits prod.splits sum.splits bool.splits)
next
  case (Some secret)
  then show ?thesis using assms
    by (auto simp: second_factor_ok_def authenticator_step_def factor_checked_def Let_def
        split: if_splits prod.splits sum.splits bool.splits)
qed

lemma step2_logged_in:
  assumes "login_step2 e p code c al t d = (Inr (Logged_in ls), d')"
  shows "\<exists>d0. pending_user_id (ae_now e) p d = Some (us_id (ls_user ls)) \<and> us_is_active (ls_user ls)
    \<and> user_by_id (us_id (ls_user ls)) d = Some (ls_user ls) \<and> factor_checked e (us_id (ls_user ls)) p code c d
    \<and> ad_sessions d0 = ad_sessions d \<and> logged_in e (ls_user ls) c al t d0 = (Inr (Logged_in ls), d')"
proof -
  obtain uid d1 ch where a: "pending_user_id (ae_now e) p d = Some uid" "second_factor_ok e uid p code c t d = (Inr True, d1)"
    "login_finish e uid p c al t ch d1 = (Inr (Logged_in ls), d')"
    using assms by (auto simp: login_step2_def split: if_splits option.splits prod.splits sum.splits bool.splits)
  have f: "factor_checked e uid p code c d" "ad_users d1 = ad_users d" "ad_sessions d1 = ad_sessions d"
    using second_factor_checked [OF a(2)] by auto
  obtain u d0 where u: "user_by_id uid d1 = Some u" "us_is_active u" "ad_sessions d0 = ad_sessions d1"
    "logged_in e u c al t d0 = (Inr (Logged_in ls), d')"
    using a(3) by (auto simp: login_finish_def Let_def user_by_id_def split: option.splits if_splits)
      (metis quiet_uses(1,3) quiet_writes(3))
  have l: "ls_user ls = u" by (rule logged_in_user [OF u(4)])
  have i: "us_id u = uid" using u(1) by (auto simp: user_by_id_def user_is_def dest: tbl_first_Some)
  have "user_by_id uid d = Some u" using u(1) by (simp add: user_by_id_def f(2))
  then show ?thesis unfolding l i using a(1) u f by metis
qed

lemma events_frames [simp]:
  "pending_user_id n p (d\<lparr>ad_events := x\<rparr>) = pending_user_id n p d" "user_by_id i (d\<lparr>ad_events := x\<rparr>) = user_by_id i d"
  "user_by_email em (d\<lparr>ad_events := x\<rparr>) = user_by_email em d" "enabled_secret i (d\<lparr>ad_events := x\<rparr>) = enabled_secret i d"
  "valid_code h n i co (d\<lparr>ad_events := x\<rparr>) = valid_code h n i co d"
  "blocked_scope n m w ks (d\<lparr>ad_events := x\<rparr>) = blocked_scope n m w ks d"
  by (simp_all add: pending_user_id_def user_by_id_def user_by_email_def enabled_secret_def authenticator_of_def
      valid_code_def blocked_scope_def is_blocked_def)

lemma factor_checked_events [simp]: "factor_checked e i p co c (d\<lparr>ad_events := x\<rparr>) = factor_checked e i p co c d"
  by (simp add: factor_checked_def split: option.split)

definition second_step :: "login_input \<Rightarrow> bool" where
  "second_step inp = (or_empty (li_pending_token inp) \<noteq> [] \<and> or_empty (li_two_factor_code inp) \<noteq> [])"

lemma login_opens:
  assumes "login e inp s = (Inr (Logged_in ls), s')"
  obtains d0 d' where "if second_step inp
      then login_step2 e (or_empty (li_pending_token inp)) (or_empty (li_two_factor_code inp)) (li_client inp) (li_auto_login inp)
             (case_option no_tenant id (li_tenant inp)) ((as_db s)\<lparr>ad_events := []\<rparr>) = (Inr (Logged_in ls), d')
      else login_step1 e (or_empty (li_email inp)) (or_empty (li_password inp)) (li_client inp) (li_auto_login inp)
             (case_option no_tenant id (li_tenant inp)) ((as_db s)\<lparr>ad_events := []\<rparr>) = (Inr (Logged_in ls), d')"
    "ad_sessions (as_db s') = ad_sessions d'" "ad_sessions d0 = ad_sessions (as_db s)"
    "logged_in e (ls_user ls) (li_client inp) (li_auto_login inp) (case_option no_tenant id (li_tenant inp)) d0 = (Inr (Logged_in ls), d')"
proof -
  let ?d = "(as_db s)\<lparr>ad_events := []\<rparr>" and ?t = "case_option no_tenant id (li_tenant inp)"
  obtain d' where b: "login_body e inp ?d = (Inr (Logged_in ls), d')" "as_db s' = d'\<lparr>ad_events := []\<rparr>"
    using assms unfolding login_def by (rule in_transaction_ok)
  have t: "(case li_tenant inp of None \<Rightarrow> no_tenant | Some t \<Rightarrow> t) = ?t" by (cases "li_tenant inp") simp_all
  show thesis
  proof (cases "second_step inp")
    case True
    then have x: "login_step2 e (or_empty (li_pending_token inp)) (or_empty (li_two_factor_code inp)) (li_client inp) (li_auto_login inp) ?t ?d = (Inr (Logged_in ls), d')"
      using b(1) by (simp add: login_body_def t second_step_def Let_def)
    show thesis using step2_logged_in [OF x] that x True b(2) by auto
  next
    case False
    then have x: "login_step1 e (or_empty (li_email inp)) (or_empty (li_password inp)) (li_client inp) (li_auto_login inp) ?t ?d = (Inr (Logged_in ls), d')"
      using b(1) by (auto simp: login_body_def t second_step_def Let_def)
    show thesis using step1_logged_in [OF x] that x False b(2) by auto
  qed
qed

section \<open>Properties\<close>

text \<open>
  C21: A login opens a session only for an active account after every factor was checked: in the
  first step the password is right, two-factor is off, the user has no authenticator and needs
  none; in the second step the pending token is that user's and not expired, and the authenticator
  code, or else a mailed code that is unused and not expired, is right and not blocked.
\<close>

theorem login_needs_every_factor:
  assumes "login e inp s = (Inr (Logged_in ls), s')"
  shows "us_is_active (ls_user ls) \<and>
    (if second_step inp
     then pending_user_id (ae_now e) (or_empty (li_pending_token inp)) (as_db s) = Some (us_id (ls_user ls))
       \<and> user_by_id (us_id (ls_user ls)) (as_db s) = Some (ls_user ls)
       \<and> factor_checked e (us_id (ls_user ls)) (or_empty (li_pending_token inp)) (or_empty (li_two_factor_code inp))
           (li_client inp) (as_db s)
     else user_by_email (or_empty (li_email inp)) (as_db s) = Some (ls_user ls)
       \<and> ae_password_ok e (or_empty (li_password inp)) (us_password_hash (ls_user ls))
       \<and> \<not> ae_two_factor_enabled e \<and> enabled_secret (us_id (ls_user ls)) (as_db s) = None
       \<and> \<not> authenticator_required (ls_user ls) (case_option no_tenant id (li_tenant inp)))"
  by (rule login_opens [OF assms]) (auto split: if_splits dest!: step1_logged_in step2_logged_in)

text \<open>A login leaves its user with exactly one valid session, the new one, which carries the id and
  the hash of the refresh token it hands out; the sessions of other users are untouched.\<close>

theorem login_leaves_one_session:
  assumes "login e inp s = (Inr (Logged_in ls), s')"
  shows "\<exists>r. filter (\<lambda>r. se_user_id r = us_id (ls_user ls) \<and> se_valid r) (ad_sessions (as_db s')) = [r]
      \<and> se_jti r = ae_refresh_jti e \<and> se_token_hash r = ae_token_hash e (ls_refresh ls)
      \<and> se_expires_at r = ae_now e + minutes (ae_refresh_exp e)
    \<and> filter (\<lambda>r. se_user_id r \<noteq> us_id (ls_user ls)) (ad_sessions (as_db s'))
        = filter (\<lambda>r. se_user_id r \<noteq> us_id (ls_user ls)) (ad_sessions (as_db s))"
proof -
  obtain d0 d' where a: "ad_sessions (as_db s') = ad_sessions d'" "ad_sessions d0 = ad_sessions (as_db s)"
    "logged_in e (ls_user ls) (li_client inp) (li_auto_login inp) (case_option no_tenant id (li_tenant inp)) d0 = (Inr (Logged_in ls), d')"
    by (rule login_opens [OF assms]) blast
  have none: "filter (\<lambda>r. se_user_id r = i \<and> se_valid r) (tbl_update (\<lambda>r. se_user_id r = i \<and> se_valid r) session_invalidated rows) = []" for i rows
    by (induction rows) (auto simp: tbl_update_def session_invalidated_def)
  have other: "filter (\<lambda>r. se_user_id r \<noteq> i) (tbl_update (\<lambda>r. se_user_id r = i \<and> se_valid r) session_invalidated rows)
      = filter (\<lambda>r. se_user_id r \<noteq> i) rows" for i rows
    by (induction rows) (auto simp: tbl_update_def session_invalidated_def)
  have inv: "ad_sessions (invalidate_all_for_user i d) = tbl_update (\<lambda>r. se_user_id r = i \<and> se_valid r) session_invalidated (ad_sessions d)" for i d
    by (simp add: invalidate_all_for_user_def)
  note n = logged_in_sessions [OF a(3), folded a(1), unfolded inv a(2)]
  show ?thesis unfolding n filter_append none other by (simp add: session_new_def)
qed

section \<open>Instances\<close>

definition demo_login :: "string option \<Rightarrow> string option \<Rightarrow> login_input" where
  "demo_login p co = \<lparr>li_email = Some ''a@b'', li_password = Some ''pw'', li_pending_token = p, li_two_factor_code = co,
     li_client = demo_client, li_auto_login = False, li_tenant = None\<rparr>"

lemmas demo_login_simps = login_body_def demo_login_def or_empty_def demo_client_def Let_def audited_def logged_def emit_def
  no_tenant_def logged_in_def issue_tokens_def session_create_def session_insert_def session_new_def make_refresh_pair_def
  make_access_def no_claims_def invalidate_all_for_user_def demo_user_def user_is_def tbl_first_def tbl_update_def

definition demo_mail_db :: auth_db where
  "demo_mail_db = (demo_db [] [\<lparr>pf_token = ''p'', pf_user_id = 7, pf_expires_at = 9\<rparr>] [])\<lparr>ad_codes := [\<lparr>tf_id = 0, tf_user_id = 7,
        tf_code_hash = ''123456'', tf_email = ''a@b'', tf_expires_at = 9, tf_used = False\<rparr>]\<rparr>"

lemma demo_login_second:
  "\<exists>ls d'. login_body (demo_aenv 5 ''r2'') (demo_login (Some ''p'') (Some ''123456''))
      demo_mail_db = (Inr (Logged_in ls), d')
     \<and> length (ad_events d') = 3"
  by (simp add: demo_login_simps login_step2_def pending_user_id_def second_factor_ok_def enabled_secret_def authenticator_of_def
      verify_code_def blocked_scope_def mail_scopes_def is_blocked_def valid_code_def demo_aenv_def demo_db_def
      demo_mail_db_def reset_for_success_def code_mark_used_def code_put_def login_finish_def pending_consume_def user_by_id_def)

theorem login_needs_every_factor_witness:
  "\<exists>ls s'. login (demo_aenv 5 ''r2'') (demo_login (Some ''p'') (Some ''123456''))
      (demo_auth demo_mail_db) = (Inr (Logged_in ls), s')
     \<and> us_is_active (ls_user ls)"
proof -
  obtain ls d' where b: "login_body (demo_aenv 5 ''r2'') (demo_login (Some ''p'') (Some ''123456'')) demo_mail_db = (Inr (Logged_in ls), d')"
    "length (ad_events d') = 3" using demo_login_second by blast
  obtain s' where l: "login (demo_aenv 5 ''r2'') (demo_login (Some ''p'') (Some ''123456'')) (demo_auth demo_mail_db) = (Inr (Logged_in ls), s')"
    using demo_commits(2) [OF b(1)] b(2) by (auto simp: demo_mail_db_def)
  show ?thesis using login_needs_every_factor [OF l] l by blast
qed

lemma demo_login_first:
  "\<exists>ls d'. login_body (demo_aenv 5 ''r2'') (demo_login None None) (demo_db [demo_session ''r1'' 1 True 99] [] []) = (Inr (Logged_in ls), d')
     \<and> length (ad_events d') = 2"
proof -
  have norm: "py_norm ''a@b'' = ''a@b''" "py_lower ''a@b'' = ''a@b''" "py_norm ''user'' = ''user''"
    by (simp_all add: py_norm_def py_strip_def py_lower_def lower_char_def is_blank_def)
  show ?thesis
    by (simp add: demo_login_simps login_step1_def user_by_email_def norm login_verified_def authenticator_required_def
        reset_failed_login_def user_by_id_def user_update_def user_put_def enabled_secret_def authenticator_of_def
        demo_aenv_def demo_db_def demo_session_def session_invalidated_def)
qed

theorem login_leaves_one_session_witness:
  "\<exists>ls s' r. login (demo_aenv 5 ''r2'') (demo_login None None) (demo_auth (demo_db [demo_session ''r1'' 1 True 99] [] []))
      = (Inr (Logged_in ls), s')
     \<and> filter (\<lambda>r. se_user_id r = us_id (ls_user ls) \<and> se_valid r) (ad_sessions (as_db s')) = [r] \<and> se_jti r = ''r2''"
proof -
  let ?d = "demo_db [demo_session ''r1'' 1 True 99] [] []"
  let ?e = "demo_aenv 5 ''r2''" and ?i = "demo_login None None"
  obtain ls d' where b: "login_body ?e ?i ?d = (Inr (Logged_in ls), d')" "length (ad_events d') = 2"
    using demo_login_first by blast
  obtain s' where l: "login ?e ?i (demo_auth ?d) = (Inr (Logged_in ls), s')"
    using demo_commits(2) [OF b(1)] b(2) by auto
  show ?thesis using login_leaves_one_session [OF l] l by auto
qed

end
