(* ===== verification/AuthLimits.thy ===== *)
theory AuthLimits
  imports AuthFactors
begin

text \<open>
  The limits on guessing a second factor: the counters of \<open>two_factor_attempts\<close>, the limit on mailed
  codes, which holds, and the limit on authenticator codes, which never engages, because the request
  that would set it raises and is rolled back.
\<close>

section \<open>Counters\<close>

definition at_id :: "attempt_row \<Rightarrow> string \<times> string" where
  "at_id r = (at_scope r, at_key r)"

definition attempts_below :: "int \<Rightarrow> auth_db \<Rightarrow> bool" where
  "attempts_below n d = (distinct (map at_id (ad_attempts d)) \<and> (\<forall>r \<in> set (ad_attempts d). at_attempts r < n))"

lemma at_is_id: "at_is k r = (at_id r = k)"
  by (auto simp: at_is_def at_id_def prod_eq_iff)

lemma counted_id [simp]: "at_id (attempt_counted n w r) = at_id r"
  by (simp add: at_id_def attempt_counted_def)

lemma counted_fresh: "0 \<le> w \<Longrightarrow> \<not> minutes w < n - at_window_start (attempt_counted n w r)"
  by (simp add: attempt_counted_def minutes_def seconds_def)

lemma record_failed_below:
  assumes "attempts_below m d" "\<not> is_blocked n m w k (record_failed n w k d)" "0 \<le> w"
  shows "attempts_below m (record_failed n w k d)"
proof (cases "tbl_first (at_is k) (ad_attempts d)")
  case None
  let ?r = "\<lparr>at_scope = fst k, at_key = snd k, at_attempts = 1, at_window_start = n\<rparr>"
  have new: "k \<notin> set (map at_id (ad_attempts d))" using None by (auto simp: tbl_first_None at_is_id)
  have "tbl_first (at_is k) (ad_attempts d @ [?r]) = Some ?r" by (simp add: tbl_first_append None) (simp add: tbl_first_def at_is_def)
  then have "1 < m" using assms(2,3) None by (simp add: is_blocked_def record_failed_def minutes_def seconds_def)
  then show ?thesis using assms(1) new None by (auto simp: attempts_below_def record_failed_def at_id_def image_iff)
next
  case (Some r)
  let ?rows = "tbl_update (at_is k) (attempt_counted n w) (ad_attempts d)"
  have r: "r \<in> set (ad_attempts d)" "at_id r = k" using tbl_first_Some [OF Some] by (auto simp: at_is_id)
  have "tbl_first (\<lambda>x. at_id x = k) ?rows = Some (attempt_counted n w r)"
    using tbl_first_update_same [of at_id "attempt_counted n w" k "ad_attempts d"] Some by (simp add: at_is_id [abs_def])
  then have lt: "at_attempts (attempt_counted n w r) < m"
    using assms(2) Some counted_fresh [OF assms(3), of n r] by (simp add: is_blocked_def record_failed_def at_is_id [abs_def])
  have only: "x = r" if "x \<in> set (ad_attempts d)" "at_id x = k" for x
    using that r assms(1) by (metis attempts_below_def distinct_map inj_onD)
  have "\<forall>x \<in> set ?rows. at_attempts x < m"
    using assms(1) lt only by (auto simp: set_tbl_update attempts_below_def at_is_id)
  moreover have "map at_id ?rows = map at_id (ad_attempts d)" by (simp add: map_tbl_update)
  ultimately show ?thesis using assms(1) Some by (simp add: record_failed_def attempts_below_def)
qed

lemma authenticator_window_pos: "0 \<le> authenticator_window e"
  by (simp add: authenticator_window_def)

lemma record_authenticator_below:
  assumes "attempts_below (authenticator_max e) d" "record_authenticator_failed e uid p c d = (False, d')"
  shows "attempts_below (authenticator_max e) d'"
proof -
  have sticky: "fst (fold (record_scope e) ks (True, x))" for ks x
    by (induction ks arbitrary: x) (simp_all add: record_scope_def Let_def)
  have "\<not> fst (fold (record_scope e) ks (False, d)) \<Longrightarrow> attempts_below (authenticator_max e) d \<Longrightarrow>
      attempts_below (authenticator_max e) (snd (fold (record_scope e) ks (False, d)))" for ks d
  proof (induction ks arbitrary: d)
    case Nil
    then show ?case by simp
  next
    case (Cons k ks)
    obtain b d1 where r: "record_scope e k (False, d) = (b, d1)" by force
    have b: "\<not> b" using Cons.prems(1) sticky r by (cases b) simp_all
    have "attempts_below (authenticator_max e) d1"
      using r b Cons.prems(2) record_failed_below [OF Cons.prems(2), of "ae_now e" "authenticator_window e" k] authenticator_window_pos [of e]
      by (auto simp: record_scope_def Let_def split: if_splits)
    then show ?case using Cons.IH [of d1] Cons.prems(1) r b by simp
  qed
  from this [of "authenticator_scopes uid p c" d] assms show ?thesis
    by (simp add: record_authenticator_failed_def)
qed

section \<open>What a second step leaves alone\<close>

text \<open>Counters below the limit, and every pending login belongs to a user with an authenticator.\<close>

definition guarded :: "int \<Rightarrow> auth_db \<Rightarrow> bool" where
  "guarded n d = (attempts_below n d \<and> (\<forall>r \<in> set (ad_pending d). enabled_secret (pf_user_id r) d \<noteq> None))"

lemma guarded_quiet:
  "guarded n d \<Longrightarrow> ad_attempts d' = ad_attempts d \<Longrightarrow> set (ad_pending d') \<subseteq> set (ad_pending d) \<Longrightarrow>
     ad_authenticators d' = ad_authenticators d \<Longrightarrow> guarded n d'"
  by (auto simp: guarded_def attempts_below_def enabled_secret_def authenticator_of_def)

lemma guarded_steps [asteps]:
  "guarded n d \<Longrightarrow> guarded n (audited ac oi x c d)" "guarded n d \<Longrightarrow> guarded n (logged m xs c t d)"
  "guarded n d \<Longrightarrow> guarded n (pending_consume pt d)" "guarded n d \<Longrightarrow> guarded n (invalidate_all_for_user i d)"
  "guarded n d \<Longrightarrow> guarded n (snd (session_create mk d))" "guarded n (d\<lparr>ad_events := ev\<rparr>) = guarded n d"
  by (simp_all add: guarded_def attempts_below_def enabled_secret_def authenticator_of_def audited_def logged_def emit_def
      pending_consume_def invalidate_all_for_user_def session_create_def session_insert_def)

lemma guarded_reset [asteps]: "guarded n d \<Longrightarrow> guarded n (reset_for_success p i ip d)"
  by (auto simp: guarded_def attempts_below_def enabled_secret_def authenticator_of_def reset_for_success_def distinct_map_filter
      split: option.split)

lemma record_failed_frames [simp]:
  "ad_pending (record_failed n w k d) = ad_pending d" "ad_authenticators (record_failed n w k d) = ad_authenticators d"
  by (simp_all add: record_failed_def split: option.split)

lemma record_authenticator_frames:
  "ad_pending (snd (record_authenticator_failed e uid p c d)) = ad_pending d
   \<and> ad_authenticators (snd (record_authenticator_failed e uid p c d)) = ad_authenticators d"
proof -
  have "ad_pending (snd (fold (record_scope e) ks bd)) = ad_pending (snd bd)
    \<and> ad_authenticators (snd (fold (record_scope e) ks bd)) = ad_authenticators (snd bd)" for ks bd
    by (induction ks arbitrary: bd) (simp_all add: record_scope_def Let_def)
  then show ?thesis by (simp add: record_authenticator_failed_def)
qed

lemmas gctrl = ctrl [where P = "guarded n" for n]

lemma guarded_logged_in: "guarded n d \<Longrightarrow> guarded n (snd (logged_in e u c al t d))"
  unfolding logged_in_def issue_tokens_def Let_def make_refresh_pair_def make_access_def prod.case
  by (intro gctrl) (simp_all add: asteps split: prod.split)

lemma guarded_finish: "guarded n d \<Longrightarrow> guarded n (snd (login_finish e i p c al t ch d))"
  unfolding login_finish_def Let_def by (intro gctrl) (simp_all add: asteps guarded_logged_in)

lemma guarded_authenticator:
  assumes "guarded (authenticator_max e) d" "authenticator_step e uid se co p c t d = (Inr b, d')"
  shows "guarded (authenticator_max e) d'"
proof (cases "verify_authenticator_code (ae_hmac_sha1 e) (ae_now e) se co")
  case (Inl x)
  then show ?thesis using assms(2) by (auto simp: authenticator_step_def split: if_splits)
next
  case (Inr ok)
  obtain bl d1 where r: "record_authenticator_failed e uid p c d = (bl, d1)" by force
  have f: "ad_pending d1 = ad_pending d" "ad_authenticators d1 = ad_authenticators d"
    using record_authenticator_frames [of e uid p c d] r by auto
  show ?thesis
  proof (cases ok)
    case True
    then show ?thesis using assms Inr by (auto simp: authenticator_step_def asteps split: if_splits)
  next
    case False
    then have bl: "\<not> bl" using assms(2) Inr r by (auto simp: authenticator_step_def Let_def split: if_splits)
    have "attempts_below (authenticator_max e) d1"
      by (rule record_authenticator_below) (use assms(1) r bl in \<open>auto simp: guarded_def\<close>)
    then have "guarded (authenticator_max e) d1"
      using assms(1) f by (simp add: guarded_def enabled_secret_def authenticator_of_def)
    then show ?thesis using assms(2) Inr False r bl
      by (auto simp: authenticator_step_def Let_def asteps split: if_splits)
  qed
qed

lemma guarded_step2:
  assumes "guarded (authenticator_max e) d" "login_step2 e p co c al t d = (Inr v, d')"
  shows "guarded (authenticator_max e) d'"
proof (cases "pending_user_id (ae_now e) p d")
  case None
  then show ?thesis using assms by (simp add: login_step2_def)
next
  case (Some uid)
  then obtain r where "r \<in> set (ad_pending d)" "pf_user_id r = uid"
    by (auto simp: pending_user_id_def dest: tbl_first_Some)
  then obtain se where se: "enabled_secret uid d = Some se" using assms(1) by (auto simp: guarded_def)
  obtain res d1 where a: "authenticator_step e uid se co p c t d = (res, d1)" by force
  show ?thesis
  proof (cases res)
    case (Inl x)
    then show ?thesis using assms Some se a by (auto simp: login_step2_def second_factor_ok_def split: if_splits)
  next
    case (Inr b)
    have g: "guarded (authenticator_max e) d1" by (rule guarded_authenticator [OF assms(1)]) (use a Inr in simp)
    have "guarded (authenticator_max e) (snd (login_finish e uid p c al t ch d1))" for ch by (rule guarded_finish [OF g])
    then show ?thesis using assms Some se a Inr g
      by (auto simp: login_step2_def second_factor_ok_def split: if_splits bool.splits) (metis snd_conv)
  qed
qed

lemma guarded_login:
  assumes "guarded (authenticator_max e) (as_db s)" "second_step inp"
  shows "guarded (authenticator_max e) (as_db (snd (login e inp s)))"
proof -
  obtain res s' where l: "login e inp s = (res, s')" by force
  show ?thesis
  proof (cases res)
    case (Inl x)
    then show ?thesis using l in_transaction_raise [of "ae_channel e" "login_body e inp" s x s'] assms by (simp add: login_def)
  next
    case (Inr v)
    obtain d where b: "login_body e inp ((as_db s)\<lparr>ad_events := []\<rparr>) = (Inr v, d)" "as_db s' = d\<lparr>ad_events := []\<rparr>"
      using l unfolding Inr login_def by (rule in_transaction_ok)
    have "guarded (authenticator_max e) d"
      using b(1) assms guarded_step2 [of e "(as_db s)\<lparr>ad_events := []\<rparr>"]
      by (simp add: login_body_def second_step_def Let_def asteps)
    then show ?thesis using l b(2) by (simp add: asteps)
  qed
qed

definition second_steps :: "int \<Rightarrow> ('t aenv \<times> login_input) list \<Rightarrow> bool" where
  "second_steps n calls = list_all (\<lambda>(e, inp). second_step inp \<and> authenticator_max e = n) calls"

definition logins :: "('t aenv \<times> login_input) list \<Rightarrow> auth_state \<Rightarrow> auth_state" where
  "logins calls = auth_run (map (\<lambda>(e, inp). (e, Call_login inp)) calls)"

lemma guarded_logins: "guarded n (as_db s) \<Longrightarrow> second_steps n calls \<Longrightarrow> guarded n (as_db (logins calls s))"
proof (induction calls arbitrary: s)
  case Nil
  then show ?case by (simp add: logins_def auth_run_def)
next
  case (Cons ei calls)
  obtain e inp where ei: "ei = (e, inp)" by force
  have "guarded n (as_db (snd (login e inp s)))" using guarded_login [of e s inp] Cons.prems by (auto simp: second_steps_def ei)
  then have "guarded n (as_db (logins calls (snd (login e inp s))))" using Cons by (simp add: second_steps_def ei)
  then show ?case by (simp add: logins_def auth_run_def ei)
qed

lemma below_not_blocked: "attempts_below n d \<Longrightarrow> \<not> blocked_scope now n w ks d"
proof -
  assume a: "attempts_below n d"
  have "\<not> is_blocked now n w k d" for k
    using a by (auto simp: is_blocked_def attempts_below_def split: option.split dest!: tbl_first_Some)
  then show ?thesis by (simp add: blocked_scope_def list_ex_iff)
qed

text \<open>
  C22: The lockout for authenticator codes never engages: from a state where no counter has reached
  the limit and all pending logins are of users with an authenticator, no sequence of second
  steps, however many of them fail, brings a counter to the limit, and the right code is then
  still accepted, because the request that reaches the limit is rolled back.
\<close>

theorem authenticator_lockout_never_engages:
  fixes calls :: "('t aenv \<times> login_input) list"
  assumes "guarded n (as_db s)" "second_steps n calls" "authenticator_max e = n"
    "verify_authenticator_code (ae_hmac_sha1 e) (ae_now e) secret code = Inr True"
  shows "attempts_below n (as_db (logins calls s))
    \<and> fst (authenticator_step e uid secret code pending c t (as_db (logins calls s))) = Inr True"
proof -
  have "attempts_below n (as_db (logins calls s))" using guarded_logins [OF assms(1,2)] by (simp add: guarded_def)
  then show ?thesis using below_not_blocked assms(3,4) by (simp add: authenticator_step_def)
qed

section \<open>Mailed codes\<close>

text \<open>Attempts at one user's mailed code, one after the other, with their answers.\<close>

fun verify_all :: "('t aenv \<times> string \<times> string \<times> client) list \<Rightarrow> int \<Rightarrow> auth_db \<Rightarrow> bool res list \<times> auth_db" where
  "verify_all [] uid d = ([], d)"
| "verify_all ((e, code, pending, c) # as) uid d =
     (let (r, d1) = verify_code e uid code pending c d; (rs, d2) = verify_all as uid d1 in (r # rs, d2))"

definition in_window :: "int \<Rightarrow> int \<Rightarrow> pydatetime \<Rightarrow> ('t aenv \<times> string \<times> string \<times> client) list \<Rightarrow> bool" where
  "in_window m w t0 as = list_all (\<lambda>(e, code, pending, c). ae_max_attempts e = m \<and> ae_window_minutes e = w
     \<and> t0 \<le> ae_now e \<and> ae_now e \<le> t0 + minutes w \<and> pending \<noteq> []) as"

text \<open>The user's counter shows \<open>n\<close> attempts in a window that began at \<open>t0\<close> or later.\<close>

definition counted :: "int \<Rightarrow> pydatetime \<Rightarrow> int \<Rightarrow> auth_db \<Rightarrow> bool" where
  "counted uid t0 n d = (case tbl_first (at_is (''user'', show_int uid)) (ad_attempts d) of
     None \<Rightarrow> n = 0 | Some r \<Rightarrow> at_attempts r = n \<and> t0 \<le> at_window_start r)"

lemma counted_other: "fst k \<noteq> ''user'' \<Longrightarrow> counted uid t0 n (record_failed now w k d) = counted uid t0 n d"
proof -
  assume k: "fst k \<noteq> ''user''"
  have "tbl_first (at_is (''user'', show_int uid)) (tbl_update (at_is k) (attempt_counted now w) (ad_attempts d))
      = tbl_first (at_is (''user'', show_int uid)) (ad_attempts d)"
    using tbl_first_update_other [of at_id "attempt_counted now w" k "(''user'', show_int uid)" "ad_attempts d"] k
    by (cases k) (auto simp: at_is_id [abs_def])
  moreover have "tbl_first (at_is (''user'', show_int uid)) (ad_attempts d @ [\<lparr>at_scope = fst k, at_key = snd k, at_attempts = 1, at_window_start = now\<rparr>])
      = tbl_first (at_is (''user'', show_int uid)) (ad_attempts d)"
    using k by (simp add: tbl_first_append split: option.split) (simp add: tbl_first_def at_is_def)
  ultimately show ?thesis by (simp add: counted_def record_failed_def split: option.split)
qed

lemma counted_user:
  assumes "counted uid t0 n d" "t0 \<le> now" "now \<le> t0 + minutes w"
  shows "counted uid t0 (n + 1) (record_failed now w (''user'', show_int uid) d)"
proof (cases "tbl_first (at_is (''user'', show_int uid)) (ad_attempts d)")
  case None
  then have n: "n = 0" using assms(1) by (simp add: counted_def)
  show ?thesis using None assms(2) unfolding counted_def record_failed_def n
    by (simp add: tbl_first_append) (simp add: tbl_first_def at_is_def)
next
  case (Some r)
  let ?k = "(''user'', show_int uid)"
  have r: "at_attempts r = n" "t0 \<le> at_window_start r" using Some assms(1) by (simp_all add: counted_def)
  have "tbl_first (at_is ?k) (tbl_update (at_is ?k) (attempt_counted now w) (ad_attempts d)) = Some (attempt_counted now w r)"
    using tbl_first_update_same [of at_id "attempt_counted now w" ?k "ad_attempts d"] Some by (simp add: at_is_id [abs_def])
  then show ?thesis using Some r assms(2,3) by (simp add: counted_def record_failed_def attempt_counted_def)
qed

lemma verify_code_counts:
  assumes "counted uid t0 n d" "t0 \<le> ae_now e" "ae_now e \<le> t0 + minutes (ae_window_minutes e)" "pending \<noteq> []"
    "verify_code e uid code pending c d = (res, d')" "res \<noteq> Inr True" "0 \<le> n"
  shows "(res = Inr False \<and> n < max 1 (ae_max_attempts e) \<and> counted uid t0 (n + 1) d') \<or> (res \<noteq> Inr False \<and> counted uid t0 n d')"
proof (cases "blocked_scope (ae_now e) (ae_max_attempts e) (ae_window_minutes e) (mail_scopes uid pending c) d")
  case True
  then show ?thesis using assms by (auto simp: verify_code_def)
next
  case False
  have v: "valid_code (ae_sha256 e) (ae_now e) uid code d = None"
    using assms(5,6) False by (auto simp: verify_code_def split: option.splits)
  have user: "show_int uid \<noteq> []" by (simp add: show_int_def)
  have "\<not> is_blocked (ae_now e) (ae_max_attempts e) (ae_window_minutes e) (''user'', show_int uid) d"
    using False user by (auto simp: blocked_scope_def mail_scopes_def)
  then have lt: "n < max 1 (ae_max_attempts e)"
    using assms(1,3) by (auto simp: counted_def is_blocked_def split: option.splits)
  let ?r = "record_failed (ae_now e) (ae_window_minutes e)"
  have d': "res = Inr False" "d' = record_scopes (ae_now e) (ae_window_minutes e) (mail_scopes uid pending c) d"
    using assms(4,5) False v by (auto simp: verify_code_def)
  have "counted uid t0 n (?r (''token'', pending) d)" using assms(1) by (simp add: counted_other)
  then have "counted uid t0 (n + 1) (?r (''user'', show_int uid) (?r (''token'', pending) d))"
    using assms(2,3) by (rule counted_user)
  then have "counted uid t0 (n + 1) d'" using assms(4) user by (simp add: d'(2) record_scopes_def mail_scopes_def counted_other)
  then show ?thesis using d'(1) lt by simp
qed

lemma verify_all_counts:
  assumes "counted uid t0 n d" "0 \<le> n" "n \<le> max 1 m" "in_window m w t0 as" "Inr True \<notin> set (fst (verify_all as uid d))"
  shows "n + int (length (filter (\<lambda>r. r = Inr False) (fst (verify_all as uid d)))) \<le> max 1 m"
  using assms
proof (induction as arbitrary: n d)
  case Nil
  then show ?case by simp
next
  case (Cons a as)
  obtain e code pending c where a: "a = (e, code, pending, c)" by (metis prod_cases4)
  obtain r d1 where v: "verify_code e uid code pending c d = (r, d1)" by force
  obtain rs d2 where vs: "verify_all as uid d1 = (rs, d2)" by force
  have e: "ae_max_attempts e = m" "ae_window_minutes e = w" "t0 \<le> ae_now e" "ae_now e \<le> t0 + minutes w" "pending \<noteq> []" "in_window m w t0 as"
    using Cons.prems(4) by (simp_all add: in_window_def a)
  have out: "r \<noteq> Inr True" "Inr True \<notin> set rs" "fst (verify_all (a # as) uid d) = r # rs"
    using Cons.prems(5) by (auto simp: a v vs)
  from verify_code_counts [OF Cons.prems(1) e(3) _ e(5) v out(1) Cons.prems(2)] e(1,2,4)
  consider "r = Inr False" "n < max 1 m" "counted uid t0 (n + 1) d1" | "r \<noteq> Inr False" "counted uid t0 n d1" by auto
  then show ?case
  proof cases
    case 1
    then show ?thesis using Cons.IH [OF 1(3) _ _ e(6)] Cons.prems(2) out(2,3) vs by simp
  next
    case 2
    then show ?thesis using Cons.IH [OF 2(2) Cons.prems(2,3) e(6)] out(2,3) vs by simp
  qed
qed


section \<open>Instances\<close>

definition demo_authenticator :: authenticator_row where
  "demo_authenticator = \<lparr>ar_user_id = 7, ar_secret = Some ''AAAAAAAA'', ar_is_enabled = True, ar_pending_secret = None, ar_pending_expires_at = None\<rparr>"

lemma demo_code: "verify_authenticator_code (\<lambda>k m. replicate 20 0) (days 719163) ''AAAAAAAA'' ''000000'' = Inr True"
  by code_simp

theorem authenticator_lockout_never_engages_witness:
  "fst (authenticator_step (demo_aenv (days 719163) ''r2'') 7 ''AAAAAAAA'' ''000000'' ''p'' demo_client no_tenant
     (as_db (logins (replicate 4 (demo_aenv (days 719163) ''r2'', demo_login (Some ''p'') (Some ''999999'')))
       (demo_auth (demo_db [] [\<lparr>pf_token = ''p'', pf_user_id = 7, pf_expires_at = days 719164\<rparr>] [demo_authenticator]))))) = Inr True"
proof -
  let ?s = "demo_auth (demo_db [] [\<lparr>pf_token = ''p'', pf_user_id = 7, pf_expires_at = days 719164\<rparr>] [demo_authenticator])"
  have g: "guarded 2 (as_db ?s)"
    by (simp add: guarded_def attempts_below_def enabled_secret_def authenticator_of_def tbl_first_def demo_authenticator_def
        strip_or_none_def py_strip_def is_blank_def)
  have c: "second_steps 2 (replicate 4 (demo_aenv (days 719163) ''r2'', demo_login (Some ''p'') (Some ''999999'')))"
    by (simp add: second_steps_def second_step_def demo_login_def or_empty_def authenticator_max_def demo_aenv_def list_all_iff)
  have m: "authenticator_max (demo_aenv (days 719163) ''r2'') = 2" by (simp add: authenticator_max_def demo_aenv_def)
  have v: "verify_authenticator_code (ae_hmac_sha1 (demo_aenv (days 719163) ''r2'')) (ae_now (demo_aenv (days 719163) ''r2'')) ''AAAAAAAA'' ''000000'' = Inr True"
    using demo_code by (simp add: demo_aenv_def)
  show ?thesis using authenticator_lockout_never_engages [OF g c m v] by blast
qed


end
