(* ===== verification/BillingCalc.thy ===== *)
theory BillingCalc
  imports PyDate
begin

text \<open>
  Date and money calculations of the billing application
  (\<open>backend/apps/billing/calculations.py\<close>). Money is an integer number of cents. Python's
  \<open>round(a * b / 100.0)\<close> is \<open>round_half_even (a * b) 100\<close>: the quotient is a float, but for
  amounts below \<open>2^45\<close> cents it is on the same side of every half integer as the exact quotient,
  and the halves are exact. The \<open>while\<close> loop over weekend days is a recursion with a measure.
\<close>

section \<open>Definitions\<close>

definition round_storage_gb :: "int option \<Rightarrow> int" where
  "round_storage_gb storage_bytes =
     (case storage_bytes of None \<Rightarrow> 0
      | Some b \<Rightarrow> if b \<le> 0 then 0 else max 1 ((b + (1024 ^ 3 - 1)) div 1024 ^ 3))"

definition is_business_day :: "pydate \<Rightarrow> bool" where
  "is_business_day d = (weekday d < 5)"

function skip_weekend :: "pydate \<Rightarrow> pydate" where
  "skip_weekend current = (if is_business_day current then current else skip_weekend (current + 1))"
  by pat_completeness auto
termination
proof (relation "measure (\<lambda>d. if weekday d = 5 then 2 else if weekday d = 6 then 1 else 0)", goal_cases)
  case 1
  show ?case by simp
next
  case (2 d)
  then have "\<not> (d + 6) mod 7 < 5" by (simp add: is_business_day_def weekday_def)
  then have "(d + 6) mod 7 = 5 \<or> (d + 6) mod 7 = 6" by presburger
  then have "weekday d = 5 \<and> weekday (d + 1) = 6 \<or> weekday d = 6 \<and> weekday (d + 1) = 0"
    unfolding weekday_def by presburger
  then show ?case by auto
qed

declare skip_weekend.simps [simp del]

definition fifth_business_day :: "int \<Rightarrow> int \<Rightarrow> pydate" where
  "fifth_business_day y m = skip_weekend (mk_date y m 5)"

definition previous_month :: "int \<Rightarrow> int \<Rightarrow> int \<times> int" where
  "previous_month y m = (if m = 1 then (y - 1, 12) else (y, m - 1))"

definition next_month :: "int \<Rightarrow> int \<Rightarrow> int \<times> int" where
  "next_month y m = (if m = 12 then (y + 1, 1) else (y, m + 1))"

definition add_months :: "int \<Rightarrow> int \<Rightarrow> int \<Rightarrow> int \<times> int" where
  "add_months y m count = (let index = (y * 12 + (m - 1)) + count in (index div 12, index mod 12 + 1))"

definition add_months_to_date :: "pydate \<Rightarrow> int \<Rightarrow> pydate" where
  "add_months_to_date value count =
     (let (y, m) = add_months (date_year value) (date_month value) count;
          d = min (date_day value) (days_in_month y m)
      in mk_date y m d)"

text \<open>The period key, its start and end, and the due date of the current calendar month.\<close>

definition period_key_of :: "int \<Rightarrow> int \<Rightarrow> string" where
  "period_key_of y m = pad4 y @ ''-'' @ pad2 m"

definition current_month_period :: "pydatetime \<Rightarrow> string \<times> pydatetime \<times> pydatetime \<times> pydate" where
  "current_month_period now =
     (let y = date_year (dt_date now); m = date_month (dt_date now);
          due_this_month = fifth_business_day y m;
          (sy, sm) = (if due_this_month \<le> dt_date now then (y, m) else previous_month y m);
          (ey, em) = next_month sy sm
      in (period_key_of sy sm, dt_midnight (fifth_business_day sy sm),
          dt_midnight (fifth_business_day ey em), due_this_month))"

definition norm_period :: "string \<Rightarrow> string" where
  "norm_period billing_period = py_lower (py_strip (if billing_period = [] then ''monthly'' else billing_period))"

definition discount_percent :: "string \<Rightarrow> int" where
  "discount_percent billing_period =
     (let n = norm_period billing_period
      in if n = ''quarterly'' then 7 else if n = ''yearly'' then 15 else 0)"

definition apply_discount :: "int \<Rightarrow> string \<Rightarrow> int" where
  "apply_discount price_cents billing_period =
     (let discount = discount_percent billing_period
      in if discount \<le> 0 then price_cents else round_half_even (price_cents * (100 - discount)) 100)"

definition plan_monthly_charge_cents_after_discount :: "int \<Rightarrow> string \<Rightarrow> int" where
  "plan_monthly_charge_cents_after_discount price_cents billing_period =
     (let discounted = apply_discount price_cents billing_period in (discounted div 100) * 100)"

definition billing_period_multiplier :: "string \<Rightarrow> int" where
  "billing_period_multiplier billing_period =
     (let n = norm_period billing_period
      in if n = ''quarterly'' then 3 else if n = ''yearly'' then 12 else 1)"

definition billing_period_label_hu :: "string \<Rightarrow> string" where
  "billing_period_label_hu billing_period =
     (let n = norm_period billing_period
      in if n = ''quarterly'' then ''negyed'' @ [CHR 0xE9] @ ''ves''
         else if n = ''yearly'' then [CHR 0xE9] @ ''ves'' else ''havi'')"

definition charge_date_before_expiry :: "pydate \<Rightarrow> pydate" where
  "charge_date_before_expiry expiry_date = expiry_date - 5"

section \<open>The calendar\<close>

lemma month_gap:
  assumes "1 \<le> m" "m < m'" "m' \<le> 12"
  shows "days_before_month y m + days_in_month y m \<le> days_before_month y m'"
proof -
  have "m + 1 \<le> m'" using assms(2) by simp
  then show ?thesis using assms(3)
  proof (induction m' rule: int_ge_induct)
    case base
    then show ?case using days_before_month_Suc [of m y] assms(1) by simp
  next
    case (step k)
    then show ?case using days_before_month_Suc [of k y] days_in_month_bounds [of y k] assms(1) by simp
  qed
qed

lemma mk_date_less_month:
  assumes "valid_ymd y m d" "valid_ymd y' m' d'" "12 * y + m < 12 * y' + m'"
  shows "mk_date y m d < mk_date y' m' d'"
proof (cases "y = y'")
  case True
  then have "m < m'" using assms(3) by simp
  then show ?thesis using month_gap [of m m' y] assms True by (simp add: mk_date_def valid_ymd_def)
next
  case False
  then have "y < y'" using assms by (simp add: valid_ymd_def)
  then show ?thesis using mk_date_less_year [OF assms(1,2)] by blast
qed

lemma mk_date_next_month:
  assumes "1 \<le> m" "m \<le> 12" "next_month y m = (y', m')"
  shows "mk_date y' m' d = mk_date y m d + days_in_month y m"
proof (cases "m = 12")
  case True
  then show ?thesis using assms days_before_year_Suc [of y]
    by (auto simp: next_month_def mk_date_def days_before_month_def days_in_month_def)
next
  case False
  then show ?thesis using assms days_before_month_Suc [of m y] by (auto simp: next_month_def mk_date_def)
qed

lemma mk_date_day: "mk_date y m d = mk_date y m 1 + (d - 1)"
  by (simp add: mk_date_def)

text \<open>A day between the first and the last of a month has that month.\<close>

lemma date_in_month:
  assumes "1 \<le> y" "1 \<le> m" "m \<le> 12" "mk_date y m 1 \<le> n" "n < mk_date y m 1 + days_in_month y m"
  shows "date_year n = y" "date_month n = m" "date_day n = n - mk_date y m 1 + 1"
proof -
  let ?d = "n - mk_date y m 1 + 1"
  have v: "valid_ymd y m ?d" using assms by (simp add: valid_ymd_def)
  have n: "n = mk_date y m ?d" by (subst mk_date_day) simp
  show "date_year n = y" "date_month n = m" "date_day n = ?d"
    using date_parts_mk [OF v] n by metis+
qed

lemma month_of_date:
  assumes "1 \<le> n"
  shows "mk_date (date_year n) (date_month n) 1 \<le> n"
    "n < mk_date (date_year n) (date_month n) 1 + days_in_month (date_year n) (date_month n)"
  using date_valid [OF assms] mk_date_parts [of n] mk_date_day [of "date_year n" "date_month n" "date_day n"]
  by (simp_all add: valid_ymd_def)

lemma skip_weekend_bounds: "is_business_day (skip_weekend d) \<and> d \<le> skip_weekend d \<and> skip_weekend d \<le> d + 2"
proof -
  have two: "is_business_day d \<or> is_business_day (d + 1) \<or> is_business_day (d + 1 + 1)"
    unfolding is_business_day_def weekday_def by presburger
  show ?thesis
  proof (cases "is_business_day d")
    case True
    then show ?thesis by (subst (1 2 3) skip_weekend.simps) simp
  next
    case False
    then have e: "skip_weekend d = skip_weekend (d + 1)" by (subst skip_weekend.simps) simp
    show ?thesis
    proof (cases "is_business_day (d + 1)")
      case True
      then have "skip_weekend (d + 1) = d + 1" by (subst skip_weekend.simps) simp
      then show ?thesis using True by (simp add: e)
    next
      case False': False
      have "skip_weekend (d + 1) = skip_weekend (d + 1 + 1)" using False' by (subst skip_weekend.simps) simp
      also have "\<dots> = d + 1 + 1" using two False False' by (subst skip_weekend.simps) simp
      finally show ?thesis using two False False' by (simp add: e)
    qed
  qed
qed

lemma fifth_bounds:
  "mk_date y m 1 + 4 \<le> fifth_business_day y m" "fifth_business_day y m \<le> mk_date y m 1 + 6"
  "is_business_day (fifth_business_day y m)"
  using skip_weekend_bounds [of "mk_date y m 5"] mk_date_day [of y m 5] by (simp_all add: fifth_business_day_def)

section \<open>Billing periods of the calendar\<close>

definition period_of :: "pydatetime \<Rightarrow> string \<times> pydatetime \<times> pydatetime" where
  "period_of now = (case current_month_period now of (k, s, e, d) \<Rightarrow> (k, s, e))"

definition month_period :: "int \<Rightarrow> int \<Rightarrow> string \<times> pydatetime \<times> pydatetime" where
  "month_period y m = (case next_month y m of (ey, em) \<Rightarrow>
     (period_key_of y m, dt_midnight (fifth_business_day y m), dt_midnight (fifth_business_day ey em)))"

lemma next_previous: "1 \<le> m \<Longrightarrow> m \<le> 12 \<Longrightarrow> previous_month y m = (y', m') \<Longrightarrow>
  next_month y' m' = (y, m) \<and> 1 \<le> m' \<and> m' \<le> 12"
  by (auto simp: previous_month_def next_month_def split: if_splits)

text \<open>An instant is in the period of \<open>(y, m)\<close> iff it is between the fifth business days.\<close>

lemma period_of_in:
  assumes "1 \<le> y" "1 \<le> m" "m \<le> 12" "next_month y m = (ey, em)"
    and "fifth_business_day y m \<le> dt_date t" "dt_date t < fifth_business_day ey em"
  shows "period_of t = month_period y m"
proof -
  let ?n = "dt_date t"
  have e: "1 \<le> ey" "1 \<le> em" "em \<le> 12" using assms(1-4) by (auto simp: next_month_def split: if_splits)
  have nxt: "mk_date ey em 1 = mk_date y m 1 + days_in_month y m" using mk_date_next_month [OF assms(2-4)] .
  show ?thesis
  proof (cases "?n < mk_date y m 1 + days_in_month y m")
    case True
    have "mk_date y m 1 \<le> ?n" using assms(5) fifth_bounds(1) [of y m] by simp
    then have "date_year ?n = y" "date_month ?n = m" using date_in_month [OF assms(1-3) _ True] by auto
    then show ?thesis using assms(4,5)
      by (simp add: period_of_def current_month_period_def month_period_def Let_def)
  next
    case False
    then have lo: "mk_date ey em 1 \<le> ?n" using nxt by simp
    have "?n < mk_date ey em 1 + days_in_month ey em"
      using assms(6) fifth_bounds(2) [of ey em] days_in_month_bounds(1) [of ey em] by simp
    then have "date_year ?n = ey" "date_month ?n = em" using date_in_month [OF e lo] by auto
    moreover have "previous_month ey em = (y, m)" using assms(4) assms(2,3)
      by (auto simp: previous_month_def next_month_def split: if_splits)
    ultimately show ?thesis using assms(4,6)
      by (simp add: period_of_def current_month_period_def month_period_def Let_def)
  qed
qed

lemma period_exists:
  assumes "32 \<le> dt_date t"
  obtains y m ey em where "1 \<le> y" "1 \<le> m" "m \<le> 12" "next_month y m = (ey, em)"
    "fifth_business_day y m \<le> dt_date t" "dt_date t < fifth_business_day ey em"
proof -
  let ?n = "dt_date t"
  let ?y = "date_year ?n" and ?m = "date_month ?n"
  have n: "1 \<le> ?n" using assms by simp
  have v: "1 \<le> ?y" "1 \<le> ?m" "?m \<le> 12" using date_valid [OF n] by (simp_all add: valid_ymd_def)
  note month = month_of_date [OF n]
  show ?thesis
  proof (cases "fifth_business_day ?y ?m \<le> ?n")
    case True
    obtain ey em where e: "next_month ?y ?m = (ey, em)" by force
    have "?n < fifth_business_day ey em"
      using month(2) mk_date_next_month [OF v(2,3) e, of 1] fifth_bounds(1) [of ey em] by simp
    then show ?thesis using that [OF v e True] by blast
  next
    case False
    obtain y m where p: "previous_month ?y ?m = (y, m)" by force
    note np = next_previous [OF v(2,3) p]
    have "1 \<le> y"
    proof (rule ccontr)
      assume "\<not> 1 \<le> y"
      then have ym: "?y = 1 \<and> ?m = 1" using v p by (auto simp: previous_month_def split: if_splits)
      then have "?n < mk_date 1 1 1 + days_in_month 1 1" using month(2) by simp
      moreover have "mk_date 1 1 1 + days_in_month 1 1 = 32" by (simp add: mk_date_def days_before_year_def days_before_month_def days_in_month_def)
      ultimately show False using assms by simp
    qed
    moreover have "fifth_business_day y m \<le> ?n"
    proof -
      have "mk_date ?y ?m 1 = mk_date y m 1 + days_in_month y m" using mk_date_next_month [of m y ?y ?m 1] np by simp
      then show ?thesis using month(1) fifth_bounds(2) [of y m] days_in_month_bounds(1) [of y m] by simp
    qed
    ultimately show ?thesis using that [of y m ?y ?m] np False by simp
  qed
qed

text \<open>Billing periods partition time: every instant lies in the half-open period computed for it,
  the period starts and ends on a business day, and every other instant of that interval is given
  the same key and the same bounds.\<close>

theorem billing_periods_partition_time:
  assumes "32 \<le> dt_date t" "period_of t = (key, start, finish)"
  shows "start \<le> t \<and> t < finish \<and> is_business_day (dt_date start) \<and> is_business_day (dt_date finish)
    \<and> (\<forall>u. start \<le> u \<and> u < finish \<longrightarrow> period_of u = (key, start, finish))"
proof -
  obtain y m ey em where p: "1 \<le> y" "1 \<le> m" "m \<le> 12" "next_month y m = (ey, em)"
    "fifth_business_day y m \<le> dt_date t" "dt_date t < fifth_business_day ey em"
    using period_exists [OF assms(1)] .
  have pt: "period_of t = month_period y m" by (rule period_of_in [OF p])
  then have s: "start = dt_midnight (fifth_business_day y m)" "finish = dt_midnight (fifth_business_day ey em)"
    "(key, start, finish) = month_period y m"
    using assms(2) p(4) by (simp_all add: month_period_def)
  have iff: "start \<le> u \<longleftrightarrow> fifth_business_day y m \<le> dt_date u" "u < finish \<longleftrightarrow> dt_date u < fifth_business_day ey em" for u
    using dt_midnight_le_iff [of "fifth_business_day y m" u] dt_midnight_le_iff [of "fifth_business_day ey em" u]
    by (auto simp: s(1,2) not_le [symmetric])
  have "period_of u = (key, start, finish)" if "start \<le> u" "u < finish" for u
    using period_of_in [OF p(1-4), of u] that iff s(3) by simp
  then show ?thesis using iff [of t] p(5,6) fifth_bounds(3) by (simp add: s(1,2))
qed

theorem billing_periods_partition_time_witness:
  "\<exists>key start finish. period_of (days 100) = (key, start, finish) \<and> start \<le> days 100 \<and> days 100 < finish
     \<and> period_of start = (key, start, finish)"
proof -
  obtain key start finish where p: "period_of (days 100) = (key, start, finish)" by (rule prod_cases3)
  have "32 \<le> dt_date (days 100)" by (simp add: dt_date_def days_def day_us_def)
  from billing_periods_partition_time [OF this p] p show ?thesis by auto
qed

section \<open>Adding months\<close>

lemma add_months_index:
  assumes "add_months y m c = (y', m')"
  shows "12 * y' + (m' - 1) = 12 * y + (m - 1) + c" "1 \<le> m'" "m' \<le> 12"
proof -
  define i where "i = y * 12 + (m - 1) + c"
  have e: "y' = i div 12" "m' = i mod 12 + 1" using assms by (simp_all add: add_months_def Let_def i_def)
  have "12 * (i div 12) + i mod 12 = i" by simp
  then show "12 * y' + (m' - 1) = 12 * y + (m - 1) + c" by (simp add: e i_def)
  show "1 \<le> m'" "m' \<le> 12" using pos_mod_bound [of 12 i] pos_mod_sign [of 12 i] by (simp_all add: e)
qed

lemma add_months_to_date_aux:
  assumes "1 \<le> v" "0 \<le> c"
  defines "r \<equiv> add_months_to_date v c"
  shows "12 * date_year r + date_month r = 12 * date_year v + date_month v + c
    \<and> date_day r = min (date_day v) (days_in_month (date_year r) (date_month r))
    \<and> (if c = 0 then r = v else v < r)"
proof -
  obtain y m where a: "add_months (date_year v) (date_month v) c = (y, m)" by force
  note i = add_months_index [OF a]
  have v: "valid_ymd (date_year v) (date_month v) (date_day v)" by (rule date_valid [OF assms(1)])
  have "1 \<le> y" using i assms(2) v by (simp add: valid_ymd_def)
  then have w: "valid_ymd y m (min (date_day v) (days_in_month y m))"
    using i v days_in_month_bounds [of y m] by (simp add: valid_ymd_def)
  have r: "r = mk_date y m (min (date_day v) (days_in_month y m))" by (simp add: r_def add_months_to_date_def a)
  have parts: "date_year r = y" "date_month r = m" "date_day r = min (date_day v) (days_in_month y m)"
    using date_parts_mk [OF w] by (simp_all add: r)
  have "if c = 0 then r = v else v < r"
  proof (cases "c = 0")
    case True
    then have "y = date_year v" "m = date_month v" using i v unfolding valid_ymd_def by presburger+
    then show ?thesis using True v mk_date_parts [of v] by (simp add: r valid_ymd_def min_def)
  next
    case False
    then have "mk_date (date_year v) (date_month v) (date_day v) < r"
      unfolding r by (intro mk_date_less_month [OF v w]) (use i assms(2) in linarith)
    then show ?thesis using False by (simp add: mk_date_parts)
  qed
  then show ?thesis using i parts by simp
qed

lemma add_months_to_date_later: "1 \<le> v \<Longrightarrow> 1 \<le> c \<Longrightarrow> v < add_months_to_date v c"
  using add_months_to_date_aux [of v c] by simp

text \<open>Adding months.\<close>

theorem add_months_to_date_spec:
  assumes "1 \<le> v" "0 \<le> c"
  defines "r \<equiv> add_months_to_date v c"
  shows "12 * date_year r + date_month r = 12 * date_year v + date_month v + c
    \<and> date_day r = min (date_day v) (days_in_month (date_year r) (date_month r))
    \<and> (if c = 0 then r = v else v < r)"
  unfolding r_def using assms(1,2) by (rule add_months_to_date_aux)

section \<open>Prices\<close>

lemma discount_cases: "discount_percent p = 0 \<or> discount_percent p = 7 \<or> discount_percent p = 15"
  by (simp add: discount_percent_def Let_def)

lemma multiplier_pos: "1 \<le> billing_period_multiplier p"
  by (simp add: billing_period_multiplier_def Let_def)

lemma apply_discount_bounds: "0 \<le> price \<Longrightarrow> 0 \<le> apply_discount price p \<and> apply_discount price p \<le> price"
  using discount_cases [of p]
  by (auto simp: apply_discount_def Let_def intro!: round_half_even_nonneg round_half_even_le)

lemma floor_hundred: "0 \<le> a \<Longrightarrow> 0 \<le> (a div 100) * 100 \<and> (a div 100) * 100 \<le> (a::int) \<and> a - 99 \<le> (a div 100) * 100"
proof -
  assume "0 \<le> a"
  then have "0 \<le> a div 100" by (simp add: pos_imp_zdiv_nonneg_iff)
  moreover have "(a div 100) * 100 = a - a mod 100" by (metis minus_mod_eq_div_mult)
  moreover have "0 \<le> a mod 100" "a mod 100 \<le> 99" using pos_mod_bound [of 100 a] pos_mod_sign [of 100 a] by simp_all
  ultimately show ?thesis by simp
qed

lemma monthly_charge_bounds:
  "0 \<le> price \<Longrightarrow> 0 \<le> plan_monthly_charge_cents_after_discount price p
     \<and> plan_monthly_charge_cents_after_discount price p \<le> price
     \<and> plan_monthly_charge_cents_after_discount price p mod 100 = 0"
  using apply_discount_bounds [of price p] floor_hundred [of "apply_discount price p"]
  by (simp add: plan_monthly_charge_cents_after_discount_def Let_def)

text \<open>Discounted prices.\<close>

theorem discounted_price_bounds:
  fixes price :: int and p :: string
  assumes "0 \<le> price"
  defines "charge \<equiv> plan_monthly_charge_cents_after_discount price p"
  shows "0 \<le> charge \<and> charge \<le> price \<and> charge mod 100 = 0
    \<and> 100 * charge \<le> price * (100 - discount_percent p) + 50
    \<and> price * (100 - discount_percent p) < 100 * charge + 10000"
proof -
  define d where "d = discount_percent p"
  define a where "a = apply_discount price p"
  have a: "2 * (100 * a - price * (100 - d)) \<le> 100 \<and> - 100 \<le> 2 * (100 * a - price * (100 - d))"
  proof (cases "d \<le> 0")
    case True
    then have "d = 0" using discount_cases [of p] by (auto simp: d_def)
    then show ?thesis by (simp add: a_def apply_discount_def Let_def d_def [symmetric])
  next
    case False
    then have "a = round_half_even (price * (100 - d)) 100"
      by (simp add: a_def apply_discount_def Let_def d_def [symmetric])
    moreover have "\<bar>2 * (100 * round_half_even (price * (100 - d)) 100 - price * (100 - d))\<bar> \<le> 100"
      by (rule round_half_even_nearest) simp
    ultimately show ?thesis by (simp add: abs_le_iff)
  qed
  have "0 \<le> a" using apply_discount_bounds [OF assms(1), of p] by (simp add: a_def)
  then have c: "charge \<le> a" "a - 99 \<le> charge"
    using floor_hundred [of a] by (simp_all add: charge_def plan_monthly_charge_cents_after_discount_def Let_def a_def)
  have lin: "2 * (100 * a - x) \<le> 100 \<and> - 100 \<le> 2 * (100 * a - x) \<Longrightarrow> 100 * charge \<le> x + 50 \<and> x < 100 * charge + 10000" for x
    using c by auto
  have "100 * charge \<le> price * (100 - d) + 50" "price * (100 - d) < 100 * charge + 10000"
    using lin [OF a] by blast+
  then show ?thesis using monthly_charge_bounds [OF assms(1), of p] by (simp add: charge_def d_def)
qed

end
