(* ===== verification/BillingTypes.thy ===== *)
theory BillingTypes
  imports BillingCalc
begin

text \<open>
  The data of the billing application: plans and add-ons (\<open>domain.py\<close>), the catalog rows and the
  maps built from them (\<open>catalog.py\<close>), and the rows of the billing tables (\<open>models.py\<close>). Display
  texts of the catalog are written without accents.
\<close>

section \<open>Plans and add-ons\<close>

record billing_plan =
  bp_code :: string
  bp_name :: string
  bp_price_cents :: int
  bp_included_kbs :: int
  bp_included_storage_gb :: int
  bp_included_questions_monthly :: int
  bp_max_users :: "int option"
  bp_trial_days :: int
  bp_included_training_chars :: int

record billing_addon =
  ba_code :: string
  ba_name :: string
  ba_price_cents :: int
  ba_metadata :: "(string \<times> json) list"

record catalog_entry =
  cat_entry_type :: string
  cat_code :: string
  cat_name :: string
  cat_currency :: string
  cat_price_cents :: int
  cat_included :: "(string \<times> json) list"
  cat_metadata :: "(string \<times> json) list"
  cat_is_active :: bool

definition DEFAULT_CURRENCY :: string where "DEFAULT_CURRENCY = ''EUR''"

definition cat_row :: "string \<Rightarrow> string \<Rightarrow> string \<Rightarrow> int \<Rightarrow> (string \<times> json) list \<Rightarrow> (string \<times> json) list \<Rightarrow> catalog_entry" where
  "cat_row ty code name price included meta = \<lparr>cat_entry_type = ty, cat_code = code, cat_name = name,
     cat_currency = DEFAULT_CURRENCY, cat_price_cents = price, cat_included = included,
     cat_metadata = meta, cat_is_active = True\<rparr>"

definition plan_included :: "int \<Rightarrow> int \<Rightarrow> int \<Rightarrow> int \<Rightarrow> int \<Rightarrow> int \<Rightarrow> (string \<times> json) list" where
  "plan_included kbs gb questions chars users trial =
     [(''knowledge_bases'', JInt kbs), (''storage_gb'', JInt gb), (''questions_monthly'', JInt questions),
      (''training_chars'', JInt chars), (''max_users'', JInt users), (''trial_days'', JInt trial)]"

definition default_catalog_rows :: "catalog_entry list" where
  "default_catalog_rows =
    [cat_row ''plan'' ''free'' ''Ingyenes proba'' 0 (plan_included 1 1 100 500000 5 7)
       [(''description'', JStr ''Belepo csomag kiprobalasra''), (''training_note'', JStr ''(500 000 karakter)'')],
     cat_row ''plan'' ''starter'' ''Starter'' 3900 (plan_included 1 1 500 1000000 5 0)
       [(''description'', JStr ''1-2 fos csapatoknak'')],
     cat_row ''plan'' ''growth'' ''Pro'' 8900 (plan_included 3 5 2000 5000000 20 0)
       [(''description'', JStr ''Komolyabb felhasznalas'')],
     cat_row ''plan'' ''business'' ''Business'' 24900 (plan_included 10 10 10000 25000000 100 0)
       [(''description'', JStr ''Professzionalis cegeknek'')],
     cat_row ''addon'' ''question_pack_100'' ''100 extra kerdes'' 120 [(''questions'', JInt 100)]
       [(''carryover'', JBool True), (''kind'', JStr ''questions'')],
     cat_row ''addon'' ''question_pack_500'' ''500 extra kerdes'' 500 [(''questions'', JInt 500)]
       [(''carryover'', JBool True), (''kind'', JStr ''questions'')],
     cat_row ''addon'' ''extra_kb'' ''Extra tudastar / ho'' 500 [(''knowledge_bases'', JInt 1)]
       [(''recurring'', JBool True), (''kind'', JStr ''knowledge_bases'')],
     cat_row ''addon'' ''extra_storage_gb'' ''Extra tarhely GB / ho'' 500 [(''storage_gb'', JInt 1)]
       [(''recurring'', JBool True), (''kind'', JStr ''storage_gb'')],
     cat_row ''addon'' ''training_initial_500k'' ''Elso betanitas 1M karakterig'' 2900 [(''training_chars'', JInt 1000000)]
       [(''recurring'', JBool False), (''kind'', JStr ''training_chars'')],
     cat_row ''addon'' ''training_extra_500k'' ''Tovabbi betanitas 1M karakter'' 2900 [(''training_chars'', JInt 1000000)]
       [(''recurring'', JBool False), (''kind'', JStr ''training_chars'')],
     cat_row ''discount'' ''quarterly_7'' ''Negyedeves kedvezmeny'' 0 []
       [(''billing_period'', JStr ''quarterly''), (''discount_percent'', JInt 7)],
     cat_row ''discount'' ''yearly_15'' ''Eves kedvezmeny'' 0 []
       [(''billing_period'', JStr ''yearly''), (''discount_percent'', JInt 15)]]"

definition kv_get :: "string \<Rightarrow> (string \<times> json) list \<Rightarrow> json" where
  "kv_get k kvs = jget k (JObj kvs)"

definition plan_of_row :: "catalog_entry \<Rightarrow> billing_plan" where
  "plan_of_row row =
     (let included = cat_included row
      in \<lparr>bp_code = cat_code row, bp_name = cat_name row, bp_price_cents = cat_price_cents row,
          bp_included_kbs = jint (kv_get ''knowledge_bases'' included),
          bp_included_storage_gb = jint (kv_get ''storage_gb'' included),
          bp_included_questions_monthly = jint (kv_get ''questions_monthly'' included),
          bp_max_users = (case kv_get ''max_users'' included of JNull \<Rightarrow> None | v \<Rightarrow> Some (jint v)),
          bp_trial_days = jint (kv_get ''trial_days'' included),
          bp_included_training_chars = jint (kv_get ''training_chars'' included)\<rparr>)"

type_synonym plans = "string \<Rightarrow> billing_plan option"
type_synonym addons = "string \<Rightarrow> billing_addon option"

definition plan_map_from_catalog :: "catalog_entry list \<Rightarrow> plans" where
  "plan_map_from_catalog rows =
     fold (\<lambda>row result. if cat_entry_type row \<noteq> ''plan'' then result else result(cat_code row \<mapsto> plan_of_row row))
       rows Map.empty"

text \<open>\<open>{**included, **metadata}\<close>: the metadata wins.\<close>

definition kv_merge :: "(string \<times> json) list \<Rightarrow> (string \<times> json) list \<Rightarrow> (string \<times> json) list" where
  "kv_merge a b = fold (\<lambda>(k, v). kv_set k v) b a"

definition addon_of_row :: "catalog_entry \<Rightarrow> billing_addon" where
  "addon_of_row row = \<lparr>ba_code = cat_code row, ba_name = cat_name row, ba_price_cents = cat_price_cents row,
     ba_metadata = kv_merge (cat_included row) (cat_metadata row)\<rparr>"

definition addon_map_from_catalog :: "catalog_entry list \<Rightarrow> addons" where
  "addon_map_from_catalog rows =
     fold (\<lambda>row result. if cat_entry_type row \<noteq> ''addon'' then result else result(cat_code row \<mapsto> addon_of_row row))
       rows Map.empty"

text \<open>
  \<open>plans.get(code) or plans["free"]\<close>. The catalog has an active \<open>free\<close> plan: the seed writes it
  and no operation removes it; without it the code raises \<open>KeyError\<close> and this is unspecified.
\<close>

definition plan_or_free :: "plans \<Rightarrow> string \<Rightarrow> billing_plan" where
  "plan_or_free plans code = (case plans code of Some p \<Rightarrow> p | None \<Rightarrow> the (plans ''free''))"

section \<open>Rows\<close>

record subscription =
  sub_tenant_id :: int
  sub_plan_code :: string
  sub_billing_period :: string
  sub_status :: string
  sub_trial_started_at :: "pydatetime option"
  sub_trial_ends_at :: "pydatetime option"
  sub_extra_kb_count :: int
  sub_extra_storage_gb :: int
  sub_carryover_addon_questions :: int
  sub_carryover_training_chars :: int
  sub_scheduled_plan_code :: "string option"
  sub_scheduled_billing_period :: "string option"
  sub_scheduled_change_effective_period :: "string option"
  sub_question_warning_period_key :: "string option"
  sub_question_warning_level :: int
  sub_created_at :: pydatetime
  sub_updated_at :: pydatetime

record question_usage =
  qu_tenant_id :: int
  qu_user_id :: int
  qu_period_key :: string
  qu_question_count :: int
  qu_last_question_at :: pydatetime

record training_usage =
  tu_tenant_id :: int
  tu_period_key :: string
  tu_trained_chars :: int
  tu_storage_bytes :: int

record invoice =
  inv_id :: int
  inv_tenant_id :: int
  inv_type :: string
  inv_period_key :: string
  inv_status :: string
  inv_currency :: string
  inv_total_cents :: int
  inv_payment_method :: string
  inv_description :: string
  inv_lines :: "json list"
  inv_issued_at :: pydatetime
  inv_due_at :: pydatetime

record payment_event =
  pe_id :: int
  pe_provider :: string
  pe_event_id :: string
  pe_event_type :: string
  pe_tenant_id :: int
  pe_payload :: json
  pe_status :: string

record cancellation =
  ca_id :: int
  ca_tenant_id :: int
  ca_tenant_slug :: string
  ca_requested_by :: "int option"
  ca_reason_code :: string
  ca_reason_text :: string
  ca_active_kb_count :: int
  ca_status :: string
  ca_requested_at :: pydatetime
  ca_effective_at :: "pydatetime option"
  ca_notice_two_days_sent_at :: "pydatetime option"
  ca_notice_one_day_sent_at :: "pydatetime option"
  ca_notice_expired_sent_at :: "pydatetime option"
  ca_deactivated_at :: "pydatetime option"
  ca_cleanup_completed_at :: "pydatetime option"

record tenant_limits =
  lim_max_users :: "int option"
  lim_knowledge_bases :: int
  lim_storage_gb :: int
  lim_questions_monthly :: int
  lim_addon_questions_carryover :: int
  lim_training_chars_available :: int
  lim_trial_days :: int

record tenant_config =
  tc_package :: string
  tc_feature_flags :: "(string \<times> json) list"
  tc_limits :: tenant_limits

record tenant_row =
  tn_id :: int
  tn_slug :: string
  tn_is_active :: bool
  tn_created_at :: "pydatetime option"
  tn_config :: "tenant_config option"

section \<open>Facts on the catalog\<close>

lemma plan_map_snoc:
  "plan_map_from_catalog (rows @ [row]) =
     (if cat_entry_type row \<noteq> ''plan'' then plan_map_from_catalog rows
      else (plan_map_from_catalog rows)(cat_code row \<mapsto> plan_of_row row))"
  by (simp add: plan_map_from_catalog_def)

lemma plan_map_Some:
  "plan_map_from_catalog rows c = Some p \<Longrightarrow>
   \<exists>row \<in> set rows. cat_entry_type row = ''plan'' \<and> cat_code row = c \<and> p = plan_of_row row"
proof (induction rows rule: rev_induct)
  case Nil
  then show ?case by (simp add: plan_map_from_catalog_def)
next
  case (snoc row rows)
  then show ?case by (auto simp: plan_map_snoc split: if_splits)
qed

lemma plan_map_dom:
  "plan_map_from_catalog rows c \<noteq> None \<longleftrightarrow> (\<exists>row \<in> set rows. cat_entry_type row = ''plan'' \<and> cat_code row = c)"
proof (induction rows rule: rev_induct)
  case Nil
  then show ?case by (simp add: plan_map_from_catalog_def)
next
  case (snoc row rows)
  then show ?case by (auto simp: plan_map_snoc)
qed

lemma plan_map_code: "plan_map_from_catalog rows c = Some p \<Longrightarrow> bp_code p = c"
  using plan_map_Some [of rows c p] by (auto simp: plan_of_row_def Let_def)

lemma default_has_free: "plan_map_from_catalog default_catalog_rows ''free'' \<noteq> None"
  unfolding plan_map_dom default_catalog_rows_def by (simp add: cat_row_def)

text \<open>Prices and limits of a plan are not negative.\<close>

definition plan_ok :: "billing_plan \<Rightarrow> bool" where
  "plan_ok p = (0 \<le> bp_price_cents p \<and> 0 \<le> bp_included_kbs p \<and> 0 \<le> bp_included_storage_gb p
     \<and> 0 \<le> bp_included_questions_monthly p \<and> 0 \<le> bp_trial_days p \<and> 0 \<le> bp_included_training_chars p)"

definition catalog_ok :: "catalog_entry list \<Rightarrow> bool" where
  "catalog_ok rows = (list_all (\<lambda>row. cat_entry_type row = ''plan'' \<longrightarrow> plan_ok (plan_of_row row)) rows
     \<and> list_all (\<lambda>row. 0 \<le> cat_price_cents row) rows
     \<and> list_ex (\<lambda>row. cat_entry_type row = ''plan'' \<and> cat_code row = ''free'') rows)"

lemma default_catalog_ok: "catalog_ok default_catalog_rows"
  by (simp add: catalog_ok_def default_catalog_rows_def cat_row_def plan_ok_def plan_of_row_def Let_def
      plan_included_def kv_get_def jget_def jint_def)

lemma catalog_plan_ok: "catalog_ok rows \<Longrightarrow> plan_map_from_catalog rows c = Some p \<Longrightarrow> plan_ok p"
  using plan_map_Some [of rows c p] by (auto simp: catalog_ok_def list_all_iff)

lemma catalog_free: "catalog_ok rows \<Longrightarrow> \<exists>p. plan_map_from_catalog rows ''free'' = Some p"
  using plan_map_dom [of rows "''free''"] by (auto simp: catalog_ok_def list_ex_iff)

lemma plan_or_free_ok: "catalog_ok rows \<Longrightarrow> plan_ok (plan_or_free (plan_map_from_catalog rows) c)"
  using catalog_free [of rows] catalog_plan_ok [of rows]
  by (auto simp: plan_or_free_def split: option.splits)

end
