(* ===== verification/BillingProration.thy ===== *)
theory BillingProration
  imports BillingTypes
begin

text \<open>
  Plan changes and proration (\<open>backend/apps/billing/subscription_proration.py\<close>). The fraction of the
  result is kept as the pair of its numerator and denominator.
\<close>

definition TRAINING_INITIAL_FEE_CENTS_BY_PLAN :: "(string \<times> int) list" where
  "TRAINING_INITIAL_FEE_CENTS_BY_PLAN = [(''free'', 0), (''starter'', 2900), (''growth'', 8900), (''business'', 48900)]"

definition is_downgrade :: "subscription \<Rightarrow> string \<Rightarrow> plans \<Rightarrow> bool" where
  "is_downgrade current next_plan_code plans =
     (let current_plan = plan_or_free plans (sub_plan_code current);
          next_plan = plan_or_free plans next_plan_code
      in bp_price_cents next_plan < bp_price_cents current_plan
         \<or> bp_included_kbs next_plan < bp_included_kbs current_plan
         \<or> bp_included_storage_gb next_plan < bp_included_storage_gb current_plan)"

definition period_rank :: "string \<Rightarrow> int" where
  "period_rank p = (let n = norm_period p
     in if n = ''monthly'' then 1 else if n = ''quarterly'' then 2 else if n = ''yearly'' then 3 else 1)"

definition is_billing_period_downgrade :: "string \<Rightarrow> string \<Rightarrow> bool" where
  "is_billing_period_downgrade current_period next_period = (period_rank next_period < period_rank current_period)"

definition is_scheduled_change :: "subscription \<Rightarrow> string \<Rightarrow> string \<Rightarrow> plans \<Rightarrow> bool" where
  "is_scheduled_change current next_plan_code next_period plans =
     (is_downgrade current next_plan_code plans
      \<or> sub_plan_code current = next_plan_code
        \<and> is_billing_period_downgrade (sub_billing_period current) next_period)"

definition proration_calendar_fraction :: "pydate \<Rightarrow> pydate \<Rightarrow> pydate \<Rightarrow> int \<times> int \<times> (int \<times> int)" where
  "proration_calendar_fraction period_start period_end_inclusive today =
     (let total_days = max 1 ((period_end_inclusive - period_start) + 1);
          remaining = (if today < period_start then total_days
                       else if period_end_inclusive < today then 0
                       else (period_end_inclusive - today) + 1);
          remaining = max 0 (min remaining total_days)
      in (total_days, remaining, (remaining, total_days)))"

definition coverage_end_for_subscription :: "subscription \<Rightarrow> pydate \<Rightarrow> pydate" where
  "coverage_end_for_subscription s fallback_period_end =
     (case sub_trial_ends_at s of
        Some t \<Rightarrow> if fallback_period_end < dt_date t then dt_date t else fallback_period_end
      | None \<Rightarrow> fallback_period_end)"

definition coverage_start_for_end :: "pydate \<Rightarrow> string \<Rightarrow> pydate" where
  "coverage_start_for_end period_end normalized_period =
     (let months = billing_period_multiplier normalized_period;
          (y, m) = add_months (date_year period_end) (date_month period_end) (- months)
      in fifth_business_day y m)"

definition paid_until_after_upgrade :: "pydate \<Rightarrow> string \<Rightarrow> pydate" where
  "paid_until_after_upgrade upgrade_date normalized_period =
     add_months_to_date upgrade_date (billing_period_multiplier normalized_period)"

definition training_initial_fee_cents_for_plan :: "string \<Rightarrow> int" where
  "training_initial_fee_cents_for_plan plan_code =
     (case map_of TRAINING_INITIAL_FEE_CENTS_BY_PLAN (py_lower (py_strip plan_code)) of None \<Rightarrow> 0 | Some c \<Rightarrow> c)"

definition upgrade_training_initial_fee_cents :: "string \<Rightarrow> string \<Rightarrow> int" where
  "upgrade_training_initial_fee_cents current_plan_code next_plan_code =
     (let already_paid = training_initial_fee_cents_for_plan current_plan_code;
          target_fee = training_initial_fee_cents_for_plan next_plan_code
      in max 0 (target_fee - already_paid))"

record upgrade_proration =
  up_total_period_days :: int
  up_remaining_period_days :: int
  up_fraction :: "int \<times> int"
  up_old_plan_code :: string
  up_new_plan_code :: string
  up_old_monthly_cents :: int
  up_new_monthly_cents :: int
  up_delta_monthly_cents :: int
  up_prorated_charge_cents :: int
  up_old_remaining_credit_cents :: int
  up_next_period_charge_cents :: int
  up_training_initial_fee_cents :: int
  up_total_charge_cents :: int
  up_paid_until :: pydate
  up_currency :: string

definition compute_upgrade_proration ::
  "subscription \<Rightarrow> string \<Rightarrow> string \<Rightarrow> plans \<Rightarrow> pydate \<Rightarrow> pydate \<Rightarrow> upgrade_proration option" where
  "compute_upgrade_proration s normalized_plan normalized_period plans period_end today =
     (case plans normalized_plan of
        None \<Rightarrow> None
      | Some next_plan \<Rightarrow>
          if is_downgrade s normalized_plan plans then None
          else if sub_plan_code s = normalized_plan \<and> sub_billing_period s = normalized_period then None
          else (let current_plan = plan_or_free plans (sub_plan_code s);
                    old_m = plan_monthly_charge_cents_after_discount (bp_price_cents current_plan) (sub_billing_period s);
                    new_m = plan_monthly_charge_cents_after_discount (bp_price_cents next_plan) normalized_period;
                    delta_m = max 0 (new_m - old_m);
                    coverage_end = coverage_end_for_subscription s period_end;
                    coverage_start = coverage_start_for_end coverage_end (sub_billing_period s);
                    (total_d, rem_d, frac) = proration_calendar_fraction coverage_start coverage_end today;
                    old_period_charge = old_m * billing_period_multiplier (sub_billing_period s);
                    old_remaining_credit = max 0 (round_half_even (old_period_charge * rem_d) (max 1 total_d));
                    next_period_charge = new_m * billing_period_multiplier normalized_period;
                    paid_until = paid_until_after_upgrade today normalized_period;
                    fee = upgrade_training_initial_fee_cents (sub_plan_code s) normalized_plan;
                    total_charge = max 0 (next_period_charge - old_remaining_credit) + max 0 fee
                in Some \<lparr>up_total_period_days = total_d, up_remaining_period_days = rem_d, up_fraction = frac,
                     up_old_plan_code = sub_plan_code s, up_new_plan_code = normalized_plan,
                     up_old_monthly_cents = old_m, up_new_monthly_cents = new_m, up_delta_monthly_cents = delta_m,
                     up_prorated_charge_cents = 0, up_old_remaining_credit_cents = old_remaining_credit,
                     up_next_period_charge_cents = next_period_charge, up_training_initial_fee_cents = fee,
                     up_total_charge_cents = total_charge, up_paid_until = paid_until,
                     up_currency = DEFAULT_CURRENCY\<rparr>))"

section \<open>Properties\<close>

lemma proration_fraction_bounds:
  assumes "proration_calendar_fraction a b t = (tot, remaining, f)"
  shows "1 \<le> tot \<and> 0 \<le> remaining \<and> remaining \<le> tot \<and> f = (remaining, tot)
    \<and> (b < t \<and> a \<le> t \<longrightarrow> remaining = 0) \<and> (t \<le> a \<and> a \<le> b \<longrightarrow> remaining = tot)"
  using assms by (auto simp: proration_calendar_fraction_def Let_def split: if_splits)

lemma fee_nonneg: "0 \<le> upgrade_training_initial_fee_cents a b"
  by (simp add: upgrade_training_initial_fee_cents_def Let_def)

lemma credit_bounds:
  assumes "0 \<le> charge" "0 \<le> remaining" "remaining \<le> tot" "1 \<le> (tot::int)"
  shows "0 \<le> round_half_even (charge * remaining) (max 1 tot) \<and> round_half_even (charge * remaining) (max 1 tot) \<le> charge"
proof -
  have "max 1 tot = tot" using assms(4) by simp
  moreover have "0 \<le> round_half_even (charge * remaining) tot"
    by (rule round_half_even_nonneg) (use assms in auto)
  moreover have "round_half_even (charge * remaining) tot \<le> charge"
    by (rule round_half_even_le) (use assms in \<open>auto intro: mult_left_mono\<close>)
  ultimately show ?thesis by simp
qed

lemma paid_until_later: "1 \<le> today \<Longrightarrow> today < paid_until_after_upgrade today p"
  using add_months_to_date_later [of today "billing_period_multiplier p"] multiplier_pos [of p]
  by (simp add: paid_until_after_upgrade_def)

text \<open>The upgrade price is bounded: the credit for the remaining days lies between zero and what
  the old period cost, is zero when no day remains and full when all remain; the total charge is
  at most the new period's price plus the training fee, at least that minus the credit, and never
  below the training fee, and the new paid period ends after today.\<close>

theorem upgrade_proration_bounds:
  assumes "catalog_ok rows" "1 \<le> today"
    and "compute_upgrade_proration s plan period (plan_map_from_catalog rows) period_end today = Some r"
  shows "\<not> is_downgrade s plan (plan_map_from_catalog rows)
    \<and> 0 \<le> up_old_remaining_credit_cents r
    \<and> up_old_remaining_credit_cents r \<le> up_old_monthly_cents r * billing_period_multiplier (sub_billing_period s)
    \<and> 0 \<le> up_remaining_period_days r \<and> up_remaining_period_days r \<le> up_total_period_days r
    \<and> (up_remaining_period_days r = 0 \<longrightarrow> up_old_remaining_credit_cents r = 0)
    \<and> (up_remaining_period_days r = up_total_period_days r \<longrightarrow>
         up_old_remaining_credit_cents r = up_old_monthly_cents r * billing_period_multiplier (sub_billing_period s))
    \<and> 0 \<le> up_training_initial_fee_cents r \<and> up_training_initial_fee_cents r \<le> up_total_charge_cents r
    \<and> up_total_charge_cents r \<le> up_next_period_charge_cents r + up_training_initial_fee_cents r
    \<and> up_next_period_charge_cents r - up_old_remaining_credit_cents r + up_training_initial_fee_cents r \<le> up_total_charge_cents r
    \<and> today < up_paid_until r"
proof -
  let ?plans = "plan_map_from_catalog rows"
  obtain np where np: "?plans plan = Some np" using assms(3) by (auto simp: compute_upgrade_proration_def split: option.splits)
  have nd: "\<not> is_downgrade s plan ?plans" and ns: "\<not> (sub_plan_code s = plan \<and> sub_billing_period s = period)"
    using assms(3) np by (auto simp: compute_upgrade_proration_def split: if_splits)
  define old_m where "old_m = plan_monthly_charge_cents_after_discount (bp_price_cents (plan_or_free ?plans (sub_plan_code s))) (sub_billing_period s)"
  define new_m where "new_m = plan_monthly_charge_cents_after_discount (bp_price_cents np) period"
  define ce where "ce = coverage_end_for_subscription s period_end"
  obtain tot rem f where pf: "proration_calendar_fraction (coverage_start_for_end ce (sub_billing_period s)) ce today = (tot, rem, f)"
    by (rule prod_cases3)
  define ch where "ch = old_m * billing_period_multiplier (sub_billing_period s)"
  define cr where "cr = round_half_even (ch * rem) (max 1 tot)"
  have r: "r = \<lparr>up_total_period_days = tot, up_remaining_period_days = rem, up_fraction = f,
     up_old_plan_code = sub_plan_code s, up_new_plan_code = plan, up_old_monthly_cents = old_m,
     up_new_monthly_cents = new_m, up_delta_monthly_cents = max 0 (new_m - old_m), up_prorated_charge_cents = 0,
     up_old_remaining_credit_cents = max 0 cr, up_next_period_charge_cents = new_m * billing_period_multiplier period,
     up_training_initial_fee_cents = upgrade_training_initial_fee_cents (sub_plan_code s) plan,
     up_total_charge_cents = max 0 (new_m * billing_period_multiplier period - max 0 cr)
       + max 0 (upgrade_training_initial_fee_cents (sub_plan_code s) plan),
     up_paid_until = paid_until_after_upgrade today period, up_currency = DEFAULT_CURRENCY\<rparr>"
    using assms(3) np nd ns pf
    by (simp add: compute_upgrade_proration_def Let_def old_m_def new_m_def ce_def ch_def cr_def)
  have p: "0 \<le> bp_price_cents np" "0 \<le> bp_price_cents (plan_or_free ?plans (sub_plan_code s))"
    using catalog_plan_ok [OF assms(1) np] plan_or_free_ok [OF assms(1), of "sub_plan_code s"] by (simp_all add: plan_ok_def)
  have m: "0 \<le> old_m" "0 \<le> new_m * billing_period_multiplier period"
    using monthly_charge_bounds p multiplier_pos [of period] by (simp_all add: old_m_def new_m_def)
  have ch: "0 \<le> ch" using m(1) multiplier_pos [of "sub_billing_period s"] by (simp add: ch_def)
  note pb = proration_fraction_bounds [OF pf]
  have cr: "0 \<le> cr \<and> cr \<le> ch" unfolding cr_def by (rule credit_bounds [OF ch]) (use pb in auto)
  have z: "rem = 0 \<Longrightarrow> cr = 0" using round_half_even_exact [of "max 1 tot" 0] by (simp add: cr_def)
  have e: "rem = tot \<Longrightarrow> cr = ch" using round_half_even_exact [of tot ch] pb by (simp add: cr_def max_def)
  show ?thesis
    using nd pb cr z e m(2) fee_nonneg [of "sub_plan_code s" plan] paid_until_later [OF assms(2), of period]
    by (simp add: r ch_def [symmetric])
qed

end
