(* ===== verification/BillingRepo.thy ===== *)
theory BillingRepo
  imports BillingProration Interfaces "HOL-Library.List_Lexorder"
begin

text \<open>
  The billing repository (\<open>repositories.py\<close>) and the part of the tenant repository the billing
  service calls, as functions on the state of the public schema. A call is one transaction.
  \<open>now\<close> is \<open>_utcnow()\<close>, which a simulated date does not change. Rows that tie in an ORDER BY
  come in table order.
\<close>

record bstate =
  bs_catalog :: "catalog_entry list"
  bs_subs :: "subscription list"
  bs_questions :: "question_usage list"
  bs_training :: "training_usage list"
  bs_invoices :: "invoice list"
  bs_next_invoice :: int
  bs_events :: "payment_event list"
  bs_next_event :: int
  bs_cancels :: "cancellation list"
  bs_next_cancel :: int
  bs_simulated :: "pydate option option"
  bs_clock :: "pydate option"
  bs_tenants :: "tenant_row list"
  bs_mails :: "(string \<times> string) list"
  bs_dropped :: "string list"

section \<open>Catalog\<close>

definition same_entry :: "catalog_entry \<Rightarrow> catalog_entry \<Rightarrow> bool" where
  "same_entry a b = (cat_entry_type a = cat_entry_type b \<and> cat_code a = cat_code b)"

definition seed_row :: "catalog_entry \<Rightarrow> catalog_entry list \<Rightarrow> catalog_entry list" where
  "seed_row row cat =
     (if list_ex (same_entry row) cat
      then tbl_update (same_entry row) (\<lambda>e. e\<lparr>cat_name := cat_name row, cat_currency := cat_currency row,
             cat_price_cents := cat_price_cents row, cat_included := cat_included row,
             cat_metadata := cat_metadata row, cat_is_active := cat_is_active row\<rparr>) cat
      else cat @ [row])"

definition seed_catalog :: "catalog_entry list \<Rightarrow> bstate \<Rightarrow> bstate" where
  "seed_catalog rows s = s\<lparr>bs_catalog := fold seed_row rows (bs_catalog s)\<rparr>"

definition list_catalog :: "bstate \<Rightarrow> catalog_entry list" where
  "list_catalog s = sort_key cat_entry_type (sort_key cat_price_cents (filter cat_is_active (bs_catalog s)))"

definition plan_map :: "bstate \<Rightarrow> plans" where
  "plan_map s = plan_map_from_catalog (list_catalog s)"

definition addon_map :: "bstate \<Rightarrow> addons" where
  "addon_map s = addon_map_from_catalog (list_catalog s)"

section \<open>Debug date\<close>

definition get_debug_simulated_date :: "bstate \<Rightarrow> pydate option" where
  "get_debug_simulated_date s = (case bs_simulated s of None \<Rightarrow> None | Some v \<Rightarrow> v)"

definition set_debug_simulated_date :: "pydate option \<Rightarrow> bstate \<Rightarrow> bstate" where
  "set_debug_simulated_date v s = s\<lparr>bs_simulated := Some v\<rparr>"

text \<open>\<open>BillingDebugClock.now\<close>\<close>

definition clock_now :: "pydatetime \<Rightarrow> bstate \<Rightarrow> pydatetime" where
  "clock_now now s = (case bs_clock s of None \<Rightarrow> now | Some d \<Rightarrow> dt_combine d now)"

section \<open>Subscriptions\<close>

definition get_subscription :: "int \<Rightarrow> bstate \<Rightarrow> subscription option" where
  "get_subscription tid s = tbl_first (\<lambda>r. sub_tenant_id r = tid) (bs_subs s)"

text \<open>The row keeps its creation time; \<open>updated_at\<close> is set on an update.\<close>

definition upsert_subscription :: "pydatetime \<Rightarrow> int \<Rightarrow> subscription \<Rightarrow> bstate \<Rightarrow> subscription \<times> bstate" where
  "upsert_subscription now tid v s =
     (case get_subscription tid s of
        None \<Rightarrow> (let row = v\<lparr>sub_tenant_id := tid, sub_created_at := now, sub_updated_at := now\<rparr>
                 in (row, s\<lparr>bs_subs := bs_subs s @ [row]\<rparr>))
      | Some old \<Rightarrow>
          (let row = v\<lparr>sub_tenant_id := tid, sub_created_at := sub_created_at old, sub_updated_at := now\<rparr>
           in (row, s\<lparr>bs_subs := tbl_update (\<lambda>r. sub_tenant_id r = tid) (\<lambda>_. row) (bs_subs s)\<rparr>)))"

section \<open>Usage\<close>

definition same_question :: "int \<Rightarrow> int \<Rightarrow> string \<Rightarrow> question_usage \<Rightarrow> bool" where
  "same_question tid uid k r = (qu_tenant_id r = tid \<and> qu_user_id r = uid \<and> qu_period_key r = k)"

definition upsert_question_usage :: "pydatetime \<Rightarrow> int \<Rightarrow> int \<Rightarrow> string \<Rightarrow> int \<Rightarrow> bstate \<Rightarrow> bstate" where
  "upsert_question_usage now tid uid k increment s =
     (case tbl_first (same_question tid uid k) (bs_questions s) of
        None \<Rightarrow> s\<lparr>bs_questions := bs_questions s @
          [\<lparr>qu_tenant_id = tid, qu_user_id = uid, qu_period_key = k, qu_question_count = max 0 increment,
            qu_last_question_at = now\<rparr>]\<rparr>
      | Some _ \<Rightarrow> s\<lparr>bs_questions := tbl_update (same_question tid uid k)
          (\<lambda>r. r\<lparr>qu_question_count := qu_question_count r + max 0 increment, qu_last_question_at := now\<rparr>) (bs_questions s)\<rparr>)"

definition list_question_usage :: "int \<Rightarrow> string \<Rightarrow> bstate \<Rightarrow> question_usage list" where
  "list_question_usage tid k s =
     sort_key (\<lambda>r. - qu_question_count r) (sort_key qu_user_id
       (filter (\<lambda>r. qu_tenant_id r = tid \<and> qu_period_key r = k) (bs_questions s)))"

definition same_training :: "int \<Rightarrow> string \<Rightarrow> training_usage \<Rightarrow> bool" where
  "same_training tid k r = (tu_tenant_id r = tid \<and> tu_period_key r = k)"

definition get_training_usage :: "int \<Rightarrow> string \<Rightarrow> bstate \<Rightarrow> training_usage option" where
  "get_training_usage tid k s = tbl_first (same_training tid k) (bs_training s)"

definition increment_training_usage :: "int \<Rightarrow> string \<Rightarrow> int \<Rightarrow> int \<Rightarrow> bstate \<Rightarrow> bstate" where
  "increment_training_usage tid k trained_chars storage_bytes s =
     (let d_chars = max 0 trained_chars; d_bytes = max 0 storage_bytes
      in case get_training_usage tid k s of
           None \<Rightarrow> s\<lparr>bs_training := bs_training s @
             [\<lparr>tu_tenant_id = tid, tu_period_key = k, tu_trained_chars = d_chars, tu_storage_bytes = d_bytes\<rparr>]\<rparr>
         | Some _ \<Rightarrow> s\<lparr>bs_training := tbl_update (same_training tid k)
             (\<lambda>r. r\<lparr>tu_trained_chars := tu_trained_chars r + d_chars, tu_storage_bytes := tu_storage_bytes r + d_bytes\<rparr>)
             (bs_training s)\<rparr>)"

section \<open>Invoices\<close>

definition same_invoice :: "int \<Rightarrow> string \<Rightarrow> string \<Rightarrow> invoice \<Rightarrow> bool" where
  "same_invoice tid ty k r = (inv_tenant_id r = tid \<and> inv_type r = ty \<and> inv_period_key r = k)"

definition inv_put :: "int \<Rightarrow> (invoice \<Rightarrow> invoice) \<Rightarrow> bstate \<Rightarrow> bstate" where
  "inv_put i f s = s\<lparr>bs_invoices := tbl_update (\<lambda>r. inv_id r = i) f (bs_invoices s)\<rparr>"

definition inv_insert :: "(int \<Rightarrow> invoice) \<Rightarrow> bstate \<Rightarrow> bstate" where
  "inv_insert mk s = s\<lparr>bs_invoices := bs_invoices s @ [mk (bs_next_invoice s)], bs_next_invoice := bs_next_invoice s + 1\<rparr>"

text \<open>The table has the unique constraint \<open>uq_billing_invoice_tenant_type_period\<close>.\<close>

definition create_invoice :: "int \<Rightarrow> (int \<Rightarrow> invoice) \<Rightarrow> bstate \<Rightarrow> invoice res \<times> bstate" where
  "create_invoice tid mk s =
     (let row = (mk (bs_next_invoice s))\<lparr>inv_tenant_id := tid, inv_id := bs_next_invoice s\<rparr>
      in if list_ex (same_invoice tid (inv_type row) (inv_period_key row)) (bs_invoices s)
         then (Inl (IntegrityError ''uq_billing_invoice_tenant_type_period''), s)
         else (Inr row, inv_insert (\<lambda>i. (mk i)\<lparr>inv_tenant_id := tid, inv_id := i\<rparr>) s))"

definition get_invoice :: "int \<Rightarrow> string \<Rightarrow> string \<Rightarrow> bstate \<Rightarrow> invoice option" where
  "get_invoice tid ty k s = tbl_first (same_invoice tid ty k) (bs_invoices s)"

definition get_invoice_by_id :: "int \<Rightarrow> int \<Rightarrow> bstate \<Rightarrow> invoice option" where
  "get_invoice_by_id tid i s = tbl_first (\<lambda>r. inv_tenant_id r = tid \<and> inv_id r = i) (bs_invoices s)"

definition list_recent_invoices :: "int \<Rightarrow> nat \<Rightarrow> bstate \<Rightarrow> invoice list" where
  "list_recent_invoices tid limit s =
     take limit (sort_key (\<lambda>r. - inv_issued_at r) (filter (\<lambda>r. inv_tenant_id r = tid) (bs_invoices s)))"

definition list_training_addon_invoices :: "int \<Rightarrow> bstate \<Rightarrow> invoice list" where
  "list_training_addon_invoices tid s =
     filter (\<lambda>r. inv_tenant_id r = tid
       \<and> inv_type r \<in> {''addon:training_initial_500k'', ''addon:training_extra_500k''}
       \<and> inv_status r \<in> {''simulated_paid'', ''paid''}) (bs_invoices s)"

definition first_of :: "'a list \<Rightarrow> 'a option" where
  "first_of xs = (case xs of [] \<Rightarrow> None | x # _ \<Rightarrow> Some x)"

definition get_latest_invoice_for_type :: "int \<Rightarrow> string \<Rightarrow> bstate \<Rightarrow> invoice option" where
  "get_latest_invoice_for_type tid ty s =
     first_of (sort_key (\<lambda>r. - inv_issued_at r) (filter (\<lambda>r. inv_tenant_id r = tid \<and> inv_type r = ty) (bs_invoices s)))"

section \<open>Payment events\<close>

definition same_event :: "string \<times> string \<Rightarrow> payment_event \<Rightarrow> bool" where
  "same_event k r = (pe_provider r = fst k \<and> pe_event_id r = snd k)"

definition pe_put :: "int \<Rightarrow> (payment_event \<Rightarrow> payment_event) \<Rightarrow> bstate \<Rightarrow> bstate" where
  "pe_put i f s = s\<lparr>bs_events := tbl_update (\<lambda>r. pe_id r = i) f (bs_events s)\<rparr>"

definition pe_insert :: "(int \<Rightarrow> payment_event) \<Rightarrow> bstate \<Rightarrow> bstate" where
  "pe_insert mk s = s\<lparr>bs_events := bs_events s @ [mk (bs_next_event s)], bs_next_event := bs_next_event s + 1\<rparr>"

definition record_payment_event_once :: "string \<times> string \<Rightarrow> string \<times> int \<times> json \<Rightarrow> bstate \<Rightarrow> (payment_event \<times> bool) \<times> bstate" where
  "record_payment_event_once k x s =
     (case tbl_first (same_event k) (bs_events s) of
        Some row \<Rightarrow> ((row, False), s)
      | None \<Rightarrow>
          (case x of (event_type, tenant_id, payload) \<Rightarrow>
             (let mk = (\<lambda>i. \<lparr>pe_id = i, pe_provider = fst k, pe_event_id = snd k, pe_event_type = event_type,
                             pe_tenant_id = tenant_id, pe_payload = payload, pe_status = ''processed''\<rparr>)
              in ((mk (bs_next_event s), True), pe_insert mk s))))"

section \<open>Cancellation requests\<close>

definition ca_put :: "int \<Rightarrow> (cancellation \<Rightarrow> cancellation) \<Rightarrow> bstate \<Rightarrow> bstate" where
  "ca_put i f s = s\<lparr>bs_cancels := tbl_update (\<lambda>r. ca_id r = i) f (bs_cancels s)\<rparr>"

definition ca_insert :: "(int \<Rightarrow> cancellation) \<Rightarrow> bstate \<Rightarrow> bstate" where
  "ca_insert mk s = s\<lparr>bs_cancels := bs_cancels s @ [mk (bs_next_cancel s)], bs_next_cancel := bs_next_cancel s + 1\<rparr>"

definition create_cancellation_request ::
  "pydatetime \<Rightarrow> int \<Rightarrow> string \<Rightarrow> int option \<Rightarrow> string \<Rightarrow> string \<Rightarrow> int \<Rightarrow> string \<Rightarrow> pydatetime option \<Rightarrow>
   pydatetime option \<Rightarrow> bstate \<Rightarrow> cancellation \<times> bstate" where
  "create_cancellation_request now tid slug requested_by reason_code reason_text kbs status effective_at deactivated_at s =
     (let mk = (\<lambda>i. \<lparr>ca_id = i, ca_tenant_id = tid, ca_tenant_slug = slug, ca_requested_by = requested_by,
             ca_reason_code = reason_code, ca_reason_text = reason_text, ca_active_kb_count = max 0 kbs,
             ca_status = status, ca_requested_at = now, ca_effective_at = effective_at,
             ca_notice_two_days_sent_at = None, ca_notice_one_day_sent_at = None, ca_notice_expired_sent_at = None,
             ca_deactivated_at = deactivated_at, ca_cleanup_completed_at = None\<rparr>)
      in (mk (bs_next_cancel s), ca_insert mk s))"

definition latest_cancellation :: "(cancellation \<Rightarrow> bool) \<Rightarrow> bstate \<Rightarrow> cancellation option" where
  "latest_cancellation p s =
     first_of (sort_key (\<lambda>r. - ca_requested_at r) (sort_key (\<lambda>r. - ca_id r) (filter p (bs_cancels s))))"

definition get_latest_cancellation_request :: "int \<Rightarrow> bstate \<Rightarrow> cancellation option" where
  "get_latest_cancellation_request tid s = latest_cancellation (\<lambda>r. ca_tenant_id r = tid) s"

definition list_cancellation_requests_for_lifecycle :: "bstate \<Rightarrow> cancellation list" where
  "list_cancellation_requests_for_lifecycle s =
     sort_key ca_requested_at (sort_key ca_id
       (filter (\<lambda>r. ca_status r = ''deactivation_requested'' \<and> ca_cleanup_completed_at r = None) (bs_cancels s)))"

text \<open>The five \<open>mark_...\<close> updates: set a column that is NULL, and report whether a row was hit.\<close>

definition ca_mark :: "(cancellation \<Rightarrow> pydatetime option) \<Rightarrow> (cancellation \<Rightarrow> cancellation) \<Rightarrow> int \<Rightarrow> bstate \<Rightarrow> bool \<times> bstate" where
  "ca_mark col f i s =
     (let p = (\<lambda>r. ca_id r = i \<and> col r = None)
      in (list_ex p (bs_cancels s), s\<lparr>bs_cancels := tbl_update p f (bs_cancels s)\<rparr>))"

definition mark_cancellation_notice_two_days_sent :: "int \<Rightarrow> pydatetime \<Rightarrow> bstate \<Rightarrow> bool \<times> bstate" where
  "mark_cancellation_notice_two_days_sent i t =
     ca_mark ca_notice_two_days_sent_at (\<lambda>r. r\<lparr>ca_notice_two_days_sent_at := Some t\<rparr>) i"

definition mark_cancellation_notice_one_day_sent :: "int \<Rightarrow> pydatetime \<Rightarrow> bstate \<Rightarrow> bool \<times> bstate" where
  "mark_cancellation_notice_one_day_sent i t =
     ca_mark ca_notice_one_day_sent_at (\<lambda>r. r\<lparr>ca_notice_one_day_sent_at := Some t\<rparr>) i"

definition mark_cancellation_notice_expired_sent :: "int \<Rightarrow> pydatetime \<Rightarrow> bstate \<Rightarrow> bool \<times> bstate" where
  "mark_cancellation_notice_expired_sent i t =
     ca_mark ca_notice_expired_sent_at (\<lambda>r. r\<lparr>ca_notice_expired_sent_at := Some t\<rparr>) i"

definition mark_cancellation_deactivated :: "int \<Rightarrow> pydatetime \<Rightarrow> bstate \<Rightarrow> bool \<times> bstate" where
  "mark_cancellation_deactivated i t = ca_mark ca_deactivated_at (\<lambda>r. r\<lparr>ca_deactivated_at := Some t\<rparr>) i"

definition mark_cancellation_cleanup_completed :: "int \<Rightarrow> pydatetime \<Rightarrow> bstate \<Rightarrow> bool \<times> bstate" where
  "mark_cancellation_cleanup_completed i t =
     ca_mark ca_cleanup_completed_at (\<lambda>r. r\<lparr>ca_cleanup_completed_at := Some t\<rparr>) i"

definition restore_latest_cancellation_request :: "int \<Rightarrow> pydatetime \<Rightarrow> bstate \<Rightarrow> bool \<times> bstate" where
  "restore_latest_cancellation_request tid t s =
     (case latest_cancellation (\<lambda>r. ca_tenant_id r = tid \<and> ca_status r = ''deactivation_requested'') s of
        None \<Rightarrow> (False, s)
      | Some latest \<Rightarrow>
          ca_mark ca_deactivated_at
            (\<lambda>r. r\<lparr>ca_status := ''renewal_restored'', ca_cleanup_completed_at := Some t\<rparr>) (ca_id latest) s)"

section \<open>Tenants\<close>

definition get_tenant :: "int \<Rightarrow> bstate \<Rightarrow> tenant_row option" where
  "get_tenant tid s = tbl_first (\<lambda>r. tn_id r = tid) (bs_tenants s)"

definition get_snapshot_by_slug :: "string \<Rightarrow> bstate \<Rightarrow> tenant_row option" where
  "get_snapshot_by_slug slug s = tbl_first (\<lambda>r. tn_slug r = slug) (bs_tenants s)"

definition list_active_tenants :: "bstate \<Rightarrow> tenant_row list" where
  "list_active_tenants s = filter tn_is_active (bs_tenants s)"

definition tn_update :: "int \<Rightarrow> (tenant_row \<Rightarrow> tenant_row) \<Rightarrow> bstate \<Rightarrow> bstate" where
  "tn_update tid f s = s\<lparr>bs_tenants := tbl_update (\<lambda>r. tn_id r = tid) f (bs_tenants s)\<rparr>"

definition deactivate_tenant :: "int \<Rightarrow> bstate \<Rightarrow> bstate" where
  "deactivate_tenant tid = tn_update tid (\<lambda>r. r\<lparr>tn_is_active := False\<rparr>)"

definition create_config :: "int \<Rightarrow> string \<Rightarrow> (string \<times> json) list \<Rightarrow> tenant_limits \<Rightarrow> bstate \<Rightarrow> bstate" where
  "create_config tid package flags limits =
     tn_update tid (\<lambda>r. r\<lparr>tn_config := Some \<lparr>tc_package = package, tc_feature_flags = flags, tc_limits = limits\<rparr>\<rparr>)"

text \<open>Deleting a tenant deletes the rows that reference it (ON DELETE CASCADE).\<close>

definition hard_delete_tenant :: "int \<Rightarrow> bstate \<Rightarrow> bool \<times> bstate" where
  "hard_delete_tenant tid s =
     (list_ex (\<lambda>r. tn_id r = tid) (bs_tenants s),
      s\<lparr>bs_tenants := filter (\<lambda>r. tn_id r \<noteq> tid) (bs_tenants s),
        bs_subs := filter (\<lambda>r. sub_tenant_id r \<noteq> tid) (bs_subs s),
        bs_questions := filter (\<lambda>r. qu_tenant_id r \<noteq> tid) (bs_questions s),
        bs_training := filter (\<lambda>r. tu_tenant_id r \<noteq> tid) (bs_training s),
        bs_invoices := filter (\<lambda>r. inv_tenant_id r \<noteq> tid) (bs_invoices s),
        bs_events := filter (\<lambda>r. pe_tenant_id r \<noteq> tid) (bs_events s),
        bs_cancels := filter (\<lambda>r. ca_tenant_id r \<noteq> tid) (bs_cancels s)\<rparr>)"

section \<open>The contracts of the tables\<close>

interpretation invt: keyed_table bs_invoices inv_id bs_next_invoice inv_put inv_insert
  by unfold_locales (simp_all add: inv_put_def inv_insert_def)

interpretation pet: keyed_table bs_events pe_id bs_next_event pe_put pe_insert
  by unfold_locales (simp_all add: pe_put_def pe_insert_def)

interpretation cat: keyed_table bs_cancels ca_id bs_next_cancel ca_put ca_insert
  by unfold_locales (simp_all add: ca_put_def ca_insert_def)

lemma event_insert_find:
  "tbl_first (same_event j) (bs_events (snd (record_payment_event_once k x s))) =
     (case tbl_first (same_event j) (bs_events s) of
        Some r \<Rightarrow> Some r
      | None \<Rightarrow> if j = k then Some (fst (fst (record_payment_event_once k x s))) else None)"
proof (cases "tbl_first (same_event k) (bs_events s)")
  case None
  obtain a b c where "x = (a, b, c)" by (rule prod_cases3)
  then show ?thesis using None
    by (auto simp: record_payment_event_once_def pe_insert_def tbl_first_append Let_def split: option.splits)
      (auto simp: tbl_first_def same_event_def prod_eq_iff split: if_splits)
next
  case (Some r)
  then show ?thesis by (auto simp: record_payment_event_once_def split: option.splits)
qed

interpretation pay_once: once_store record_payment_event_once "\<lambda>k s. tbl_first (same_event k) (bs_events s)"
  "\<lambda>s. length (bs_events s)" "\<lambda>_. True"
proof (unfold_locales, goal_cases)
  case (1 k s r x)
  then show ?case by (simp add: record_payment_event_once_def)
next
  case (2 k s x r b s')
  then have "tbl_first (same_event k) (bs_events s') = Some r"
    using event_insert_find [of k k x s] by simp
  moreover have "b \<and> length (bs_events s') = Suc (length (bs_events s))"
    using 2 by (auto simp: record_payment_event_once_def pe_insert_def Let_def split: prod.splits)
  ultimately show ?case by blast
next
  case (3 k j x s)
  then show ?case using event_insert_find [of j k x s] by (simp split: option.splits)
qed

end
