(* ===== verification/BillingPayment.thy ===== *)
theory BillingPayment
  imports Sanitize
begin

text \<open>
  The payment gateway (\<open>backend/apps/billing/payment.py\<close>). HMAC-SHA256 and the HTTP call are
  arguments: \<open>hmac secret payload\<close> is the hex digest, \<open>post amount description\<close> the status code
  and JSON body of the provider's answer, or the exception of the request. Messages are
  written without accents.
\<close>

section \<open>Webhook signatures\<close>

definition signature_parts :: "string \<Rightarrow> string \<Rightarrow> string option" where
  "signature_parts signature =
     fold (\<lambda>item parts. (case partition_eq item of (k, v) \<Rightarrow> parts(py_strip k \<mapsto> py_strip v)))
       (split_on (CHR '','') signature) Map.empty"

definition verify_webhook_signature ::
  "(string \<Rightarrow> string \<Rightarrow> string) \<Rightarrow> int \<Rightarrow> int \<Rightarrow> string \<Rightarrow> string option \<Rightarrow> string option \<Rightarrow> bool" where
  "verify_webhook_signature hmac time max_skew payload signature secret =
     (let sec = py_strip (or_empty secret); sig = py_strip (or_empty signature)
      in if sec = [] \<or> sig = [] then False
         else if contains ''v1='' sig \<and> contains ''t='' sig
         then (let parts = signature_parts sig; timestamp = or_empty (parts ''t'')
               in case py_int timestamp of
                    None \<Rightarrow> False
                  | Some t \<Rightarrow>
                      if max 1 max_skew < \<bar>time - t\<bar> then False
                      else hmac sec (timestamp @ ''.'' @ payload) = or_empty (parts ''v1''))
         else hmac sec payload = py_strip (removeprefix ''sha256='' sig))"

section \<open>Payments\<close>

record payment_result =
  pr_success :: bool
  pr_status :: string
  pr_payment_method :: string
  pr_message :: "string option"
  pr_external_id :: "string option"

record pay_env =
  pay_provider :: "string option"
  pay_secret_key :: "string option"
  pay_post :: "int \<Rightarrow> string \<Rightarrow> exn + (int \<times> json)"

definition provider :: "pay_env \<Rightarrow> string" where
  "provider e = py_lower (py_strip (case pay_provider e of None \<Rightarrow> ''manual'' | Some s \<Rightarrow> if s = [] then ''manual'' else s))"

definition is_simulated_provider :: "pay_env \<Rightarrow> bool" where
  "is_simulated_provider e = (provider e = ''simulated'')"

definition invoice_paid_status :: "pay_env \<Rightarrow> string" where
  "invoice_paid_status e =
     (if is_simulated_provider e then ''simulated_paid'' else if provider e = ''stripe_test'' then ''paid'' else ''manual_paid'')"

definition invoice_payment_method :: "pay_env \<Rightarrow> string" where
  "invoice_payment_method e =
     (if is_simulated_provider e then ''simulated_card'' else if provider e = ''stripe_test'' then ''stripe_test_card'' else ''manual'')"

text \<open>\<open>str(v or "")\<close>\<close>

definition str_or_empty :: "json \<Rightarrow> string" where
  "str_or_empty v = scalar_str (jor v (JStr []))"

definition charge_with_stripe_test :: "pay_env \<Rightarrow> int \<Rightarrow> string \<Rightarrow> payment_result" where
  "charge_with_stripe_test e amount_cents description =
     (if py_strip (or_empty (pay_secret_key e)) = []
      then \<lparr>pr_success = False, pr_status = ''config_error'', pr_payment_method = ''stripe_test_card'',
            pr_message = Some ''Hianyzik a STRIPE_TEST_SECRET_KEY.'', pr_external_id = None\<rparr>
      else if amount_cents \<le> 0
      then \<lparr>pr_success = True, pr_status = ''no_charge'', pr_payment_method = ''stripe_test_card'',
            pr_message = Some ''Nulla osszegu fizetes.'', pr_external_id = None\<rparr>
      else (case pay_post e (max 0 amount_cents) description of
              Inl x \<Rightarrow> \<lparr>pr_success = False, pr_status = ''provider_error'', pr_payment_method = ''stripe_test_card'',
                  pr_message = Some ''Stripe eleres sikertelen'', pr_external_id = None\<rparr>
            | Inr (code, body) \<Rightarrow>
                (let ext = (if is_jobj body then Some (str_or_empty (jget ''id'' body)) else None)
                 in if 400 \<le> code
                    then \<lparr>pr_success = False, pr_status = ''provider_rejected'', pr_payment_method = ''stripe_test_card'',
                          pr_message = Some (py_strip (''Stripe elutasitotta a fizetest. ''
                            @ str_or_empty (jget ''message'' (jget ''error'' body)))), pr_external_id = ext\<rparr>
                    else (let status = (if is_jobj body \<and> jtruthy (jget ''status'' body)
                                        then scalar_str (jget ''status'' body) else ''unknown'');
                              success = (status \<in> {''succeeded'', ''processing'', ''requires_capture''})
                          in \<lparr>pr_success = success, pr_status = status, pr_payment_method = ''stripe_test_card'',
                              pr_message = (if success then None else Some (''Sikertelen Stripe statusz: '' @ status)),
                              pr_external_id = ext\<rparr>))))"

definition execute_payment :: "pay_env \<Rightarrow> int \<Rightarrow> string \<Rightarrow> payment_result" where
  "execute_payment e amount_cents description =
     (let p = provider e
      in if p = ''simulated''
         then \<lparr>pr_success = True, pr_status = ''simulated_paid'', pr_payment_method = ''simulated_card'',
               pr_message = None, pr_external_id = None\<rparr>
         else if p = ''stripe_test'' then charge_with_stripe_test e amount_cents description
         else if p = ''manual''
         then \<lparr>pr_success = False, pr_status = ''manual_required'', pr_payment_method = ''manual'',
               pr_message = Some ''Manual billing mode: fizetes admin jovahagyassal tortenik.'', pr_external_id = None\<rparr>
         else \<lparr>pr_success = False, pr_status = ''provider_not_supported'', pr_payment_method = ''unknown'',
               pr_message = Some (''Nem tamogatott billing provider: '' @ p), pr_external_id = None\<rparr>)"

section \<open>Properties\<close>

text \<open>
  C15: The webhook verifier accepts a payload only with a non-blank secret and signature, and then
  only with the HMAC of the payload under the secret: in the timestamped form the HMAC covers the
  timestamp, which must be a number within the permitted skew, otherwise the whole signature is
  the HMAC of the payload alone.
\<close>

theorem webhook_accepts_only_signed_payloads:
  assumes "verify_webhook_signature hmac time max_skew payload signature secret"
  shows "\<exists>sec sig. secret = Some sec \<and> signature = Some sig \<and> py_strip sec \<noteq> [] \<and> py_strip sig \<noteq> []
    \<and> (if contains ''v1='' (py_strip sig) \<and> contains ''t='' (py_strip sig)
       then \<exists>ts t. signature_parts (py_strip sig) ''t'' = Some ts \<and> py_int ts = Some t \<and> \<bar>time - t\<bar> \<le> max 1 max_skew
              \<and> or_empty (signature_parts (py_strip sig) ''v1'') = hmac (py_strip sec) (ts @ ''.'' @ payload)
       else py_strip (removeprefix ''sha256='' (py_strip sig)) = hmac (py_strip sec) payload)"
proof -
  obtain sec where sec: "secret = Some sec" "py_strip sec \<noteq> []"
    using assms by (cases secret) (auto simp: verify_webhook_signature_def or_empty_def Let_def split: if_splits)
  obtain sig where sig: "signature = Some sig" "py_strip sig \<noteq> []"
    using assms by (cases signature) (auto simp: verify_webhook_signature_def or_empty_def Let_def split: if_splits)
  have none: "py_int [] = None" by (simp add: py_int_def py_isdigit_def)
  show ?thesis
  proof (cases "contains ''v1='' (py_strip sig) \<and> contains ''t='' (py_strip sig)")
    case True
    then show ?thesis using assms sec sig none
      by (auto simp: verify_webhook_signature_def or_empty_def Let_def split: option.splits if_splits)
  next
    case False
    then show ?thesis using assms sec sig
      by (auto simp: verify_webhook_signature_def or_empty_def Let_def split: if_splits)
  qed
qed

theorem webhook_accepts_only_signed_payloads_witness:
  "\<exists>sec sig. Some ''key'' = Some sec \<and> Some ''sha256=key|body'' = Some sig
     \<and> py_strip (removeprefix ''sha256='' (py_strip sig)) = py_strip sec @ ''|'' @ ''body''"
proof -
  have "verify_webhook_signature (\<lambda>k m. k @ ''|'' @ m) 0 300 ''body'' (Some ''sha256=key|body'') (Some ''key'')"
    by (simp add: verify_webhook_signature_def or_empty_def py_strip_def is_blank_def contains.simps removeprefix_def Let_def)
  from webhook_accepts_only_signed_payloads [OF this] show ?thesis
    by (auto simp: py_strip_def is_blank_def contains.simps)
qed

end
