(* ===== verification/BillingUsage.thy ===== *)
theory BillingUsage
  imports BillingRepo BillingPayment
begin

text \<open>
  The read side of the billing service (\<open>service.py\<close>): subscriptions and their limits, question
  and training usage, due dates, the next invoice and payment notices, and the writes that go
  with them (\<open>ensure_subscription\<close>, \<open>_sync_tenant_config\<close>, usage counters).

  \<open>benv\<close> is what an operation reads from outside the public schema: the wall clock, the payment
  environment, the resources counted in the tenant schema the request runs in, the mail
  transport and the owner addresses.
\<close>

record resource_counts =
  rc_users :: int
  rc_knowledge_bases :: int
  rc_storage_bytes :: int
  rc_trained_chars :: int

record benv =
  be_now :: pydatetime
  be_pay :: pay_env
  be_resources :: resource_counts
  be_owner_email :: "string \<Rightarrow> string option"
  be_send :: "string \<Rightarrow> string \<Rightarrow> bool"
  be_drop_schema :: "string \<Rightarrow> bool"
  be_has_engine :: bool
  be_billing_disabled :: string

text \<open>The tenant argument of a request: a snapshot of the tenant row.\<close>

record tenant =
  te_tenant_id :: int
  te_slug :: string
  te_created_at :: "pydatetime option"

definition snapshot_of :: "tenant_row \<Rightarrow> tenant" where
  "snapshot_of r = \<lparr>te_tenant_id = tn_id r, te_slug = tn_slug r, te_created_at = tn_created_at r\<rparr>"

definition b_now :: "benv \<Rightarrow> bstate \<Rightarrow> pydatetime" where
  "b_now e s = clock_now (be_now e) s"

definition normalize_billing_period :: "string \<Rightarrow> string" where
  "normalize_billing_period v = (let n = norm_period v in if n \<notin> {''monthly'', ''quarterly'', ''yearly''} then ''monthly'' else n)"

definition b_period :: "benv \<Rightarrow> bstate \<Rightarrow> string \<times> pydatetime \<times> pydatetime \<times> pydate" where
  "b_period e s = current_month_period (b_now e s)"

definition b_period_key :: "benv \<Rightarrow> bstate \<Rightarrow> string" where
  "b_period_key e s = fst (b_period e s)"

definition b_period_end :: "benv \<Rightarrow> bstate \<Rightarrow> pydatetime" where
  "b_period_end e s = fst (snd (snd (b_period e s)))"

section \<open>Limits\<close>

definition sub_plan :: "bstate \<Rightarrow> subscription \<Rightarrow> billing_plan" where
  "sub_plan s sub = plan_or_free (plan_map s) (sub_plan_code sub)"

definition line_chars :: "addons \<Rightarrow> json \<Rightarrow> int" where
  "line_chars addons line =
     (if \<not> is_jobj line then 0
      else (let code = py_strip (str_or_empty (jget ''code'' line))
            in if code \<notin> {''training_initial_500k'', ''training_extra_500k''} then 0
               else (let meta = (case addons code of None \<Rightarrow> [] | Some a \<Rightarrow> ba_metadata a);
                         chars = jint (jor (kv_get ''training_chars'' meta) (JInt 1000000));
                         quantity = max 1 (jint (jor (jget ''quantity'' line) (JInt 1)))
                     in max 0 chars * quantity)))"

definition training_addon_invoice_chars :: "int \<Rightarrow> bstate \<Rightarrow> int" where
  "training_addon_invoice_chars tid s =
     (let addons = addon_map s
      in sum_list (map (\<lambda>i. sum_list (map (line_chars addons) (inv_lines i))) (list_training_addon_invoices tid s)))"

definition available_training_chars :: "bstate \<Rightarrow> subscription \<Rightarrow> int" where
  "available_training_chars s sub =
     (let plan = sub_plan s sub; addon_chars = training_addon_invoice_chars (sub_tenant_id sub) s
      in max (max (max 0 (bp_included_training_chars plan)) (max 0 (sub_carryover_training_chars sub)))
             (max 0 (bp_included_training_chars plan) + addon_chars))"

definition build_limits :: "bstate \<Rightarrow> subscription \<Rightarrow> tenant_limits" where
  "build_limits s sub =
     (let plan = sub_plan s sub
      in \<lparr>lim_max_users = bp_max_users plan,
          lim_knowledge_bases = bp_included_kbs plan + sub_extra_kb_count sub,
          lim_storage_gb = bp_included_storage_gb plan + sub_extra_storage_gb sub,
          lim_questions_monthly = bp_included_questions_monthly plan,
          lim_addon_questions_carryover = sub_carryover_addon_questions sub,
          lim_training_chars_available = available_training_chars s sub,
          lim_trial_days = bp_trial_days plan\<rparr>)"

definition sync_tenant_config :: "tenant \<Rightarrow> subscription \<Rightarrow> bstate \<Rightarrow> bstate" where
  "sync_tenant_config t sub s =
     (let limits = build_limits s sub;
          prev_flags = (case get_tenant (te_tenant_id t) s of
            None \<Rightarrow> []
          | Some row \<Rightarrow> (case tn_config row of None \<Rightarrow> [] | Some c \<Rightarrow> tc_feature_flags c));
          merged_flags = kv_set ''billing_enabled'' (JBool True) prev_flags
      in create_config (te_tenant_id t) (sub_plan_code sub) merged_flags limits s)"

section \<open>Subscriptions\<close>

definition blank_subscription :: subscription where
  "blank_subscription = \<lparr>sub_tenant_id = 0, sub_plan_code = ''free'', sub_billing_period = ''monthly'',
     sub_status = ''trial'', sub_trial_started_at = None, sub_trial_ends_at = None, sub_extra_kb_count = 0,
     sub_extra_storage_gb = 0, sub_carryover_addon_questions = 0, sub_carryover_training_chars = 0,
     sub_scheduled_plan_code = None, sub_scheduled_billing_period = None,
     sub_scheduled_change_effective_period = None, sub_question_warning_period_key = None,
     sub_question_warning_level = 0, sub_created_at = 0, sub_updated_at = 0\<rparr>"

definition ensure_subscription :: "benv \<Rightarrow> tenant \<Rightarrow> bstate \<Rightarrow> subscription \<times> bstate" where
  "ensure_subscription e t s =
     (case get_subscription (te_tenant_id t) s of
        Some sub \<Rightarrow> (sub, s)
      | None \<Rightarrow>
          (let plan = the (plan_map s ''free'');
               trial_started_at = (case te_created_at t of Some c \<Rightarrow> c | None \<Rightarrow> b_now e s);
               trial_ends_at = trial_started_at + days (bp_trial_days plan);
               (sub, s1) = upsert_subscription (be_now e) (te_tenant_id t)
                 (blank_subscription\<lparr>sub_trial_started_at := Some trial_started_at,
                    sub_trial_ends_at := Some trial_ends_at,
                    sub_carryover_training_chars := bp_included_training_chars plan\<rparr>) s
           in (sub, sync_tenant_config t sub s1)))"

definition set_signup_subscription :: "benv \<Rightarrow> int \<Rightarrow> string \<Rightarrow> string \<Rightarrow> string \<Rightarrow> bstate \<Rightarrow> bstate" where
  "set_signup_subscription e tid slug plan_code billing_period s =
     (let plan = plan_or_free (plan_map s) plan_code;
          now = b_now e s;
          status = (if bp_code plan = ''free'' then ''trial'' else ''active'');
          (sub, s1) = upsert_subscription (be_now e) tid
            (blank_subscription\<lparr>sub_plan_code := bp_code plan,
               sub_billing_period := normalize_billing_period billing_period,
               sub_status := status,
               sub_trial_started_at := (if bp_trial_days plan \<noteq> 0 then Some now else None),
               sub_trial_ends_at := (if bp_trial_days plan \<noteq> 0 then Some (now + days (bp_trial_days plan)) else None),
               sub_carryover_training_chars := bp_included_training_chars plan\<rparr>) s
      in case get_snapshot_by_slug slug s1 of
           None \<Rightarrow> s1
         | Some row \<Rightarrow> sync_tenant_config (snapshot_of row) sub s1)"

text \<open>\<open>_upsert_subscription_from_existing(tenant_id, subscription, **overrides)\<close>: \<open>f\<close> is the overrides.\<close>

definition upsert_from_existing :: "benv \<Rightarrow> int \<Rightarrow> subscription \<Rightarrow> (subscription \<Rightarrow> subscription) \<Rightarrow> bstate \<Rightarrow> subscription \<times> bstate" where
  "upsert_from_existing e tid sub f s = upsert_subscription (be_now e) tid (f sub) s"

section \<open>Usage\<close>

definition required_extra_storage_gb :: "benv \<Rightarrow> bstate \<Rightarrow> subscription \<Rightarrow> int" where
  "required_extra_storage_gb e s sub =
     (let used_gb = max 0 (round_storage_gb (Some (rc_storage_bytes (be_resources e))))
      in max 0 (used_gb - bp_included_storage_gb (sub_plan s sub)))"

record question_summary =
  qs_period_key :: string
  qs_used_total :: int
  qs_monthly_included :: int
  qs_remaining_included :: int
  qs_addon_carryover :: int
  qs_remaining_addons :: int
  qs_remaining_total :: int
  qs_available_total :: int
  qs_percent_used :: int

definition question_usage_summary :: "benv \<Rightarrow> int \<Rightarrow> subscription \<Rightarrow> bstate \<Rightarrow> question_summary" where
  "question_usage_summary e tid sub s =
     (let period_key = b_period_key e s;
          usage_rows = list_question_usage tid period_key s;
          used_total = sum_list (map qu_question_count usage_rows);
          monthly_included = bp_included_questions_monthly (sub_plan s sub);
          addon_carryover = sub_carryover_addon_questions sub;
          available_total = monthly_included + addon_carryover;
          remaining_included = max 0 (monthly_included - used_total);
          consumed_from_addons = max 0 (used_total - monthly_included);
          remaining_addons = max 0 (addon_carryover - consumed_from_addons);
          percent = (if 0 < available_total then round_half_even (used_total * 100) available_total else 100)
      in \<lparr>qs_period_key = period_key, qs_used_total = used_total, qs_monthly_included = monthly_included,
          qs_remaining_included = remaining_included, qs_addon_carryover = addon_carryover,
          qs_remaining_addons = remaining_addons, qs_remaining_total = max 0 (available_total - used_total),
          qs_available_total = available_total, qs_percent_used = max 0 (min 100 percent)\<rparr>)"

record training_summary =
  ts_period_key :: string
  ts_trained_chars :: int
  ts_remaining_training_chars :: int
  ts_available_training_chars :: int
  ts_included_training_chars :: int
  ts_addon_training_chars :: int
  ts_storage_bytes :: int
  ts_storage_gb_used_rounded :: int

definition training_usage_summary :: "benv \<Rightarrow> int \<Rightarrow> subscription \<Rightarrow> bstate \<Rightarrow> training_summary" where
  "training_usage_summary e tid sub s =
     (let period_key = b_period_key e s;
          training = get_training_usage tid period_key s;
          trained_chars = max (case training of None \<Rightarrow> 0 | Some r \<Rightarrow> tu_trained_chars r) (rc_trained_chars (be_resources e));
          storage_bytes = max (case training of None \<Rightarrow> 0 | Some r \<Rightarrow> tu_storage_bytes r) (rc_storage_bytes (be_resources e));
          included_chars = max 0 (bp_included_training_chars (sub_plan s sub));
          available_chars = available_training_chars s sub;
          addon_chars = max 0 (available_chars - included_chars)
      in \<lparr>ts_period_key = period_key, ts_trained_chars = trained_chars,
          ts_remaining_training_chars = max 0 (available_chars - trained_chars),
          ts_available_training_chars = available_chars, ts_included_training_chars = included_chars,
          ts_addon_training_chars = addon_chars, ts_storage_bytes = storage_bytes,
          ts_storage_gb_used_rounded = round_storage_gb (Some storage_bytes)\<rparr>)"

section \<open>Due dates and the next invoice\<close>

text \<open>An invoice line holds dates as ISO strings; anything from the \<open>T\<close> on is cut.\<close>

definition date_from_invoice_value :: "json \<Rightarrow> pydate option" where
  "date_from_invoice_value v =
     (case v of
        JNull \<Rightarrow> None
      | _ \<Rightarrow> (let raw = py_strip (scalar_str v)
              in if raw = [] then None else date_fromisoformat (takeWhile (\<lambda>c. c \<noteq> CHR ''T'') raw)))"

definition line_coverage :: "json \<Rightarrow> pydate option" where
  "line_coverage line =
     (if \<not> is_jobj line then None
      else (case date_from_invoice_value (jget ''next_billing_date'' line) of
              Some d \<Rightarrow> Some d
            | None \<Rightarrow> date_from_invoice_value (jget ''paid_until_iso'' line)))"

definition coverage_date_from_invoice :: "invoice option \<Rightarrow> pydate option" where
  "coverage_date_from_invoice opt =
     (case opt of None \<Rightarrow> None | Some i \<Rightarrow> first_of (map the (filter (\<lambda>d. d \<noteq> None) (map line_coverage (inv_lines i)))))"

definition subscription_anchor_due_date :: "subscription \<Rightarrow> pydate" where
  "subscription_anchor_due_date sub =
     (let anchor = (case sub_trial_started_at sub of Some t \<Rightarrow> t | None \<Rightarrow> sub_created_at sub)
      in add_months_to_date (dt_date anchor) (billing_period_multiplier (sub_billing_period sub)))"

text \<open>The creation time of a row is never NULL, so the fallback date of the code is not reached.\<close>

definition subscription_due_date :: "int \<Rightarrow> subscription \<Rightarrow> bstate \<Rightarrow> pydate" where
  "subscription_due_date tid sub s =
     (let paid = get_latest_invoice_for_type tid ''monthly_subscription'' s
      in case sub_trial_ends_at sub of
           Some t \<Rightarrow> dt_date t
         | None \<Rightarrow>
             (case coverage_date_from_invoice paid of
                Some d \<Rightarrow> d
              | None \<Rightarrow>
                  (case paid of
                     Some p \<Rightarrow> add_months_to_date (dt_date (inv_issued_at p)) (billing_period_multiplier (sub_billing_period sub))
                   | None \<Rightarrow> subscription_anchor_due_date sub)))"

record invoice_estimate =
  ie_discount_percent :: int
  ie_period_multiplier :: int
  ie_base_plan_cents :: int
  ie_recurring_addons_cents :: int
  ie_next_extra_storage_gb :: int
  ie_current_extra_storage_gb :: int
  ie_due_at :: pydate
  ie_total_cents :: int

definition estimate_next_invoice :: "benv \<Rightarrow> subscription \<Rightarrow> bstate \<Rightarrow> invoice_estimate" where
  "estimate_next_invoice e sub s =
     (let plan = sub_plan s sub;
          period_multiplier = billing_period_multiplier (sub_billing_period sub);
          base_monthly_cents = plan_monthly_charge_cents_after_discount (bp_price_cents plan) (sub_billing_period sub);
          next_extra_storage_gb = required_extra_storage_gb e s sub;
          recurring_addons_monthly_cents = sub_extra_kb_count sub * 500 + next_extra_storage_gb * 500;
          base_cents = base_monthly_cents * period_multiplier;
          recurring_addons_cents = recurring_addons_monthly_cents * period_multiplier;
          total_cents = base_cents + recurring_addons_cents
      in \<lparr>ie_discount_percent = discount_percent (sub_billing_period sub), ie_period_multiplier = period_multiplier,
          ie_base_plan_cents = base_cents, ie_recurring_addons_cents = recurring_addons_cents,
          ie_next_extra_storage_gb = next_extra_storage_gb, ie_current_extra_storage_gb = sub_extra_storage_gb sub,
          ie_due_at = subscription_due_date (sub_tenant_id sub) sub s, ie_total_cents = total_cents\<rparr>)"

definition subscription_period_key :: "pydate \<Rightarrow> string" where
  "subscription_period_key billing_date = isoformat billing_date"

definition billing_due_date :: "subscription \<Rightarrow> pydate" where
  "billing_due_date sub =
     (case sub_trial_ends_at sub of Some t \<Rightarrow> dt_date t | None \<Rightarrow> subscription_anchor_due_date sub)"

definition next_billing_date_after :: "pydate \<Rightarrow> string \<Rightarrow> pydate" where
  "next_billing_date_after d p = add_months_to_date d (billing_period_multiplier p)"

record payment_notice =
  pn_status :: string
  pn_failed_at :: pydate
  pn_grace_until :: pydate
  pn_is_expired :: bool

definition paid_after :: "invoice option \<Rightarrow> invoice \<Rightarrow> bool" where
  "paid_after paid failed = (case paid of None \<Rightarrow> False | Some p \<Rightarrow> inv_issued_at failed < inv_issued_at p)"

definition payment_warning :: "benv \<Rightarrow> int \<Rightarrow> bstate \<Rightarrow> payment_notice option" where
  "payment_warning e tid s =
     (case get_latest_invoice_for_type tid ''monthly_subscription_failed'' s of
        None \<Rightarrow> None
      | Some failed \<Rightarrow>
          if inv_status failed \<noteq> ''payment_failed'' then None
          else if paid_after (get_latest_invoice_for_type tid ''monthly_subscription'' s) failed then None
          else Some \<lparr>pn_status = ''payment_failed'', pn_failed_at = dt_date (inv_issued_at failed),
                     pn_grace_until = dt_date (inv_due_at failed) + 7,
                     pn_is_expired = (dt_date (inv_due_at failed) + 7 < dt_date (b_now e s))\<rparr>)"

definition billing_payment_notice :: "benv \<Rightarrow> int \<Rightarrow> subscription \<Rightarrow> bstate \<Rightarrow> payment_notice option" where
  "billing_payment_notice e tid sub s =
     (case payment_warning e tid s of
        Some n \<Rightarrow> Some n
      | None \<Rightarrow>
          if sub_plan_code sub = ''free'' then None
          else (let due_date = ie_due_at (estimate_next_invoice e sub s); today = dt_date (b_now e s)
                in if today \<le> due_date then None
                   else Some \<lparr>pn_status = ''payment_overdue'', pn_failed_at = due_date, pn_grace_until = due_date + 7,
                              pn_is_expired = (due_date + 7 < today)\<rparr>))"

end
