(* ===== verification/BillingCycle.thy ===== *)
theory BillingCycle
  imports BillingUsage
begin

text \<open>
  The subscription life cycle: the state machine and the use cases of \<open>workflows.py\<close>, and the
  billing step \<open>complete_subscription_billing\<close> of \<open>service.py\<close>. An operation returns its result
  or the exception it raises, and the state.
\<close>

section \<open>Status\<close>

definition resolve :: "subscription \<Rightarrow> invoice option \<Rightarrow> pydatetime \<Rightarrow> string" where
  "resolve sub overdue_invoice current =
     (if (case overdue_invoice of None \<Rightarrow> False
          | Some i \<Rightarrow> inv_status i \<in> {''issued'', ''payment_failed''} \<and> dt_date (inv_due_at i) < dt_date current)
      then ''restricted''
      else if sub_plan_code sub = ''free''
      then (case sub_trial_ends_at sub of
              Some t \<Rightarrow> if t \<le> current then ''restricted'' else ''trial''
            | None \<Rightarrow> ''trial'')
      else ''active'')"

definition active_or_trial :: "string \<Rightarrow> string" where
  "active_or_trial plan_code = (if plan_code \<noteq> ''free'' then ''active'' else ''trial'')"

text \<open>\<open>x or y\<close> on optional strings.\<close>

definition or_string :: "string option \<Rightarrow> string \<Rightarrow> string" where
  "or_string x y = (case x of None \<Rightarrow> y | Some s \<Rightarrow> if s = [] then y else s)"

text \<open>The overrides that put a scheduled change into effect.\<close>

definition apply_scheduled :: "string \<Rightarrow> subscription \<Rightarrow> subscription" where
  "apply_scheduled plan sub = sub\<lparr>
     sub_plan_code := plan,
     sub_billing_period := or_string (sub_scheduled_billing_period sub) (sub_billing_period sub),
     sub_status := active_or_trial plan,
     sub_trial_started_at := (if plan = ''free'' then sub_trial_started_at sub else None),
     sub_trial_ends_at := (if plan = ''free'' then sub_trial_ends_at sub else None),
     sub_scheduled_plan_code := None,
     sub_scheduled_billing_period := None,
     sub_scheduled_change_effective_period := None,
     sub_question_warning_period_key := None,
     sub_question_warning_level := 0\<rparr>"

definition scheduled_now :: "subscription \<Rightarrow> string \<Rightarrow> string option" where
  "scheduled_now sub period_key =
     (case sub_scheduled_plan_code sub of
        Some p \<Rightarrow> if p \<noteq> [] \<and> sub_scheduled_change_effective_period sub = Some period_key then Some p else None
      | None \<Rightarrow> None)"

definition renewal_execute :: "benv \<Rightarrow> tenant \<Rightarrow> subscription \<Rightarrow> string \<Rightarrow> pydate \<Rightarrow> bstate \<Rightarrow> subscription \<times> bstate" where
  "renewal_execute e t sub period_key due_this_month s =
     (case scheduled_now sub period_key of
        Some p \<Rightarrow> if due_this_month \<le> dt_date (b_now e s)
                  then upsert_from_existing e (te_tenant_id t) sub (apply_scheduled p) s
                  else (sub, s)
      | None \<Rightarrow> (sub, s))"

text \<open>The failed invoice that restricts a subscription, before its age is compared.\<close>

definition overdue_failed_invoice :: "benv \<Rightarrow> int \<Rightarrow> bstate \<Rightarrow> invoice option" where
  "overdue_failed_invoice e tid s =
     (case get_latest_invoice_for_type tid ''monthly_subscription_failed'' s of
        None \<Rightarrow> None
      | Some failed \<Rightarrow>
          if inv_status failed \<noteq> ''payment_failed'' then None
          else if \<not> paid_after (get_latest_invoice_for_type tid ''monthly_subscription'' s) failed
               \<and> dt_date (inv_due_at failed) < dt_date (b_now e s)
          then Some failed else None)"

definition sync_status :: "benv \<Rightarrow> tenant \<Rightarrow> subscription \<Rightarrow> bstate \<Rightarrow> subscription \<times> bstate" where
  "sync_status e t sub s =
     (let tid = te_tenant_id t;
          current = b_now e s;
          (cancellation_requires_restriction, s1) =
            (case get_latest_cancellation_request tid s of
               None \<Rightarrow> (False, s)
             | Some c \<Rightarrow>
                 if py_lower (ca_status c) \<noteq> ''deactivation_requested'' then (False, s)
                 else (case ca_effective_at c of
                         None \<Rightarrow> (False, s)
                       | Some eff \<Rightarrow>
                           if ca_deactivated_at c = None \<and> eff \<le> current
                           then (True, if dt_date eff + 7 \<le> dt_date current
                                       then snd (mark_cancellation_deactivated (ca_id c) current (deactivate_tenant tid s))
                                       else s)
                           else (False, s)));
          overdue = (case overdue_failed_invoice e tid s1 of
                       None \<Rightarrow> None
                     | Some i \<Rightarrow> if inv_issued_at i < sub_updated_at sub then None else Some i);
          next_status = (if cancellation_requires_restriction then ''restricted'' else resolve sub overdue current);
          s2 = (case overdue of
                  None \<Rightarrow> s1
                | Some i \<Rightarrow> if dt_date (inv_due_at i) + 7 \<le> dt_date current then deactivate_tenant tid s1 else s1)
      in if next_status = sub_status sub then (sub, s2)
         else upsert_from_existing e tid sub (\<lambda>r. r\<lparr>sub_status := next_status\<rparr>) s2)"

definition assert_not_restricted :: "benv \<Rightarrow> tenant \<Rightarrow> subscription \<Rightarrow> bstate \<Rightarrow> bool \<times> bstate" where
  "assert_not_restricted e t sub s =
     (let (current, s1) = sync_status e t sub s in (sub_status current \<noteq> ''restricted'', s1))"

section \<open>Billing a subscription\<close>

text \<open>\<open>f"{now:%Y%m%d%H%M%S%f}"[:16]\<close>: the time stamp to a hundredth of a second.\<close>

definition stamp16 :: "pydatetime \<Rightarrow> string" where
  "stamp16 t =
     (let d = dt_date t; us = t mod day_us
      in pad4 (date_year d) @ pad2 (date_month d) @ pad2 (date_day d)
         @ pad2 (us div 3600000000) @ pad2 (us div 60000000 mod 60) @ pad2 (us div 1000000 mod 60)
         @ pad2 (us mod 1000000 div 10000))"

record billing_run =
  br_status :: string
  br_billing_date :: pydate
  br_next_billing_date :: "pydate option"
  br_grace_until :: "pydate option"

definition mk_invoice :: "string \<Rightarrow> string \<Rightarrow> string \<Rightarrow> int \<Rightarrow> string \<Rightarrow> string \<Rightarrow> json list \<Rightarrow> pydatetime \<Rightarrow> pydatetime \<Rightarrow> int \<Rightarrow> invoice" where
  "mk_invoice ty key status total_cents method descr ls issued due i =
     \<lparr>inv_id = i, inv_tenant_id = 0, inv_type = ty, inv_period_key = key, inv_status = status,
      inv_currency = DEFAULT_CURRENCY, inv_total_cents = total_cents, inv_payment_method = method,
      inv_description = descr, inv_lines = ls, inv_issued_at = issued, inv_due_at = due\<rparr>"

text \<open>The period key a payment settles: that of the failed invoice still open, if there is one.\<close>

definition settled_period_key :: "int \<Rightarrow> string \<Rightarrow> bool \<Rightarrow> bstate \<Rightarrow> string" where
  "settled_period_key tid period_key force_new_invoice s =
     (case (if force_new_invoice then None else get_latest_invoice_for_type tid ''monthly_subscription_failed'' s) of
        None \<Rightarrow> period_key
      | Some f \<Rightarrow> if inv_status f = ''payment_failed''
                   \<and> \<not> paid_after (get_latest_invoice_for_type tid ''monthly_subscription'' s) f
                 then or_string (Some (inv_period_key f)) period_key else period_key)"

text \<open>
  The payment of the next period: the invoice (unless the period has one) and the new paid-until
  date. A failed invoice that is still open gives its period key to the payment.
\<close>

definition bill_success :: "benv \<Rightarrow> tenant \<Rightarrow> subscription \<Rightarrow> pydate \<Rightarrow> string \<Rightarrow> bool \<Rightarrow> bstate \<Rightarrow> billing_run res \<times> bstate" where
  "bill_success e t sub billing_date period_key force_new_invoice s =
     (let tid = te_tenant_id t;
          now = b_now e s;
          plan = sub_plan s sub;
          est = estimate_next_invoice e sub s;
          key = settled_period_key tid period_key force_new_invoice s;
          existing = (if force_new_invoice then None else get_invoice tid ''monthly_subscription'' key s);
          next_billing_date = next_billing_date_after billing_date (sub_billing_period sub);
          line = JObj [(''code'', JStr (bp_code plan)), (''name'', JStr (bp_name plan)),
            (''billing_period'', JStr (sub_billing_period sub)),
            (''period_multiplier'', JInt (billing_period_multiplier (sub_billing_period sub))),
            (''unit_price_cents'', JInt (plan_monthly_charge_cents_after_discount (bp_price_cents plan) (sub_billing_period sub))),
            (''extra_kb_count'', JInt (sub_extra_kb_count sub)),
            (''extra_storage_gb'', JInt (ie_next_extra_storage_gb est)),
            (''total_cents'', JInt (ie_total_cents est)),
            (''next_billing_date'', JStr (isoformat next_billing_date))];
          (created, s1) =
            (case existing of
               Some i \<Rightarrow> (Inr i, s)
             | None \<Rightarrow> create_invoice tid
                 (mk_invoice ''monthly_subscription'' key (invoice_paid_status (be_pay e)) (ie_total_cents est)
                    (invoice_payment_method (be_pay e))
                    (bp_name plan @ '' '' @ billing_period_label_hu (sub_billing_period sub) @ '' dij'')
                    [line] now now) s)
      in case created of
           Inl x \<Rightarrow> (Inl x, s1)
         | Inr _ \<Rightarrow>
             (Inr \<lparr>br_status = ''paid'', br_billing_date = billing_date, br_next_billing_date = Some next_billing_date,
                   br_grace_until = None\<rparr>,
              snd (upsert_from_existing e tid sub
                (\<lambda>r. r\<lparr>sub_plan_code := or_string (sub_scheduled_plan_code r) (sub_plan_code r),
                       sub_billing_period := or_string (sub_scheduled_billing_period r) (sub_billing_period r),
                       sub_status := ''active'', sub_trial_started_at := None,
                       sub_trial_ends_at := Some (dt_midnight next_billing_date),
                       sub_extra_storage_gb := ie_next_extra_storage_gb est,
                       sub_scheduled_plan_code := None, sub_scheduled_billing_period := None,
                       sub_scheduled_change_effective_period := None,
                       sub_question_warning_period_key := None, sub_question_warning_level := 0\<rparr>) s1)))"

definition bill_failed :: "benv \<Rightarrow> tenant \<Rightarrow> subscription \<Rightarrow> pydate \<Rightarrow> string \<Rightarrow> bool \<Rightarrow> bstate \<Rightarrow> billing_run res \<times> bstate" where
  "bill_failed e t sub billing_date period_key force_new_invoice s =
     (let tid = te_tenant_id t;
          now = b_now e s;
          plan = sub_plan s sub;
          est = estimate_next_invoice e sub s;
          existing_failed = (if force_new_invoice then None else get_invoice tid ''monthly_subscription_failed'' period_key s);
          previous_due_date =
            (case get_latest_invoice_for_type tid ''monthly_subscription_failed'' s of
               None \<Rightarrow> None
             | Some f \<Rightarrow> if inv_status f = ''payment_failed''
                          \<and> \<not> paid_after (get_latest_invoice_for_type tid ''monthly_subscription'' s) f
                        then Some (dt_date (inv_due_at f)) else None);
          restriction_due_date = (case previous_due_date of Some d \<Rightarrow> d | None \<Rightarrow> billing_date);
          line = JObj [(''code'', JStr (bp_code plan)), (''name'', JStr (bp_name plan)),
            (''billing_period'', JStr (sub_billing_period sub)),
            (''extra_storage_gb'', JInt (ie_next_extra_storage_gb est)),
            (''total_cents'', JInt (ie_total_cents est)), (''payment_failed'', JBool True)];
          (created, s1) =
            (case existing_failed of
               Some i \<Rightarrow> (Inr i, s)
             | None \<Rightarrow> create_invoice tid
                 (mk_invoice ''monthly_subscription_failed'' period_key ''payment_failed'' (ie_total_cents est)
                    ''simulated_card'' (''Sikertelen fizetes: '' @ bp_name plan) [line] now
                    (dt_midnight restriction_due_date)) s)
      in case created of
           Inl x \<Rightarrow> (Inl x, s1)
         | Inr _ \<Rightarrow>
             (Inr \<lparr>br_status = ''payment_failed'', br_billing_date = billing_date, br_next_billing_date = None,
                   br_grace_until = Some (restriction_due_date + 7)\<rparr>, s1))"

definition complete_subscription_billing ::
  "benv \<Rightarrow> tenant \<Rightarrow> subscription \<Rightarrow> string \<Rightarrow> bool \<Rightarrow> bool \<Rightarrow> bstate \<Rightarrow> billing_run res \<times> bstate" where
  "complete_subscription_billing e t sub outcome force force_new_invoice s =
     (let billing_date = billing_due_date sub;
          now = b_now e s
      in if dt_date now < billing_date \<and> \<not> force
         then (Inr \<lparr>br_status = ''not_due'', br_billing_date = billing_date, br_next_billing_date = None,
                    br_grace_until = None\<rparr>, s)
         else (let (sub1, s1) = (case scheduled_now sub (b_period_key e s) of
                     Some p \<Rightarrow> upsert_from_existing e (te_tenant_id t) sub (apply_scheduled p) s
                   | None \<Rightarrow> (sub, s));
                   period_key = (if force_new_invoice then stamp16 now else subscription_period_key billing_date)
               in if outcome = ''success'' then bill_success e t sub1 billing_date period_key force_new_invoice s1
                  else if outcome = ''failed'' then bill_failed e t sub1 billing_date period_key force_new_invoice s1
                  else (Inl (ValueError ''Ismeretlen szamlazasi kimenet.''), s1)))"

definition invoicing_execute :: "benv \<Rightarrow> tenant \<Rightarrow> subscription \<Rightarrow> bstate \<Rightarrow> unit res \<times> bstate" where
  "invoicing_execute e t sub s =
     (if sub_plan_code sub = ''free'' then (Inr (), s)
      else if sub_status sub = ''restricted'' then (Inr (), s)
      else (let billing_date = billing_due_date sub
            in if dt_date (b_now e s) < billing_date then (Inr (), s)
               else if get_invoice (te_tenant_id t) ''monthly_subscription'' (subscription_period_key billing_date) s \<noteq> None
               then (Inr (), s)
               else (case complete_subscription_billing e t sub ''success'' False False s of
                       (Inl x, s1) \<Rightarrow> (Inl x, s1)
                     | (Inr _, s1) \<Rightarrow> (Inr (), s1))))"

definition settle_subscription :: "benv \<Rightarrow> tenant \<Rightarrow> bstate \<Rightarrow> billing_run res \<times> bstate" where
  "settle_subscription e t s =
     (let (sub, s1) = ensure_subscription e t s;
          est = estimate_next_invoice e sub s1;
          payment = execute_payment (be_pay e) (ie_total_cents est)
            (''Havi elofizetes rendezese: '' @ sub_plan_code sub)
      in if pr_success payment then complete_subscription_billing e t sub ''success'' True False s1
         else complete_subscription_billing e t sub ''failed'' True False s1)"

section \<open>The periodic cycle\<close>

definition process_tenant :: "benv \<Rightarrow> string \<Rightarrow> pydate \<Rightarrow> tenant_row \<Rightarrow> bstate \<Rightarrow> unit res \<times> bstate" where
  "process_tenant e period_key due_this_month row s =
     (case get_snapshot_by_slug (tn_slug row) s of
        None \<Rightarrow> (Inr (), s)
      | Some snap \<Rightarrow>
          (let t = snapshot_of snap;
               (sub, s1) = ensure_subscription e t s;
               (sub, s2) = renewal_execute e t sub period_key due_this_month s1;
               (sub, s3) = sync_status e t sub s2
           in case invoicing_execute e t sub s3 of
                (Inl x, s4) \<Rightarrow> (Inl x, s4)
              | (Inr _, s4) \<Rightarrow> (Inr (), sync_tenant_config t sub s4)))"

fun process_tenants :: "benv \<Rightarrow> string \<Rightarrow> pydate \<Rightarrow> tenant_row list \<Rightarrow> bstate \<Rightarrow> unit res \<times> bstate" where
  "process_tenants e k d [] s = (Inr (), s)"
| "process_tenants e k d (row # rows) s =
     (case process_tenant e k d row s of
        (Inl x, s1) \<Rightarrow> (Inl x, s1)
      | (Inr _, s1) \<Rightarrow> process_tenants e k d rows s1)"

definition cycle_process :: "benv \<Rightarrow> bstate \<Rightarrow> unit res \<times> bstate" where
  "cycle_process e s =
     (case b_period e s of (period_key, _, _, due_this_month) \<Rightarrow>
        process_tenants e period_key due_this_month (list_active_tenants s) s)"

end
