(* ===== verification/BillingCancel.thy ===== *)
theory BillingCancel
  imports BillingCycle
begin

text \<open>
  Cancellation of a subscription and the life cycle that follows it (\<open>cancel_subscription\<close>,
  \<open>restore_subscription_renewal\<close>, \<open>delete_service_access\<close>, \<open>process_cancellation_lifecycle\<close> of
  \<open>service.py\<close>), and the entry points that run the due cycles. Display texts are written
  without accents. \<open>bs_mails\<close> collects the mails the transport accepted, \<open>bs_dropped\<close> the
  tenant schemas dropped.
\<close>

record cancellation_response =
  cr_status :: string
  cr_active_kb_count :: int
  cr_cancellation_request_id :: "int option"
  cr_current_period_end :: pydate

definition cancel_reasons :: "string list" where
  "cancel_reasons = [''too_expensive'', ''not_using'', ''not_satisfied'', ''missing_features'', ''other'']"

definition cancel_subscription ::
  "benv \<Rightarrow> tenant \<Rightarrow> string \<Rightarrow> string \<Rightarrow> int option \<Rightarrow> bstate \<Rightarrow> cancellation_response res \<times> bstate" where
  "cancel_subscription e t reason_code reason_text requested_by s =
     (let (sub, s1) = ensure_subscription e t s;
          active_kb_count = rc_knowledge_bases (be_resources e);
          paid_until_date = subscription_due_date (te_tenant_id t) sub s1;
          normalized_reason = py_norm reason_code
      in if normalized_reason \<notin> set cancel_reasons then (Inl (ValueError ''Ervenytelen lemondasi ok.''), s1)
         else (let effective_date = paid_until_date + 1;
                   (row, s2) = create_cancellation_request (be_now e) (te_tenant_id t) (te_slug t) requested_by
                     normalized_reason (take 2000 (py_strip reason_text)) active_kb_count ''deactivation_requested''
                     (Some (dt_midnight effective_date)) None s1
               in (Inr \<lparr>cr_status = ''deactivation_requested'', cr_active_kb_count = active_kb_count,
                        cr_cancellation_request_id = Some (ca_id row), cr_current_period_end = paid_until_date\<rparr>, s2)))"

definition already_active :: "pydate \<Rightarrow> cancellation_response" where
  "already_active d = \<lparr>cr_status = ''already_active'', cr_active_kb_count = 0, cr_cancellation_request_id = None,
     cr_current_period_end = d\<rparr>"

definition restore_subscription_renewal :: "benv \<Rightarrow> tenant \<Rightarrow> bstate \<Rightarrow> cancellation_response res \<times> bstate" where
  "restore_subscription_renewal e t s =
     (let (sub, s1) = ensure_subscription e t s;
          paid_until_date = subscription_due_date (te_tenant_id t) sub s1
      in case get_latest_cancellation_request (te_tenant_id t) s1 of
           None \<Rightarrow> (Inr (already_active paid_until_date), s1)
         | Some c \<Rightarrow>
             if py_lower (ca_status c) \<noteq> ''deactivation_requested'' then (Inr (already_active paid_until_date), s1)
             else if ca_deactivated_at c \<noteq> None
             then (Inl (ValueError ''A szolgaltatas hozzaferese mar le van tiltva, nem allithato vissza innen.''), s1)
             else (let (restored, s2) = restore_latest_cancellation_request (te_tenant_id t) (b_now e s1) s1
                   in if \<not> restored then (Inr (already_active paid_until_date), s2)
                      else (Inr \<lparr>cr_status = ''renewal_restored'', cr_active_kb_count = 0,
                                 cr_cancellation_request_id = Some (ca_id c), cr_current_period_end = paid_until_date\<rparr>, s2)))"

definition delete_service_access :: "benv \<Rightarrow> tenant \<Rightarrow> bstate \<Rightarrow> cancellation_response res \<times> bstate" where
  "delete_service_access e t s =
     (let (sub, s1) = ensure_subscription e t s;
          active_kb_count = rc_knowledge_bases (be_resources e);
          paid_until_date = subscription_due_date (te_tenant_id t) sub s1
      in if 0 < active_kb_count
         then (Inr \<lparr>cr_status = ''blocked_active_knowledge_bases'', cr_active_kb_count = active_kb_count,
                    cr_cancellation_request_id = None, cr_current_period_end = paid_until_date\<rparr>, s1)
         else (case get_latest_cancellation_request (te_tenant_id t) s1 of
                 None \<Rightarrow> (Inl (ValueError ''A szolgaltatas torlese elott rogzitsd a lemondast.''), s1)
               | Some c \<Rightarrow>
                   if py_lower (ca_status c) \<noteq> ''deactivation_requested''
                   then (Inl (ValueError ''A szolgaltatas torlese elott rogzitsd a lemondast.''), s1)
                   else (let (status, s2) =
                           (if ca_deactivated_at c = None
                            then (''deactivated'', snd (mark_cancellation_deactivated (ca_id c) (b_now e s1)
                                    (deactivate_tenant (te_tenant_id t) s1)))
                            else (''already_deactivated'', s1))
                         in (Inr \<lparr>cr_status = status, cr_active_kb_count = 0,
                                  cr_cancellation_request_id = Some (ca_id c), cr_current_period_end = paid_until_date\<rparr>, s2))))"

section \<open>The life cycle of a cancellation\<close>

definition is_slug_char :: "char \<Rightarrow> bool" where
  "is_slug_char c = (is_digit_char c \<or> (97 \<le> (of_char c :: nat) \<and> (of_char c :: nat) \<le> 122))"

definition tenant_slug_re :: "string \<Rightarrow> bool" where
  "tenant_slug_re s = (case s of [] \<Rightarrow> False
     | c # cs \<Rightarrow> is_slug_char c \<and> length cs \<le> 62 \<and> list_all (\<lambda>x. is_slug_char x \<or> x = CHR ''-'') cs)"

definition owner_email_for_tenant_slug :: "benv \<Rightarrow> string \<Rightarrow> string option" where
  "owner_email_for_tenant_slug e tenant_slug =
     (let slug = py_norm tenant_slug
      in if \<not> tenant_slug_re slug then None else strip_or_none (be_owner_email e slug))"

record cancel_metrics =
  cm_emails_sent :: nat
  cm_deactivated :: nat
  cm_deleted :: nat

text \<open>A notice: mail the owner, and on success mark the notice as sent; \<open>mark\<close> is the update.\<close>

definition send_notice :: "benv \<Rightarrow> string \<Rightarrow> string \<Rightarrow> (bstate \<Rightarrow> bool \<times> bstate) \<Rightarrow> cancel_metrics \<times> bstate \<Rightarrow> cancel_metrics \<times> bstate" where
  "send_notice e email body mark ms =
     (case ms of (m, s) \<Rightarrow>
        if be_send e email body
        then (case mark (s\<lparr>bs_mails := bs_mails s @ [(email, body)]\<rparr>) of
                (hit, s1) \<Rightarrow> (if hit then m\<lparr>cm_emails_sent := cm_emails_sent m + 1\<rparr> else m, s1))
        else (m, s))"

text \<open>The notices two days and one day before the end.\<close>

definition early_notices ::
  "benv \<Rightarrow> pydatetime \<Rightarrow> cancellation \<Rightarrow> pydatetime \<Rightarrow> cancel_metrics \<times> bstate \<Rightarrow> cancel_metrics \<times> bstate" where
  "early_notices e now row effective_at ms =
     (let days_until = dt_date effective_at - dt_date now
      in case owner_email_for_tenant_slug e (ca_tenant_slug row) of
           None \<Rightarrow> ms
         | Some mail \<Rightarrow>
             (let ms1 = (if days_until = 2 \<and> ca_notice_two_days_sent_at row = None
                         then send_notice e mail ''2 nap mulva lejar a szolgaltatas es toroljuk.''
                                (mark_cancellation_notice_two_days_sent (ca_id row) now) ms
                         else ms)
              in if days_until = 1 \<and> ca_notice_one_day_sent_at row = None
                 then send_notice e mail ''1 nap mulva lejar a szolgaltatas es torolni fogjuk.''
                        (mark_cancellation_notice_one_day_sent (ca_id row) now) ms1
                 else ms1))"

text \<open>The deactivation, a week after the end.\<close>

definition lifecycle_deactivate :: "pydatetime \<Rightarrow> cancellation \<Rightarrow> pydatetime \<Rightarrow> cancel_metrics \<times> bstate \<Rightarrow> cancel_metrics \<times> bstate" where
  "lifecycle_deactivate now row effective_at ms =
     (if ca_deactivated_at row = None \<and> dt_date effective_at + 7 \<le> dt_date now
      then (case mark_cancellation_deactivated (ca_id row) now (deactivate_tenant (ca_tenant_id row) (snd ms)) of
              (hit, s) \<Rightarrow> (if hit then (fst ms)\<lparr>cm_deactivated := cm_deactivated (fst ms) + 1\<rparr> else fst ms, s))
      else ms)"

text \<open>The notice after the end.\<close>

definition expired_notice ::
  "benv \<Rightarrow> pydatetime \<Rightarrow> cancellation \<Rightarrow> pydatetime \<Rightarrow> cancel_metrics \<times> bstate \<Rightarrow> cancel_metrics \<times> bstate" where
  "expired_notice e now row effective_at ms =
     (case owner_email_for_tenant_slug e (ca_tenant_slug row) of
        None \<Rightarrow> ms
      | Some mail \<Rightarrow>
          if effective_at \<le> now \<and> ca_notice_expired_sent_at row = None
          then send_notice e mail ''Lejart az elofizetes es toroltuk az nap ejfel utan.''
                 (mark_cancellation_notice_expired_sent (ca_id row) now) ms
          else ms)"

text \<open>The deletion, a week after the deactivation that the listed row shows.\<close>

definition lifecycle_delete :: "benv \<Rightarrow> pydatetime \<Rightarrow> cancellation \<Rightarrow> cancel_metrics \<times> bstate \<Rightarrow> cancel_metrics \<times> bstate" where
  "lifecycle_delete e now row ms =
     (case ca_deactivated_at row of
        None \<Rightarrow> ms
      | Some deactivated_at \<Rightarrow>
          if dt_date now < dt_date deactivated_at + 7 then ms
          else (let slug = py_strip (ca_tenant_slug row)
                in if be_has_engine e \<and> slug \<noteq> [] \<and> \<not> be_drop_schema e slug then ms
                   else (let s = snd ms;
                             s1 = (if be_has_engine e \<and> slug \<noteq> [] then s\<lparr>bs_dropped := bs_dropped s @ [slug]\<rparr> else s);
                             (hit, s2) = hard_delete_tenant (ca_tenant_id row) s1
                         in (if hit then (fst ms)\<lparr>cm_deleted := cm_deleted (fst ms) + 1\<rparr> else fst ms, s2))))"

definition lifecycle_row :: "benv \<Rightarrow> pydatetime \<Rightarrow> cancellation \<Rightarrow> cancel_metrics \<times> bstate \<Rightarrow> cancel_metrics \<times> bstate" where
  "lifecycle_row e now row ms =
     (case ca_effective_at row of
        None \<Rightarrow> ms
      | Some effective_at \<Rightarrow> 
          lifecycle_delete e now row (expired_notice e now row effective_at
            (lifecycle_deactivate now row effective_at (early_notices e now row effective_at ms))))"

definition process_cancellation_lifecycle :: "benv \<Rightarrow> bstate \<Rightarrow> cancel_metrics \<times> bstate" where
  "process_cancellation_lifecycle e s =
     fold (lifecycle_row e (b_now e s)) (list_cancellation_requests_for_lifecycle s)
       (\<lparr>cm_emails_sent = 0, cm_deactivated = 0, cm_deleted = 0\<rparr>, s)"

section \<open>Entry points\<close>

definition process_due_cycles :: "benv \<Rightarrow> bstate \<Rightarrow> unit res \<times> bstate" where
  "process_due_cycles e s =
     (let s1 = snd (process_cancellation_lifecycle e s)
      in if bs_clock s1 \<noteq> None then (Inr (), s1) else cycle_process e s1)"

definition service_set_debug_simulated_date :: "benv \<Rightarrow> pydate option \<Rightarrow> bstate \<Rightarrow> unit res \<times> bstate" where
  "service_set_debug_simulated_date e v s =
     process_due_cycles e ((set_debug_simulated_date v s)\<lparr>bs_clock := v\<rparr>)"

definition service_ensure_storage :: "bstate \<Rightarrow> bstate" where
  "service_ensure_storage s =
     (let s1 = seed_catalog default_catalog_rows s in s1\<lparr>bs_clock := get_debug_simulated_date s1\<rparr>)"

record access_status =
  as_restricted :: bool
  as_payment_warning :: "payment_notice option"

definition get_access_status :: "benv \<Rightarrow> tenant \<Rightarrow> bstate \<Rightarrow> access_status res \<times> bstate" where
  "get_access_status e t s =
     (let (_, s1) = ensure_subscription e t s
      in case process_due_cycles e s1 of
           (Inl x, s2) \<Rightarrow> (Inl x, s2)
         | (Inr _, s2) \<Rightarrow>
             (let (sub, s3) = ensure_subscription e t s2;
                  (sub, s4) = sync_status e t sub s3;
                  s5 = sync_tenant_config t sub s4
              in (Inr \<lparr>as_restricted = (sub_status sub = ''restricted''),
                       as_payment_warning = billing_payment_notice e (te_tenant_id t) sub s5\<rparr>, s5)))"

end
