(* ===== verification/BillingPlans.thy ===== *)
theory BillingPlans
  imports BillingCancel
begin

text \<open>
  Plan changes, payments and usage gates of the billing service (\<open>service.py\<close>): immediate and
  scheduled plan changes, the upgrade check-out and its payment webhook, add-on purchases, the
  \<open>can_...\<close> gates of the other modules and the usage counters with their warning mails.
\<close>

section \<open>Plan changes\<close>

definition service_upgrade_proration :: "benv \<Rightarrow> subscription \<Rightarrow> string \<Rightarrow> string \<Rightarrow> bstate \<Rightarrow> upgrade_proration option" where
  "service_upgrade_proration e sub normalized_plan normalized_period s =
     compute_upgrade_proration sub normalized_plan normalized_period (plan_map s)
       (dt_date (b_period_end e s)) (dt_date (b_now e s))"

definition apply_immediate_plan_change ::
  "benv \<Rightarrow> tenant \<Rightarrow> subscription \<Rightarrow> string \<Rightarrow> string \<Rightarrow> pydatetime option \<Rightarrow> bstate \<Rightarrow> subscription \<times> bstate" where
  "apply_immediate_plan_change e t sub normalized_plan normalized_period paid_until s =
     (let next_plan = the (plan_map s normalized_plan);
          carryover = max (sub_carryover_training_chars sub) (bp_included_training_chars next_plan);
          (updated, s1) = upsert_from_existing e (te_tenant_id t) sub
            (\<lambda>r. r\<lparr>sub_plan_code := normalized_plan, sub_billing_period := normalized_period,
                   sub_status := active_or_trial normalized_plan,
                   sub_trial_started_at := (if normalized_plan = ''free'' then sub_trial_started_at r else None),
                   sub_trial_ends_at := (if normalized_plan = ''free'' then sub_trial_ends_at r else paid_until),
                   sub_carryover_training_chars := carryover,
                   sub_scheduled_plan_code := None, sub_scheduled_billing_period := None,
                   sub_scheduled_change_effective_period := None\<rparr>) s
      in (updated, sync_tenant_config t updated s1))"

definition get_upgrade_preview :: "benv \<Rightarrow> tenant \<Rightarrow> string \<Rightarrow> string \<Rightarrow> bstate \<Rightarrow> upgrade_proration res \<times> bstate" where
  "get_upgrade_preview e t plan_code billing_period s =
     (let (sub, s1) = ensure_subscription e t s;
          normalized_plan = py_norm plan_code;
          normalized_period = normalize_billing_period billing_period
      in if sub_plan_code sub = ''free''
         then (Inl (ValueError ''Ingyenes csomagnal a szokasos elofizetesi oldalon valasszon csomagot.''), s1)
         else (case service_upgrade_proration e sub normalized_plan normalized_period s1 of
                 None \<Rightarrow> (Inl (ValueError ''Ez a valtas nem kezelheto elonezetkent.''), s1)
               | Some raw \<Rightarrow> (Inr raw, s1)))"

definition is_verified_payment_status :: "string \<Rightarrow> bool" where
  "is_verified_payment_status status = (py_norm status \<in> {''paid'', ''manual_paid'', ''simulated_paid''})"

definition is_upgrade_line :: "string \<Rightarrow> string \<Rightarrow> json \<Rightarrow> bool" where
  "is_upgrade_line target_plan target_period line =
     (is_jobj line \<and> str_or_empty (jget ''code'' line) = ''upgrade_new_period''
      \<and> str_or_empty (jget ''target_plan_code'' line) = target_plan
      \<and> str_or_empty (jget ''billing_period'' line) = target_period)"

definition latest_verified_upgrade_invoice :: "int \<Rightarrow> string \<Rightarrow> string \<Rightarrow> bstate \<Rightarrow> invoice option" where
  "latest_verified_upgrade_invoice tid target_plan target_period s =
     find (\<lambda>i. inv_type i = ''plan_upgrade'' \<and> is_verified_payment_status (inv_status i)
             \<and> list_ex (is_upgrade_line target_plan target_period) (inv_lines i))
       (list_recent_invoices tid 100 s)"

definition fee_line :: "string \<Rightarrow> int \<Rightarrow> json list" where
  "fee_line code fee = (if 0 < fee then [JObj [(''code'', JStr code), (''name'', JStr ''Egyszeri betanitasi koltseg''),
     (''total_cents'', JInt fee)]] else [])"

definition credit_line :: "int \<Rightarrow> json" where
  "credit_line credit = JObj [(''code'', JStr ''upgrade_old_period_credit''),
     (''name'', JStr ''Regi dijresz jovairasa''), (''total_cents'', JInt (- credit))]"

definition opt_jstr :: "string option \<Rightarrow> json" where
  "opt_jstr x = (case x of None \<Rightarrow> JNull | Some s \<Rightarrow> JStr s)"

section \<open>The payment webhook\<close>

definition jint_or :: "json \<Rightarrow> json \<Rightarrow> int" where
  "jint_or a b = jint (jor a b)"

text \<open>
  The event row references the tenant, so an event of an unknown tenant is refused by the table.
  \<open>f"pe{int(event.id):014d}"[:16]\<close> is the period key of the invoice.
\<close>

definition event_period_key :: "int \<Rightarrow> string" where
  "event_period_key i = (let d = show_int i in take 16 (''pe'' @ replicate (14 - length d) (CHR ''0'') @ d))"

text \<open>What a newly recorded event does; \<open>i\<close> is the id of the event row.\<close>

definition apply_payment_event ::
  "benv \<Rightarrow> string \<Rightarrow> string \<Rightarrow> string \<Rightarrow> int \<Rightarrow> json \<Rightarrow> json \<Rightarrow> int \<Rightarrow> bstate \<Rightarrow> string res \<times> bstate" where
  "apply_payment_event e prov eid ety tid metadata payload i s1 =
     (let flow = py_norm (str_or_empty (jor (jget ''flow'' metadata) (jget ''flow'' payload)))
      in if flow \<noteq> ''plan_upgrade'' \<or> ety \<notin> {''checkout.session.completed'', ''invoice.paid'', ''payment.succeeded''}
         then (Inr ''recorded'', s1)
         else (let target_plan = py_norm (str_or_empty (jor (jget ''target_plan'' metadata) (jget ''to_plan'' metadata)));
                   target_period = normalize_billing_period (scalar_str (jor (jget ''billing_period'' metadata) (JStr ''monthly'')))
               in case get_tenant tid s1 of
                    None \<Rightarrow> (Inl (ValueError ''Ismeretlen tenant.''), s1)
                  | Some row \<Rightarrow>
                      (let t = snapshot_of row;
                           (sub, s2) = ensure_subscription e t s1
                       in case service_upgrade_proration e sub target_plan target_period s2 of
                            None \<Rightarrow> (Inl (ValueError ''Ervenytelen webhook upgrade payload.''), s2)
                          | Some preview \<Rightarrow>
                              (let (_, s3) = apply_immediate_plan_change e t sub target_plan target_period
                                     (Some (dt_midnight (up_paid_until preview))) s2;
                                   issued_at = b_now e s3;
                                   next_plan = the (plan_map s3 target_plan);
                                   amount = jor (jor (jget ''amount_cents'' metadata) (jget ''amount_cents'' payload))
                                     (JInt (up_total_charge_cents preview))
                               in case json_int amount of
                                    Inl x \<Rightarrow> (Inl x, s3)
                                  | Inr total_charge \<Rightarrow>
                                      (let key = event_period_key i;
                                           charge = up_next_period_charge_cents preview;
                                           ls = [JObj [(''code'', JStr ''upgrade_new_period''),
                                                  (''name'', JStr (''Uj csomag teljes dija ('' @ billing_period_label_hu target_period @ '')'')),
                                                  (''target_plan_code'', JStr target_plan),
                                                  (''billing_period'', JStr target_period),
                                                  (''total_cents'', JInt (if charge \<noteq> 0 then charge else total_charge)),
                                                  (''paid_until_iso'', JStr (isoformat (up_paid_until preview))),
                                                  (''payment_provider'', JStr prov), (''payment_reference'', JStr eid)],
                                                 credit_line (up_old_remaining_credit_cents preview)]
                                                @ fee_line ''upgrade_training_initial_fee'' (up_training_initial_fee_cents preview)
                                       in if get_invoice tid ''plan_upgrade'' key s3 \<noteq> None then (Inr ''processed'', s3)
                                          else (case create_invoice tid
                                                  (mk_invoice ''plan_upgrade'' key ''paid'' total_charge prov
                                                     (''Webhook verified csomagvaltas: '' @ bp_name next_plan) ls issued_at issued_at) s3 of
                                                  (Inl x, s4) \<Rightarrow> (Inl x, s4)
                                                | (Inr _, s4) \<Rightarrow> (Inr ''processed'', s4)))))))"

text \<open>The metadata object and the tenant of a payload.\<close>

definition event_metadata :: "json \<Rightarrow> json" where
  "event_metadata payload = (if is_jobj (jget ''metadata'' payload) then jget ''metadata'' payload else JObj [])"

definition event_tenant :: "json \<Rightarrow> int res" where
  "event_tenant payload =
     json_int (jor (jor (jget ''tenant_id'' (event_metadata payload)) (jget ''tenant_id'' payload)) (JInt 0))"

definition process_verified_payment_event ::
  "benv \<Rightarrow> string \<Rightarrow> string \<Rightarrow> string \<Rightarrow> json \<Rightarrow> bstate \<Rightarrow> string res \<times> bstate" where
  "process_verified_payment_event e raw_provider event_id event_type payload s =
     (let prov = py_norm raw_provider; eid = py_strip event_id; ety = py_norm event_type
      in if prov = [] \<or> eid = [] then (Inl (ValueError ''Hianyzo payment event azonosito.''), s)
         else (case event_tenant payload of
                 Inl x \<Rightarrow> (Inl x, s)
               | Inr tid \<Rightarrow>
                   if tid \<le> 0 then (Inl (ValueError ''Hianyzo tenant azonosito a payment eventben.''), s)
                   else if tbl_first (same_event (prov, eid)) (bs_events s) = None \<and> get_tenant tid s = None
                   then (Inl (IntegrityError ''billing_payment_events_tenant_id_fkey''), s)
                   else (let ((event, is_new), s1) = record_payment_event_once (prov, eid) (ety, tid, payload) s
                         in if \<not> is_new then (Inr ''duplicate'', s1)
                            else apply_payment_event e prov eid ety tid (event_metadata payload) payload (pe_id event) s1)))"

section \<open>Check-out\<close>

record upgrade_complete =
  uc_status :: string
  uc_old_remaining_credit_cents :: int
  uc_next_period_charge_cents :: int
  uc_training_initial_fee_cents :: int
  uc_total_charge_cents :: int
  uc_paid_until :: pydate

definition upgrade_answer :: "string \<Rightarrow> upgrade_proration \<Rightarrow> upgrade_complete" where
  "upgrade_answer status p = \<lparr>uc_status = status, uc_old_remaining_credit_cents = up_old_remaining_credit_cents p,
     uc_next_period_charge_cents = up_next_period_charge_cents p,
     uc_training_initial_fee_cents = up_training_initial_fee_cents p,
     uc_total_charge_cents = up_total_charge_cents p, uc_paid_until = up_paid_until p\<rparr>"

definition complete_upgrade_after_checkout ::
  "benv \<Rightarrow> tenant \<Rightarrow> string \<Rightarrow> string \<Rightarrow> bstate \<Rightarrow> upgrade_complete res \<times> bstate" where
  "complete_upgrade_after_checkout e t plan_code billing_period s =
     (let (sub, s1) = ensure_subscription e t s;
          tid = te_tenant_id t;
          plan = py_norm plan_code;
          period = normalize_billing_period billing_period
      in if plan_map s1 plan = None then (Inl (ValueError ''Ismeretlen csomag.''), s1)
         else if sub_plan_code sub = ''free''
         then (Inl (ValueError ''Ingyenes csomagnal a szokasos elofizetesi oldalon valasszon csomagot.''), s1)
         else if is_downgrade sub plan (plan_map s1)
         then (Inl (ValueError ''Csomagcsokkentes nem ezen az uton intezheto.''), s1)
         else if sub_plan_code sub = plan \<and> sub_billing_period sub = period
         then (Inr \<lparr>uc_status = ''already_active'', uc_old_remaining_credit_cents = 0, uc_next_period_charge_cents = 0,
                    uc_training_initial_fee_cents = 0, uc_total_charge_cents = 0,
                    uc_paid_until = subscription_due_date tid sub s1\<rparr>, s1)
         else (case service_upgrade_proration e sub plan period s1 of
                 None \<Rightarrow> (Inl (ValueError ''Ervenytelen csomagvaltas.''), s1)
               | Some preview \<Rightarrow>
                   if is_simulated_provider (be_pay e)
                   then (let (_, s2) = apply_immediate_plan_change e t sub plan period
                               (Some (dt_midnight (up_paid_until preview))) s1;
                             issued_at = b_now e s2;
                             next_plan = the (plan_map s2 plan);
                             key = stamp16 issued_at;
                             ls = [JObj [(''code'', JStr ''upgrade_new_period''),
                                    (''name'', JStr (''Uj csomag teljes dija ('' @ billing_period_label_hu period @ '')'')),
                                    (''target_plan_code'', JStr plan), (''billing_period'', JStr period),
                                    (''total_cents'', JInt (up_next_period_charge_cents preview)),
                                    (''paid_until_iso'', JStr (isoformat (up_paid_until preview))),
                                    (''simulated_payment'', JBool True), (''payment_provider'', JStr (provider (be_pay e))),
                                    (''payment_reference'', JNull)],
                                   credit_line (up_old_remaining_credit_cents preview)]
                                  @ fee_line ''upgrade_training_initial_fee'' (up_training_initial_fee_cents preview)
                         in if get_invoice tid ''plan_upgrade'' key s2 \<noteq> None
                            then (Inr (upgrade_answer ''updated'' preview), s2)
                            else (case create_invoice tid
                                    (mk_invoice ''plan_upgrade'' key (invoice_paid_status (be_pay e))
                                       (up_total_charge_cents preview) (invoice_payment_method (be_pay e))
                                       (''Szimulalt csomagvaltas: '' @ bp_name next_plan) ls issued_at issued_at) s2 of
                                    (Inl x, s3) \<Rightarrow> (Inl x, s3)
                                  | (Inr _, s3) \<Rightarrow> (Inr (upgrade_answer ''updated'' preview), s3)))
                   else (Inr (upgrade_answer
                           (if latest_verified_upgrade_invoice tid plan period s1 \<noteq> None
                            then ''paid_pending_activation'' else ''pending_payment'') preview), s1)))"

section \<open>Changing the subscription\<close>

definition year_month_key :: "pydatetime \<Rightarrow> string" where
  "year_month_key t = period_key_of (date_year (dt_date t)) (date_month (dt_date t))"

definition update_subscription :: "benv \<Rightarrow> tenant \<Rightarrow> string \<Rightarrow> string \<Rightarrow> bstate \<Rightarrow> string res \<times> bstate" where
  "update_subscription e t plan_code billing_period s =
     (let plan = py_norm plan_code; tid = te_tenant_id t
      in if plan_map s plan = None then (Inl (ValueError ''Ismeretlen csomag.''), s)
         else (let period = normalize_billing_period billing_period;
                   (sub, s1) = ensure_subscription e t s;
                   effective_period_key = year_month_key (b_period_end e s1)
               in if is_scheduled_change sub plan period (plan_map s1)
                  then (let (updated, s2) = upsert_from_existing e tid sub
                              (\<lambda>r. r\<lparr>sub_scheduled_plan_code := Some plan, sub_scheduled_billing_period := Some period,
                                     sub_scheduled_change_effective_period := Some effective_period_key\<rparr>) s1
                        in (Inr ''scheduled'', sync_tenant_config t updated s2))
                  else (let was_free_checkout = (sub_plan_code sub = ''free'' \<and> plan \<noteq> ''free'');
                            paid_until = paid_until_after_upgrade (dt_date (b_now e s1)) period;
                            (_, s2) = apply_immediate_plan_change e t sub plan period
                              (if was_free_checkout then Some (dt_midnight paid_until) else None) s1
                        in if \<not> was_free_checkout then (Inr ''updated'', s2)
                           else (let issued_at = b_now e s2;
                                     p = the (plan_map s plan);
                                     mult = billing_period_multiplier period;
                                     unit = plan_monthly_charge_cents_after_discount (bp_price_cents p) period;
                                     plan_total = unit * mult;
                                     fee = training_initial_fee_cents_for_plan plan;
                                     key = stamp16 issued_at;
                                     ls = [JObj [(''code'', JStr (bp_code p)), (''name'', JStr (bp_name p)),
                                            (''billing_period'', JStr period), (''period_multiplier'', JInt mult),
                                            (''unit_price_cents'', JInt unit), (''quantity'', JInt 1),
                                            (''total_cents'', JInt plan_total),
                                            (''paid_until_iso'', JStr (isoformat paid_until)),
                                            (''simulated_payment'', JBool (is_simulated_provider (be_pay e))),
                                            (''payment_provider'', JStr (provider (be_pay e))), (''payment_reference'', JNull)]]
                                          @ fee_line ''training_initial_fee'' fee
                                 in if get_invoice tid ''monthly_subscription'' key s2 \<noteq> None then (Inr ''updated'', s2)
                                    else (case create_invoice tid
                                            (mk_invoice ''monthly_subscription'' key (invoice_paid_status (be_pay e))
                                               (plan_total + fee) (invoice_payment_method (be_pay e))
                                               (bp_name p @ '' '' @ billing_period_label_hu period @ '' dij'') ls issued_at issued_at) s2 of
                                            (Inl x, s3) \<Rightarrow> (Inl x, s3)
                                          | (Inr _, s3) \<Rightarrow> (Inr ''updated'', s3))))))"

section \<open>Add-ons\<close>

definition addon_effect :: "billing_plan \<Rightarrow> billing_addon \<Rightarrow> string \<Rightarrow> int \<Rightarrow> subscription \<Rightarrow> subscription" where
  "addon_effect plan addon code qty sub =
     (if code = ''question_pack_100'' then sub\<lparr>sub_carryover_addon_questions := sub_carryover_addon_questions sub + 100 * qty\<rparr>
      else if code = ''question_pack_500'' then sub\<lparr>sub_carryover_addon_questions := sub_carryover_addon_questions sub + 500 * qty\<rparr>
      else if code = ''extra_kb'' then sub\<lparr>sub_extra_kb_count := sub_extra_kb_count sub + qty\<rparr>
      else if code = ''extra_storage_gb'' then sub\<lparr>sub_extra_storage_gb := sub_extra_storage_gb sub + qty\<rparr>
      else if code \<in> {''training_initial_500k'', ''training_extra_500k''}
      then (let base = max (sub_carryover_training_chars sub) (bp_included_training_chars plan);
                chars = jint_or (kv_get ''training_chars'' (ba_metadata addon)) (JInt 1000000)
            in sub\<lparr>sub_carryover_training_chars := base + max 0 chars * qty\<rparr>)
      else sub)"

definition purchase_addon :: "benv \<Rightarrow> tenant \<Rightarrow> string \<Rightarrow> int \<Rightarrow> bstate \<Rightarrow> invoice res \<times> bstate" where
  "purchase_addon e t addon_code quantity s =
     (let code = py_norm addon_code; tid = te_tenant_id t
      in case addon_map s code of
           None \<Rightarrow> (Inl (ValueError ''Ismeretlen addon.''), s)
         | Some addon \<Rightarrow>
             (let qty = max 1 (if quantity = 0 then 1 else quantity);
                  total_cents = ba_price_cents addon * qty;
                  payment = execute_payment (be_pay e) total_cents
                    (''Addon vasarlas: '' @ ba_name addon @ '' x '' @ show_int qty)
              in if \<not> pr_success payment
                 then (Inl (ValueError (or_string (pr_message payment) ''A fizetes nem sikerult.'')), s)
                 else (let (sub, s1) = ensure_subscription e t s;
                           (updated, s2) = upsert_from_existing e tid sub (addon_effect (sub_plan s1 sub) addon code qty) s1;
                           s3 = sync_tenant_config t updated s2;
                           issued_at = b_now e s3
                       in create_invoice tid
                            (mk_invoice (''addon:'' @ code) (stamp16 issued_at) (invoice_paid_status (be_pay e)) total_cents
                               (invoice_payment_method (be_pay e)) (ba_name addon @ '' x '' @ show_int qty)
                               [JObj [(''code'', JStr (ba_code addon)), (''name'', JStr (ba_name addon)),
                                 (''quantity'', JInt qty), (''unit_price_cents'', JInt (ba_price_cents addon)),
                                 (''total_cents'', JInt total_cents),
                                 (''simulated_payment'', JBool (is_simulated_provider (be_pay e))),
                                 (''payment_provider'', JStr (provider (be_pay e))),
                                 (''payment_reference'', opt_jstr (pr_external_id payment))]]
                               issued_at issued_at) s3)))"

section \<open>Gates\<close>

definition can_create_user :: "benv \<Rightarrow> tenant \<Rightarrow> bstate \<Rightarrow> bool \<times> bstate" where
  "can_create_user e t s =
     (let (sub, s1) = ensure_subscription e t s;
          (allowed, s2) = assert_not_restricted e t sub s1
      in if \<not> allowed then (False, s2)
         else (case lim_max_users (build_limits s2 sub) of
                 None \<Rightarrow> (True, s2)
               | Some m \<Rightarrow> (\<not> m \<le> rc_users (be_resources e), s2)))"

definition can_create_kb :: "benv \<Rightarrow> tenant \<Rightarrow> bstate \<Rightarrow> bool \<times> bstate" where
  "can_create_kb e t s =
     (let (sub, s1) = ensure_subscription e t s;
          (allowed, s2) = assert_not_restricted e t sub s1
      in if \<not> allowed then (False, s2)
         else (\<not> lim_knowledge_bases (build_limits s2 sub) \<le> rc_knowledge_bases (be_resources e), s2))"

definition can_consume_question :: "benv \<Rightarrow> tenant \<Rightarrow> bstate \<Rightarrow> bool \<times> bstate" where
  "can_consume_question e t s =
     (if py_lower (be_billing_disabled e) \<in> {''1'', ''true'', ''yes''} then (True, s)
      else (let (sub, s1) = ensure_subscription e t s;
                (allowed, s2) = assert_not_restricted e t sub s1
            in if \<not> allowed then (False, s2)
               else (\<not> qs_remaining_total (question_usage_summary e (te_tenant_id t) sub s2) \<le> 0, s2)))"

definition can_consume_training_chars :: "benv \<Rightarrow> tenant \<Rightarrow> int \<Rightarrow> bstate \<Rightarrow> bool \<times> bstate" where
  "can_consume_training_chars e t char_count s =
     (if char_count \<le> 0 then (True, s)
      else (let (sub, s1) = ensure_subscription e t s;
                (allowed, s2) = assert_not_restricted e t sub s1
            in if \<not> allowed then (False, s2)
               else (\<not> ts_remaining_training_chars (training_usage_summary e (te_tenant_id t) sub s2) < char_count, s2)))"

definition record_training_ingest :: "benv \<Rightarrow> tenant \<Rightarrow> int \<Rightarrow> int \<Rightarrow> bstate \<Rightarrow> bstate" where
  "record_training_ingest e t char_count storage_bytes s =
     (let (_, s1) = ensure_subscription e t s
      in increment_training_usage (te_tenant_id t) (b_period_key e s1) (max 0 char_count) (max 0 storage_bytes) s1)"

definition tenant_has_training_material :: "benv \<Rightarrow> tenant \<Rightarrow> bstate \<Rightarrow> bool \<times> bstate" where
  "tenant_has_training_material e t s =
     (let (sub, s1) = ensure_subscription e t s;
          training = training_usage_summary e (te_tenant_id t) sub s1
      in (0 < ts_trained_chars training \<or> 0 < ts_storage_bytes training, s1))"

definition warning_level :: "int \<Rightarrow> int" where
  "warning_level percent_used = fold (\<lambda>level target. if level \<le> percent_used then level else target) [90, 100] 0"

text \<open>\<open>owner\<close>: the address of the owner, if the tenant has one.\<close>

definition send_question_warning_if_needed :: "benv \<Rightarrow> string option \<Rightarrow> tenant \<Rightarrow> subscription \<Rightarrow> bstate \<Rightarrow> bstate" where
  "send_question_warning_if_needed e owner t sub s =
     (let usage = question_usage_summary e (te_tenant_id t) sub s
      in if qs_available_total usage \<le> 0 then s
         else (let period_key = qs_period_key usage;
                   current_level = (if sub_question_warning_period_key sub = Some period_key
                                    then sub_question_warning_level sub else 0);
                   target_level = warning_level (qs_percent_used usage)
               in if target_level \<le> current_level then s
                  else (case owner of
                          None \<Rightarrow> s
                        | Some mail \<Rightarrow>
                            if mail = [] then s
                            else (let body = te_slug t @ '': '' @ show_int target_level @ ''%'';
                                      s1 = (if be_send e mail body then s\<lparr>bs_mails := bs_mails s @ [(mail, body)]\<rparr> else s)
                                  in snd (upsert_from_existing e (te_tenant_id t) sub
                                       (\<lambda>r. r\<lparr>sub_question_warning_period_key := Some period_key,
                                              sub_question_warning_level := target_level\<rparr>) s1)))))"

definition record_question :: "benv \<Rightarrow> string option \<Rightarrow> tenant \<Rightarrow> int \<Rightarrow> bstate \<Rightarrow> bstate" where
  "record_question e owner t user_id s =
     (let (sub, s1) = ensure_subscription e t s;
          s2 = upsert_question_usage (be_now e) (te_tenant_id t) user_id (b_period_key e s1) 1 s1
      in send_question_warning_if_needed e owner t sub s2)"

end
