(* ===== verification/BillingSteps.thy ===== *)
theory BillingSteps
  imports BillingPlans
begin

text \<open>
  Every operation of the billing service is a sequence of primitive table writes
  (\<open>bprim\<close>). What all writes keep holds for the whole service: the keys of the tables stay
  unique, an invoice is never changed, and no operation re-activates a tenant.
\<close>

section \<open>Primitive writes\<close>

definition keeps_tenant :: "(tenant_row \<Rightarrow> tenant_row) \<Rightarrow> bool" where
  "keeps_tenant f = (\<forall>r. tn_id (f r) = tn_id r \<and> tn_slug (f r) = tn_slug r \<and> (tn_is_active (f r) \<longrightarrow> tn_is_active r))"

definition keeps_cancel :: "(cancellation \<Rightarrow> cancellation) \<Rightarrow> bool" where
  "keeps_cancel f = (\<forall>r. ca_id (f r) = ca_id r \<and> ca_tenant_id (f r) = ca_tenant_id r \<and> ca_effective_at (f r) = ca_effective_at r)"

inductive bprim :: "bstate \<Rightarrow> bstate \<Rightarrow> bool" where
  p_upsert: "bprim s (snd (upsert_subscription now tid v s))"
| p_tenant: "keeps_tenant f \<Longrightarrow> bprim s (tn_update tid f s)"
| p_invoice: "bprim s (snd (create_invoice tid mk s))"
| p_event: "bprim s (snd (record_payment_event_once k x s))"
| p_cancel: "bprim s (snd (create_cancellation_request now tid slug by rc rt kbs st eff dea s))"
| p_mark: "keeps_cancel f \<Longrightarrow> bprim s (s\<lparr>bs_cancels := tbl_update p f (bs_cancels s)\<rparr>)"
| p_delete: "bprim s (snd (hard_delete_tenant tid s))"
| p_mail: "bprim s (s\<lparr>bs_mails := m\<rparr>)"
| p_dropped: "bprim s (s\<lparr>bs_dropped := d\<rparr>)"
| p_question: "bprim s (upsert_question_usage now tid uid pk n s)"
| p_training: "bprim s (increment_training_usage tid pk a b s)"
| p_clock: "bprim s (s\<lparr>bs_clock := c\<rparr>)"
| p_catalog: "bprim s (seed_catalog default_catalog_rows s)"
| p_simulated: "bprim s (set_debug_simulated_date dv s)"

definition bsteps :: "bstate \<Rightarrow> bstate \<Rightarrow> bool" where
  "bsteps = bprim\<^sup>*\<^sup>*"

named_theorems steps \<open>a primitive write or an operation as steps\<close>

lemma bsteps_refl [simp]: "bsteps s s"
  by (simp add: bsteps_def)

lemma bsteps_prim: "bsteps a b \<Longrightarrow> bprim b c \<Longrightarrow> bsteps a c"
  by (simp add: bsteps_def)

lemma bsteps_trans: "bsteps a b \<Longrightarrow> bsteps b c \<Longrightarrow> bsteps a c"
  by (simp add: bsteps_def)

lemma bsteps_mono:
  assumes "bsteps a b" "\<And>s s'. bprim s s' \<Longrightarrow> P s \<Longrightarrow> P s'" "P a"
  shows "P b"
  using assms(1) unfolding bsteps_def by (induction rule: rtranclp_induct) (use assms in auto)

lemma steps_prims [steps]:
  "bsteps a b \<Longrightarrow> bsteps a (snd (upsert_subscription now tid v b))"
  "bsteps a b \<Longrightarrow> keeps_tenant f \<Longrightarrow> bsteps a (tn_update tid f b)"
  "bsteps a b \<Longrightarrow> bsteps a (snd (create_invoice tid mk b))"
  "bsteps a b \<Longrightarrow> bsteps a (snd (record_payment_event_once k x b))"
  "bsteps a b \<Longrightarrow> bsteps a (snd (create_cancellation_request now tid slug by rc rt kbs st eff dea b))"
  "bsteps a b \<Longrightarrow> bsteps a (snd (hard_delete_tenant tid b))"
  "bsteps a b \<Longrightarrow> bsteps a (b\<lparr>bs_mails := m\<rparr>)"
  "bsteps a b \<Longrightarrow> bsteps a (b\<lparr>bs_dropped := d\<rparr>)"
  "bsteps a b \<Longrightarrow> bsteps a (upsert_question_usage now tid uid pk n b)"
  "bsteps a b \<Longrightarrow> bsteps a (increment_training_usage tid pk ca cb b)"
  "bsteps a b \<Longrightarrow> bsteps a (b\<lparr>bs_clock := c\<rparr>)"
  "bsteps a b \<Longrightarrow> bsteps a (set_debug_simulated_date dv b)"
  "bsteps a b \<Longrightarrow> bsteps a (seed_catalog default_catalog_rows b)"
  by (blast intro: bsteps_prim bprim.intros)+

lemma steps_mark [steps]: "bsteps a b \<Longrightarrow> keeps_cancel f \<Longrightarrow> bsteps a (snd (ca_mark col f i b))"
  by (auto simp: ca_mark_def Let_def intro: bsteps_prim p_mark)

lemma steps_marks [steps]:
  "bsteps a b \<Longrightarrow> bsteps a (snd (mark_cancellation_notice_two_days_sent i t b))"
  "bsteps a b \<Longrightarrow> bsteps a (snd (mark_cancellation_notice_one_day_sent i t b))"
  "bsteps a b \<Longrightarrow> bsteps a (snd (mark_cancellation_notice_expired_sent i t b))"
  "bsteps a b \<Longrightarrow> bsteps a (snd (mark_cancellation_deactivated i t b))"
  "bsteps a b \<Longrightarrow> bsteps a (snd (restore_latest_cancellation_request tid t b))"
  by (simp_all add: mark_cancellation_notice_two_days_sent_def mark_cancellation_notice_one_day_sent_def
      mark_cancellation_notice_expired_sent_def mark_cancellation_deactivated_def
      restore_latest_cancellation_request_def steps_mark keeps_cancel_def split: option.splits)

lemma steps_tenant [steps]:
  "bsteps a b \<Longrightarrow> bsteps a (deactivate_tenant tid b)"
  "bsteps a b \<Longrightarrow> bsteps a (create_config tid pk fl li b)"
  "bsteps a b \<Longrightarrow> bsteps a (sync_tenant_config t sub b)"
  by (simp_all add: deactivate_tenant_def create_config_def sync_tenant_config_def Let_def steps keeps_tenant_def)

lemma steps_existing [steps]: "bsteps a b \<Longrightarrow> bsteps a (snd (upsert_from_existing e tid sub f b))"
  by (simp add: upsert_from_existing_def steps)

lemma steps_ensure [steps]: "bsteps a b \<Longrightarrow> bsteps a (snd (ensure_subscription e t b))"
  by (simp add: ensure_subscription_def Let_def split_def steps split: option.splits)

lemma steps_signup [steps]: "bsteps a b \<Longrightarrow> bsteps a (set_signup_subscription e tid slug p q b)"
  by (simp add: set_signup_subscription_def Let_def split_def steps split: option.splits)

lemma steps_apply [steps]: "bsteps a b \<Longrightarrow> bsteps a (snd (apply_immediate_plan_change e t sub p q u b))"
  by (simp add: apply_immediate_plan_change_def Let_def split_def steps)

section \<open>The operations as steps\<close>

lemma steps_renewal [steps]: "bsteps a b \<Longrightarrow> bsteps a (snd (renewal_execute e t sub k d b))"
  by (simp add: renewal_execute_def steps split: option.splits)

lemma steps_sync [steps]: "bsteps a b \<Longrightarrow> bsteps a (snd (sync_status e t sub b))"
  by (simp add: sync_status_def Let_def split_def steps split: option.splits)

lemma steps_assert [steps]: "bsteps a b \<Longrightarrow> bsteps a (snd (assert_not_restricted e t sub b))"
  by (simp add: assert_not_restricted_def split_def Let_def steps)

lemma steps_bill [steps]:
  "bsteps a b \<Longrightarrow> bsteps a (snd (bill_success e t sub d k f b))"
  "bsteps a b \<Longrightarrow> bsteps a (snd (bill_failed e t sub d k f b))"
proof -
  assume s: "bsteps a b"
  have c: "create_invoice tid mk b = (r, b') \<Longrightarrow> bsteps a b'" for tid mk r b'
    using steps_prims(3) [OF s, of tid mk] by simp
  show "bsteps a (snd (bill_success e t sub d k f b))" "bsteps a (snd (bill_failed e t sub d k f b))"
    using s by (auto simp: bill_success_def bill_failed_def Let_def intro!: steps_existing split: option.splits sum.splits prod.splits dest: c)
qed

lemma steps_complete [steps]: "bsteps a b \<Longrightarrow> bsteps a (snd (complete_subscription_billing e t sub out f g b))"
  by (simp add: complete_subscription_billing_def Let_def split_def steps split: option.splits)

lemma steps_invoicing [steps]: "bsteps a b \<Longrightarrow> bsteps a (snd (invoicing_execute e t sub b))"
  using steps_complete [of a b e t sub "''success''" False False]
  by (auto simp: invoicing_execute_def Let_def split: sum.splits prod.splits)

lemma steps_settle [steps]: "bsteps a b \<Longrightarrow> bsteps a (snd (settle_subscription e t b))"
  by (simp add: settle_subscription_def Let_def split_def steps)

lemma steps_process_tenant [steps]: "bsteps a b \<Longrightarrow> bsteps a (snd (process_tenant e k d row b))"
proof -
  assume s: "bsteps a b"
  have i: "invoicing_execute e t sub x = (r, x') \<Longrightarrow> bsteps a x \<Longrightarrow> bsteps a x'" for t sub x r x'
    using steps_invoicing [of a x e t sub] by simp
  show ?thesis using s
    by (auto simp: process_tenant_def Let_def split_def steps split: option.splits sum.splits dest!: i [OF prod.collapse [symmetric]])
qed

lemma steps_process_tenants [steps]: "bsteps a b \<Longrightarrow> bsteps a (snd (process_tenants e k d rows b))"
proof (induction rows arbitrary: b)
  case Nil
  then show ?case by simp
next
  case (Cons row rows)
  then show ?case using steps_process_tenant [of a b e k d row] by (auto split: prod.splits sum.splits)
qed

lemma steps_cycle [steps]: "bsteps a b \<Longrightarrow> bsteps a (snd (cycle_process e b))"
  by (simp add: cycle_process_def split_def steps)

lemma steps_cancel [steps]:
  "bsteps a b \<Longrightarrow> bsteps a (snd (cancel_subscription e t rc rt by b))"
  "bsteps a b \<Longrightarrow> bsteps a (snd (restore_subscription_renewal e t b))"
  "bsteps a b \<Longrightarrow> bsteps a (snd (delete_service_access e t b))"
  by (simp_all add: cancel_subscription_def restore_subscription_renewal_def delete_service_access_def
      Let_def split_def steps split: option.splits)

lemma steps_notice:
  assumes "bsteps a (snd ms)" "\<And>b. bsteps a b \<Longrightarrow> bsteps a (snd (mark b))"
  shows "bsteps a (snd (send_notice e mail body mark ms))"
  using assms by (auto simp: send_notice_def steps split: prod.splits)
    (metis (mono_tags) snd_conv steps_prims(7))

lemma steps_notices:
  "bsteps a (snd ms) \<Longrightarrow> bsteps a (snd (early_notices e now row eff ms))"
  "bsteps a (snd ms) \<Longrightarrow> bsteps a (snd (lifecycle_deactivate now row eff ms))"
  "bsteps a (snd ms) \<Longrightarrow> bsteps a (snd (expired_notice e now row eff ms))"
  by (simp_all add: early_notices_def lifecycle_deactivate_def expired_notice_def Let_def split_def steps steps_notice
      split: option.split)

lemma steps_delete:
  "bsteps a (snd ms) \<Longrightarrow> bsteps a (snd (lifecycle_delete e now row ms))"
  by (simp add: lifecycle_delete_def Let_def split_def steps split: option.split)

lemma steps_lifecycle_row:
  "bsteps a (snd ms) \<Longrightarrow> bsteps a (snd (lifecycle_row e now row ms))"
  by (simp add: lifecycle_row_def steps_delete steps_notices split: option.split)

lemma steps_lifecycle [steps]:
  "bsteps a b \<Longrightarrow> bsteps a (snd (process_cancellation_lifecycle e b))"
proof -
  assume "bsteps a b"
  then have "bsteps a (snd (fold (lifecycle_row e now) rows (m, b)))" for now rows m
  proof (induction rows arbitrary: m b)
    case Nil
    then show ?case by simp
  next
    case (Cons row rows)
    then show ?case using steps_lifecycle_row [of a "(m, b)" e now row]
      by (cases "lifecycle_row e now row (m, b)") auto
  qed
  then show ?thesis by (simp add: process_cancellation_lifecycle_def)
qed

lemma steps_due_cycles [steps]:
  "bsteps a b \<Longrightarrow> bsteps a (snd (process_due_cycles e b))"
  by (simp add: process_due_cycles_def Let_def steps)

lemma steps_entry [steps]:
  "bsteps a b \<Longrightarrow> bsteps a (snd (service_set_debug_simulated_date e v b))"
  "bsteps a b \<Longrightarrow> bsteps a (snd (get_access_status e t b))"
  "bsteps a b \<Longrightarrow> bsteps a (service_ensure_storage b)"
  by (auto simp: service_set_debug_simulated_date_def service_ensure_storage_def get_access_status_def Let_def split_def steps
      split: sum.split prod.split dest: steps_due_cycles)

lemmas steps_ctrl = ctrl [where P = "bsteps a" for a]

lemma steps_preview [steps]: "bsteps a b \<Longrightarrow> bsteps a (snd (get_upgrade_preview e t p q b))"
  unfolding get_upgrade_preview_def Let_def by (intro steps_ctrl) (simp_all add: steps)

lemma steps_apply_event [steps]: "bsteps a b \<Longrightarrow> bsteps a (snd (apply_payment_event e pr eid ety tid md pl i b))"
  unfolding apply_payment_event_def Let_def by (intro steps_ctrl) (simp_all add: steps)

lemma steps_webhook [steps]: "bsteps a b \<Longrightarrow> bsteps a (snd (process_verified_payment_event e pr eid ety pl b))"
  unfolding process_verified_payment_event_def Let_def by (intro steps_ctrl) (simp_all add: steps)

lemma steps_upgrade [steps]: "bsteps a b \<Longrightarrow> bsteps a (snd (complete_upgrade_after_checkout e t p q b))"
  unfolding complete_upgrade_after_checkout_def Let_def by (intro steps_ctrl) (simp_all add: steps)

lemma steps_update [steps]: "bsteps a b \<Longrightarrow> bsteps a (snd (update_subscription e t p q b))"
  unfolding update_subscription_def Let_def by (intro steps_ctrl) (simp_all add: steps)

lemma steps_addon [steps]: "bsteps a b \<Longrightarrow> bsteps a (snd (purchase_addon e t c n b))"
  unfolding purchase_addon_def Let_def by (intro steps_ctrl) (simp_all add: steps)

lemma steps_gates [steps]:
  "bsteps a b \<Longrightarrow> bsteps a (snd (can_create_user e t b))"
  "bsteps a b \<Longrightarrow> bsteps a (snd (can_create_kb e t b))"
  "bsteps a b \<Longrightarrow> bsteps a (snd (can_consume_question e t b))"
  "bsteps a b \<Longrightarrow> bsteps a (snd (can_consume_training_chars e t n b))"
  "bsteps a b \<Longrightarrow> bsteps a (record_training_ingest e t n m b)"
  "bsteps a b \<Longrightarrow> bsteps a (snd (tenant_has_training_material e t b))"
  by (simp_all add: can_create_user_def can_create_kb_def can_consume_question_def can_consume_training_chars_def
      record_training_ingest_def tenant_has_training_material_def Let_def prod.case_eq_if steps split: option.split)

lemma steps_warning [steps]: "bsteps a b \<Longrightarrow> bsteps a (send_question_warning_if_needed e own t sub b)"
  by (simp add: send_question_warning_if_needed_def Let_def steps split: option.split)

lemma steps_question [steps]: "bsteps a b \<Longrightarrow> bsteps a (record_question e own t u b)"
  by (simp add: record_question_def Let_def prod.case_eq_if steps)

end
