(* ===== verification/BillingInv.thy ===== *)
theory BillingInv
  imports BillingSteps
begin

text \<open>
  What every call of the billing service keeps, whatever the order of the calls: the unique keys of
  the tables, a catalog with a free plan, the invoices written so far, and deactivated tenants.
  \<open>billing_call\<close> are the entry points of the service; each call runs in its own environment.
\<close>

section \<open>Calls of the service\<close>

datatype billing_call =
    Ensure_storage
  | Ensure tenant
  | Signup int string string string
  | Due_cycles
  | Debug_date "pydate option"
  | Access tenant
  | Settle tenant
  | Bill tenant string bool
  | Upgrade_preview tenant string string
  | Upgrade tenant string string
  | Change_plan tenant string string
  | Buy_addon tenant string int
  | Payment_event string string string json
  | Cancel tenant string string "int option"
  | Restore tenant
  | Delete_access tenant
  | Ask_user_gate tenant
  | Ask_kb_gate tenant
  | Ask_question_gate tenant
  | Ask_training_gate tenant int
  | Question "string option" tenant int
  | Training tenant int int

fun billing_exec :: "benv \<Rightarrow> billing_call \<Rightarrow> bstate \<Rightarrow> bstate" where
  "billing_exec e Ensure_storage s = service_ensure_storage s"
| "billing_exec e (Ensure t) s = snd (ensure_subscription e t s)"
| "billing_exec e (Signup i slug p q) s = set_signup_subscription e i slug p q s"
| "billing_exec e Due_cycles s = snd (process_due_cycles e s)"
| "billing_exec e (Debug_date v) s = snd (service_set_debug_simulated_date e v s)"
| "billing_exec e (Access t) s = snd (get_access_status e t s)"
| "billing_exec e (Settle t) s = snd (settle_subscription e t s)"
| "billing_exec e (Bill t out f) s =
     (let (sub, s1) = ensure_subscription e t s in snd (complete_subscription_billing e t sub out True f s1))"
| "billing_exec e (Upgrade_preview t p q) s = snd (get_upgrade_preview e t p q s)"
| "billing_exec e (Upgrade t p q) s = snd (complete_upgrade_after_checkout e t p q s)"
| "billing_exec e (Change_plan t p q) s = snd (update_subscription e t p q s)"
| "billing_exec e (Buy_addon t c n) s = snd (purchase_addon e t c n s)"
| "billing_exec e (Payment_event prov eid ety pl) s = snd (process_verified_payment_event e prov eid ety pl s)"
| "billing_exec e (Cancel t rc rt by) s = snd (cancel_subscription e t rc rt by s)"
| "billing_exec e (Restore t) s = snd (restore_subscription_renewal e t s)"
| "billing_exec e (Delete_access t) s = snd (delete_service_access e t s)"
| "billing_exec e (Ask_user_gate t) s = snd (can_create_user e t s)"
| "billing_exec e (Ask_kb_gate t) s = snd (can_create_kb e t s)"
| "billing_exec e (Ask_question_gate t) s = snd (can_consume_question e t s)"
| "billing_exec e (Ask_training_gate t n) s = snd (can_consume_training_chars e t n s)"
| "billing_exec e (Question own t u) s = record_question e own t u s"
| "billing_exec e (Training t n m) s = record_training_ingest e t n m s"

definition billing_run_calls :: "(benv \<times> billing_call) list \<Rightarrow> bstate \<Rightarrow> bstate" where
  "billing_run_calls calls s = fold (\<lambda>(e, c). billing_exec e c) calls s"

lemma exec_steps: "bsteps s (billing_exec e c s)"
  by (cases c) (simp_all add: steps split_def Let_def)

lemma run_calls_steps: "bsteps s (billing_run_calls calls s)"
proof -
  have "bsteps a s \<Longrightarrow> bsteps a (billing_run_calls calls s)" for a
  proof (induction calls arbitrary: s)
    case Nil
    then show ?case by (simp add: billing_run_calls_def)
  next
    case (Cons ec calls)
    obtain e c where ec: "ec = (e, c)" by (cases ec)
    have "bsteps a (billing_exec e c s)"
      using Cons.prems exec_steps [of s e c] by (rule bsteps_trans)
    then show ?case using Cons.IH [of "billing_exec e c s"] by (simp add: billing_run_calls_def ec)
  qed
  then show ?thesis by simp
qed

lemma run_calls_mono:
  assumes "\<And>s s'. bprim s s' \<Longrightarrow> P s \<Longrightarrow> P s'" "P s"
  shows "P (billing_run_calls calls s)"
  using bsteps_mono [OF run_calls_steps, of P] assms by blast

section \<open>Frames\<close>

text \<open>A write to one table leaves the others.\<close>

named_theorems frame \<open>what a primitive write leaves alone\<close>

lemmas prim_defs = upsert_subscription_def tn_update_def create_invoice_def inv_insert_def
  record_payment_event_once_def pe_insert_def create_cancellation_request_def ca_insert_def
  hard_delete_tenant_def upsert_question_usage_def increment_training_usage_def seed_catalog_def
  set_debug_simulated_date_def Let_def

lemmas prim_splits = option.split prod.split

lemma frame_upsert [frame]:
  "bs_catalog (snd (upsert_subscription now tid v s)) = bs_catalog s"
  "bs_questions (snd (upsert_subscription now tid v s)) = bs_questions s"
  "bs_training (snd (upsert_subscription now tid v s)) = bs_training s"
  "bs_invoices (snd (upsert_subscription now tid v s)) = bs_invoices s"
  "bs_next_invoice (snd (upsert_subscription now tid v s)) = bs_next_invoice s"
  "bs_events (snd (upsert_subscription now tid v s)) = bs_events s"
  "bs_next_event (snd (upsert_subscription now tid v s)) = bs_next_event s"
  "bs_cancels (snd (upsert_subscription now tid v s)) = bs_cancels s"
  "bs_next_cancel (snd (upsert_subscription now tid v s)) = bs_next_cancel s"
  "bs_simulated (snd (upsert_subscription now tid v s)) = bs_simulated s"
  "bs_clock (snd (upsert_subscription now tid v s)) = bs_clock s"
  "bs_tenants (snd (upsert_subscription now tid v s)) = bs_tenants s"
  "bs_mails (snd (upsert_subscription now tid v s)) = bs_mails s"
  "bs_dropped (snd (upsert_subscription now tid v s)) = bs_dropped s"
  by (simp_all add: prim_defs split: prim_splits)

lemma frame_tenant [frame]:
  "bs_catalog (tn_update tid f s) = bs_catalog s"
  "bs_subs (tn_update tid f s) = bs_subs s"
  "bs_questions (tn_update tid f s) = bs_questions s"
  "bs_training (tn_update tid f s) = bs_training s"
  "bs_invoices (tn_update tid f s) = bs_invoices s"
  "bs_next_invoice (tn_update tid f s) = bs_next_invoice s"
  "bs_events (tn_update tid f s) = bs_events s"
  "bs_next_event (tn_update tid f s) = bs_next_event s"
  "bs_cancels (tn_update tid f s) = bs_cancels s"
  "bs_next_cancel (tn_update tid f s) = bs_next_cancel s"
  "bs_simulated (tn_update tid f s) = bs_simulated s"
  "bs_clock (tn_update tid f s) = bs_clock s"
  "bs_mails (tn_update tid f s) = bs_mails s"
  "bs_dropped (tn_update tid f s) = bs_dropped s"
  by (simp_all add: prim_defs split: prim_splits)

lemma frame_invoice [frame]:
  "bs_catalog (snd (create_invoice tid mk s)) = bs_catalog s"
  "bs_subs (snd (create_invoice tid mk s)) = bs_subs s"
  "bs_questions (snd (create_invoice tid mk s)) = bs_questions s"
  "bs_training (snd (create_invoice tid mk s)) = bs_training s"
  "bs_events (snd (create_invoice tid mk s)) = bs_events s"
  "bs_next_event (snd (create_invoice tid mk s)) = bs_next_event s"
  "bs_cancels (snd (create_invoice tid mk s)) = bs_cancels s"
  "bs_next_cancel (snd (create_invoice tid mk s)) = bs_next_cancel s"
  "bs_simulated (snd (create_invoice tid mk s)) = bs_simulated s"
  "bs_clock (snd (create_invoice tid mk s)) = bs_clock s"
  "bs_tenants (snd (create_invoice tid mk s)) = bs_tenants s"
  "bs_mails (snd (create_invoice tid mk s)) = bs_mails s"
  "bs_dropped (snd (create_invoice tid mk s)) = bs_dropped s"
  by (simp_all add: prim_defs split: prim_splits)

lemma frame_event [frame]:
  "bs_catalog (snd (record_payment_event_once k x s)) = bs_catalog s"
  "bs_subs (snd (record_payment_event_once k x s)) = bs_subs s"
  "bs_questions (snd (record_payment_event_once k x s)) = bs_questions s"
  "bs_training (snd (record_payment_event_once k x s)) = bs_training s"
  "bs_invoices (snd (record_payment_event_once k x s)) = bs_invoices s"
  "bs_next_invoice (snd (record_payment_event_once k x s)) = bs_next_invoice s"
  "bs_cancels (snd (record_payment_event_once k x s)) = bs_cancels s"
  "bs_next_cancel (snd (record_payment_event_once k x s)) = bs_next_cancel s"
  "bs_simulated (snd (record_payment_event_once k x s)) = bs_simulated s"
  "bs_clock (snd (record_payment_event_once k x s)) = bs_clock s"
  "bs_tenants (snd (record_payment_event_once k x s)) = bs_tenants s"
  "bs_mails (snd (record_payment_event_once k x s)) = bs_mails s"
  "bs_dropped (snd (record_payment_event_once k x s)) = bs_dropped s"
  by (simp_all add: prim_defs split: prim_splits)

lemma frame_cancel [frame]:
  "bs_catalog (snd (create_cancellation_request now tid slug rb rc rt kbs st eff dea s)) = bs_catalog s"
  "bs_subs (snd (create_cancellation_request now tid slug rb rc rt kbs st eff dea s)) = bs_subs s"
  "bs_questions (snd (create_cancellation_request now tid slug rb rc rt kbs st eff dea s)) = bs_questions s"
  "bs_training (snd (create_cancellation_request now tid slug rb rc rt kbs st eff dea s)) = bs_training s"
  "bs_invoices (snd (create_cancellation_request now tid slug rb rc rt kbs st eff dea s)) = bs_invoices s"
  "bs_next_invoice (snd (create_cancellation_request now tid slug rb rc rt kbs st eff dea s)) = bs_next_invoice s"
  "bs_events (snd (create_cancellation_request now tid slug rb rc rt kbs st eff dea s)) = bs_events s"
  "bs_next_event (snd (create_cancellation_request now tid slug rb rc rt kbs st eff dea s)) = bs_next_event s"
  "bs_simulated (snd (create_cancellation_request now tid slug rb rc rt kbs st eff dea s)) = bs_simulated s"
  "bs_clock (snd (create_cancellation_request now tid slug rb rc rt kbs st eff dea s)) = bs_clock s"
  "bs_tenants (snd (create_cancellation_request now tid slug rb rc rt kbs st eff dea s)) = bs_tenants s"
  "bs_mails (snd (create_cancellation_request now tid slug rb rc rt kbs st eff dea s)) = bs_mails s"
  "bs_dropped (snd (create_cancellation_request now tid slug rb rc rt kbs st eff dea s)) = bs_dropped s"
  by (simp_all add: prim_defs split: prim_splits)

lemma frame_question [frame]:
  "bs_catalog (upsert_question_usage now tid uid pk n s) = bs_catalog s"
  "bs_subs (upsert_question_usage now tid uid pk n s) = bs_subs s"
  "bs_training (upsert_question_usage now tid uid pk n s) = bs_training s"
  "bs_invoices (upsert_question_usage now tid uid pk n s) = bs_invoices s"
  "bs_next_invoice (upsert_question_usage now tid uid pk n s) = bs_next_invoice s"
  "bs_events (upsert_question_usage now tid uid pk n s) = bs_events s"
  "bs_next_event (upsert_question_usage now tid uid pk n s) = bs_next_event s"
  "bs_cancels (upsert_question_usage now tid uid pk n s) = bs_cancels s"
  "bs_next_cancel (upsert_question_usage now tid uid pk n s) = bs_next_cancel s"
  "bs_simulated (upsert_question_usage now tid uid pk n s) = bs_simulated s"
  "bs_clock (upsert_question_usage now tid uid pk n s) = bs_clock s"
  "bs_tenants (upsert_question_usage now tid uid pk n s) = bs_tenants s"
  "bs_mails (upsert_question_usage now tid uid pk n s) = bs_mails s"
  "bs_dropped (upsert_question_usage now tid uid pk n s) = bs_dropped s"
  by (simp_all add: prim_defs split: prim_splits)

lemma frame_training [frame]:
  "bs_catalog (increment_training_usage tid pk n m s) = bs_catalog s"
  "bs_subs (increment_training_usage tid pk n m s) = bs_subs s"
  "bs_questions (increment_training_usage tid pk n m s) = bs_questions s"
  "bs_invoices (increment_training_usage tid pk n m s) = bs_invoices s"
  "bs_next_invoice (increment_training_usage tid pk n m s) = bs_next_invoice s"
  "bs_events (increment_training_usage tid pk n m s) = bs_events s"
  "bs_next_event (increment_training_usage tid pk n m s) = bs_next_event s"
  "bs_cancels (increment_training_usage tid pk n m s) = bs_cancels s"
  "bs_next_cancel (increment_training_usage tid pk n m s) = bs_next_cancel s"
  "bs_simulated (increment_training_usage tid pk n m s) = bs_simulated s"
  "bs_clock (increment_training_usage tid pk n m s) = bs_clock s"
  "bs_tenants (increment_training_usage tid pk n m s) = bs_tenants s"
  "bs_mails (increment_training_usage tid pk n m s) = bs_mails s"
  "bs_dropped (increment_training_usage tid pk n m s) = bs_dropped s"
  by (simp_all add: prim_defs split: prim_splits)

lemma frame_catalog [frame]:
  "bs_subs (seed_catalog rows s) = bs_subs s"
  "bs_questions (seed_catalog rows s) = bs_questions s"
  "bs_training (seed_catalog rows s) = bs_training s"
  "bs_invoices (seed_catalog rows s) = bs_invoices s"
  "bs_next_invoice (seed_catalog rows s) = bs_next_invoice s"
  "bs_events (seed_catalog rows s) = bs_events s"
  "bs_next_event (seed_catalog rows s) = bs_next_event s"
  "bs_cancels (seed_catalog rows s) = bs_cancels s"
  "bs_next_cancel (seed_catalog rows s) = bs_next_cancel s"
  "bs_simulated (seed_catalog rows s) = bs_simulated s"
  "bs_clock (seed_catalog rows s) = bs_clock s"
  "bs_tenants (seed_catalog rows s) = bs_tenants s"
  "bs_mails (seed_catalog rows s) = bs_mails s"
  "bs_dropped (seed_catalog rows s) = bs_dropped s"
  by (simp_all add: prim_defs split: prim_splits)

lemma frame_simulated [frame]:
  "bs_catalog (set_debug_simulated_date dv s) = bs_catalog s"
  "bs_subs (set_debug_simulated_date dv s) = bs_subs s"
  "bs_questions (set_debug_simulated_date dv s) = bs_questions s"
  "bs_training (set_debug_simulated_date dv s) = bs_training s"
  "bs_invoices (set_debug_simulated_date dv s) = bs_invoices s"
  "bs_next_invoice (set_debug_simulated_date dv s) = bs_next_invoice s"
  "bs_events (set_debug_simulated_date dv s) = bs_events s"
  "bs_next_event (set_debug_simulated_date dv s) = bs_next_event s"
  "bs_cancels (set_debug_simulated_date dv s) = bs_cancels s"
  "bs_next_cancel (set_debug_simulated_date dv s) = bs_next_cancel s"
  "bs_clock (set_debug_simulated_date dv s) = bs_clock s"
  "bs_tenants (set_debug_simulated_date dv s) = bs_tenants s"
  "bs_mails (set_debug_simulated_date dv s) = bs_mails s"
  "bs_dropped (set_debug_simulated_date dv s) = bs_dropped s"
  by (simp_all add: prim_defs split: prim_splits)


section \<open>The invariant\<close>

definition sub_keys :: "bstate \<Rightarrow> int list" where
  "sub_keys s = map sub_tenant_id (bs_subs s)"

definition invoice_keys :: "bstate \<Rightarrow> (int \<times> string \<times> string) list" where
  "invoice_keys s = map (\<lambda>r. (inv_tenant_id r, inv_type r, inv_period_key r)) (bs_invoices s)"

definition event_keys :: "bstate \<Rightarrow> (string \<times> string) list" where
  "event_keys s = map (\<lambda>r. (pe_provider r, pe_event_id r)) (bs_events s)"

definition question_keys :: "bstate \<Rightarrow> (int \<times> int \<times> string) list" where
  "question_keys s = map (\<lambda>r. (qu_tenant_id r, qu_user_id r, qu_period_key r)) (bs_questions s)"

definition training_keys :: "bstate \<Rightarrow> (int \<times> string) list" where
  "training_keys s = map (\<lambda>r. (tu_tenant_id r, tu_period_key r)) (bs_training s)"

definition billing_inv :: "bstate \<Rightarrow> bool" where
  "billing_inv s =
     (distinct (sub_keys s) \<and> distinct (invoice_keys s) \<and> distinct (event_keys s)
      \<and> distinct (question_keys s) \<and> distinct (training_keys s)
      \<and> invt.wf s \<and> pet.wf s \<and> cat.wf s)"

lemmas key_defs = sub_keys_def invoice_keys_def event_keys_def question_keys_def training_keys_def

text \<open>Each table write keeps the keys of its table unique.\<close>

lemma map_update_const:
  "(\<And>r. p r \<Longrightarrow> k (f r) = k r) \<Longrightarrow> map k (tbl_update p f rows) = map k rows"
  by (simp add: tbl_update_def)

lemma distinct_map_filter_rows: "distinct (map k rows) \<Longrightarrow> distinct (map k (filter p rows))"
  by (induction rows) auto

lemma keys_upsert: "distinct (sub_keys s) \<Longrightarrow> distinct (sub_keys (snd (upsert_subscription now tid v s)))"
  by (auto simp: upsert_subscription_def get_subscription_def sub_keys_def Let_def tbl_first_None split: option.split)
    (subst map_update_const, simp_all)

lemma keys_invoice: "distinct (invoice_keys s) \<Longrightarrow> distinct (invoice_keys (snd (create_invoice tid mk s)))"
  by (auto simp: create_invoice_def inv_insert_def invoice_keys_def Let_def list_ex_iff same_invoice_def)

lemma keys_event: "distinct (event_keys s) \<Longrightarrow> distinct (event_keys (snd (record_payment_event_once k x s)))"
  by (auto simp: record_payment_event_once_def pe_insert_def event_keys_def Let_def tbl_first_None same_event_def
      split: option.split prod.split)

lemma keys_question: "distinct (question_keys s) \<Longrightarrow> distinct (question_keys (upsert_question_usage now tid uid k n s))"
  by (auto simp: upsert_question_usage_def question_keys_def tbl_first_None same_question_def map_update_const
      split: option.split)

lemma keys_training: "distinct (training_keys s) \<Longrightarrow> distinct (training_keys (increment_training_usage tid k n m s))"
  by (auto simp: increment_training_usage_def get_training_usage_def training_keys_def tbl_first_None
      same_training_def map_update_const Let_def split: option.split)

lemmas inv_defs = billing_inv_def key_defs invt.wf_def pet.wf_def cat.wf_def

lemma wf_delete:
  "invt.wf s \<Longrightarrow> invt.wf (snd (hard_delete_tenant tid s))"
  "pet.wf s \<Longrightarrow> pet.wf (snd (hard_delete_tenant tid s))"
  "cat.wf s \<Longrightarrow> cat.wf (snd (hard_delete_tenant tid s))"
  by (simp_all add: invt.wf_def pet.wf_def cat.wf_def hard_delete_tenant_def distinct_map_filter_rows)

lemma wf_invoice: "invt.wf s \<Longrightarrow> invt.wf (snd (create_invoice tid mk s))"
  by (simp add: create_invoice_def Let_def invt.wf_ins)

lemma wf_event: "pet.wf s \<Longrightarrow> pet.wf (snd (record_payment_event_once k x s))"
  by (auto simp: record_payment_event_once_def Let_def pet.wf_ins split: option.split prod.split)

lemma wf_cancel: "cat.wf s \<Longrightarrow> cat.wf (snd (create_cancellation_request now tid slug by rc rt kbs st eff dea s))"
  by (simp add: create_cancellation_request_def Let_def cat.wf_ins)

lemma wf_mark: "cat.wf s \<Longrightarrow> keeps_cancel f \<Longrightarrow> cat.wf (s\<lparr>bs_cancels := tbl_update p f (bs_cancels s)\<rparr>)"
  by (auto simp: cat.wf_def keeps_cancel_def map_tbl_update set_tbl_update)

lemma billing_inv_delete: "billing_inv s \<Longrightarrow> billing_inv (snd (hard_delete_tenant tid s))"
  using wf_delete [of s tid]
  by (simp add: billing_inv_def hard_delete_tenant_def key_defs distinct_map_filter_rows)

lemma billing_inv_prim:
  assumes "bprim s s'" "billing_inv s"
  shows "billing_inv s'"
  using assms
proof (cases rule: bprim.cases)
  case (p_upsert now tid v)
  then show ?thesis using assms(2) keys_upsert [of s now tid v]
    by (simp add: inv_defs frame)
next
  case (p_invoice tid mk)
  then show ?thesis using assms(2) keys_invoice [of s tid mk] wf_invoice [of s tid mk]
    by (simp add: inv_defs frame)
next
  case (p_event k x)
  then show ?thesis using assms(2) keys_event [of s k x] wf_event [of s k x]
    by (simp add: inv_defs frame)
next
  case (p_question now tid uid pk n)
  then show ?thesis using assms(2) keys_question [of s now tid uid pk n]
    by (simp add: inv_defs frame)
next
  case (p_training tid pk n m)
  then show ?thesis using assms(2) keys_training [of s tid pk n m]
    by (simp add: inv_defs frame)
next
  case (p_cancel now tid slug rb rc rt kbs st eff dea)
  then show ?thesis using assms(2) wf_cancel [of s now tid slug rb rc rt kbs st eff dea]
    by (simp add: inv_defs frame)
next
  case (p_mark f p)
  then show ?thesis using assms(2) wf_mark [of s f p] by (simp add: inv_defs frame)
next
  case (p_delete tid)
  then show ?thesis using billing_inv_delete assms(2) by simp
qed (use assms(2) in \<open>simp_all add: inv_defs frame\<close>)

text \<open>
  C10: Whatever billing calls arrive, in whatever order and whatever fails on the way, the tables of
  the billing service keep their keys: one subscription per tenant, one invoice per tenant, type
  and period, one payment event per provider and event id, one usage row per user and period, and
  serial ids that are never reused.
\<close>

theorem billing_calls_keep_keys_unique:
  assumes "billing_inv s"
  shows "billing_inv (billing_run_calls calls s)"
  using billing_inv_prim assms by (rule run_calls_mono)

section \<open>Invoices are final\<close>

lemma invoice_prim:
  assumes "bprim s s'" "i \<in> set (bs_invoices s) \<or> inv_tenant_id i \<notin> tn_id ` set (bs_tenants s)"
  shows "i \<in> set (bs_invoices s') \<or> inv_tenant_id i \<notin> tn_id ` set (bs_tenants s')"
  using assms
  by (cases rule: bprim.cases)
    (auto simp: frame keeps_tenant_def tn_update_def set_tbl_update hard_delete_tenant_def create_invoice_def
      inv_insert_def Let_def)


section \<open>Deactivation is final\<close>

definition not_active :: "int \<Rightarrow> bstate \<Rightarrow> bool" where
  "not_active tid s = (\<forall>r \<in> set (bs_tenants s). tn_id r = tid \<longrightarrow> \<not> tn_is_active r)"

lemma not_active_prim:
  assumes "bprim s s'" "not_active tid s"
  shows "not_active tid s'"
  using assms
proof (cases rule: bprim.cases)
  case (p_tenant f i)
  then show ?thesis using assms(2)
    by (auto simp: not_active_def keeps_tenant_def tn_update_def set_tbl_update)
qed (use assms(2) in \<open>auto simp: frame not_active_def hard_delete_tenant_def\<close>)

text \<open>The billing service never re-activates a tenant: once deactivated for a failed payment or a
cancellation, no payment, plan change or restored renewal brings it back.\<close>

theorem deactivated_tenant_stays_deactivated:
  assumes "not_active tid s"
  shows "not_active tid (billing_run_calls calls s)"
  using not_active_prim assms by (rule run_calls_mono)

end
