(* ===== verification/BillingDemo.thy ===== *)
theory BillingDemo
  imports BillingInv
begin

text \<open>
  A concrete deployment: the seeded catalog, one active tenant with one subscription, the simulated
  payment provider. It shows that the hypotheses of the billing properties can hold together.
\<close>

definition demo_env :: "pydatetime \<Rightarrow> benv" where
  "demo_env t = \<lparr>be_now = t, be_pay = \<lparr>pay_provider = Some ''simulated'', pay_secret_key = None, pay_post = (\<lambda>_ _. Inr (200, JNull))\<rparr>,
     be_resources = \<lparr>rc_users = 1, rc_knowledge_bases = 0, rc_storage_bytes = 0, rc_trained_chars = 0\<rparr>,
     be_owner_email = (\<lambda>_. None), be_send = (\<lambda>_ _. True), be_drop_schema = (\<lambda>_. True), be_has_engine = True,
     be_billing_disabled = []\<rparr>"

definition demo_tenant :: tenant where
  "demo_tenant = \<lparr>te_tenant_id = 1, te_slug = ''acme'', te_created_at = None\<rparr>"

definition demo_sub :: "string \<Rightarrow> string \<Rightarrow> pydatetime option \<Rightarrow> subscription" where
  "demo_sub plan status ends = blank_subscription\<lparr>sub_tenant_id := 1, sub_plan_code := plan, sub_status := status,
     sub_trial_ends_at := ends\<rparr>"

definition demo_state :: "subscription list \<Rightarrow> invoice list \<Rightarrow> cancellation list \<Rightarrow> bstate" where
  "demo_state subs ivs cs = \<lparr>bs_catalog = default_catalog_rows, bs_subs = subs, bs_questions = [], bs_training = [],
     bs_invoices = ivs, bs_next_invoice = 10, bs_events = [], bs_next_event = 1, bs_cancels = cs, bs_next_cancel = 10,
     bs_simulated = None, bs_clock = None,
     bs_tenants = [\<lparr>tn_id = 1, tn_slug = ''acme'', tn_is_active = True, tn_created_at = None, tn_config = None\<rparr>],
     bs_mails = [], bs_dropped = []\<rparr>"

lemma demo_tenant_simps [simp]:
  "te_tenant_id demo_tenant = 1" "te_slug demo_tenant = ''acme''" "te_created_at demo_tenant = None"
  by (simp_all add: demo_tenant_def)

lemma demo_env_simps [simp]:
  "be_now (demo_env t) = t" "be_billing_disabled (demo_env t) = []" "rc_knowledge_bases (be_resources (demo_env t)) = 0"
  "rc_storage_bytes (be_resources (demo_env t)) = 0" "be_send (demo_env t) m b = True" "be_drop_schema (demo_env t) m = True"
  "be_owner_email (demo_env t) m = None" "provider (be_pay (demo_env t)) = ''simulated''" "is_simulated_provider (be_pay (demo_env t))"
  by (simp_all add: demo_env_def provider_def is_simulated_provider_def py_strip_def is_blank_def py_lower_def lower_char_def)

lemma demo_state_simps [simp]:
  "bs_subs (demo_state subs ivs cs) = subs" "bs_invoices (demo_state subs ivs cs) = ivs" "bs_cancels (demo_state subs ivs cs) = cs"
  "bs_catalog (demo_state subs ivs cs) = default_catalog_rows" "bs_questions (demo_state subs ivs cs) = []"
  "bs_training (demo_state subs ivs cs) = []" "bs_events (demo_state subs ivs cs) = []" "bs_clock (demo_state subs ivs cs) = None"
  "bs_next_cancel (demo_state subs ivs cs) = 10" "bs_next_invoice (demo_state subs ivs cs) = 10" "bs_next_event (demo_state subs ivs cs) = 1"
  "bs_tenants (demo_state subs ivs cs)
    = [\<lparr>tn_id = 1, tn_slug = ''acme'', tn_is_active = True, tn_created_at = None, tn_config = None\<rparr>]"
  by (simp_all add: demo_state_def)

lemma demo_sub_simps [simp]:
  "sub_tenant_id (demo_sub p st ends) = 1" "sub_plan_code (demo_sub p st ends) = p" "sub_status (demo_sub p st ends) = st"
  "sub_trial_ends_at (demo_sub p st ends) = ends" "sub_scheduled_plan_code (demo_sub p st ends) = None"
  "sub_billing_period (demo_sub p st ends) = ''monthly''" "sub_updated_at (demo_sub p st ends) = 0"
  by (simp_all add: demo_sub_def blank_subscription_def)

lemma demo_now [simp]: "b_now (demo_env t) (demo_state subs ivs cs) = t"
  by (simp add: b_now_def clock_now_def)

lemma demo_get_sub [simp]: "get_subscription 1 (demo_state [demo_sub p st ends] ivs cs) = Some (demo_sub p st ends)"
  by (simp add: get_subscription_def tbl_first_def)

lemma demo_ensure [simp]:
  "ensure_subscription e demo_tenant (demo_state [demo_sub p st ends] ivs cs)
     = (demo_sub p st ends, demo_state [demo_sub p st ends] ivs cs)"
  by (simp add: ensure_subscription_def)

lemma demo_rows: "set (list_catalog (demo_state subs ivs cs)) = set default_catalog_rows"
  by (auto simp: list_catalog_def default_catalog_rows_def cat_row_def)

lemma demo_catalog_ok: "catalog_ok (list_catalog (demo_state subs ivs cs))"
  using default_catalog_ok by (simp add: catalog_ok_def list_all_iff list_ex_iff demo_rows)

lemma demo_inv: "length ivs \<le> 1 \<Longrightarrow> length subs \<le> 1 \<Longrightarrow> cs = [] \<Longrightarrow> (\<And>i. i \<in> set ivs \<Longrightarrow> inv_id i < 10) \<Longrightarrow> billing_inv (demo_state subs ivs cs)"
  by (cases ivs; cases subs) (auto simp: inv_defs)

text \<open>The plans of the seeded catalog.\<close>

lemma demo_plan:
  assumes "row \<in> set default_catalog_rows" "cat_entry_type row = ''plan''"
    and uniq: "\<forall>r \<in> set default_catalog_rows. cat_entry_type r = ''plan'' \<longrightarrow> cat_code r = cat_code row \<longrightarrow> r = row"
  shows "plan_map (demo_state subs ivs cs) (cat_code row) = Some (plan_of_row row)"
proof -
  obtain p where "plan_map (demo_state subs ivs cs) (cat_code row) = Some p"
    using plan_map_dom [of "list_catalog (demo_state subs ivs cs)" "cat_code row"] assms(1,2)
    by (auto simp: plan_map_def demo_rows)
  then show ?thesis
    using plan_map_Some [of "list_catalog (demo_state subs ivs cs)" "cat_code row" p] uniq
    by (auto simp: plan_map_def demo_rows)
qed

definition plan_row :: "string \<Rightarrow> string \<Rightarrow> int \<Rightarrow> int \<Rightarrow> int \<Rightarrow> int \<Rightarrow> int \<Rightarrow> int \<Rightarrow> int \<Rightarrow> billing_plan" where
  "plan_row c n price kbs gb q chars users trial = \<lparr>bp_code = c, bp_name = n, bp_price_cents = price, bp_included_kbs = kbs,
     bp_included_storage_gb = gb, bp_included_questions_monthly = q, bp_max_users = Some users, bp_trial_days = trial,
     bp_included_training_chars = chars\<rparr>"

lemma demo_plans [simp]:
  "plan_map (demo_state subs ivs cs) ''free'' = Some (plan_row ''free'' ''Ingyenes proba'' 0 1 1 100 500000 5 7)"
  "plan_map (demo_state subs ivs cs) ''starter'' = Some (plan_row ''starter'' ''Starter'' 3900 1 1 500 1000000 5 0)"
  "plan_map (demo_state subs ivs cs) ''growth'' = Some (plan_row ''growth'' ''Pro'' 8900 3 5 2000 5000000 20 0)"
proof -
  let ?r = "\<lambda>i. default_catalog_rows ! i"
  have rows: "?r 0 = cat_row ''plan'' ''free'' ''Ingyenes proba'' 0 (plan_included 1 1 100 500000 5 7)
       [(''description'', JStr ''Belepo csomag kiprobalasra''), (''training_note'', JStr ''(500 000 karakter)'')]"
    "?r 1 = cat_row ''plan'' ''starter'' ''Starter'' 3900 (plan_included 1 1 500 1000000 5 0) [(''description'', JStr ''1-2 fos csapatoknak'')]"
    "?r 2 = cat_row ''plan'' ''growth'' ''Pro'' 8900 (plan_included 3 5 2000 5000000 20 0) [(''description'', JStr ''Komolyabb felhasznalas'')]"
    by (simp_all add: default_catalog_rows_def)
  have uniq: "\<forall>r \<in> set default_catalog_rows. cat_entry_type r = ''plan'' \<longrightarrow> cat_code r = cat_code (?r i) \<longrightarrow> r = ?r i"
    if "i \<in> {0, 1, 2}" for i
    using that by (auto simp: default_catalog_rows_def cat_row_def)
  have mem: "?r i \<in> set default_catalog_rows" if "i \<in> {0, 1, 2}" for i
    using that by (auto simp: default_catalog_rows_def)
  show "plan_map (demo_state subs ivs cs) ''free'' = Some (plan_row ''free'' ''Ingyenes proba'' 0 1 1 100 500000 5 7)"
    "plan_map (demo_state subs ivs cs) ''starter'' = Some (plan_row ''starter'' ''Starter'' 3900 1 1 500 1000000 5 0)"
    "plan_map (demo_state subs ivs cs) ''growth'' = Some (plan_row ''growth'' ''Pro'' 8900 3 5 2000 5000000 20 0)"
    using demo_plan [OF mem _ uniq, of 0 subs ivs cs] demo_plan [OF mem _ uniq, of 1 subs ivs cs]
      demo_plan [OF mem _ uniq, of 2 subs ivs cs]
    unfolding rows
    by (simp_all add: cat_row_def plan_of_row_def plan_included_def kv_get_def jget_def jint_def plan_row_def Let_def)
qed

lemma plan_row_simps [simp]:
  "bp_price_cents (plan_row c n price kbs gb q chars users trial) = price"
  "bp_included_kbs (plan_row c n price kbs gb q chars users trial) = kbs"
  "bp_included_storage_gb (plan_row c n price kbs gb q chars users trial) = gb"
  "bp_included_questions_monthly (plan_row c n price kbs gb q chars users trial) = q"
  by (simp_all add: plan_row_def)

lemma addon_map_dom:
  "addon_map_from_catalog rows c \<noteq> None \<longleftrightarrow> (\<exists>row \<in> set rows. cat_entry_type row = ''addon'' \<and> cat_code row = c)"
proof (induction rows rule: rev_induct)
  case Nil
  then show ?case by (simp add: addon_map_from_catalog_def)
next
  case (snoc row rows)
  have "addon_map_from_catalog (rows @ [row]) =
     (if cat_entry_type row \<noteq> ''addon'' then addon_map_from_catalog rows
      else (addon_map_from_catalog rows)(cat_code row \<mapsto> addon_of_row row))"
    by (simp add: addon_map_from_catalog_def)
  then show ?case using snoc by auto
qed

lemma demo_extra_kb: "\<exists>a. addon_map (demo_state subs ivs cs) ''extra_kb'' = Some a"
  using addon_map_dom [of "list_catalog (demo_state subs ivs cs)" "''extra_kb''"]
  by (simp add: addon_map_def demo_rows) (simp add: default_catalog_rows_def cat_row_def)

definition demo_invoice :: "string \<Rightarrow> string \<Rightarrow> pydatetime \<Rightarrow> invoice" where
  "demo_invoice ty status issued = (mk_invoice ty ''k'' status 3900 ''manual'' ''x'' [] issued issued 1)\<lparr>inv_tenant_id := 1\<rparr>"

lemma demo_invoice_simps [simp]:
  "inv_type (demo_invoice ty st t) = ty" "inv_tenant_id (demo_invoice ty st t) = 1" "inv_status (demo_invoice ty st t) = st"
  "inv_due_at (demo_invoice ty st t) = t" "inv_issued_at (demo_invoice ty st t) = t" "inv_id (demo_invoice ty st t) = 1"
  by (simp_all add: demo_invoice_def mk_invoice_def)

definition demo_cancel :: "pydatetime \<Rightarrow> pydatetime option \<Rightarrow> cancellation" where
  "demo_cancel eff dea = \<lparr>ca_id = 1, ca_tenant_id = 1, ca_tenant_slug = ''acme'', ca_requested_by = None, ca_reason_code = ''other'',
     ca_reason_text = [], ca_active_kb_count = 0, ca_status = ''deactivation_requested'', ca_requested_at = 0,
     ca_effective_at = Some eff, ca_notice_two_days_sent_at = None, ca_notice_one_day_sent_at = None,
     ca_notice_expired_sent_at = None, ca_deactivated_at = dea, ca_cleanup_completed_at = None\<rparr>"

section \<open>Earlier properties at the concrete deployment\<close>

theorem billing_calls_keep_keys_unique_witness:
  "billing_inv (billing_run_calls [(demo_env (days 100), Due_cycles), (demo_env (days 101), Settle demo_tenant)] (demo_state [] [] []))"
  by (rule billing_calls_keep_keys_unique, rule demo_inv) simp_all


theorem upgrade_proration_bounds_witness:
  "\<exists>r. compute_upgrade_proration (demo_sub ''starter'' ''active'' (Some (days 120))) ''growth'' ''monthly''
       (plan_map_from_catalog default_catalog_rows) 127 100 = Some r
     \<and> up_old_remaining_credit_cents r \<le> up_old_monthly_cents r * billing_period_multiplier ''monthly'' \<and> 100 < up_paid_until r"
proof -
  let ?c = "compute_upgrade_proration (demo_sub ''starter'' ''active'' (Some (days 120))) ''growth'' ''monthly''
       (plan_map_from_catalog default_catalog_rows) 127 100"
  have m: "plan_map_from_catalog default_catalog_rows ''growth'' = Some (plan_row ''growth'' ''Pro'' 8900 3 5 2000 5000000 20 0)"
    "plan_map_from_catalog default_catalog_rows ''starter'' = Some (plan_row ''starter'' ''Starter'' 3900 1 1 500 1000000 5 0)"
    by (simp_all add: plan_map_from_catalog_def default_catalog_rows_def cat_row_def plan_of_row_def plan_included_def kv_get_def
        jget_def jint_def plan_row_def Let_def)
  have "?c \<noteq> None"
    by (simp add: compute_upgrade_proration_def m is_downgrade_def plan_or_free_def Let_def split_def)
  then obtain r where r: "?c = Some r" by blast
  from upgrade_proration_bounds [OF default_catalog_ok _ r] r show ?thesis by auto
qed

end
