(* ===== verification/BillingProps.thy ===== *)
theory BillingProps
  imports BillingDemo
begin

text \<open>
  What the operations of the billing service promise: the periodic cycle never fails, a paid
  period extends the subscription, a payment event is applied once, and how restrictions, quotas
  and scheduled changes behave.
\<close>

section \<open>Facts on single writes\<close>

lemma create_invoice_ok:
  "get_invoice tid (inv_type (mk (bs_next_invoice s))) (inv_period_key (mk (bs_next_invoice s))) s = None \<Longrightarrow>
   \<exists>i. fst (create_invoice tid mk s) = Inr i"
  by (auto simp: create_invoice_def get_invoice_def tbl_first_None list_ex_iff Let_def)

lemma mk_invoice_simps [simp]:
  "inv_type (mk_invoice ty key st c m d ls i du n) = ty"
  "inv_period_key (mk_invoice ty key st c m d ls i du n) = key"
  "inv_total_cents (mk_invoice ty key st c m d ls i du n) = c"
  "inv_status (mk_invoice ty key st c m d ls i du n) = st"
  "inv_issued_at (mk_invoice ty key st c m d ls i du n) = i"
  by (simp_all add: mk_invoice_def)

lemma get_upsert_subscription:
  "get_subscription j (snd (upsert_subscription now tid v s)) =
     (if j = tid then Some (fst (upsert_subscription now tid v s)) else get_subscription j s)"
proof (cases "get_subscription tid s")
  case None
  then show ?thesis
    by (auto simp: upsert_subscription_def get_subscription_def Let_def tbl_first_append split: option.split)
      (auto simp: tbl_first_def)
next
  case (Some old)
  have "tbl_first (\<lambda>r. sub_tenant_id r = j) (tbl_update (\<lambda>r. sub_tenant_id r = tid) (\<lambda>_. row) rows) =
      (if j = tid then (if \<exists>r \<in> set rows. sub_tenant_id r = tid then Some row else None)
       else tbl_first (\<lambda>r. sub_tenant_id r = j) rows)"
    if "sub_tenant_id row = tid" for row :: subscription and rows
    using that by (induction rows) (auto simp: tbl_first_def tbl_update_def)
  moreover have "\<exists>r \<in> set (bs_subs s). sub_tenant_id r = tid"
    using Some tbl_first_Some by (fastforce simp: get_subscription_def)
  ultimately show ?thesis using Some
    by (simp add: upsert_subscription_def get_subscription_def Let_def)
qed

lemma upsert_fields:
  "sub_plan_code (fst (upsert_subscription now tid v s)) = sub_plan_code v"
  "sub_billing_period (fst (upsert_subscription now tid v s)) = sub_billing_period v"
  "sub_status (fst (upsert_subscription now tid v s)) = sub_status v"
  "sub_trial_ends_at (fst (upsert_subscription now tid v s)) = sub_trial_ends_at v"
  "sub_scheduled_plan_code (fst (upsert_subscription now tid v s)) = sub_scheduled_plan_code v"
  "sub_updated_at (fst (upsert_subscription now tid v s)) = now"
  "sub_tenant_id (fst (upsert_subscription now tid v s)) = tid"
  by (simp_all add: upsert_subscription_def Let_def split: option.split)

section \<open>The periodic cycle\<close>

lemma bill_success_ok: "\<exists>run. fst (bill_success e t sub d k False s) = Inr run"
proof (cases "get_invoice (te_tenant_id t) ''monthly_subscription'' (settled_period_key (te_tenant_id t) k False s) s")
  case None
  have "\<exists>i s1. create_invoice (te_tenant_id t)
      (mk_invoice ''monthly_subscription'' (settled_period_key (te_tenant_id t) k False s) st c m de ls is du) s = (Inr i, s1)"
    for st c m de ls "is" du
    using create_invoice_ok [of "te_tenant_id t" "mk_invoice ''monthly_subscription''
      (settled_period_key (te_tenant_id t) k False s) st c m de ls is du" s] None by (auto simp: prod_eq_iff)
  then show ?thesis using None
    by (simp add: bill_success_def Let_def split: prod.split sum.split) (metis Inr_not_Inl prod.inject)
next
  case (Some i)
  then show ?thesis by (simp add: bill_success_def Let_def)
qed

lemma complete_success_ok: "\<exists>run. fst (complete_subscription_billing e t sub ''success'' force False s) = Inr run"
  using bill_success_ok by (auto simp: complete_subscription_billing_def Let_def split: prod.split option.split)

lemma invoicing_ok: "fst (invoicing_execute e t sub s) = Inr ()"
  using complete_success_ok [of e t sub False s]
  by (auto simp: invoicing_execute_def Let_def split: prod.split sum.split)

lemma process_tenant_ok: "fst (process_tenant e k d row s) = Inr ()"
  using invoicing_ok by (auto simp: process_tenant_def Let_def split: prod.split sum.split option.split)
    (metis fst_conv old.sum.distinct(1))

lemma process_tenants_ok: "fst (process_tenants e k d rows s) = Inr ()"
proof (induction rows arbitrary: s)
  case Nil
  then show ?case by simp
next
  case (Cons row rows)
  then show ?case using process_tenant_ok [of e k d row s] by (auto split: prod.split sum.split)
qed



section \<open>A paid period\<close>

text \<open>The subscription a successful run writes.\<close>

lemma bill_success_writes:
  assumes "bill_success e t sub d k f s = (Inr run, s')"
  obtains s1 st where
    "s' = snd (upsert_subscription (be_now e) (te_tenant_id t) st s1)"
    "sub_status st = ''active''" "sub_trial_ends_at st = Some (dt_midnight (next_billing_date_after d (sub_billing_period sub)))"
    "sub_scheduled_plan_code st = None" "sub_plan_code st = or_string (sub_scheduled_plan_code sub) (sub_plan_code sub)"
    "run = \<lparr>br_status = ''paid'', br_billing_date = d,
       br_next_billing_date = Some (next_billing_date_after d (sub_billing_period sub)), br_grace_until = None\<rparr>"
  using assms that by (auto simp: bill_success_def upsert_from_existing_def Let_def split: prod.splits sum.splits)

lemma next_billing_later: "1 \<le> d \<Longrightarrow> d < next_billing_date_after d p"
  unfolding next_billing_date_after_def using add_months_to_date_later multiplier_pos by blast


lemma forced_run_is_paid:
  "\<exists>run s'. complete_subscription_billing e t sub ''success'' True False s = (Inr run, s') \<and> br_status run = ''paid''"
proof -
  obtain run where "fst (complete_subscription_billing e t sub ''success'' True False s) = Inr run"
    using complete_success_ok by blast
  then obtain s' where c: "complete_subscription_billing e t sub ''success'' True False s = (Inr run, s')"
    by (metis prod.collapse)
  then obtain sub1 s1 k where "bill_success e t sub1 (billing_due_date sub) k False s1 = (Inr run, s')"
    by (auto simp: complete_subscription_billing_def Let_def split: if_splits prod.splits)
  then have "br_status run = ''paid''" by (rule bill_success_writes) simp
  with c show ?thesis by blast
qed


text \<open>The cycle reads the clock, the resource counts and the names of the provider, nothing else.\<close>

lemma now_env: "be_now e' = be_now e \<Longrightarrow> b_now e' = b_now e"
  by (intro ext) (simp add: b_now_def)

lemma upsert_env: "be_now e' = be_now e \<Longrightarrow> upsert_from_existing e' = upsert_from_existing e"
  by (intro ext) (simp add: upsert_from_existing_def)

lemma ensure_env: "be_now e' = be_now e \<Longrightarrow> ensure_subscription e' = ensure_subscription e"
  by (intro ext, frule now_env) (simp only: ensure_subscription_def)

lemma cycle_env:
  assumes env: "be_now e' = be_now e" "be_resources e' = be_resources e"
    "invoice_paid_status (be_pay e') = invoice_paid_status (be_pay e)"
    "invoice_payment_method (be_pay e') = invoice_payment_method (be_pay e)"
  shows "cycle_process e' s = cycle_process e s"
proof -
  note now = now_env [OF env(1)] and up = upsert_env [OF env(1)] and ens = ensure_env [OF env(1)]
  have per: "b_period e' = b_period e" by (intro ext) (unfold b_period_def now, rule refl)
  have key: "b_period_key e' = b_period_key e" by (intro ext) (unfold b_period_key_def per, rule refl)
  have est: "estimate_next_invoice e' = estimate_next_invoice e"
    by (intro ext) (unfold estimate_next_invoice_def required_extra_storage_gb_def env, rule refl)
  have ren: "renewal_execute e' = renewal_execute e" by (intro ext) (unfold renewal_execute_def up now, rule refl)
  have syn: "sync_status e' = sync_status e"
    by (intro ext) (unfold sync_status_def overdue_failed_invoice_def up now, rule refl)
  have bs: "bill_success e' = bill_success e" by (intro ext) (unfold bill_success_def env now up est, rule refl)
  have bf: "bill_failed e' = bill_failed e" by (intro ext) (unfold bill_failed_def env now up est, rule refl)
  have com: "complete_subscription_billing e' = complete_subscription_billing e"
    by (intro ext) (unfold complete_subscription_billing_def bs bf now up key, rule refl)
  have ivo: "invoicing_execute e' = invoicing_execute e"
    by (intro ext) (unfold invoicing_execute_def now com, rule refl)
  have ten: "process_tenant e' = process_tenant e"
    by (intro ext) (unfold process_tenant_def ens ren syn ivo, rule refl)
  have "process_tenants e' k d rows s = process_tenants e k d rows s" for k d rows s
    by (induction rows arbitrary: s) (auto simp: ten split: prod.split sum.split)
  then show ?thesis by (simp add: cycle_process_def per split: prod.split)
qed


section \<open>Payment events\<close>

lemma events_upsert_existing [frame]: "bs_events (snd (upsert_from_existing e tid sub f s)) = bs_events s"
  by (simp add: upsert_from_existing_def frame)

lemma events_sync_config [frame]: "bs_events (sync_tenant_config t sub s) = bs_events s"
  by (simp add: sync_tenant_config_def create_config_def frame Let_def)

lemma events_ensure [frame]: "bs_events (snd (ensure_subscription e t s)) = bs_events s"
  by (simp add: ensure_subscription_def Let_def split_def frame split: option.split)

lemma events_apply_change [frame]: "bs_events (snd (apply_immediate_plan_change e t sub p q u s)) = bs_events s"
  by (simp add: apply_immediate_plan_change_def Let_def split_def frame)

lemma events_apply_event: "bs_events (snd (apply_payment_event e pr eid ety tid md pl i s)) = bs_events s"
  unfolding apply_payment_event_def Let_def
  by (intro ctrl [where P = "\<lambda>x. bs_events x = bs_events s"]) (simp_all add: frame)

lemma recorded_found:
  "\<exists>ev. tbl_first (same_event k) (bs_events (snd (record_payment_event_once k x s))) = Some ev"
proof (cases "tbl_first (same_event k) (bs_events s)")
  case None
  then show ?thesis using event_insert_find [of k k x s] by simp
next
  case (Some ev)
  then show ?thesis using event_insert_find [of k k x s] by simp
qed

lemma webhook_records:
  assumes "py_norm pr \<noteq> []" "py_strip eid \<noteq> []" "event_tenant pl = Inr tid" "0 < tid" "get_tenant tid s \<noteq> None"
  shows "\<exists>ev. tbl_first (same_event (py_norm pr, py_strip eid))
           (bs_events (snd (process_verified_payment_event e pr eid ety pl s))) = Some ev"
  using assms recorded_found [of "(py_norm pr, py_strip eid)" "(py_norm ety, tid, pl)" s]
  by (simp add: process_verified_payment_event_def Let_def split: prod.split)
    (metis (no_types, lifting) events_apply_event snd_conv)



section \<open>Restriction for an unpaid invoice\<close>

lemma invoices_upsert_existing [frame]: "bs_invoices (snd (upsert_from_existing e tid sub f s)) = bs_invoices s"
  by (simp add: upsert_from_existing_def frame)

lemma latest_invoice_cong: "bs_invoices s' = bs_invoices s \<Longrightarrow> get_latest_invoice_for_type tid ty s' = get_latest_invoice_for_type tid ty s"
  by (simp add: get_latest_invoice_for_type_def)

lemma cancellation_cong: "bs_cancels s' = bs_cancels s \<Longrightarrow> get_latest_cancellation_request tid s' = get_latest_cancellation_request tid s"
  by (simp add: get_latest_cancellation_request_def latest_cancellation_def)

lemma overdue_is_latest:
  assumes "overdue_failed_invoice e tid s = Some i"
  shows "get_latest_invoice_for_type tid ''monthly_subscription_failed'' s = Some i
    \<and> inv_status i = ''payment_failed'' \<and> dt_date (inv_due_at i) < dt_date (b_now e s)"
  using assms by (auto simp: overdue_failed_invoice_def split: option.splits if_splits)

lemma sync_restricts:
  assumes "get_latest_cancellation_request (te_tenant_id t) s = None"
    and "overdue_failed_invoice e (te_tenant_id t) s = Some i" "sub_updated_at sub \<le> inv_issued_at i"
    and "sub_status sub \<noteq> ''restricted''"
  obtains d where "sync_status e t sub s = upsert_from_existing e (te_tenant_id t) sub (\<lambda>r. r\<lparr>sub_status := ''restricted''\<rparr>) d"
    "bs_invoices d = bs_invoices s" "bs_cancels d = bs_cancels s"
proof
  let ?d = "if dt_date (inv_due_at i) + 7 \<le> dt_date (b_now e s) then deactivate_tenant (te_tenant_id t) s else s"
  show "sync_status e t sub s = upsert_from_existing e (te_tenant_id t) sub (\<lambda>r. r\<lparr>sub_status := ''restricted''\<rparr>) ?d"
    using assms overdue_is_latest [OF assms(2)] by (simp add: sync_status_def Let_def resolve_def)
  show "bs_invoices ?d = bs_invoices s" "bs_cancels ?d = bs_cancels s"
    by (simp_all add: deactivate_tenant_def frame)
qed

text \<open>A restriction for a failed payment lasts for one check: the check that restricts a paid
  subscription updates its row, and the next check, at any time, takes the failed invoice to be
  older than the subscription and sets it back to active although nothing was paid.\<close>

theorem overdue_restriction_is_lifted_by_next_check:
  assumes "get_latest_cancellation_request (te_tenant_id t) s = None"
    and "overdue_failed_invoice e (te_tenant_id t) s = Some i" "sub_updated_at sub \<le> inv_issued_at i"
    and "sub_status sub \<noteq> ''restricted''" "sub_plan_code sub \<noteq> ''free''" "inv_issued_at i < be_now e"
    and first: "sync_status e t sub s = (sub1, s1)"
  shows "sub_status sub1 = ''restricted'' \<and> sub_status (fst (sync_status e' t sub1 s1)) = ''active''"
proof -
  obtain d where up: "upsert_from_existing e (te_tenant_id t) sub (\<lambda>r. r\<lparr>sub_status := ''restricted''\<rparr>) d = (sub1, s1)"
    and d: "bs_invoices d = bs_invoices s" "bs_cancels d = bs_cancels s"
    using sync_restricts [OF assms(1-4)] first by metis
  have sub1: "sub_status sub1 = ''restricted''" "sub_plan_code sub1 = sub_plan_code sub" "sub_updated_at sub1 = be_now e"
    using up upsert_fields [of "be_now e" "te_tenant_id t" "sub\<lparr>sub_status := ''restricted''\<rparr>" d]
    by (simp_all add: upsert_from_existing_def)
  have s1: "bs_invoices s1 = bs_invoices s" "bs_cancels s1 = bs_cancels s"
    using up d frame_upsert [of "be_now e" "te_tenant_id t" "sub\<lparr>sub_status := ''restricted''\<rparr>" d]
    by (simp_all add: upsert_from_existing_def)
  have "overdue_failed_invoice e' (te_tenant_id t) s1 \<in> {None, Some i}"
    using overdue_is_latest [of e' "te_tenant_id t" s1] overdue_is_latest [OF assms(2)] latest_invoice_cong [OF s1(1)]
    by (cases "overdue_failed_invoice e' (te_tenant_id t) s1") auto
  moreover have "get_latest_cancellation_request (te_tenant_id t) s1 = None"
    using assms(1) cancellation_cong [OF s1(2)] by simp
  ultimately show ?thesis using sub1 assms(5,6)
    by (auto simp: sync_status_def Let_def resolve_def upsert_from_existing_def upsert_fields)
qed

theorem overdue_restriction_is_lifted_by_next_check_witness:
  "\<exists>sub1 s1. sync_status (demo_env (days 20)) demo_tenant (demo_sub ''starter'' ''active'' None)
       (demo_state [demo_sub ''starter'' ''active'' None] [demo_invoice ''monthly_subscription_failed'' ''payment_failed'' (days 10)] [])
     = (sub1, s1) \<and> sub_status sub1 = ''restricted'' \<and> sub_status (fst (sync_status (demo_env (days 21)) demo_tenant sub1 s1)) = ''active''"
proof -
  let ?s = "demo_state [demo_sub ''starter'' ''active'' None] [demo_invoice ''monthly_subscription_failed'' ''payment_failed'' (days 10)] []"
  let ?sub = "demo_sub ''starter'' ''active'' None" and ?i = "demo_invoice ''monthly_subscription_failed'' ''payment_failed'' (days 10)"
  obtain sub1 s1 where y: "sync_status (demo_env (days 20)) demo_tenant ?sub ?s = (sub1, s1)" by fastforce
  have no: "get_latest_cancellation_request (te_tenant_id demo_tenant) ?s = None"
    by (simp add: get_latest_cancellation_request_def latest_cancellation_def first_of_def)
  have ov: "overdue_failed_invoice (demo_env (days 20)) (te_tenant_id demo_tenant) ?s = Some ?i"
    by (simp add: overdue_failed_invoice_def get_latest_invoice_for_type_def first_of_def paid_after_def dt_date_def days_def day_us_def)
  have "sub_status sub1 = ''restricted'' \<and> sub_status (fst (sync_status (demo_env (days 21)) demo_tenant sub1 s1)) = ''active''"
    by (rule overdue_restriction_is_lifted_by_next_check [OF no ov _ _ _ _ y]) (simp_all add: days_def day_us_def)
  then show ?thesis using y by blast
qed

end
