(* ===== verification/BillingQuota.thy ===== *)
theory BillingQuota
  imports BillingProps "HOL-Library.Multiset"
begin

text \<open>
  The question quota: what the gate promises about the counter, and the warning mails.
\<close>

section \<open>The counter\<close>

lemma sum_sort_key: "sum_list (map f (sort_key k xs)) = (sum_list (map f xs) :: int)"
  by (metis mset_map mset_sort sum_mset_sum_list)

definition questions_used :: "int \<Rightarrow> string \<Rightarrow> bstate \<Rightarrow> int" where
  "questions_used tid k s =
     sum_list (map qu_question_count (filter (\<lambda>r. qu_tenant_id r = tid \<and> qu_period_key r = k) (bs_questions s)))"

lemma used_total: "qs_used_total (question_usage_summary e tid sub s) = questions_used tid (b_period_key e s) s"
  by (simp add: question_usage_summary_def list_question_usage_def questions_used_def sum_sort_key Let_def)

lemma sum_update_one:
  assumes "distinct (map k rows)" "r0 \<in> set rows" "\<And>r. p r \<longleftrightarrow> k r = k r0"
    and "\<And>r. c (f r) = c r + (n :: int)" "\<And>r. q (f r) = q r" "q r0"
  shows "sum_list (map c (filter q (tbl_update p f rows))) = sum_list (map c (filter q rows)) + n"
  using assms(1,2)
proof (induction rows)
  case Nil
  then show ?case by simp
next
  case (Cons a rows)
  show ?case
  proof (cases "k a = k r0")
    case True
    then have "\<And>r. r \<in> set rows \<Longrightarrow> \<not> p r" using Cons.prems(1) by (auto simp: assms(3) rev_image_eqI)
    then have u: "tbl_update p f rows = rows" by (rule tbl_update_none)
    have "a = r0" using Cons.prems True by (auto simp: rev_image_eqI)
    then have "tbl_update p f (a # rows) = f r0 # rows" using u assms(3) by (simp add: tbl_update_def)
    then show ?thesis using \<open>a = r0\<close> assms(4,5,6) by simp
  next
    case False
    then have "r0 \<in> set rows" using Cons.prems(2) by auto
    then have "sum_list (map c (filter q (tbl_update p f rows))) = sum_list (map c (filter q rows)) + n"
      using Cons by simp
    moreover have "tbl_update p f (a # rows) = a # tbl_update p f rows" using False assms(3) by (simp add: tbl_update_def)
    ultimately show ?thesis by simp
  qed
qed

lemma used_upsert:
  assumes "distinct (question_keys s)"
  shows "questions_used tid k (upsert_question_usage now tid uid k n s) = questions_used tid k s + max 0 n"
proof (cases "tbl_first (same_question tid uid k) (bs_questions s)")
  case None
  then show ?thesis by (simp add: upsert_question_usage_def questions_used_def)
next
  case (Some r0)
  have r0: "r0 \<in> set (bs_questions s)" "same_question tid uid k r0" using tbl_first_Some [OF Some] by simp_all
  have "sum_list (map qu_question_count (filter (\<lambda>r. qu_tenant_id r = tid \<and> qu_period_key r = k)
          (tbl_update (same_question tid uid k)
             (\<lambda>r. r\<lparr>qu_question_count := qu_question_count r + max 0 n, qu_last_question_at := now\<rparr>) (bs_questions s))))
      = sum_list (map qu_question_count (filter (\<lambda>r. qu_tenant_id r = tid \<and> qu_period_key r = k) (bs_questions s))) + max 0 n"
    by (rule sum_update_one [OF assms [unfolded question_keys_def] r0(1)])
      (use r0(2) in \<open>auto simp: same_question_def\<close>)
  then show ?thesis using Some by (simp add: upsert_question_usage_def questions_used_def)
qed

section \<open>The gate\<close>

text \<open>The part of the state the question summary reads.\<close>

lemma summary_cong:
  assumes "bs_questions s' = bs_questions s" "bs_clock s' = bs_clock s" "bs_catalog s' = bs_catalog s"
    and "sub_plan_code sub' = sub_plan_code sub" "sub_carryover_addon_questions sub' = sub_carryover_addon_questions sub"
  shows "question_usage_summary e tid sub' s' = question_usage_summary e tid sub s"
  using assms
  by (simp add: question_usage_summary_def list_question_usage_def b_period_key_def b_period_def b_now_def clock_now_def
      sub_plan_def plan_map_def list_catalog_def)

lemma period_cong: "bs_clock s' = bs_clock s \<Longrightarrow> b_period_key e s' = b_period_key e s"
  by (simp add: b_period_key_def b_period_def b_now_def clock_now_def)

lemma used_cong: "bs_questions s' = bs_questions s \<Longrightarrow> questions_used tid k s' = questions_used tid k s"
  by (simp add: questions_used_def)

lemma remaining_total:
  "qs_remaining_total (question_usage_summary e tid sub s) =
     max 0 (qs_available_total (question_usage_summary e tid sub s) - qs_used_total (question_usage_summary e tid sub s))"
  by (simp add: question_usage_summary_def Let_def)

lemma questions_ensure [frame]: "bs_questions (snd (ensure_subscription e t s)) = bs_questions s"
  "bs_clock (snd (ensure_subscription e t s)) = bs_clock s"
  "bs_catalog (snd (ensure_subscription e t s)) = bs_catalog s"
  by (simp_all add: ensure_subscription_def sync_tenant_config_def create_config_def Let_def split_def frame split: option.split)

lemma questions_warning [frame]:
  "bs_questions (send_question_warning_if_needed e own t sub s) = bs_questions s"
  "bs_clock (send_question_warning_if_needed e own t sub s) = bs_clock s"
  "bs_catalog (send_question_warning_if_needed e own t sub s) = bs_catalog s"
  by (simp_all add: send_question_warning_if_needed_def Let_def upsert_from_existing_def frame split: option.split)

lemma record_adds_one:
  assumes "distinct (question_keys s)"
  shows "questions_used (te_tenant_id t) (b_period_key e s) (record_question e own t u s)
    = questions_used (te_tenant_id t) (b_period_key e s) s + 1"
proof -
  obtain sub s1 where en: "ensure_subscription e t s = (sub, s1)" by (cases "ensure_subscription e t s")
  have s1: "bs_questions s1 = bs_questions s" "bs_clock s1 = bs_clock s"
    using en questions_ensure(1,2) [of e t s] by simp_all
  have "distinct (question_keys s1)" using assms s1 by (simp add: question_keys_def)
  then have "questions_used (te_tenant_id t) (b_period_key e s1)
      (upsert_question_usage (be_now e) (te_tenant_id t) u (b_period_key e s1) 1 s1)
      = questions_used (te_tenant_id t) (b_period_key e s1) s1 + 1"
    using used_upsert [of s1 "te_tenant_id t" "b_period_key e s1" "be_now e" u 1] by simp
  then show ?thesis using en used_cong [OF s1(1)] period_cong [OF s1(2)]
    by (simp add: record_question_def Let_def used_cong [OF questions_warning(1)])
qed

lemma questions_sync [frame]:
  "bs_questions (snd (sync_status e t sub s)) = bs_questions s"
  "bs_clock (snd (sync_status e t sub s)) = bs_clock s"
  "bs_catalog (snd (sync_status e t sub s)) = bs_catalog s"
  by (simp_all add: sync_status_def deactivate_tenant_def mark_cancellation_deactivated_def ca_mark_def
      upsert_from_existing_def frame Let_def split: option.split)



section \<open>Warning mails\<close>

lemma summary_period:
  "b_period_key e' s = b_period_key e s \<Longrightarrow> question_usage_summary e' tid sub s = question_usage_summary e tid sub s"
  by (simp add: question_usage_summary_def)

lemma summary_key: "qs_period_key (question_usage_summary e tid sub s) = b_period_key e s"
  by (simp add: question_usage_summary_def Let_def)

lemma upsert_warning_fields:
  "sub_question_warning_period_key (fst (upsert_subscription now tid v s)) = sub_question_warning_period_key v"
  "sub_question_warning_level (fst (upsert_subscription now tid v s)) = sub_question_warning_level v"
  "sub_carryover_addon_questions (fst (upsert_subscription now tid v s)) = sub_carryover_addon_questions v"
  by (simp_all add: upsert_subscription_def Let_def split: option.split)

text \<open>The check has nothing to do, or it stores the level it reached.\<close>

lemma warning_idle:
  assumes "qs_available_total (question_usage_summary e (te_tenant_id t) sub s) \<le> 0 \<or> own \<in> {None, Some []}
    \<or> warning_level (qs_percent_used (question_usage_summary e (te_tenant_id t) sub s))
        \<le> (if sub_question_warning_period_key sub = Some (b_period_key e s) then sub_question_warning_level sub else 0)"
  shows "send_question_warning_if_needed e own t sub s = s"
  using assms by (auto simp: send_question_warning_if_needed_def Let_def summary_key split: option.splits)

lemma warning_stored:
  assumes "\<not> qs_available_total (question_usage_summary e (te_tenant_id t) sub s) \<le> 0" "own = Some mail" "mail \<noteq> []"
    and "\<not> warning_level (qs_percent_used (question_usage_summary e (te_tenant_id t) sub s))
        \<le> (if sub_question_warning_period_key sub = Some (b_period_key e s) then sub_question_warning_level sub else 0)"
  shows "\<exists>s0. send_question_warning_if_needed e own t sub s = snd (upsert_subscription (be_now e) (te_tenant_id t)
        (sub\<lparr>sub_question_warning_period_key := Some (b_period_key e s),
             sub_question_warning_level := warning_level (qs_percent_used (question_usage_summary e (te_tenant_id t) sub s))\<rparr>) s0)"
proof (intro exI)
  let ?b = "te_slug t @ '': '' @ show_int (warning_level (qs_percent_used (question_usage_summary e (te_tenant_id t) sub s))) @ ''%''"
  show "send_question_warning_if_needed e own t sub s = snd (upsert_subscription (be_now e) (te_tenant_id t)
        (sub\<lparr>sub_question_warning_period_key := Some (b_period_key e s),
             sub_question_warning_level := warning_level (qs_percent_used (question_usage_summary e (te_tenant_id t) sub s))\<rparr>)
        (if be_send e mail ?b then s\<lparr>bs_mails := bs_mails s @ [(mail, ?b)]\<rparr> else s))"
    using assms by (simp add: send_question_warning_if_needed_def Let_def upsert_from_existing_def summary_key)
qed

text \<open>A tenant is warned once per level and period: after the usage crossed a level (90 or 100 percent) and
the warning was handled, checking the same usage again in the same period, with the subscription
row as stored, sends no mail and changes nothing.\<close>

theorem question_warning_is_sent_once:
  assumes stored: "get_subscription (te_tenant_id t) s = Some sub"
    and s1: "s1 = send_question_warning_if_needed e own t sub s"
    and sub1: "get_subscription (te_tenant_id t) s1 = Some sub1"
    and period: "b_period_key e' s1 = b_period_key e s1"
  shows "send_question_warning_if_needed e' own t sub1 s1 = s1"
proof (cases "qs_available_total (question_usage_summary e (te_tenant_id t) sub s) \<le> 0 \<or> own \<in> {None, Some []}
    \<or> warning_level (qs_percent_used (question_usage_summary e (te_tenant_id t) sub s))
        \<le> (if sub_question_warning_period_key sub = Some (b_period_key e s) then sub_question_warning_level sub else 0)")
  case True
  have same: "s1 = s" unfolding s1 using True by (rule warning_idle)
  have "sub1 = sub" using stored sub1 same by simp
  then show ?thesis using warning_idle [of e' t sub s own] True period same
      summary_period [of e' s e "te_tenant_id t" sub] by simp
next
  case False
  then obtain mail where "own = Some mail" "mail \<noteq> []" by auto
  then obtain s0 where sent: "s1 = snd (upsert_subscription (be_now e) (te_tenant_id t)
        (sub\<lparr>sub_question_warning_period_key := Some (b_period_key e s),
             sub_question_warning_level := warning_level (qs_percent_used (question_usage_summary e (te_tenant_id t) sub s))\<rparr>) s0)"
    using warning_stored [of e t sub s own mail] False s1 by blast
  have fields: "sub_question_warning_period_key sub1 = Some (b_period_key e s)"
    "sub_question_warning_level sub1 = warning_level (qs_percent_used (question_usage_summary e (te_tenant_id t) sub s))"
    "sub_plan_code sub1 = sub_plan_code sub" "sub_carryover_addon_questions sub1 = sub_carryover_addon_questions sub"
    using sub1 sent by (auto simp: get_upsert_subscription upsert_fields upsert_warning_fields)
  have sum: "question_usage_summary e (te_tenant_id t) sub1 s1 = question_usage_summary e (te_tenant_id t) sub s"
    by (rule summary_cong) (simp_all add: s1 frame fields)
  have key: "b_period_key e s1 = b_period_key e s" by (rule period_cong) (simp add: s1 frame)
  show ?thesis
    by (rule warning_idle) (simp only: summary_period [OF period] sum fields period key simp_thms if_True order_refl)
qed

end
