(* ===== verification/BillingChanges.thy ===== *)
theory BillingChanges
  imports BillingQuota
begin

text \<open>
  Plan changes, add-on purchases and cancellations: what each promises to the tenant.
\<close>

section \<open>Frames of the composed writes\<close>

lemma invoices_ensure [frame]: "bs_invoices (snd (ensure_subscription e t s)) = bs_invoices s"
  by (simp add: ensure_subscription_def sync_tenant_config_def create_config_def Let_def split_def frame split: option.split)

lemma invoices_sync [frame]: "bs_invoices (sync_tenant_config t sub s) = bs_invoices s"
  "bs_clock (sync_tenant_config t sub s) = bs_clock s"
  by (simp_all add: sync_tenant_config_def create_config_def frame Let_def)

lemma clock_existing [frame]: "bs_clock (snd (upsert_from_existing e tid sub f s)) = bs_clock s"
  by (simp add: upsert_from_existing_def frame)

section \<open>Plan changes\<close>

lemma get_sync: "get_subscription tid (sync_tenant_config t sub s) = get_subscription tid s"
  by (simp add: sync_tenant_config_def create_config_def get_subscription_def frame Let_def)

lemma apply_change_result:
  assumes "apply_immediate_plan_change e t sub p q u s = (sub1, s1)"
  shows "get_subscription (te_tenant_id t) s1 = Some sub1 \<and> sub_plan_code sub1 = p \<and> sub_billing_period sub1 = q
     \<and> bs_invoices s1 = bs_invoices s \<and> (p \<noteq> ''free'' \<longrightarrow> sub_trial_ends_at sub1 = u)"
  using assms
  by (auto simp: apply_immediate_plan_change_def upsert_from_existing_def Let_def split_def upsert_fields get_upsert_subscription
      sync_tenant_config_def create_config_def tn_update_def get_subscription_def frame)
    (simp_all add: get_upsert_subscription [unfolded get_subscription_def])

text \<open>Changing from one paid plan to a plan that is no downgrade is immediate and free: the tenant gets the
new plan at once, no invoice is written and no payment is tried; the paid-until date is dropped, so
the next bill is due as if the subscription had never been paid.\<close>

theorem plan_change_between_paid_plans_is_free:
  assumes "ensure_subscription e t s = (sub, s0)" "sub_plan_code sub \<noteq> ''free''"
    and "plan_map s (py_norm p) \<noteq> None" "py_norm p \<noteq> ''free''"
    and "\<not> is_scheduled_change sub (py_norm p) (normalize_billing_period q) (plan_map s0)"
  shows "\<exists>s1 sub1. update_subscription (e\<lparr>be_pay := any_pay\<rparr>) t p q s = (Inr ''updated'', s1)
     \<and> get_subscription (te_tenant_id t) s1 = Some sub1 \<and> sub_plan_code sub1 = py_norm p
     \<and> bs_invoices s1 = bs_invoices s0 \<and> sub_trial_ends_at sub1 = None"
proof -
  have e: "ensure_subscription (e\<lparr>be_pay := any_pay\<rparr>) t s = (sub, s0)"
    using assms(1) ensure_env [of "e\<lparr>be_pay := any_pay\<rparr>" e] by simp
  obtain sub1 s1 where ap: "apply_immediate_plan_change (e\<lparr>be_pay := any_pay\<rparr>) t sub (py_norm p)
      (normalize_billing_period q) None s0 = (sub1, s1)" by fastforce
  show ?thesis
    using assms e ap apply_change_result [OF ap]
    by (auto simp: update_subscription_def Let_def)
qed

text \<open>A scheduled downgrade ignores the time already paid: it takes effect in the next calendar
  period, and the renewal then sets the cheaper plan and forgets the paid-until date, however far
  that date is.\<close>

theorem scheduled_downgrade_drops_paid_time:
  assumes upd: "update_subscription e t p q s = (Inr ''scheduled'', s1)"
    and sub: "get_subscription (te_tenant_id t) s1 = Some sub"
    and plan: "py_norm p \<noteq> ''free''" "py_norm p \<noteq> []"
    and later: "b_period_key e' s1 = year_month_key (b_period_end e s)" "due \<le> dt_date (b_now e' s1)"
  shows "sub_plan_code (fst (renewal_execute e' t sub (b_period_key e' s1) due s1)) = py_norm p
     \<and> sub_trial_ends_at (fst (renewal_execute e' t sub (b_period_key e' s1) due s1)) = None"
proof -
  obtain sub0 s0 where en: "ensure_subscription e t s = (sub0, s0)" by fastforce
  have clock: "bs_clock s0 = bs_clock s" using questions_ensure(2) [of e t s] en by simp
  have per: "b_period_end e s0 = b_period_end e s"
    by (simp add: b_period_end_def b_period_def b_now_def clock_now_def clock)
  obtain u s2 where up: "upsert_from_existing e (te_tenant_id t) sub0
      (\<lambda>r. r\<lparr>sub_scheduled_plan_code := Some (py_norm p), sub_scheduled_billing_period := Some (normalize_billing_period q),
             sub_scheduled_change_effective_period := Some (year_month_key (b_period_end e s0))\<rparr>) s0 = (u, s2)" by fastforce
  have "s1 = sync_tenant_config t u s2"
    using upd en up
    by (auto simp: update_subscription_def Let_def split: if_splits prod.splits sum.splits)
  then have "sub = u" using sub up
    by (simp add: upsert_from_existing_def get_sync) (metis fst_conv get_upsert_subscription option.inject snd_conv)
  then have "scheduled_now sub (b_period_key e' s1) = Some (py_norm p)"
    using up per later(1) plan(2)
    by (auto simp: upsert_from_existing_def scheduled_now_def upsert_subscription_def Let_def split: option.splits)
  then show ?thesis using later(2) plan(1)
    by (simp add: renewal_execute_def upsert_from_existing_def upsert_fields apply_scheduled_def)
qed

theorem scheduled_downgrade_drops_paid_time_witness:
  "\<exists>s1 sub. update_subscription (demo_env (days 100)) demo_tenant ''starter'' ''monthly''
        (demo_state [demo_sub ''growth'' ''active'' (Some (days 400))] [] []) = (Inr ''scheduled'', s1)
     \<and> get_subscription 1 s1 = Some sub
     \<and> sub_trial_ends_at (fst (renewal_execute (demo_env (days 130)) demo_tenant sub (b_period_key (demo_env (days 130)) s1) 125 s1)) = None"
proof -
  let ?s = "demo_state [demo_sub ''growth'' ''active'' (Some (days 400))] [] []"
  have norm: "py_norm ''starter'' = ''starter''" "normalize_billing_period ''monthly'' = ''monthly''"
    by (simp_all add: py_norm_def py_strip_def is_blank_def py_lower_def lower_char_def normalize_billing_period_def norm_period_def)
  have "is_scheduled_change (demo_sub ''growth'' ''active'' (Some (days 400))) ''starter'' ''monthly'' (plan_map ?s)"
    by (simp add: is_scheduled_change_def is_downgrade_def plan_or_free_def)
  then obtain s1 where u: "update_subscription (demo_env (days 100)) demo_tenant ''starter'' ''monthly'' ?s = (Inr ''scheduled'', s1)"
    by (auto simp: update_subscription_def norm split_def Let_def)
  obtain sub where sub: "get_subscription (te_tenant_id demo_tenant) s1 = Some sub"
    using u norm
    by (auto simp: update_subscription_def split_def Let_def get_sync upsert_from_existing_def get_upsert_subscription split: if_splits)
  have clock: "b_now (demo_env t) s1 = t" for t
  proof -
    have "bs_clock s1 = None" using u norm
      by (auto simp: update_subscription_def split_def Let_def upsert_from_existing_def frame sync_tenant_config_def create_config_def split: if_splits)
    then show ?thesis by (simp add: b_now_def clock_now_def)
  qed
  have key: "fst (current_month_period (days 130)) = period_key_of 1 5" by code_simp
  have dd: "dt_date (days n) = n + 1" for n by (simp add: dt_date_def days_def day_us_def)
  have "fst (snd (snd (current_month_period (days 100)))) = days 126" "date_year 127 = 1" "date_month 127 = 5"
    by code_simp+
  then have keys: "b_period_key (demo_env (days 130)) s1 = year_month_key (b_period_end (demo_env (days 100)) ?s)"
    by (simp add: b_period_key_def b_period_def clock key b_period_end_def year_month_key_def dd)
  have due: "125 \<le> dt_date (b_now (demo_env (days 130)) s1)" by (simp add: clock dd)
  have p: "py_norm ''starter'' \<noteq> ''free''" "py_norm ''starter'' \<noteq> []" by (simp_all add: norm)
  show ?thesis using scheduled_downgrade_drops_paid_time [OF u sub p keys due] u sub by auto
qed

section \<open>Add-ons\<close>

lemma line_chars_nonneg: "0 \<le> line_chars a l"
  by (simp add: line_chars_def Let_def)

lemma catalog_cong:
  "bs_catalog s' = bs_catalog s \<Longrightarrow> plan_map s' = plan_map s"
  "bs_catalog s' = bs_catalog s \<Longrightarrow> addon_map s' = addon_map s"
  by (simp_all add: plan_map_def addon_map_def list_catalog_def)

lemma addon_chars_mono:
  assumes "bs_catalog s' = bs_catalog s" "bs_invoices s' = bs_invoices s @ new"
  shows "training_addon_invoice_chars tid s \<le> training_addon_invoice_chars tid s'"
  using catalog_cong(2) [OF assms(1)] assms(2)
  by (auto simp: training_addon_invoice_chars_def list_training_addon_invoices_def line_chars_nonneg Let_def
      intro!: sum_list_nonneg)

text \<open>The limits grow with the subscription.\<close>

definition limits_le :: "tenant_limits \<Rightarrow> tenant_limits \<Rightarrow> bool" where
  "limits_le a b = (lim_max_users a = lim_max_users b \<and> lim_knowledge_bases a \<le> lim_knowledge_bases b
     \<and> lim_storage_gb a \<le> lim_storage_gb b \<and> lim_questions_monthly a \<le> lim_questions_monthly b
     \<and> lim_addon_questions_carryover a \<le> lim_addon_questions_carryover b
     \<and> lim_training_chars_available a \<le> lim_training_chars_available b)"

lemma addon_effect_fields:
  assumes "1 \<le> qty"
  shows "sub_plan_code (addon_effect plan a c qty sub) = sub_plan_code sub"
    "sub_tenant_id (addon_effect plan a c qty sub) = sub_tenant_id sub"
    "sub_extra_kb_count sub \<le> sub_extra_kb_count (addon_effect plan a c qty sub)"
    "sub_extra_storage_gb sub \<le> sub_extra_storage_gb (addon_effect plan a c qty sub)"
    "sub_carryover_addon_questions sub \<le> sub_carryover_addon_questions (addon_effect plan a c qty sub)"
    "sub_carryover_training_chars sub \<le> sub_carryover_training_chars (addon_effect plan a c qty sub)"
  using assms by (auto simp: addon_effect_def Let_def intro: add_increasing2)

lemma limits_mono:
  assumes "bs_catalog s' = bs_catalog s" "bs_invoices s' = bs_invoices s @ new"
    and "sub_plan_code sub' = sub_plan_code sub" "sub_tenant_id sub' = sub_tenant_id sub"
    and "sub_extra_kb_count sub \<le> sub_extra_kb_count sub'" "sub_extra_storage_gb sub \<le> sub_extra_storage_gb sub'"
    and "sub_carryover_addon_questions sub \<le> sub_carryover_addon_questions sub'"
    and "sub_carryover_training_chars sub \<le> sub_carryover_training_chars sub'"
  shows "limits_le (build_limits s sub) (build_limits s' sub')"
proof -
  have plan: "sub_plan s' sub' = sub_plan s sub" using catalog_cong(1) [OF assms(1)] assms(3) by (simp add: sub_plan_def)
  moreover have "training_addon_invoice_chars (sub_tenant_id sub) s \<le> training_addon_invoice_chars (sub_tenant_id sub') s'"
    using addon_chars_mono [OF assms(1,2)] assms(4) by simp
  moreover from this have "available_training_chars s sub \<le> available_training_chars s' sub'"
    unfolding available_training_chars_def Let_def plan using assms(8) by (intro max.mono) auto
  ultimately show ?thesis using assms(5-7) plan by (simp add: limits_le_def build_limits_def Let_def)
qed

lemma create_invoice_Inr:
  "create_invoice tid mk s = (Inr i, s') \<Longrightarrow>
   bs_invoices s' = bs_invoices s @ [i] \<and> i = (mk (bs_next_invoice s))\<lparr>inv_tenant_id := tid, inv_id := bs_next_invoice s\<rparr>
   \<and> bs_catalog s' = bs_catalog s \<and> bs_subs s' = bs_subs s"
  by (auto simp: create_invoice_def inv_insert_def Let_def split: if_splits)

text \<open>An add-on purchase that succeeds was paid, is invoiced at the catalog price times the
  quantity (at least one), and never lowers a limit of the tenant.\<close>

theorem addon_purchase_raises_limits:
  assumes buy: "purchase_addon e t c n s = (Inr i, s')"
    and sub: "get_subscription (te_tenant_id t) s = Some sub" "sub_tenant_id sub = te_tenant_id t"
  shows "\<exists>a sub'. addon_map s (py_norm c) = Some a \<and> i \<in> set (bs_invoices s')
     \<and> inv_total_cents i = ba_price_cents a * max 1 n
     \<and> pr_success (execute_payment (be_pay e) (ba_price_cents a * max 1 n)
          (''Addon vasarlas: '' @ ba_name a @ '' x '' @ show_int (max 1 n)))
     \<and> get_subscription (te_tenant_id t) s' = Some sub' \<and> limits_le (build_limits s sub) (build_limits s' sub')"
proof -
  obtain a where a: "addon_map s (py_norm c) = Some a"
    using buy by (auto simp: purchase_addon_def Let_def split: option.splits)
  have q: "max 1 (if n = 0 then 1 else n) = max 1 n" by simp
  have en: "ensure_subscription e t s = (sub, s)" using sub by (simp add: ensure_subscription_def)
  let ?sub = "addon_effect (sub_plan s sub) a (py_norm c) (max 1 n) sub"
  obtain u s2 where up: "upsert_subscription (be_now e) (te_tenant_id t) ?sub s = (u, s2)" by fastforce
  have u: "sub_plan_code u = sub_plan_code ?sub" "sub_tenant_id u = te_tenant_id t"
    "sub_extra_kb_count u = sub_extra_kb_count ?sub" "sub_extra_storage_gb u = sub_extra_storage_gb ?sub"
    "sub_carryover_addon_questions u = sub_carryover_addon_questions ?sub"
    "sub_carryover_training_chars u = sub_carryover_training_chars ?sub"
    using up by (auto simp: upsert_subscription_def Let_def split: option.splits)
  have s2: "bs_catalog s2 = bs_catalog s" "bs_invoices s2 = bs_invoices s" "get_subscription (te_tenant_id t) s2 = Some u"
    using up frame_upsert [of "be_now e" "te_tenant_id t" ?sub s] get_upsert_subscription [of "te_tenant_id t" "be_now e" "te_tenant_id t" ?sub s]
    by simp_all
  let ?s3 = "sync_tenant_config t u s2"
  have s3: "bs_catalog ?s3 = bs_catalog s" "bs_invoices ?s3 = bs_invoices s" "get_subscription (te_tenant_id t) ?s3 = Some u"
    using s2 by (simp_all add: get_sync) (simp_all add: sync_tenant_config_def create_config_def frame Let_def)
  obtain ls d1 d2 k m de where cr: "create_invoice (te_tenant_id t)
      (mk_invoice (''addon:'' @ py_norm c) k m (ba_price_cents a * max 1 n) de d1 ls (b_now e ?s3) d2) ?s3 = (Inr i, s')"
    and paid: "pr_success (execute_payment (be_pay e) (ba_price_cents a * max 1 n)
          (''Addon vasarlas: '' @ ba_name a @ '' x '' @ show_int (max 1 n)))"
    using buy a en up
    by (simp add: purchase_addon_def upsert_from_existing_def q Let_def split: if_splits)
  have s': "bs_invoices s' = bs_invoices s @ [i]" "bs_catalog s' = bs_catalog s" "inv_total_cents i = ba_price_cents a * max 1 n"
    "get_subscription (te_tenant_id t) s' = Some u"
    using create_invoice_Inr [OF cr] s3 by (simp_all add: get_subscription_def mk_invoice_def)
  have "limits_le (build_limits s sub) (build_limits s' u)"
    by (rule limits_mono [OF s'(2,1)]) (use u sub(2) addon_effect_fields [where qty = "max 1 n" and sub = sub] in auto)
  then show ?thesis using a s' paid by auto
qed

theorem addon_purchase_raises_limits_witness:
  "\<exists>i s' sub'. purchase_addon (demo_env (days 100)) demo_tenant ''extra_kb'' 2 (demo_state [demo_sub ''starter'' ''active'' None] [] []) = (Inr i, s')
     \<and> i \<in> set (bs_invoices s') \<and> get_subscription 1 s' = Some sub'
     \<and> limits_le (build_limits (demo_state [demo_sub ''starter'' ''active'' None] [] []) (demo_sub ''starter'' ''active'' None))
         (build_limits s' sub')"
proof -
  let ?s = "demo_state [demo_sub ''starter'' ''active'' None] [] []"
  obtain a where a: "addon_map ?s ''extra_kb'' = Some a" using demo_extra_kb by blast
  have norm: "py_norm ''extra_kb'' = ''extra_kb''"
    by (simp add: py_norm_def py_strip_def is_blank_def py_lower_def lower_char_def)
  have pay: "pr_success (execute_payment (be_pay (demo_env t)) c d)" for t c d
    by (simp add: execute_payment_def Let_def)
  have addon: "\<exists>i. fst (purchase_addon (demo_env (days 100)) demo_tenant ''extra_kb'' 2 ?s) = Inr i"
    by (simp add: purchase_addon_def norm a pay split_def Let_def create_invoice_def invoices_sync frame upsert_from_existing_def)
  obtain i s' where b: "purchase_addon (demo_env (days 100)) demo_tenant ''extra_kb'' 2 ?s = (Inr i, s')"
    using prod.collapse by (metis (no_types, lifting) addon)
  show ?thesis
    using addon_purchase_raises_limits [OF b, of "demo_sub ''starter'' ''active'' None"] b by auto
qed

end
