(* ===== verification/BillingEnd.thy ===== *)
theory BillingEnd
  imports BillingChanges
begin

text \<open>
  The end of a subscription: which tenants the cancellation life cycle deletes, and two flows whose
  outcome the user does not expect (two add-ons in one instant, a cancellation sent twice).
\<close>

section \<open>Two purchases in one instant\<close>

lemma create_invoice_taken:
  assumes "i \<in> set (bs_invoices s)" "inv_tenant_id i = tid"
    "inv_type i = inv_type (mk (bs_next_invoice s))" "inv_period_key i = inv_period_key (mk (bs_next_invoice s))"
  shows "create_invoice tid mk s = (Inl (IntegrityError ''uq_billing_invoice_tenant_type_period''), s)"
  using assms by (auto simp: create_invoice_def Let_def list_ex_iff same_invoice_def)

lemma bought_invoice:
  assumes "purchase_addon e t c n s = (Inr i, s')"
  shows "i \<in> set (bs_invoices s') \<and> inv_tenant_id i = te_tenant_id t \<and> inv_type i = ''addon:'' @ py_norm c
    \<and> inv_period_key i = stamp16 (b_now e s)"
proof -
  obtain sub s1 where en: "ensure_subscription e t s = (sub, s1)" by fastforce
  obtain a where a: "addon_map s (py_norm c) = Some a"
    using assms by (auto simp: purchase_addon_def Let_def split: option.splits)
  obtain u s2 where up: "upsert_from_existing e (te_tenant_id t) sub
      (addon_effect (sub_plan s1 sub) a (py_norm c) (max 1 (if n = 0 then 1 else n))) s1 = (u, s2)" by fastforce
  have clock: "b_now e (sync_tenant_config t u s2) = b_now e s"
    using en up questions_ensure(2) [of e t s]
      clock_existing [of e "te_tenant_id t" sub "addon_effect (sub_plan s1 sub) a (py_norm c) (max 1 (if n = 0 then 1 else n))" s1]
    by (simp add: b_now_def clock_now_def frame)
  show ?thesis using assms a en up clock
    by (auto simp: purchase_addon_def Let_def mk_invoice_def split: if_splits dest!: create_invoice_Inr)
qed

text \<open>A second purchase of the same add-on within the same hundredth of a second fails after it was paid:
the payment has been executed and the add-on granted, but no invoice can be written and the caller
gets an error.\<close>

theorem second_addon_in_one_instant_fails:
  assumes first: "purchase_addon e t c n s = (Inr i, s1)"
    and same: "stamp16 (b_now e' s1) = stamp16 (b_now e s)"
    and paid: "\<And>amount d. pr_success (execute_payment (be_pay e') amount d)"
    and known: "addon_map s1 (py_norm c) = Some a"
  shows "\<exists>sub u s2. ensure_subscription e' t s1 = (sub, s2)
    \<and> get_subscription (te_tenant_id t) (snd (purchase_addon e' t c m s1)) = Some u
    \<and> sub_extra_kb_count u = sub_extra_kb_count (addon_effect (sub_plan s2 sub) a (py_norm c) (max 1 m) sub)
    \<and> fst (purchase_addon e' t c m s1) = Inl (IntegrityError ''uq_billing_invoice_tenant_type_period'')"
proof -
  obtain sub s2 where en: "ensure_subscription e' t s1 = (sub, s2)" by fastforce
  have q: "max 1 (if m = 0 then 1 else m) = max 1 m" by simp
  let ?f = "addon_effect (sub_plan s2 sub) a (py_norm c) (max 1 m)"
  obtain u s3 where up: "upsert_from_existing e' (te_tenant_id t) sub ?f s2 = (u, s3)" by fastforce
  let ?s4 = "sync_tenant_config t u s3"
  have clock: "b_now e' ?s4 = b_now e' s1"
    using en up questions_ensure(2) [of e' t s1] clock_existing [of e' "te_tenant_id t" sub ?f s2]
    by (simp add: b_now_def clock_now_def frame)
  have ivs: "bs_invoices ?s4 = bs_invoices s1"
    using en up invoices_ensure [of e' t s1] invoices_upsert_existing [of e' "te_tenant_id t" sub ?f s2]
    by (simp add: frame)
  have u: "get_subscription (te_tenant_id t) ?s4 = Some u" "sub_extra_kb_count u = sub_extra_kb_count (?f sub)"
    using up get_upsert_subscription [of "te_tenant_id t" "be_now e'" "te_tenant_id t" "?f sub" s2]
    by (auto simp: upsert_from_existing_def get_sync) (auto simp: upsert_subscription_def Let_def split: option.splits)
  have cr: "create_invoice (te_tenant_id t) (mk_invoice (''addon:'' @ py_norm c) (stamp16 (b_now e' s1)) st tc pm de ls d1 d2) ?s4
      = (Inl (IntegrityError ''uq_billing_invoice_tenant_type_period''), ?s4)" for st tc pm de ls d1 d2
    using bought_invoice [OF first] ivs same by (intro create_invoice_taken [of i]) simp_all
  have "purchase_addon e' t c m s1 = (Inl (IntegrityError ''uq_billing_invoice_tenant_type_period''), ?s4)"
    using en up paid known by (simp add: purchase_addon_def Let_def q clock cr [simplified])
  then show ?thesis using en u by simp
qed

section \<open>Deleting a tenant\<close>

definition tenant_ids :: "bstate \<Rightarrow> int set" where
  "tenant_ids s = set (map tn_id (bs_tenants s))"

lemma ids_simps [simp]:
  "tenant_ids (s\<lparr>bs_mails := m\<rparr>) = tenant_ids s"
  "tenant_ids (s\<lparr>bs_dropped := d\<rparr>) = tenant_ids s"
  "tenant_ids (snd (hard_delete_tenant tid s)) = tenant_ids s - {tid}"
  by (auto simp: tenant_ids_def hard_delete_tenant_def)

lemma ids_deactivate [simp]: "tenant_ids (deactivate_tenant tid s) = tenant_ids s"
  by (simp only: tenant_ids_def deactivate_tenant_def tn_update_def bstate.simps) (simp add: map_tbl_update del: set_map)

lemma ids_mark [simp]: "tenant_ids (snd (ca_mark col f i s)) = tenant_ids s"
  by (simp add: ca_mark_def Let_def tenant_ids_def)

lemma ids_marks [simp]:
  "tenant_ids (snd (mark_cancellation_notice_two_days_sent i t s)) = tenant_ids s"
  "tenant_ids (snd (mark_cancellation_notice_one_day_sent i t s)) = tenant_ids s"
  "tenant_ids (snd (mark_cancellation_notice_expired_sent i t s)) = tenant_ids s"
  "tenant_ids (snd (mark_cancellation_deactivated i t s)) = tenant_ids s"
  by (simp_all add: mark_cancellation_notice_two_days_sent_def mark_cancellation_notice_one_day_sent_def
      mark_cancellation_notice_expired_sent_def mark_cancellation_deactivated_def)

lemma ids_notice:
  assumes "\<And>x. tenant_ids (snd (mark x)) = tenant_ids x"
  shows "tenant_ids (snd (send_notice e mail body mark ms)) = tenant_ids (snd ms)"
  using assms [of "(snd ms)\<lparr>bs_mails := bs_mails (snd ms) @ [(mail, body)]\<rparr>"]
  by (simp add: send_notice_def split_def)

text \<open>The row a tenant can be deleted for.\<close>

definition grace_over :: "pydatetime \<Rightarrow> cancellation \<Rightarrow> bool" where
  "grace_over now c = (case ca_deactivated_at c of None \<Rightarrow> False | Some d \<Rightarrow> dt_date d + 7 \<le> dt_date now)"

lemma ids_notices:
  "tenant_ids (snd (early_notices e now row eff ms)) = tenant_ids (snd ms)"
  "tenant_ids (snd (lifecycle_deactivate now row eff ms)) = tenant_ids (snd ms)"
  "tenant_ids (snd (expired_notice e now row eff ms)) = tenant_ids (snd ms)"
  by (simp_all add: early_notices_def lifecycle_deactivate_def expired_notice_def Let_def split_def ids_notice split: option.split)

lemma ids_row:
  "tenant_ids (snd ms) - (if grace_over now row then {ca_tenant_id row} else {}) \<subseteq> tenant_ids (snd (lifecycle_row e now row ms))"
  by (auto simp: lifecycle_row_def lifecycle_delete_def ids_notices grace_over_def Let_def split_def split: option.split)

lemma ids_rows:
  "tid \<in> tenant_ids (snd ms) \<Longrightarrow> tid \<notin> tenant_ids (snd (fold (lifecycle_row e now) rows ms)) \<Longrightarrow>
   \<exists>row \<in> set rows. grace_over now row \<and> ca_tenant_id row = tid"
proof (induction rows arbitrary: ms)
  case Nil
  then show ?case by simp
next
  case (Cons row rows)
  show ?case
  proof (cases "tid \<in> tenant_ids (snd (lifecycle_row e now row ms))")
    case True
    then show ?thesis using Cons.IH [of "lifecycle_row e now row ms"] Cons.prems by auto
  next
    case False
    then show ?thesis using ids_row [of ms now row e] Cons.prems(1) by (auto split: if_splits)
  qed
qed



section \<open>A cancellation sent twice\<close>

lemma not_active_steps: "bsteps a b \<Longrightarrow> not_active tid a \<Longrightarrow> not_active tid b"
  by (rule bsteps_mono [of a b "not_active tid"]) (auto intro: not_active_prim)

lemma deactivate_not_active: "not_active tid (deactivate_tenant tid s)"
  by (simp add: not_active_def deactivate_tenant_def tn_update_def tbl_update_def ball_Un)

lemma not_active_marked: "not_active tid (snd (mark_cancellation_deactivated i now (deactivate_tenant tid s)))"
  using not_active_steps [OF steps_marks(4) [OF bsteps_refl] deactivate_not_active] .

lemma row_deactivates:
  assumes "ca_effective_at row = Some eff" "ca_deactivated_at row = None" "dt_date eff + 7 \<le> dt_date now"
  shows "not_active (ca_tenant_id row) (snd (lifecycle_row e now row ms))"
proof -
  have "not_active (ca_tenant_id row) (snd (lifecycle_deactivate now row eff ms'))" for ms'
    using assms(2,3) not_active_marked [of "ca_tenant_id row" "ca_id row" now "snd ms'"]
    by (simp add: lifecycle_deactivate_def split_def)
  then show ?thesis
    using not_active_steps [OF steps_delete [OF steps_notices(3) [OF bsteps_refl]]] by (simp add: lifecycle_row_def assms(1))
qed

lemma lifecycle_deactivates:
  assumes "c \<in> set (bs_cancels s)" "ca_status c = ''deactivation_requested''" "ca_cleanup_completed_at c = None"
    "ca_effective_at c = Some eff" "ca_deactivated_at c = None" "dt_date eff + 7 \<le> dt_date (b_now e s)"
  shows "not_active (ca_tenant_id c) (snd (process_cancellation_lifecycle e s))"
proof -
  let ?m = "\<lparr>cm_emails_sent = 0, cm_deactivated = 0, cm_deleted = 0\<rparr>"
  have "c \<in> set (list_cancellation_requests_for_lifecycle s)"
    using assms(1-3) by (simp add: list_cancellation_requests_for_lifecycle_def)
  then obtain xs ys where l: "list_cancellation_requests_for_lifecycle s = xs @ c # ys" by (meson split_list)
  define ms where "ms = lifecycle_row e (b_now e s) c (fold (lifecycle_row e (b_now e s)) xs (?m, s))"
  have a: "not_active (ca_tenant_id c) (snd ms)" unfolding ms_def using assms(4-6) by (rule row_deactivates)
  have "bsteps (snd ms) (snd (fold (lifecycle_row e now) rows ms'))" if "bsteps (snd ms) (snd ms')" for now rows ms'
    using that by (induction rows arbitrary: ms') (simp_all add: steps_lifecycle_row)
  from not_active_steps [OF this [OF bsteps_refl] a]
  show ?thesis by (simp add: process_cancellation_lifecycle_def l ms_def)
qed

text \<open>The latest request is the first by request time, then by id.\<close>

lemma first_of_sort:
  fixes f g :: "'a \<Rightarrow> int"
  assumes "first_of (sort_key f (sort_key g xs)) = Some x" "y \<in> set xs"
  shows "f x < f y \<or> f x = f y \<and> g x \<le> g y"
proof -
  obtain zs where zs: "sort_key f (sort_key g xs) = x # zs"
    using assms(1) by (auto simp: first_of_def split: list.splits)
  have mem: "y \<in> set (x # zs)" using assms(2) zs by (metis set_sort)
  have "sorted (map f (x # zs))" using sorted_sort_key [of f "sort_key g xs"] zs by simp
  then have le: "f x \<le> f y" using mem by auto
  show ?thesis
  proof (cases "f x = f y")
    case True
    have "filter (\<lambda>a. f a = f x) (x # zs) = filter (\<lambda>a. f a = f x) (sort_key g xs)"
      using sort_key_stable [of f "f x" "sort_key g xs"] zs by simp
    moreover have "sorted (map g (filter (\<lambda>a. f a = f x) (sort_key g xs)))"
      by (rule sorted_filter) (rule sorted_sort_key)
    ultimately have "sorted (map g (x # filter (\<lambda>a. f a = f x) zs))" by simp
    then show ?thesis using True mem by auto
  next
    case False
    then show ?thesis using le by simp
  qed
qed

lemma latest_is_max:
  assumes "latest_cancellation p s = Some c" "d \<in> set (bs_cancels s)" "p d"
  shows "ca_requested_at d < ca_requested_at c \<or> ca_requested_at d = ca_requested_at c \<and> ca_id d \<le> ca_id c"
  using first_of_sort [OF assms(1) [unfolded latest_cancellation_def], of d] assms(2,3) by auto

lemma latest_mem: "latest_cancellation p s = Some l \<Longrightarrow> l \<in> set (bs_cancels s) \<and> p l"
  by (auto simp: latest_cancellation_def first_of_def split: list.splits dest!: arg_cong [where f = set])

lemma cancels_ensure [frame]: "bs_cancels (snd (ensure_subscription e t s)) = bs_cancels s"
  "bs_next_cancel (snd (ensure_subscription e t s)) = bs_next_cancel s"
  by (simp_all add: ensure_subscription_def sync_tenant_config_def create_config_def Let_def split_def frame split: option.split)

text \<open>The row a cancellation writes.\<close>

lemma cancel_writes:
  assumes "cancel_subscription e t rc rt by s = (Inr r, s')"
  shows "\<exists>c. bs_cancels s' = bs_cancels s @ [c] \<and> ca_tenant_id c = te_tenant_id t \<and> ca_status c = ''deactivation_requested''
    \<and> ca_cleanup_completed_at c = None \<and> ca_deactivated_at c = None \<and> ca_requested_at c = be_now e
    \<and> ca_id c = bs_next_cancel s \<and> bs_next_cancel s' = bs_next_cancel s + 1
    \<and> ca_effective_at c = Some (dt_midnight (cr_current_period_end r + 1))"
proof -
  obtain sub s1 where en: "ensure_subscription e t s = (sub, s1)" by fastforce
  show ?thesis using assms en cancels_ensure [of e t s]
    by (auto simp: cancel_subscription_def create_cancellation_request_def ca_insert_def Let_def split: if_splits)
qed

text \<open>A restore touches one row, the latest open one.\<close>

lemma restore_keeps_others:
  assumes "restore_subscription_renewal e t s = (Inr r, s')" "c \<in> set (bs_cancels s)"
    and "\<And>l. latest_cancellation (\<lambda>r. ca_tenant_id r = te_tenant_id t \<and> ca_status r = ''deactivation_requested'') s = Some l
       \<Longrightarrow> ca_id l \<noteq> ca_id c"
  shows "c \<in> set (bs_cancels s')"
proof -
  obtain sub s1 where en: "ensure_subscription e t s = (sub, s1)" by fastforce
  have c1: "bs_cancels s1 = bs_cancels s" using cancels_ensure(1) [of e t s] en by simp
  let ?p = "\<lambda>r. ca_tenant_id r = te_tenant_id t \<and> ca_status r = ''deactivation_requested''"
  have lat: "latest_cancellation ?p s1 = latest_cancellation ?p s" by (simp add: latest_cancellation_def c1)
  have keep: "c \<in> set (bs_cancels (snd (restore_latest_cancellation_request (te_tenant_id t) now s1)))" for now
  proof (cases "latest_cancellation ?p s")
    case None
    then show ?thesis using assms(2) by (simp add: restore_latest_cancellation_request_def lat c1)
  next
    case (Some l)
    then show ?thesis using assms(2,3)
      by (auto simp: restore_latest_cancellation_request_def lat c1 ca_mark_def Let_def set_tbl_update)
  qed
  show ?thesis using assms(1) en keep [of "b_now e s1"] c1 assms(2)
    by (auto simp: restore_subscription_renewal_def Let_def split_def split: option.splits if_splits)
qed

text \<open>A cancellation that was sent twice is not undone by restoring the renewal: the restore closes
  the later request only, and a week after the paid period the life cycle deactivates the tenant
  because of the earlier one.\<close>

theorem cancellation_sent_twice_survives_restore:
  assumes "billing_inv s" and "cancel_subscription e1 t rc1 rt1 by1 s = (Inr r1, s1)"
    and "cancel_subscription e2 t rc2 rt2 by2 s1 = (Inr r2, s2)" "be_now e1 \<le> be_now e2"
    and "restore_subscription_renewal e3 t s2 = (Inr r3, s3)"
    and "cr_current_period_end r1 + 8 \<le> dt_date (b_now e4 s3)"
  shows "not_active (te_tenant_id t) (snd (process_cancellation_lifecycle e4 s3))"
proof -
  obtain c1 where c1: "bs_cancels s1 = bs_cancels s @ [c1]" "ca_tenant_id c1 = te_tenant_id t"
    "ca_status c1 = ''deactivation_requested''" "ca_cleanup_completed_at c1 = None" "ca_deactivated_at c1 = None"
    "ca_requested_at c1 = be_now e1" "ca_id c1 = bs_next_cancel s" "bs_next_cancel s1 = bs_next_cancel s + 1"
    "ca_effective_at c1 = Some (dt_midnight (cr_current_period_end r1 + 1))"
    using cancel_writes [OF assms(2)] by blast
  obtain c2 where c2: "bs_cancels s2 = bs_cancels s1 @ [c2]" "ca_tenant_id c2 = te_tenant_id t"
    "ca_status c2 = ''deactivation_requested''" "ca_requested_at c2 = be_now e2" "ca_id c2 = bs_next_cancel s1"
    using cancel_writes [OF assms(3)] by blast
  have old: "\<And>d. d \<in> set (bs_cancels s) \<Longrightarrow> ca_id d < bs_next_cancel s"
    using assms(1) by (simp add: billing_inv_def cat.wf_def)
  have "c1 \<in> set (bs_cancels s3)"
  proof (rule restore_keeps_others [OF assms(5)])
    show "c1 \<in> set (bs_cancels s2)" using c1 c2 by simp
    fix l
    assume l: "latest_cancellation (\<lambda>r. ca_tenant_id r = te_tenant_id t \<and> ca_status r = ''deactivation_requested'') s2 = Some l"
    then have "ca_requested_at c2 < ca_requested_at l \<or> ca_requested_at c2 = ca_requested_at l \<and> ca_id c2 \<le> ca_id l"
      by (rule latest_is_max) (use c2 in auto)
    moreover have "l \<in> set (bs_cancels s2)" using l by (auto dest: latest_mem)
    ultimately show "ca_id l \<noteq> ca_id c1" using c1 c2 assms(4) old [of l] by auto
  qed
  then show ?thesis using lifecycle_deactivates [of c1 s3 _ e4] c1 assms(6) by auto
qed

lemma cancel_ok:
  assumes "get_subscription (te_tenant_id t) s = Some sub" "py_norm rc \<in> set cancel_reasons"
  shows "\<exists>r s'. cancel_subscription e t rc rt by s = (Inr r, s') \<and> get_subscription (te_tenant_id t) s' = Some sub
    \<and> cr_current_period_end r = subscription_due_date (te_tenant_id t) sub s \<and> bs_clock s' = bs_clock s
    \<and> (\<forall>c \<in> set (bs_cancels s'). c \<in> set (bs_cancels s) \<or> ca_deactivated_at c = None)"
  using assms
  by (auto simp: cancel_subscription_def ensure_subscription_def create_cancellation_request_def ca_insert_def
      get_subscription_def Let_def)

lemma restore_ok:
  assumes "get_subscription (te_tenant_id t) s = Some sub" "\<forall>c \<in> set (bs_cancels s). ca_deactivated_at c = None"
  shows "\<exists>r s'. restore_subscription_renewal e t s = (Inr r, s') \<and> bs_clock s' = bs_clock s"
proof -
  have en: "ensure_subscription e t s = (sub, s)" using assms(1) by (simp add: ensure_subscription_def)
  have clock: "bs_clock (snd (restore_latest_cancellation_request tid now s)) = bs_clock s" for tid now
    by (simp add: restore_latest_cancellation_request_def ca_mark_def Let_def split: option.split)
  show ?thesis
  proof (cases "get_latest_cancellation_request (te_tenant_id t) s")
    case None
    then show ?thesis by (simp add: restore_subscription_renewal_def en Let_def)
  next
    case (Some c)
    then have "ca_deactivated_at c = None" using assms(2) latest_mem by (auto simp: get_latest_cancellation_request_def)
    then show ?thesis using Some clock [of "te_tenant_id t" "b_now e s"]
      by (auto simp: restore_subscription_renewal_def en Let_def split_def)
  qed
qed

theorem cancellation_sent_twice_survives_restore_witness:
  "\<exists>r1 s1 r2 s2 r3 s3. cancel_subscription (demo_env (days 1)) demo_tenant ''other'' [] None
        (demo_state [demo_sub ''starter'' ''active'' (Some (days 30))] [] []) = (Inr r1, s1)
    \<and> cancel_subscription (demo_env (days 2)) demo_tenant ''other'' [] None s1 = (Inr r2, s2)
    \<and> restore_subscription_renewal (demo_env (days 3)) demo_tenant s2 = (Inr r3, s3)
    \<and> not_active 1 (snd (process_cancellation_lifecycle (demo_env (days 99)) s3))"
proof -
  let ?sub = "demo_sub ''starter'' ''active'' (Some (days 30))"
  let ?s = "demo_state [?sub] [] []" and ?t = demo_tenant
  have rc: "py_norm ''other'' \<in> set cancel_reasons"
    by (simp add: cancel_reasons_def py_norm_def py_strip_def is_blank_def py_lower_def lower_char_def)
  have g: "get_subscription (te_tenant_id ?t) ?s = Some ?sub" by simp
  obtain r1 s1 where 1: "cancel_subscription (demo_env (days 1)) ?t ''other'' [] None ?s = (Inr r1, s1)"
    "get_subscription (te_tenant_id ?t) s1 = Some ?sub" "cr_current_period_end r1 = subscription_due_date (te_tenant_id ?t) ?sub ?s"
    "bs_clock s1 = bs_clock ?s" "\<forall>c \<in> set (bs_cancels s1). ca_deactivated_at c = None"
    using cancel_ok [OF g rc, of "demo_env (days 1)" "[]" None] by auto
  obtain r2 s2 where 2: "cancel_subscription (demo_env (days 2)) ?t ''other'' [] None s1 = (Inr r2, s2)"
    "get_subscription (te_tenant_id ?t) s2 = Some ?sub" "bs_clock s2 = bs_clock s1" "\<forall>c \<in> set (bs_cancels s2). ca_deactivated_at c = None"
    using cancel_ok [OF 1(2) rc, of "demo_env (days 2)" "[]" None] 1(5) by auto
  obtain r3 s3 where 3: "restore_subscription_renewal (demo_env (days 3)) ?t s2 = (Inr r3, s3)" "bs_clock s3 = bs_clock s2"
    using restore_ok [OF 2(2,4), of "demo_env (days 3)"] by auto
  have inv: "billing_inv ?s" by (rule demo_inv) simp_all
  have "b_now (demo_env (days 99)) s3 = days 99" using 1(4) 2(3) 3(2) by (simp add: b_now_def clock_now_def)
  then have "cr_current_period_end r1 + 8 \<le> dt_date (b_now (demo_env (days 99)) s3)"
    by (simp add: 1(3) subscription_due_date_def dt_date_def days_def day_us_def)
  then have "not_active (te_tenant_id ?t) (snd (process_cancellation_lifecycle (demo_env (days 99)) s3))"
    by (intro cancellation_sent_twice_survives_restore [OF inv 1(1) 2(1) _ 3(1)]) (simp_all add: days_def day_us_def)
  then show ?thesis using 1(1) 2(1) 3(1) by auto
qed

end
