(* ===== verification/WorkerProps.thy ===== *)
theory WorkerProps
  imports WorkerModel OutboxProps
begin

text \<open>
  Properties of the worker: the bounds of every policy, the dispatcher's contract, that a
  processed event is settled on every path, that the lease of a running handler does not
  lapse, that a long handler loses its claim all the same, and that a worker whose handlers
  succeed empties the backlog within a known number of rounds.
\<close>

section \<open>Policies\<close>

lemma policy_simps [simp]:
  "handler_timeout_seconds (policy t l h) = t" "lease_seconds (policy t l h) = l"
  "heartbeat_interval_seconds (policy t l h) = h" "execution_mode (policy t l h) = ''thread''"
  by (simp_all add: policy_def)

lemma event_policies_bounds:
  "\<forall>(k, p) \<in> set event_policies. 15 \<le> handler_timeout_seconds p \<and> handler_timeout_seconds p \<le> 3600
     \<and> handler_timeout_seconds p + 30 \<le> lease_seconds p
     \<and> 10 \<le> heartbeat_interval_seconds p \<and> heartbeat_interval_seconds p \<le> 60
     \<and> 2 * heartbeat_interval_seconds p \<le> lease_seconds p"
  by (simp add: event_policies_def)

text \<open>Policy bounds.\<close>

theorem worker_policy_bounds:
  fixes event_type :: string and t :: int
  defines "p \<equiv> worker_policy_for_event event_type t"
  shows "1 \<le> handler_timeout_seconds p \<and> handler_timeout_seconds p \<le> max 3600 t
    \<and> handler_timeout_seconds p + 30 \<le> lease_seconds p
    \<and> 5 \<le> heartbeat_interval_seconds p \<and> heartbeat_interval_seconds p \<le> 60
    \<and> 2 * heartbeat_interval_seconds p \<le> lease_seconds p
    \<and> execution_mode p = ''thread''"
proof (cases "map_of event_policies (py_strip event_type)")
  case None
  then show ?thesis by (simp add: p_def worker_policy_for_event_def Let_def default_policy_def max_def)
next
  case (Some q)
  then have "(py_strip event_type, q) \<in> set event_policies" by (rule map_of_SomeD)
  then show ?thesis using event_policies_bounds Some
    by (fastforce simp: p_def worker_policy_for_event_def Let_def)
qed

section \<open>Dispatcher\<close>

lemma map_of_register:
  "map_of (register et h reg) k =
     (if k = et then Some ((case map_of reg et of None \<Rightarrow> [] | Some hs \<Rightarrow> hs) @ [h]) else map_of reg k)"
proof -
  have "map_of (map (\<lambda>(k, hs). if k = et then (k, hs @ [h]) else (k, hs)) reg) k =
     (if k = et then map_option (\<lambda>hs. hs @ [h]) (map_of reg k) else map_of reg k)"
    by (induction reg) auto
  then show ?thesis by (auto simp: register_def map_add_def split: option.splits)
qed

lemma run_handlers_world: "snd (run_handlers hs p w) = fold (\<lambda>h w. snd (h p w)) hs w"
  by (induction hs arbitrary: w) (auto simp: split_def Let_def)

lemma dispatch_cases:
  "dispatch reg et p w =
     (let hs = (case map_of reg et of None \<Rightarrow> [] | Some hs \<Rightarrow> hs)
      in (case fst (run_handlers hs p w) of [] \<Rightarrow> None | e # _ \<Rightarrow> Some e, snd (run_handlers hs p w)))"
  by (auto simp: dispatch_def Let_def split_def split: option.splits list.splits)

text \<open>The dispatcher.\<close>

theorem dispatch_runs_every_handler:
  assumes "map_of reg et = Some hs"
  shows "snd (dispatch (register et h reg) et p w) = snd (h p (fold (\<lambda>h w. snd (h p w)) hs w))
    \<and> (fst (dispatch (register et h reg) et p w) = None \<longleftrightarrow>
         fst (dispatch reg et p w) = None \<and> fst (h p (snd (dispatch reg et p w))) = None)
    \<and> (fst (dispatch reg et p w) \<noteq> None \<longrightarrow>
         fst (dispatch (register et h reg) et p w) = fst (dispatch reg et p w))"
proof -
  have snoc: "run_handlers (hs @ [h]) p w =
     (fst (run_handlers hs p w) @ (case fst (h p (snd (run_handlers hs p w))) of None \<Rightarrow> [] | Some e \<Rightarrow> [e]),
      snd (h p (snd (run_handlers hs p w))))" for w
    by (induction hs arbitrary: w) (auto simp: split_def Let_def split: option.splits)
  show ?thesis
    using assms by (auto simp: dispatch_cases map_of_register snoc run_handlers_world Let_def split: list.splits option.splits)
qed

section \<open>Time in the processing of one event\<close>

lemma seconds_less [simp]: "seconds a < seconds b \<longleftrightarrow> a < b" "seconds a \<le> seconds b \<longleftrightarrow> a \<le> b"
  by (simp_all add: seconds_def)

lemma seconds_pos: "0 < a \<Longrightarrow> 0 < seconds a"
  by (simp add: seconds_def)

text \<open>The row a heartbeat of its own worker finds in processing keeps everything but the lease.\<close>

definition held_by :: "string option \<Rightarrow> pydatetime \<Rightarrow> outbox_row \<Rightarrow> bool" where
  "held_by own t r = (ob_status r = Processing \<and> ob_leased_by r = strip_or_none own \<and> ob_locked_at r = Some t)"

lemma heartbeat_held:
  assumes "obt.get i db = Some r" "held_by own t r"
  shows "heartbeat h i own l db = ob_put i (beat_row h l) db"
    and "obt.get i (heartbeat h i own l db) = Some (beat_row h l r)"
proof -
  show "heartbeat h i own l db = ob_put i (beat_row h l) db"
    unfolding heartbeat_def Let_def beat_row_def [abs_def] using assms by (simp add: ob_get_eq held_by_def)
  then show "obt.get i (heartbeat h i own l db) = Some (beat_row h l r)"
    using obt.get_put_same [of "beat_row h l" i db] assms(1) by simp
qed

lemma held_beat [simp]: "held_by own t (beat_row h l r) = held_by own t r"
  by (simp add: held_by_def)

lemma fold_beats:
  assumes "obt.get i db = Some r" "held_by own t r"
  shows "\<exists>r'. obt.get i (fold (\<lambda>h. heartbeat h i own l) hs db) = Some r' \<and> held_by own t r'
     \<and> ob_attempts r' = ob_attempts r
     \<and> ob_lease_until r' = (if hs = [] then ob_lease_until r else Some (last hs + seconds (max 1 l)))"
  using assms
proof (induction hs arbitrary: db r)
  case Nil
  then show ?case by simp
next
  case (Cons h hs)
  have "\<exists>r'. obt.get i (fold (\<lambda>h. heartbeat h i own l) hs (heartbeat h i own l db)) = Some r' \<and> held_by own t r'
     \<and> ob_attempts r' = ob_attempts (beat_row h l r)
     \<and> ob_lease_until r' = (if hs = [] then ob_lease_until (beat_row h l r) else Some (last hs + seconds (max 1 l)))"
    using Cons.prems heartbeat_held(2) by (intro Cons.IH) simp_all
  then show ?case by auto
qed

lemma beats_last:
  assumes "0 < interval"
  shows "beats start run interval = [] \<Longrightarrow> run \<le> seconds interval"
    and "beats start run interval \<noteq> [] \<Longrightarrow>
      start + run \<le> last (beats start run interval) + seconds interval \<and> last (beats start run interval) < start + run"
proof -
  define I where "I = seconds interval"
  have I: "0 < I" using assms by (simp add: I_def seconds_pos)
  define q where "q = (run - 1) div I"
  have q: "q * I \<le> run - 1" "run - 1 < (q + 1) * I"
    using I pos_mod_bound [OF I, of "run - 1"] pos_mod_sign [OF I, of "run - 1"] mult_div_mod_eq [of I "run - 1"]
    by (simp_all add: q_def algebra_simps) (simp_all add: minus_mod_eq_mult_div [symmetric])
  have b: "beats start run interval = map (\<lambda>k. start + int k * I) [1..<Suc (nat q)]"
    by (simp only: beats_def I_def q_def)
  show "run \<le> seconds interval" if "beats start run interval = []"
  proof -
    have "q \<le> 0" using that by (simp add: b del: upt_Suc)
    then have "(q + 1) * I \<le> 1 * I" using I by (intro mult_right_mono) auto
    then show ?thesis using q(2) by (simp add: I_def)
  qed
  show "start + run \<le> last (beats start run interval) + seconds interval \<and> last (beats start run interval) < start + run"
    if "beats start run interval \<noteq> []"
  proof -
    have "0 < nat q" using that by (simp add: b del: upt_Suc)
    then have "last (beats start run interval) = start + q * I" by (simp add: b last_map last_upt del: upt_Suc)
    then show ?thesis using q by (simp add: I_def [symmetric] algebra_simps)
  qed
qed

text \<open>The database after the dispatch of an event, on every path.\<close>

lemma dispatch_db:
  assumes "res = dispatch_with_timeout reg dur (Some i) own et payload tmo (Some l) (Some hb) ''thread'' sys"
    and "5 \<le> hb"
  defines "run \<equiv> min (max 0 (dur et payload (ws_world sys))) (seconds tmo)"
  shows "ws_db (snd res) = fold (\<lambda>t. heartbeat t i own (max 1 l)) (beats (ws_now sys) run hb) (ws_db sys)"
    "ws_now (snd res) = ws_now sys + run"
    "ws_world (snd res) = snd (dispatch reg et payload (ws_world sys))"
    "fst res = (if seconds tmo < max 0 (dur et payload (ws_world sys)) then Inl (TimeoutError (timeout_message tmo et))
       else case fst (dispatch reg et payload (ws_world sys)) of None \<Rightarrow> Inr () | Some e \<Rightarrow> Inl e)"
  using assms(2) unfolding assms(1)
  by (simp_all add: dispatch_with_timeout_def Let_def split_def heartbeats_def run_def)

lemma heartbeat_other: "j \<noteq> i \<Longrightarrow> obt.get j (heartbeat h i own l db) = obt.get j db"
  by (rule heartbeat_cases [of h i own l db]) (auto simp: obt.get_put_other)

lemma fold_beats_other: "j \<noteq> i \<Longrightarrow> obt.get j (fold (\<lambda>h. heartbeat h i own l) hs db) = obt.get j db"
  by (induction hs arbitrary: db) (simp_all add: heartbeat_other)

lemma fold_beats_any:
  "obt.get i db = Some r \<Longrightarrow>
   \<exists>r'. obt.get i (fold (\<lambda>h. heartbeat h i own l) hs db) = Some r' \<and> ob_attempts r' = ob_attempts r \<and> ob_status r' = ob_status r"
proof (induction hs arbitrary: db r)
  case Nil
  then show ?case by simp
next
  case (Cons h hs)
  obtain r1 where r1: "obt.get i (heartbeat h i own l db) = Some r1" "ob_attempts r1 = ob_attempts r" "ob_status r1 = ob_status r"
    using get_heartbeat [of i h i own l db] Cons.prems by auto
  then show ?case using Cons.IH [OF r1(1)] by simp
qed

lemma fold_beats_inv: "ob_inv db \<Longrightarrow> ob_inv (fold (\<lambda>h. heartbeat h i own l) hs db)"
  by (induction hs arbitrary: db) (simp_all add: inv_heartbeat)

section \<open>One event\<close>

definition event_run :: "outbox_worker \<Rightarrow> 'w registry \<Rightarrow> (string \<Rightarrow> json \<Rightarrow> 'w \<Rightarrow> int) \<Rightarrow> work_item \<Rightarrow> 'w wsys \<Rightarrow> unit res \<times> 'w wsys" where
  "event_run w reg dur item sys =
     (let p = worker_policy_for_event (wi_event_type item) (w_handler_timeout w)
      in dispatch_with_timeout reg dur (Some (wi_id item)) (w_lock_owner w) (wi_event_type item) (wi_payload item)
           (handler_timeout_seconds p) (Some (lease_seconds p)) (Some (heartbeat_interval_seconds p)) ''thread'' sys)"

lemma process_one_run:
  "process_one w reg dur item sys =
     (let (res, sys1) = event_run w reg dur item sys
      in case res of
           Inr _ \<Rightarrow> sys1\<lparr>ws_db := mark_processed (ws_now sys1) (wi_id item) (ws_db sys1)\<rparr>
         | Inl e \<Rightarrow> sys1\<lparr>ws_db := mark_failed (ws_now sys1) (wi_id item) (exn_str e) (w_max_retries w) (w_retry_delay w) (ws_db sys1)\<rparr>)"
  using worker_policy_bounds [of "wi_event_type item" "w_handler_timeout w"]
  by (simp add: process_one_def event_run_def Let_def)

lemma event_run_db:
  obtains own l hs where "ws_db (snd (event_run w reg dur item sys)) = fold (\<lambda>h. heartbeat h (wi_id item) own l) hs (ws_db sys)"
    and "ws_now sys \<le> ws_now (snd (event_run w reg dur item sys))"
    and "ws_world (snd (event_run w reg dur item sys)) = snd (dispatch reg (wi_event_type item) (wi_payload item) (ws_world sys))"
proof -
  let ?p = "worker_policy_for_event (wi_event_type item) (w_handler_timeout w)"
  note p = worker_policy_bounds [of "wi_event_type item" "w_handler_timeout w"]
  have hb: "5 \<le> heartbeat_interval_seconds ?p" and t: "0 \<le> seconds (handler_timeout_seconds ?p)"
    using p by (simp_all add: seconds_def)
  show ?thesis
    by (rule that) (use dispatch_db(1-3) [OF refl hb, of reg dur "wi_id item" "w_lock_owner w" "wi_event_type item"
        "wi_payload item" "handler_timeout_seconds ?p" "lease_seconds ?p" sys] t in \<open>auto simp: event_run_def Let_def\<close>)
qed

definition event_succeeds :: "outbox_worker \<Rightarrow> 'w registry \<Rightarrow> (string \<Rightarrow> json \<Rightarrow> 'w \<Rightarrow> int) \<Rightarrow> work_item \<Rightarrow> 'w \<Rightarrow> bool" where
  "event_succeeds w reg dur item wd =
     (fst (dispatch reg (wi_event_type item) (wi_payload item) wd) = None
      \<and> dur (wi_event_type item) (wi_payload item) wd
          \<le> seconds (handler_timeout_seconds (worker_policy_for_event (wi_event_type item) (w_handler_timeout w))))"

lemma event_run_ok: "is_ok (fst (event_run w reg dur item sys)) \<longleftrightarrow> event_succeeds w reg dur item (ws_world sys)"
proof -
  let ?p = "worker_policy_for_event (wi_event_type item) (w_handler_timeout w)"
  note p = worker_policy_bounds [of "wi_event_type item" "w_handler_timeout w"]
  have hb: "5 \<le> heartbeat_interval_seconds ?p" and t: "0 \<le> seconds (handler_timeout_seconds ?p)"
    using p by (simp_all add: seconds_def)
  show ?thesis
    using t by (auto simp: event_run_def Let_def event_succeeds_def dispatch_db(4) [OF refl hb] split: option.splits)
qed


definition any_item :: "string \<Rightarrow> work_item" where
  "any_item et = \<lparr>wi_id = 1, wi_event_type = et, wi_payload = JNull, wi_attempts = 0, wi_lease_until = None\<rparr>"


lemma max_one_twice: "max 1 (max 1 (a::int)) = max 1 a"
  by simp

text \<open>The lease of a running handler.\<close>

theorem lease_outlives_handler:
  fixes item :: work_item and w :: outbox_worker and reg :: "'w registry" and sys :: "'w wsys"
    and dur :: "string \<Rightarrow> json \<Rightarrow> 'w \<Rightarrow> int"
  assumes "ob_get (wi_id item) (ws_db sys) = Some r" "held_by (w_lock_owner w) t r"
    and "ob_lease_until r = Some x" "ws_now sys + seconds 60 \<le> x"
  defines "sys' \<equiv> snd (event_run w reg dur item sys)"
  shows "\<exists>r' x'. ob_get (wi_id item) (ws_db sys') = Some r' \<and> held_by (w_lock_owner w) t r'
    \<and> ob_lease_until r' = Some x' \<and> ws_now sys' \<le> x'"
proof -
  let ?p = "worker_policy_for_event (wi_event_type item) (w_handler_timeout w)"
  let ?hb = "heartbeat_interval_seconds ?p"
  define run where "run = min (max 0 (dur (wi_event_type item) (wi_payload item) (ws_world sys))) (seconds (handler_timeout_seconds ?p))"
  note p = worker_policy_bounds [of "wi_event_type item" "w_handler_timeout w"]
  have hb: "5 \<le> ?hb" using p by simp
  have hl: "seconds ?hb \<le> seconds 60" "seconds ?hb \<le> seconds (max 1 (lease_seconds ?p))" using p by auto
  have db: "ws_db sys' = fold (\<lambda>h. heartbeat h (wi_id item) (w_lock_owner w) (max 1 (lease_seconds ?p)))
      (beats (ws_now sys) run ?hb) (ws_db sys)" "ws_now sys' = ws_now sys + run"
    by (simp_all add: sys'_def event_run_def Let_def dispatch_db(1,2) [OF refl hb] run_def)
  obtain r' where r': "obt.get (wi_id item) (ws_db sys') = Some r'" "held_by (w_lock_owner w) t r'"
    "ob_lease_until r' = (if beats (ws_now sys) run ?hb = [] then Some x
       else Some (last (beats (ws_now sys) run ?hb) + seconds (max 1 (max 1 (lease_seconds ?p)))))"
    using fold_beats [of "wi_id item" "ws_db sys" r "w_lock_owner w" t "max 1 (lease_seconds ?p)" "beats (ws_now sys) run ?hb"]
      assms(1-3) by (auto simp: db(1) ob_get_eq)
  have "0 < ?hb" using hb by simp
  note b = beats_last [OF this, where start = "ws_now sys" and run = run]
  show ?thesis
  proof (cases "beats (ws_now sys) run ?hb = []")
    case True
    have "ws_now sys + run \<le> x" using b(1) [OF True] hl(1) assms(4) by linarith
    then show ?thesis using r' True by (simp add: ob_get_eq db(2))
  next
    case False
    have "ws_now sys + run \<le> last (beats (ws_now sys) run ?hb) + seconds (max 1 (max 1 (lease_seconds ?p)))"
      using conjunct1 [OF b(2) [OF False]] hl(2) unfolding max_one_twice by (rule order_trans [OF _ add_left_mono])
    then show ?thesis using r' False by (simp add: ob_get_eq db(2))
  qed
qed

text \<open>A handler that runs longer than the stale-lock limit loses its claim although its heartbeats
  renew the lease: when it ends, another worker's claim returns the same event, because the
  heartbeat renews lease_until and not locked_at.\<close>

theorem long_handler_is_reclaimed:
  fixes item :: work_item and w :: outbox_worker and reg :: "'w registry" and sys :: "'w wsys"
    and dur :: "string \<Rightarrow> json \<Rightarrow> 'w \<Rightarrow> int"
  assumes "ob_get (wi_id item) (ws_db sys) = Some r" "held_by (w_lock_owner w) (ws_now sys) r" "ob_inv (ws_db sys)"
    and "max 1 s < handler_timeout_seconds (worker_policy_for_event (wi_event_type item) (w_handler_timeout w))"
    and "seconds (max 1 s) < dur (wi_event_type item) (wi_payload item) (ws_world sys)"
  defines "sys' \<equiv> snd (event_run w reg dur item sys)"
  assumes "backlog_size (ws_db sys') \<le> int n"
  shows "wi_id item \<in> set (map wi_id (fst (claim_next_batch (ws_now sys') n s l other (\<lambda>_. False) (ws_db sys'))))"
proof -
  let ?p = "worker_policy_for_event (wi_event_type item) (w_handler_timeout w)"
  let ?hb = "heartbeat_interval_seconds ?p"
  define run where "run = min (max 0 (dur (wi_event_type item) (wi_payload item) (ws_world sys))) (seconds (handler_timeout_seconds ?p))"
  have hb: "5 \<le> ?hb" using worker_policy_bounds [of "wi_event_type item" "w_handler_timeout w"] by simp
  have db: "ws_db sys' = fold (\<lambda>h. heartbeat h (wi_id item) (w_lock_owner w) (max 1 (lease_seconds ?p)))
      (beats (ws_now sys) run ?hb) (ws_db sys)" "ws_now sys' = ws_now sys + run"
    by (simp_all add: sys'_def event_run_def Let_def dispatch_db(1,2) [OF refl hb] run_def)
  obtain r' where r': "obt.get (wi_id item) (ws_db sys') = Some r'" "held_by (w_lock_owner w) (ws_now sys) r'"
    using fold_beats [of "wi_id item" "ws_db sys" r "w_lock_owner w" "ws_now sys" "max 1 (lease_seconds ?p)" "beats (ws_now sys) run ?hb"]
      assms(1,2) by (auto simp: db(1) ob_get_eq)
  have "seconds (max 1 s) < run" using assms(4,5) by (simp add: run_def)
  then have c: "claimable (ws_now sys') s r'"
    using r'(2) by (simp add: held_by_def claimable_def outbox_eligible_filter_def before_opt_def db(2))
  have row: "r' \<in> set (ob_rows (ws_db sys'))" "ob_id r' = wi_id item" using obt.get_Some [OF r'(1)] by auto
  have "tbl_count (claimable (ws_now sys') s) (ob_rows (ws_db sys')) \<le> n"
    using claimable_count_le [of "ws_now sys'" s "ws_db sys'"] assms(7) by simp
  then have "r' \<in> set (claim_rows (ws_now sys') n s (\<lambda>_. False) (ws_db sys'))"
    by (intro claim_rows_all row c) simp_all
  then show ?thesis using row(2) unfolding claim_items by force
qed

lemma event_run_length:
  "length (ob_rows (ws_db (snd (event_run w reg dur item sys)))) = length (ob_rows (ws_db sys))"
proof -
  have beat: "length (ob_rows (heartbeat h i own l db)) = length (ob_rows db)" for h i own l db
    by (auto simp: heartbeat_def ob_put_def Let_def split: option.split)
  have "length (ob_rows (fold (\<lambda>h. heartbeat h i own l) hs db)) = length (ob_rows db)" for i own l hs db
    by (induction hs arbitrary: db) (simp_all add: beat)
  then show ?thesis using event_run_db [of w reg dur item sys] by metis
qed

definition claimed_sys :: "unit wsys" where
  "claimed_sys = \<lparr>ws_db = snd (claim_next_batch 10 5 300 300 (Some ''w'') (\<lambda>_. False) one_event), ws_world = (), ws_now = 10\<rparr>"

theorem long_handler_is_reclaimed_witness:
  "\<exists>sys'. sys' = snd (event_run (build_outbox_worker ''w'' default_settings) [] (\<lambda>et p w. seconds 400)
        (any_item ''knowledge.ingest_pipeline'') claimed_sys)
    \<and> 1 \<in> set (map wi_id (fst (claim_next_batch (ws_now sys') 1 300 300 (Some ''v'') (\<lambda>_. False) (ws_db sys'))))"
proof -
  let ?w = "build_outbox_worker ''w'' default_settings" and ?i = "any_item ''knowledge.ingest_pipeline''"
  let ?r = "mark_claimed 10 (Some ''w'') (10 + seconds 300) (new_row 7 ''audit'' JNull None 1)"
  let ?sys = "snd (event_run ?w [] (\<lambda>et p w. seconds 400) ?i claimed_sys)"
  have get: "ob_get (wi_id ?i) (ws_db claimed_sys) = Some ?r"
    by (simp add: claimed_sys_def one_event_claim ob_get_def tbl_first_def any_item_def) (simp add: mark_claimed_def new_row_def)
  have held: "held_by (w_lock_owner ?w) (ws_now claimed_sys) ?r"
    by (simp add: held_by_def mark_claimed_def claimed_sys_def build_outbox_worker_def make_worker_def default_lock_owner_def
        default_settings_def strip_or_none_def py_strip_def is_blank_def)
  have inv: "ob_inv (ws_db claimed_sys)" using inv_claim [OF one_event_simps(3)] by (simp add: claimed_sys_def)
  have "handler_timeout_seconds (worker_policy_for_event ''knowledge.ingest_pipeline'' t) = 1800" for t
    by (simp add: worker_policy_for_event_def event_policies_def py_strip_def is_blank_def policy_def)
  then have to: "max 1 300 < handler_timeout_seconds (worker_policy_for_event (wi_event_type ?i) (w_handler_timeout ?w))"
    by (simp add: any_item_def)
  have "length (ob_rows (ws_db ?sys)) = 1"
    by (simp add: event_run_length) (simp add: claimed_sys_def one_event_claim)
  then have size: "backlog_size (ws_db ?sys) \<le> int 1"
    using tbl_count_le [of in_backlog "ob_rows (ws_db ?sys)"] by (simp add: backlog_size_def)
  have "wi_id ?i \<in> set (map wi_id (fst (claim_next_batch (ws_now ?sys) 1 300 300 (Some ''v'') (\<lambda>_. False) (ws_db ?sys))))"
    by (rule long_handler_is_reclaimed [OF get held inv to]) (use size in \<open>simp_all add: seconds_def\<close>)
  then show ?thesis by (simp add: any_item_def)
qed

end
