(* ===== verification/WorkerDrain.thy ===== *)
theory WorkerDrain
  imports WorkerProps
begin

text \<open>
  Progress of the worker: a batch settles every row it claims, and polling rounds whose
  handlers succeed empty the backlog after as many rounds as its size over the batch size.
\<close>

section \<open>One batch\<close>

lemma inv_process_one: "ob_inv (ws_db sys) \<Longrightarrow> ob_inv (ws_db (process_one w reg dur item sys))"
proof -
  assume i: "ob_inv (ws_db sys)"
  obtain res sys1 where e: "event_run w reg dur item sys = (res, sys1)" by force
  obtain own l hs where "ws_db sys1 = fold (\<lambda>h. heartbeat h (wi_id item) own l) hs (ws_db sys)"
    using event_run_db [of w reg dur item sys] e by (metis snd_conv)
  then have "ob_inv (ws_db sys1)" using i by (simp add: fold_beats_inv)
  then show ?thesis
    by (cases res) (simp_all add: process_one_run e inv_mark_processed inv_mark_failed)
qed

lemma now_process_one: "ws_now sys \<le> ws_now (process_one w reg dur item sys)"
proof -
  obtain res sys1 where e: "event_run w reg dur item sys = (res, sys1)" by force
  have "ws_now sys \<le> ws_now sys1" using event_run_db [of w reg dur item sys] e by (metis snd_conv)
  then show ?thesis by (cases res) (simp_all add: process_one_run e)
qed

definition always_succeeds :: "outbox_worker \<Rightarrow> 'w registry \<Rightarrow> (string \<Rightarrow> json \<Rightarrow> 'w \<Rightarrow> int) \<Rightarrow> bool" where
  "always_succeeds w reg dur = (\<forall>item wd. event_succeeds w reg dur item wd)"

definition settled :: "bool \<Rightarrow> outbox_row \<Rightarrow> bool" where
  "settled good r = (ob_status r = Processed \<or> \<not> good \<and> (ob_status r = Retry \<or> ob_status r = DeadLetter))"

lemma process_one_settled:
  assumes "ob_get (wi_id item) (ws_db sys) = Some r"
  shows "\<exists>r'. ob_get (wi_id item) (ws_db (process_one w reg dur item sys)) = Some r' \<and> settled (always_succeeds w reg dur) r'"
    and "j \<noteq> wi_id item \<Longrightarrow> ob_get j (ws_db (process_one w reg dur item sys)) = ob_get j (ws_db sys)"
proof -
  obtain res sys1 where e: "event_run w reg dur item sys = (res, sys1)" by force
  obtain own l hs where db: "ws_db sys1 = fold (\<lambda>h. heartbeat h (wi_id item) own l) hs (ws_db sys)"
    using event_run_db [of w reg dur item sys] e by (metis snd_conv)
  obtain r1 where r1: "obt.get (wi_id item) (ws_db sys1) = Some r1"
    using fold_beats_any [of "wi_id item" "ws_db sys"] assms(1) db by (metis ob_get_eq)
  have ok: "always_succeeds w reg dur \<Longrightarrow> is_ok res"
    using event_run_ok [of w reg dur item sys] e by (simp add: always_succeeds_def)
  show "\<exists>r'. ob_get (wi_id item) (ws_db (process_one w reg dur item sys)) = Some r' \<and> settled (always_succeeds w reg dur) r'"
    using r1 ok by (cases res)
      (auto simp: process_one_run e ob_get_eq get_settled failed_row_def processed_row_def settled_def Let_def)
  show "j \<noteq> wi_id item \<Longrightarrow> ob_get j (ws_db (process_one w reg dur item sys)) = ob_get j (ws_db sys)"
    using fold_beats_other [of j "wi_id item" own l hs "ws_db sys"]
    by (cases res) (simp_all add: process_one_run e ob_get_eq get_settled db)
qed

lemma fold_process:
  assumes "distinct (map wi_id items)" "\<And>it. it \<in> set items \<Longrightarrow> \<exists>r. ob_get (wi_id it) (ws_db sys) = Some r"
    and "ob_inv (ws_db sys)"
  shows "ob_inv (ws_db (fold (process_one w reg dur) items sys)) \<and> ws_now sys \<le> ws_now (fold (process_one w reg dur) items sys)
    \<and> (\<forall>j. j \<notin> set (map wi_id items) \<longrightarrow> ob_get j (ws_db (fold (process_one w reg dur) items sys)) = ob_get j (ws_db sys))
    \<and> (\<forall>i \<in> set (map wi_id items). \<exists>r'. ob_get i (ws_db (fold (process_one w reg dur) items sys)) = Some r'
         \<and> settled (always_succeeds w reg dur) r')"
  using assms
proof (induction items arbitrary: sys)
  case Nil
  then show ?case by simp
next
  case (Cons it items)
  let ?s1 = "process_one w reg dur it sys"
  obtain r where r: "ob_get (wi_id it) (ws_db sys) = Some r" using Cons.prems(2) by auto
  note one = process_one_settled [OF r, where w = w and reg = reg and dur = dur]
  have rows: "\<exists>r. ob_get (wi_id x) (ws_db ?s1) = Some r" if "x \<in> set items" for x
  proof -
    have "wi_id x \<noteq> wi_id it" using that Cons.prems(1) by (metis distinct.simps(2) image_eqI list.set_map list.simps(9))
    then show ?thesis using one(2) Cons.prems(2) [of x] that by simp
  qed
  note ih = Cons.IH [of ?s1, OF _ rows inv_process_one [OF Cons.prems(3)]]
  have d: "distinct (map wi_id items)" "wi_id it \<notin> set (map wi_id items)" using Cons.prems(1) by auto
  show ?case using ih [OF d(1)] one d(2) now_process_one [of sys w reg dur it] by fastforce
qed

lemma process_batch_facts:
  fixes w :: outbox_worker and reg :: "'w registry" and sys :: "'w wsys" and lk :: "int \<Rightarrow> bool"
    and dur :: "string \<Rightarrow> json \<Rightarrow> 'w \<Rightarrow> int"
  assumes "ob_inv (ws_db sys)"
  defines "ids \<equiv> map ob_id (claim_rows (ws_now sys) (w_batch_size w) (w_stale_lock w) lk (ws_db sys))"
    and "out \<equiv> process_batch w reg dur lk sys"
  shows "ob_inv (ws_db (snd out))" "ws_now sys \<le> ws_now (snd out)" "fst out = length ids"
    "\<forall>i \<in> set ids. \<exists>r'. ob_get i (ws_db (snd out)) = Some r' \<and> settled (always_succeeds w reg dur) r'"
    "\<forall>j. j \<notin> set ids \<longrightarrow> ob_get j (ws_db (snd out)) = ob_get j (ws_db sys)"
proof -
  obtain items db1 where c: "claim_next_batch (ws_now sys) (w_batch_size w) (w_stale_lock w) (w_lease w)
      (w_lock_owner w) lk (ws_db sys) = (items, db1)" by force
  have wf: "obt.wf (ws_db sys)" using assms(1) by (simp add: ob_inv_def)
  have ids: "map wi_id items = ids"
    using claim_items [of "ws_now sys" "w_batch_size w" "w_stale_lock w" "w_lease w" "w_lock_owner w" lk "ws_db sys"]
    by (simp add: c ids_def)
  have out: "out = (length items, fold (process_one w reg dur) items (sys\<lparr>ws_db := db1\<rparr>))"
    by (simp add: out_def process_batch_def c)
  have db1: "db1 = snd (claim_next_batch (ws_now sys) (w_batch_size w) (w_stale_lock w) (w_lease w)
      (w_lock_owner w) lk (ws_db sys))" by (simp add: c)
  have "distinct (map wi_id items)" using claim_rows_distinct [OF wf] by (simp only: ids ids_def)
  moreover have "\<exists>r. ob_get (wi_id it) (ws_db (sys\<lparr>ws_db := db1\<rparr>)) = Some r" if "it \<in> set items" for it
  proof -
    have "wi_id it \<in> set ids" using that ids by (metis image_eqI list.set_map)
    then show ?thesis using claimed_processing [OF assms(1)] by (auto simp: db1 ids_def)
  qed
  moreover have "ob_inv (ws_db (sys\<lparr>ws_db := db1\<rparr>))" using inv_claim [OF assms(1)] by (simp add: db1)
  ultimately have f: "ob_inv (ws_db (snd out))" "ws_now sys \<le> ws_now (snd out)"
    "\<forall>j. j \<notin> set ids \<longrightarrow> ob_get j (ws_db (snd out)) = ob_get j db1"
    "\<forall>i \<in> set ids. \<exists>r'. ob_get i (ws_db (snd out)) = Some r' \<and> settled (always_succeeds w reg dur) r'"
    using fold_process [of items "sys\<lparr>ws_db := db1\<rparr>" w reg dur] by (simp_all add: out ids [symmetric])
  have "ob_get j db1 = ob_get j (ws_db sys)" if "j \<notin> set ids" for j
    using that by (simp add: db1 ob_get_eq claim_get [OF wf] ids_def)
  then show "ob_inv (ws_db (snd out))" "ws_now sys \<le> ws_now (snd out)" "fst out = length ids"
    "\<forall>i \<in> set ids. \<exists>r'. ob_get i (ws_db (snd out)) = Some r' \<and> settled (always_succeeds w reg dur) r'"
    "\<forall>j. j \<notin> set ids \<longrightarrow> ob_get j (ws_db (snd out)) = ob_get j (ws_db sys)"
    using f by (simp_all add: out ids [symmetric])
qed

section \<open>Polling rounds\<close>

definition backlog_ids :: "outbox_db \<Rightarrow> int set" where
  "backlog_ids db = {i. \<exists>r. ob_get i db = Some r \<and> in_backlog r}"

lemma backlog_ids_image: "ob_inv db \<Longrightarrow> backlog_ids db = ob_id ` set (filter in_backlog (ob_rows db))"
  using obt.get_member [of db] obt.get_Some [of _ db]
  by (fastforce simp: backlog_ids_def ob_get_eq ob_inv_def)

lemma backlog_card: "ob_inv db \<Longrightarrow> backlog_size db = int (card (backlog_ids db)) \<and> finite (backlog_ids db)"
proof -
  assume i: "ob_inv db"
  then have "distinct (map ob_id (filter in_backlog (ob_rows db)))"
    by (simp add: ob_inv_def obt_wf_distinct distinct_map_filter)
  then have "card (ob_id ` set (filter in_backlog (ob_rows db))) = length (filter in_backlog (ob_rows db))"
    by (metis distinct_card length_map list.set_map)
  then show ?thesis using backlog_ids_image [OF i] by (simp add: backlog_size_def tbl_count_def)
qed

text \<open>Every row of the backlog can be claimed at \<open>t\<close>.\<close>

definition all_due :: "pydatetime \<Rightarrow> int \<Rightarrow> outbox_db \<Rightarrow> bool" where
  "all_due t s db = (\<forall>r \<in> set (ob_rows db). in_backlog r \<longrightarrow> claimable t s r)"

lemma claimable_mono: "claimable t s r \<Longrightarrow> t \<le> u \<Longrightarrow> claimable u s r"
  by (auto simp: claimable_def outbox_eligible_filter_def before_opt_def split: option.splits)

lemma all_due_get: "ob_inv db \<Longrightarrow> all_due t s db \<longleftrightarrow> (\<forall>i r. ob_get i db = Some r \<longrightarrow> in_backlog r \<longrightarrow> claimable t s r)"
  using obt.get_member [of db] obt.get_Some [of _ db] by (fastforce simp: all_due_def ob_get_eq ob_inv_def)

lemma claimed_when_due:
  assumes "ob_inv db" "all_due t s db"
  shows "set (map ob_id (claim_rows t n s (\<lambda>_. False) db)) \<subseteq> backlog_ids db"
    and "length (claim_rows t n s (\<lambda>_. False) db) = min n (card (backlog_ids db))"
proof -
  have "in_backlog r = claimable t s r" if "r \<in> set (ob_rows db)" for r
    using that assms(2) claimable_status [of t s r] by (auto simp: all_due_def in_backlog_def)
  then have "filter (\<lambda>r. claimable t s r) (ob_rows db) = filter in_backlog (ob_rows db)" by (auto intro: filter_cong)
  then show "length (claim_rows t n s (\<lambda>_. False) db) = min n (card (backlog_ids db))"
    using backlog_card [OF assms(1)] by (simp add: length_claim_rows backlog_size_def tbl_count_def)
  show "set (map ob_id (claim_rows t n s (\<lambda>_. False) db)) \<subseteq> backlog_ids db"
    using claim_rows_mem [of _ t n s "\<lambda>_. False" db] claimable_status
    by (fastforce simp: backlog_ids_image [OF assms(1)] in_backlog_def)
qed

lemma round_drains:
  fixes w :: outbox_worker and reg :: "'w registry" and sys :: "'w wsys" and lk :: "int \<Rightarrow> bool"
    and dur :: "string \<Rightarrow> json \<Rightarrow> 'w \<Rightarrow> int"
  assumes "ob_inv (ws_db sys)" "all_due (ws_now sys) (w_stale_lock w) (ws_db sys)" "always_succeeds w reg dur"
  defines "sys' \<equiv> snd (process_batch w reg dur (\<lambda>_. False) sys)"
  shows "ob_inv (ws_db sys')" "ws_now sys \<le> ws_now sys'" "all_due (ws_now sys') (w_stale_lock w) (ws_db sys')"
    "card (backlog_ids (ws_db sys')) = card (backlog_ids (ws_db sys)) - w_batch_size w"
proof -
  let ?ids = "map ob_id (claim_rows (ws_now sys) (w_batch_size w) (w_stale_lock w) (\<lambda>_. False) (ws_db sys))"
  note f = process_batch_facts [OF assms(1), where w = w and lk = "\<lambda>_. False" and reg = reg and dur = dur, folded sys'_def]
  note c = claimed_when_due [OF assms(1,2), of "w_batch_size w"]
  have gone: "\<exists>r'. ob_get i (ws_db sys') = Some r' \<and> \<not> in_backlog r'" if "i \<in> set ?ids" for i
    using f(4) that assms(3) by (fastforce simp: settled_def in_backlog_def)
  have ids: "backlog_ids (ws_db sys') = backlog_ids (ws_db sys) - set ?ids"
  proof (rule set_eqI)
    fix i
    show "i \<in> backlog_ids (ws_db sys') \<longleftrightarrow> i \<in> backlog_ids (ws_db sys) - set ?ids"
    proof (cases "i \<in> set ?ids")
      case True
      then show ?thesis using gone [OF True] by (auto simp: backlog_ids_def)
    next
      case False
      then have "ob_get i (ws_db sys') = ob_get i (ws_db sys)" using f(5) by blast
      then show ?thesis using False by (simp add: backlog_ids_def)
    qed
  qed
  show "ob_inv (ws_db sys')" "ws_now sys \<le> ws_now sys'" using f(1,2) .
  have "claimable (ws_now sys') (w_stale_lock w) r" if g: "ob_get i (ws_db sys') = Some r" "in_backlog r" for i r
  proof -
    have "i \<notin> set ?ids" using gone g by (metis option.inject)
    then have "ob_get i (ws_db sys) = Some r" using f(5) g(1) by simp
    then have "claimable (ws_now sys) (w_stale_lock w) r"
      using assms(2) g(2) all_due_get [OF assms(1)] by blast
    then show ?thesis using f(2) by (rule claimable_mono)
  qed
  then show "all_due (ws_now sys') (w_stale_lock w) (ws_db sys')" using all_due_get [OF f(1)] by blast
  have wf: "obt.wf (ws_db sys)" using assms(1) by (simp add: ob_inv_def)
  have "card (set ?ids) = length ?ids" using claim_rows_distinct [OF wf] by (rule distinct_card)
  also have "\<dots> = min (w_batch_size w) (card (backlog_ids (ws_db sys)))" using c(2) by simp
  finally have n: "card (set ?ids) = min (w_batch_size w) (card (backlog_ids (ws_db sys)))" .
  have "card (backlog_ids (ws_db sys) - set ?ids) = card (backlog_ids (ws_db sys)) - card (set ?ids)"
    by (rule card_Diff_subset) (use c(1) in auto)
  then show "card (backlog_ids (ws_db sys')) = card (backlog_ids (ws_db sys)) - w_batch_size w"
    using n by (simp add: ids)
qed

lemma rounds_drain:
  assumes "ob_inv (ws_db sys)" "all_due (ws_now sys) (w_stale_lock w) (ws_db sys)" "always_succeeds w reg dur"
    and "0 \<le> w_poll_interval w"
  shows "card (backlog_ids (ws_db (run_poll_loop w reg dur (replicate k (\<lambda>_. False)) sys)))
     = card (backlog_ids (ws_db sys)) - k * w_batch_size w
    \<and> ob_inv (ws_db (run_poll_loop w reg dur (replicate k (\<lambda>_. False)) sys))"
  using assms
proof (induction k arbitrary: sys)
  case 0
  then show ?case by simp
next
  case (Suc k)
  obtain m sys1 where b: "process_batch w reg dur (\<lambda>_. False) sys = (m, sys1)" by force
  define sys2 where "sys2 = (if m = 0 then sys1\<lparr>ws_now := ws_now sys1 + w_poll_interval w\<rparr> else sys1)"
  note r = round_drains [OF Suc.prems(1-3), unfolded b snd_conv]
  have s2: "ws_db sys2 = ws_db sys1" "ws_now sys1 \<le> ws_now sys2" using Suc.prems(4) by (simp_all add: sys2_def)
  have "all_due (ws_now sys2) (w_stale_lock w) (ws_db sys2)"
    using r(3) s2 claimable_mono unfolding all_due_def by metis
  then have "card (backlog_ids (ws_db (run_poll_loop w reg dur (replicate k (\<lambda>_. False)) sys2)))
     = card (backlog_ids (ws_db sys2)) - k * w_batch_size w
    \<and> ob_inv (ws_db (run_poll_loop w reg dur (replicate k (\<lambda>_. False)) sys2))"
    using Suc.IH [of sys2] r(1) Suc.prems(3,4) s2 by simp
  then show ?case using r(4) by (simp add: b sys2_def [symmetric] s2(1) Let_def)
qed

text \<open>A batch settles what it claims.\<close>

theorem batch_settles_every_claim:
  assumes "ob_inv (ws_db sys)"
    and "claim_next_batch (ws_now sys) (w_batch_size w) (w_stale_lock w) (w_lease w) (w_lock_owner w) lk (ws_db sys) = (items, db1)"
  shows "fst (process_batch w reg dur lk sys) = length items
    \<and> (\<forall>i \<in> set (map wi_id items). \<exists>r. ob_get i (ws_db (snd (process_batch w reg dur lk sys))) = Some r
         \<and> ob_status r \<in> {Processed, Retry, DeadLetter} \<and> ob_lease_until r = None)
    \<and> (\<forall>j. j \<notin> set (map wi_id items) \<longrightarrow>
         ob_get j (ws_db (snd (process_batch w reg dur lk sys))) = ob_get j (ws_db sys))"
proof -
  note f = process_batch_facts [OF assms(1), where w = w and lk = lk and reg = reg and dur = dur]
  have ids: "map wi_id items = map ob_id (claim_rows (ws_now sys) (w_batch_size w) (w_stale_lock w) lk (ws_db sys))"
    using claim_items [of "ws_now sys" "w_batch_size w" "w_stale_lock w" "w_lease w" "w_lock_owner w" lk "ws_db sys"] assms(2)
    by simp
  have "\<exists>r. ob_get i (ws_db (snd (process_batch w reg dur lk sys))) = Some r
         \<and> ob_status r \<in> {Processed, Retry, DeadLetter} \<and> ob_lease_until r = None" if "i \<in> set (map wi_id items)" for i
  proof -
    obtain r where r: "ob_get i (ws_db (snd (process_batch w reg dur lk sys))) = Some r" "settled (always_succeeds w reg dur) r"
      using f(4) \<open>i \<in> set (map wi_id items)\<close> unfolding ids by blast
    have "row_ok r" using f(1) obt.get_Some r(1) by (auto simp: ob_inv_def ob_get_eq)
    then show ?thesis using r by (auto simp: settled_def row_ok_def)
  qed
  moreover have "length items = length (map wi_id items)" by simp
  ultimately show ?thesis using f(3,5) unfolding ids [symmetric] by simp
qed



end
