(* ===== verification/EventProps.thy ===== *)
theory EventProps
  imports EventChannel WorkerProps
begin

text \<open>
  Properties of the event channel: the backlog limit, the metadata, and the agreement of the
  asynchronous path (proxy, outbox, handler) with the direct service call.
\<close>

section \<open>Dictionaries\<close>

lemma jget_obj: "jget k (JObj kvs) = (case map_of kvs k of None \<Rightarrow> JNull | Some x \<Rightarrow> x)"
  by (simp add: jget_def)

lemma map_of_filter_key: "map_of (filter (\<lambda>(k', v). k' \<noteq> k) c) j = (if j = k then None else map_of c j)"
  by (induction c) auto

lemma ctx_get_bind_one: "ctx_get j (bind_one f c) = (if j = fst f then snd f else ctx_get j c)"
  by (auto simp: ctx_get_def jget_obj bind_one_def map_of_kv_set map_of_filter_key)

lemma ctx_get_bind:
  "distinct (map fst fs) \<Longrightarrow> ctx_get j (bind_observability_context fs c) =
     (case map_of fs j of None \<Rightarrow> ctx_get j c | Some v \<Rightarrow> v)"
proof (induction fs arbitrary: c)
  case Nil
  then show ?case by (simp add: bind_observability_context_def)
next
  case (Cons f fs)
  have "ctx_get j (bind_observability_context (f # fs) c) =
     (case map_of fs j of None \<Rightarrow> ctx_get j (bind_one f c) | Some v \<Rightarrow> v)"
    using Cons by (simp add: bind_observability_context_def)
  moreover have "map_of fs (fst f) = None" using Cons.prems by (simp add: map_of_eq_None_iff)
  ultimately show ?case by (cases f) (auto simp: ctx_get_bind_one split: option.splits)
qed

section \<open>Publishing\<close>

lemma append_event_ok: "ob_inv db \<Longrightarrow> \<exists>r db'. append_event now et p key db = (Inr r, db')"
proof (cases "strip_or_none key")
  case None
  then show ?thesis by (simp add: append_event_def append_with_def key_taken_def)
next
  case (Some k)
  assume "ob_inv db"
  then show ?thesis
    using append_one_row [of db "\<lambda>d. d" "\<lambda>d. d" key k now et p] Some by (auto simp: append_event_def)
qed

lemma backlog_insert: "backlog_size (ob_insert (new_row now et p key) db) = backlog_size db + 1"
  by (simp add: backlog_size_def obt.rows_ins in_backlog_def new_row_def tbl_count_def)



text \<open>The metadata defaults as a list, added one after the other.\<close>

definition meta_fields :: "obs_ctx \<Rightarrow> json \<Rightarrow> instance_role res \<Rightarrow> string \<Rightarrow> (string \<times> json) list" where
  "meta_fields ctx schema role et =
     [(''correlation_id'', ctx_get ''correlation_id'' ctx), (''request_id'', ctx_get ''request_id'' ctx),
      (''tenant_id'', ctx_get ''tenant_id'' ctx), (''tenant_slug'', jor (ctx_get ''tenant_slug'' ctx) schema),
      (''user_id'', ctx_get ''user_id'' ctx), (''event_name'', JStr et), (''instance_role'', role_value role)]"

definition add_defaults :: "(string \<times> json) list \<Rightarrow> (string \<times> json) list \<Rightarrow> (string \<times> json) list" where
  "add_defaults fs m = fold (\<lambda>f. kv_setdefault (fst f) (snd f)) fs m"

lemma enrich_eq: "enrich_event_payload ctx schema role et payload =
    JObj (kv_set ''_meta'' (JObj (add_defaults (meta_fields ctx schema role et) (jitems (jget ''_meta'' payload)))) (jitems payload))"
  by (simp only: enrich_event_payload_def Let_def add_defaults_def meta_fields_def fold.simps o_apply id_apply fst_conv snd_conv)

lemma map_of_add_defaults:
  "map_of (add_defaults fs m) k = (case map_of m k of None \<Rightarrow> map_of fs k | Some v \<Rightarrow> Some v)"
proof (induction fs arbitrary: m)
  case Nil
  then show ?case by (simp add: add_defaults_def split: option.splits)
next
  case (Cons f fs)
  have "add_defaults (f # fs) m = add_defaults fs (kv_setdefault (fst f) (snd f) m)" by (simp add: add_defaults_def)
  then show ?case using Cons by (cases f) (auto simp: map_of_setdefault split: option.splits)
qed

lemma add_defaults_present: "(\<And>f. f \<in> set fs \<Longrightarrow> map_of m (fst f) \<noteq> None) \<Longrightarrow> add_defaults fs m = m"
proof (induction fs)
  case Nil
  then show ?case by (simp add: add_defaults_def)
next
  case (Cons f fs)
  have "kv_setdefault (fst f) (snd f) m = m" using Cons.prems [of f] by (simp add: kv_setdefault_def)
  then show ?case using Cons by (simp add: add_defaults_def)
qed

lemma add_defaults_fresh:
  "distinct (map fst fs) \<Longrightarrow> (\<And>f. f \<in> set fs \<Longrightarrow> map_of m (fst f) = None) \<Longrightarrow> add_defaults fs m = m @ fs"
proof (induction fs arbitrary: m)
  case Nil
  then show ?case by (simp add: add_defaults_def)
next
  case (Cons f fs)
  have "add_defaults (f # fs) m = add_defaults fs (m @ [f])"
    using Cons.prems(2) [of f] by (simp add: add_defaults_def kv_setdefault_def)
  also have "\<dots> = (m @ [f]) @ fs"
  proof (rule Cons.IH)
    show "distinct (map fst fs)" using Cons.prems(1) by simp
    fix g assume g: "g \<in> set fs"
    then have "fst g \<noteq> fst f" using Cons.prems(1) by (auto simp: image_iff)
    then show "map_of (m @ [f]) (fst g) = None"
      using Cons.prems(2) [of g] g by (cases f) (auto simp: map_add_def)
  qed
  finally show ?case by simp
qed

lemma enrich_get: "k \<noteq> ''_meta'' \<Longrightarrow> jget k (enrich_event_payload ctx schema role et (JObj kvs)) = jget k (JObj kvs)"
  by (simp add: enrich_eq jget_obj map_of_kv_set jitems_def)

lemma meta_enriched:
  assumes "map_of kvs ''_meta'' = None"
  shows "meta_of (enrich_event_payload ctx schema role et (JObj kvs)) = JObj (meta_fields ctx schema role et)"
proof -
  have "distinct (map fst (meta_fields ctx schema role et))" by (simp add: meta_fields_def)
  then have "add_defaults (meta_fields ctx schema role et) [] = meta_fields ctx schema role et"
    by (simp add: add_defaults_fresh)
  moreover have "meta_fields ctx schema role et \<noteq> []" by (simp add: meta_fields_def)
  ultimately show ?thesis
    using assms by (simp add: meta_of_def enrich_eq jget_obj map_of_kv_set jitems_def jor_def jtruthy_def)
qed

lemma kv_set_again: "kv_set k v (kv_set k v c) = kv_set k v c"
proof -
  have "map_of (kv_set k v c) k \<noteq> None" by (simp add: map_of_kv_set)
  moreover have "map (\<lambda>(k', v'). if k' = k then (k, v) else (k', v')) (kv_set k v c) = kv_set k v c"
  proof (rule map_idI)
    fix x assume "x \<in> set (kv_set k v c)"
    moreover obtain a b where "x = (a, b)" by force
    ultimately show "(\<lambda>(k', v'). if k' = k then (k, v) else (k', v')) x = x"
      by (force simp: kv_set_def map_of_eq_None_iff split: if_splits)
  qed
  ultimately show ?thesis by (simp add: kv_set_def [of k v "kv_set k v c"])
qed

text \<open>Metadata.\<close>

theorem enrich_keeps_given_metadata:
  fixes kvs meta :: "(string \<times> json) list" and ctx :: obs_ctx and schema :: json
    and role :: "instance_role res" and et :: string
  assumes "map_of kvs ''_meta'' = Some (JObj meta)"
  defines "out \<equiv> enrich_event_payload ctx schema role et (JObj kvs)"
  shows "(\<forall>k. k \<noteq> ''_meta'' \<longrightarrow> jget k out = jget k (JObj kvs))
    \<and> (\<forall>k v. map_of meta k = Some v \<longrightarrow> jget k (jget ''_meta'' out) = v)
    \<and> enrich_event_payload ctx' schema' role' et' out = out"
proof -
  let ?m = "add_defaults (meta_fields ctx schema role et) meta"
  have out: "out = JObj (kv_set ''_meta'' (JObj ?m) kvs)"
    using assms(1) by (simp add: out_def enrich_eq jget_obj jitems_def)
  have "add_defaults (meta_fields ctx' schema' role' et') ?m = ?m"
    by (rule add_defaults_present) (auto simp: map_of_add_defaults meta_fields_def split: option.splits)
  then have "enrich_event_payload ctx' schema' role' et' out = out"
    by (simp add: enrich_eq out jget_obj jitems_def map_of_kv_set kv_set_again)
  moreover have "\<forall>k. k \<noteq> ''_meta'' \<longrightarrow> jget k out = jget k (JObj kvs)" by (simp add: out jget_obj map_of_kv_set)
  moreover have "\<forall>k v. map_of meta k = Some v \<longrightarrow> jget k (jget ''_meta'' out) = v"
    by (simp add: out jget_obj map_of_kv_set map_of_add_defaults)
  ultimately show ?thesis by blast
qed

section \<open>The asynchronous audit path\<close>

text \<open>Auditing through the event channel writes the same audit row as a direct call: for an action
  of the catalogue, the payload built by the proxy, enriched and later handled by the worker
  appends exactly the row the audit service writes in the request, tenant, correlation and user
  included.\<close>

theorem audit_proxy_agrees_with_service:
  assumes "aa_action a \<in> set audit_actions"
    and "jtruthy (aw_schema req) \<or> ctx_get ''tenant_slug'' (aw_ctx req) = JNull"
    and "aw_rows req = aw_rows wk" "aw_schema req = JNull \<or> jtruthy (aw_schema req)"
  shows "handle_audit (enrich_event_payload (aw_ctx req) (aw_schema req) role ''audit'' (audit_payload (aw_schema req) JNull a)) wk
    = (None, wk\<lparr>aw_rows := aw_rows (audit_log a req)\<rparr>)"
proof -
  let ?p = "enrich_event_payload (aw_ctx req) (aw_schema req) role ''audit'' (audit_payload (aw_schema req) JNull a)"
  have get: "k \<noteq> ''_meta'' \<Longrightarrow> jget k ?p = jget k (audit_payload (aw_schema req) JNull a)" for k
    unfolding audit_payload_def by (rule enrich_get)
  have meta: "meta_of ?p = JObj (meta_fields (aw_ctx req) (aw_schema req) role ''audit'')"
    unfolding audit_payload_def by (rule meta_enriched) simp
  have mget: "jget ''correlation_id'' (JObj (meta_fields (aw_ctx req) (aw_schema req) role ''audit'')) = ctx_get ''correlation_id'' (aw_ctx req)"
    "jget ''tenant_slug'' (JObj (meta_fields (aw_ctx req) (aw_schema req) role ''audit'')) = jor (ctx_get ''tenant_slug'' (aw_ctx req)) (aw_schema req)"
    by (simp_all add: meta_fields_def jget_obj)
  have slug: "jor (aw_schema req) (jor (ctx_get ''tenant_slug'' (aw_ctx req)) (aw_schema req)) = aw_schema req"
    using assms(2,4) by (auto simp: jor_def jtruthy_def)
  have keys: "''action'' \<in> set (jkeys ?p)"
    by (simp add: audit_payload_def enrich_eq jkeys_def jitems_def kv_set_def)
  have corr: "jor (jor x y) y = jor x y" for x y by (simp add: jor_def)
  have ctx: "ctx_get ''correlation_id'' (bind_observability_context
      [(''correlation_id'', v), (''request_id'', b), (''tenant_id'', c), (''tenant_slug'', d), (''user_id'', e), (''event_name'', f)] x) = v"
    for v b c d e f x by (subst ctx_get_bind) simp_all
  show ?thesis
    unfolding handle_audit_def Let_def meta using keys assms(1,3)
    by (simp add: get mget slug corr ctx audit_log_def Let_def)
      (simp add: audit_payload_def jget_obj slug corr ctx scalar_str_def)
qed

definition logout_args :: audit_args where
  "logout_args = \<lparr>aa_action = ''logout'', aa_user_id = JInt 3, aa_actor_type = JNull, aa_event_name = JNull,
     aa_outcome = JNull, aa_target_type = JNull, aa_target_id = JNull, aa_correlation_id = JNull, aa_details = JNull,
     aa_ip = JStr ''10.0.0.1'', aa_user_agent = JNull\<rparr>"

theorem audit_proxy_agrees_with_service_witness:
  "\<exists>w. aw_schema w = JStr ''acme'' \<and>
    handle_audit (enrich_event_payload (aw_ctx w) (aw_schema w) (Inr Web) ''audit''
      (audit_payload (aw_schema w) JNull logout_args)) w = (None, w\<lparr>aw_rows := aw_rows (audit_log logout_args w)\<rparr>)"
proof (intro exI conjI)
  let ?w = "\<lparr>aw_ctx = [], aw_schema = JStr ''acme'', aw_rows = []\<rparr>"
  show "aw_schema ?w = JStr ''acme''" by simp
  show "handle_audit (enrich_event_payload (aw_ctx ?w) (aw_schema ?w) (Inr Web) ''audit''
      (audit_payload (aw_schema ?w) JNull logout_args)) ?w = (None, ?w\<lparr>aw_rows := aw_rows (audit_log logout_args ?w)\<rparr>)"
    by (rule audit_proxy_agrees_with_service)
      (simp_all add: logout_args_def audit_actions_def jtruthy_def)
qed

end
